(* ===== verification/Prelude.thy ===== *)
theory Prelude
  imports Main "HOL-Library.Word" "HOL-Library.Signed_Division"
begin

text \<open>
  Shared vocabulary of the development: the machine-integer types of the firmware, the
  conversions \<open>static_cast\<close> stands for, the type that models \<open>tl::expected\<close>, generic
  reachability with its invariant rule, and the theorem collections the component
  theories fill.

  Integers. A fixed-width integer of the source is a word of that width; \<open>sint\<close> reads
  it as the signed type and \<open>unat\<close> as the unsigned one. The source's arithmetic is done
  after promotion to 32-bit \<open>int\<close>, where none of the expressions modelled here can
  overflow, so it is written over unbounded \<open>int\<close> and narrowed by the cast the source
  writes. Division in the source truncates towards zero (\<open>sdiv\<close>). Time stamps
  (\<open>int64_t\<close> milliseconds) are \<open>int\<close>.
\<close>

unbundle bit_operations_syntax

type_synonym u8 = "8 word"
type_synonym i8 = "8 word"
type_synonym u16 = "16 word"
type_synonym i16 = "16 word"
type_synonym u32 = "32 word"
type_synonym millis = int

abbreviation to_i16 :: "int \<Rightarrow> i16" where
  "to_i16 x \<equiv> word_of_int x"

abbreviation to_u8 :: "int \<Rightarrow> u8" where
  "to_u8 x \<equiv> word_of_int x"

abbreviation byte_of_char :: "char \<Rightarrow> u8" where
  "byte_of_char c \<equiv> of_char c"

type_synonym ('a, 'e) expected = "'e + 'a"

abbreviation has_value :: "'a option \<Rightarrow> bool" where
  "has_value x \<equiv> x \<noteq> None"

abbreviation ok :: "('a, 'e) expected \<Rightarrow> bool" where
  "ok r \<equiv> \<not> isl r"

named_theorems twin_simps
named_theorems projection_defs
named_theorems reconciler_defs
named_theorems manager_defs
named_theorems uart_defs
named_theorems access_defs

inductive reach :: "('s \<Rightarrow> bool) \<Rightarrow> ('s \<Rightarrow> 's \<Rightarrow> bool) \<Rightarrow> 's \<Rightarrow> bool"
  for start :: "'s \<Rightarrow> bool" and step :: "'s \<Rightarrow> 's \<Rightarrow> bool" where
  reach_start: "start s \<Longrightarrow> reach start step s"
| reach_step: "reach start step s \<Longrightarrow> step s t \<Longrightarrow> reach start step t"

section \<open>Words read as signed values\<close>

lemma sint_to_i16:
  assumes "- 32768 \<le> x" and "x \<le> 32767"
  shows "sint (to_i16 x) = x"
  using assms by (simp add: sint_sbintrunc' signed_take_bit_int_eq_self)

lemma sint_to_u8:
  assumes "- 128 \<le> x" and "x \<le> 127"
  shows "sint (to_u8 x) = x"
  using assms by (simp add: sint_sbintrunc' signed_take_bit_int_eq_self)

lemma sint_i16_bounds: "- 32768 \<le> sint (w :: i16) \<and> sint w \<le> 32767"
  using sint_greater_eq [of w] sint_less [of w] by simp

lemma sint_i8_bounds: "- 128 \<le> sint (w :: i8) \<and> sint w \<le> 127"
  using sint_greater_eq [of w] sint_less [of w] by simp

lemma uint_u8_bounds: "0 \<le> uint (w :: u8) \<and> uint w \<le> 255"
  using uint_bounded [of w] by simp

lemma to_i16_sint [simp]: "to_i16 (sint (w :: i16)) = w"
  by simp

lemma i16_eq_iff_sint: "(a :: i16) = b \<longleftrightarrow> sint a = sint b"
  by (simp add: word_eq_iff_signed)

section \<open>Truncating division\<close>

lemma sdiv_two_double: "(2 * x) sdiv 2 = (x :: int)"
  by (simp add: signed_divide_int_def abs_mult sgn_mult sgn_mult_abs)

lemma sdiv_nonneg: "0 \<le> (a :: int) \<Longrightarrow> 0 < b \<Longrightarrow> a sdiv b = a div b"
  by (simp add: signed_divide_int_def sgn_if)

lemma sdiv_neg: "(a :: int) < 0 \<Longrightarrow> 0 < b \<Longrightarrow> a sdiv b = - ((- a) div b)"
  by (simp add: signed_divide_int_def sgn_if)

section \<open>Invariants of transition systems\<close>

text \<open>
  The contract between a component and the environment that calls it in any order: a
  property of the start states that every step keeps holds in every reachable state.
\<close>

locale inductive_invariant =
  fixes start :: "'s \<Rightarrow> bool"
    and step :: "'s \<Rightarrow> 's \<Rightarrow> bool"
    and inv :: "'s \<Rightarrow> bool"
  assumes inv_start: "start s \<Longrightarrow> inv s"
    and inv_step: "inv s \<Longrightarrow> step s t \<Longrightarrow> inv t"
begin

lemma reach_inv: "reach start step s \<Longrightarrow> inv s"
  by (induction rule: reach.induct) (auto intro: inv_start inv_step)

lemma reach_stepwise: "reach start step s \<Longrightarrow> step s t \<Longrightarrow> inv s \<and> inv t"
  using reach_inv inv_step by blast

end

end
