(* ===== verification/Twin_Field.thy ===== *)
theory Twin_Field
  imports Prelude
begin

text \<open>
  The per-attribute algebra of the bridge: \<open>TwinField\<close> (\<open>sync/twin_field.h\<close>), the
  observed / desired / in-flight triple with its provenance, and \<open>SensorField\<close>
  (\<open>sync/sensor_field.h\<close>), its observation-only counterpart. The locale
  \<open>twin_contract\<close> states what the reconciler relies on; it is interpreted on the
  model's own operations.
\<close>

datatype ObservationSource = Boot | Device | Matter

record 'a TwinField =
  mObserved :: 'a
  mDesired :: 'a
  mInFlight :: "'a option"
  mLastSource :: ObservationSource
  mAttribution :: ObservationSource

definition TwinField_new :: "'a \<Rightarrow> 'a TwinField" where
  "TwinField_new initial =
     \<lparr>mObserved = initial, mDesired = initial, mInFlight = None,
      mLastSource = Boot, mAttribution = Boot\<rparr>"

definition dirty :: "'a TwinField \<Rightarrow> bool" where
  "dirty t =
     (case mInFlight t of
        Some f \<Rightarrow> mDesired t \<noteq> f
      | None \<Rightarrow> mDesired t \<noteq> mObserved t)"

definition setDesired :: "'a \<Rightarrow> 'a TwinField \<Rightarrow> 'a TwinField" where
  "setDesired v t =
     (if mDesired t = v then t
      else t\<lparr>mDesired := v, mAttribution := Matter\<rparr>)"

definition promoteDesiredToInFlight :: "'a TwinField \<Rightarrow> 'a TwinField" where
  "promoteDesiredToInFlight t = t\<lparr>mInFlight := Some (mDesired t)\<rparr>"

definition applyObservation ::
  "'a \<Rightarrow> ObservationSource \<Rightarrow> 'a TwinField \<Rightarrow> 'a TwinField" where
  "applyObservation v source t0 =
     (let t = t0\<lparr>mLastSource := source\<rparr> in
      case mInFlight t of
        Some f \<Rightarrow>
          if v = f then t\<lparr>mInFlight := None, mObserved := v\<rparr>
          else if v = mObserved t then t
          else t\<lparr>mInFlight := None, mObserved := v, mAttribution := source\<rparr>
      | None \<Rightarrow>
          let t' = (if v \<noteq> mObserved t then t\<lparr>mObserved := v, mDesired := v\<rparr> else t)
          in t'\<lparr>mAttribution := source\<rparr>)"

record 'a SensorField =
  mValue :: 'a

definition SensorField_new :: "'a \<Rightarrow> 'a SensorField" where
  "SensorField_new initial = \<lparr>mValue = initial\<rparr>"

definition sensorApplyObservation :: "'a \<Rightarrow> 'a SensorField \<Rightarrow> 'a SensorField" where
  "sensorApplyObservation v s = s\<lparr>mValue := v\<rparr>"

section \<open>The protocol a twin follows\<close>

text \<open>
  An abstract view of a twin: the phase of the write protocol it is in. \<open>Settled o\<close>: the
  device and the controller agree on \<open>o\<close>. \<open>Queued o d\<close>: the controller wants \<open>d\<close> and
  nothing has been sent. \<open>Sent o f\<close>: \<open>f\<close> has been sent and is awaited. \<open>Superseded o f d\<close>:
  \<open>f\<close> is awaited but the controller already wants \<open>d\<close>.
\<close>

datatype 'a TwinPhase = Settled 'a | Queued 'a 'a | Sent 'a 'a | Superseded 'a 'a 'a

fun phase_write :: "'a \<Rightarrow> 'a TwinPhase \<Rightarrow> 'a TwinPhase" where
  "phase_write v (Settled o') = (if v = o' then Settled o' else Queued o' v)"
| "phase_write v (Queued o' d) = (if v = o' then Settled o' else Queued o' v)"
| "phase_write v (Sent o' f) = (if v = f then Sent o' f else Superseded o' f v)"
| "phase_write v (Superseded o' f d) = (if v = f then Sent o' f else Superseded o' f v)"

fun phase_send :: "'a TwinPhase \<Rightarrow> 'a TwinPhase" where
  "phase_send (Settled o') = Sent o' o'"
| "phase_send (Queued o' d) = Sent o' d"
| "phase_send (Sent o' f) = Sent o' f"
| "phase_send (Superseded o' f d) = Sent o' d"

fun phase_observe :: "'a \<Rightarrow> 'a TwinPhase \<Rightarrow> 'a TwinPhase" where
  "phase_observe v (Settled o') = Settled v"
| "phase_observe v (Queued o' d) = (if v = o' then Queued o' d else Settled v)"
| "phase_observe v (Sent o' f) =
     (if v = f then Settled f else if v = o' then Sent o' f else Queued v f)"
| "phase_observe v (Superseded o' f d) =
     (if v = f then Queued f d
      else if v = o' then Superseded o' f d
      else if v = d then Settled d else Queued v d)"

fun phase_unsent :: "'a TwinPhase \<Rightarrow> bool" where
  "phase_unsent (Settled _) = False"
| "phase_unsent (Queued _ _) = True"
| "phase_unsent (Sent _ _) = False"
| "phase_unsent (Superseded _ _ _) = True"

definition twin_phase :: "'a TwinField \<Rightarrow> 'a TwinPhase" where
  "twin_phase t =
     (case mInFlight t of
        None \<Rightarrow>
          if mDesired t = mObserved t then Settled (mObserved t)
          else Queued (mObserved t) (mDesired t)
      | Some f \<Rightarrow>
          if mDesired t = f then Sent (mObserved t) f
          else Superseded (mObserved t) f (mDesired t))"

section \<open>Field-wise behaviour of the operations\<close>

lemma TwinField_new_fields [simp]:
  "mObserved (TwinField_new v) = v" "mDesired (TwinField_new v) = v"
  "mInFlight (TwinField_new v) = None" "mAttribution (TwinField_new v) = Boot"
  "mLastSource (TwinField_new v) = Boot"
  by (simp_all add: TwinField_new_def)

lemma setDesired_fields [simp]:
  "mObserved (setDesired v t) = mObserved t" "mDesired (setDesired v t) = v"
  "mInFlight (setDesired v t) = mInFlight t" "mLastSource (setDesired v t) = mLastSource t"
  "mAttribution (setDesired v t) = (if mDesired t = v then mAttribution t else Matter)"
  by (auto simp: setDesired_def)

lemma promote_fields [simp]:
  "mObserved (promoteDesiredToInFlight t) = mObserved t"
  "mDesired (promoteDesiredToInFlight t) = mDesired t"
  "mInFlight (promoteDesiredToInFlight t) = Some (mDesired t)"
  "mLastSource (promoteDesiredToInFlight t) = mLastSource t"
  "mAttribution (promoteDesiredToInFlight t) = mAttribution t"
  by (simp_all add: promoteDesiredToInFlight_def)

lemma applyObservation_mObserved [simp]: "mObserved (applyObservation v src t) = v"
  by (auto simp: applyObservation_def Let_def split: option.splits)

lemma applyObservation_mDesired:
  "mDesired (applyObservation v src t) =
     (if mInFlight t = None \<and> v \<noteq> mObserved t then v else mDesired t)"
  by (auto simp: applyObservation_def Let_def split: option.splits)

lemma applyObservation_mInFlight:
  "mInFlight (applyObservation v src t) =
     (if mInFlight t \<noteq> None \<and> mInFlight t \<noteq> Some v \<and> v = mObserved t then mInFlight t
      else None)"
  by (auto simp: applyObservation_def Let_def split: option.splits)

lemma applyObservation_mAttribution:
  "mAttribution (applyObservation v src t) =
     (if mInFlight t = None \<or> (mInFlight t \<noteq> Some v \<and> v \<noteq> mObserved t) then src
      else mAttribution t)"
  by (auto simp: applyObservation_def Let_def split: option.splits)

lemma applyObservation_mLastSource [simp]: "mLastSource (applyObservation v src t) = src"
  by (auto simp: applyObservation_def Let_def split: option.splits)

lemma sensorApplyObservation_mValue [simp]: "mValue (sensorApplyObservation v s) = v"
  by (simp add: sensorApplyObservation_def)

lemma SensorField_new_mValue [simp]: "mValue (SensorField_new v) = v"
  by (simp add: SensorField_new_def)

lemmas twin_observe =
  applyObservation_mDesired applyObservation_mInFlight applyObservation_mAttribution

section \<open>What the reconciler relies on\<close>

text \<open>
  The contract of a twin, over any representation: which field each operation may change
  and what an observation does in each of its branches.
\<close>

locale twin_contract =
  fixes observed :: "'t \<Rightarrow> 'v"
    and desired :: "'t \<Rightarrow> 'v"
    and inFlight :: "'t \<Rightarrow> 'v option"
    and unsent :: "'t \<Rightarrow> bool"
    and wr :: "'v \<Rightarrow> 't \<Rightarrow> 't"
    and promote :: "'t \<Rightarrow> 't"
    and observe :: "'v \<Rightarrow> 't \<Rightarrow> 't"
  assumes unsent_iff:
      "unsent t \<longleftrightarrow> desired t \<noteq> (case inFlight t of None \<Rightarrow> observed t | Some f \<Rightarrow> f)"
    and write_desired: "desired (wr v t) = v"
    and write_frame: "observed (wr v t) = observed t" "inFlight (wr v t) = inFlight t"
    and promote_inFlight: "inFlight (promote t) = Some (desired t)"
    and promote_frame: "observed (promote t) = observed t" "desired (promote t) = desired t"
    and observe_observed: "observed (observe v t) = v"
    and observe_desired:
      "desired (observe v t) =
         (if inFlight t = None \<and> v \<noteq> observed t then v else desired t)"
    and observe_inFlight:
      "inFlight (observe v t) =
         (if inFlight t \<noteq> None \<and> inFlight t \<noteq> Some v \<and> v = observed t then inFlight t
          else None)"
begin

lemmas contract = write_desired write_frame promote_inFlight promote_frame
  observe_observed observe_desired observe_inFlight

lemma promote_not_unsent: "\<not> unsent (promote t)"
  by (simp add: unsent_iff contract)

lemma stale_poll_keeps_write: "observe (observed t) t = t' \<Longrightarrow> desired t' = desired t"
  by (auto simp: contract)

lemma stale_polls:
  "set vs \<subseteq> {observed t} \<Longrightarrow> inFlight t = Some f \<Longrightarrow> f \<noteq> observed t \<Longrightarrow>
     observed (fold observe vs t) = observed t \<and> desired (fold observe vs t) = desired t
     \<and> inFlight (fold observe vs t) = Some f"
  by (induction vs arbitrary: t) (simp_all add: contract)

lemma confirmed:
  "inFlight t = Some v \<Longrightarrow> desired t = v \<Longrightarrow>
     inFlight (observe v t) = None \<and> observed (observe v t) = v \<and> desired (observe v t) = v
     \<and> \<not> unsent (observe v t)"
  by (simp add: unsent_iff contract)

lemma write_cycle:
  assumes "set vs \<subseteq> {observed t}" and "v \<noteq> observed t"
  shows "let t' = observe v (fold observe vs (promote (wr v t)))
         in observed t' = v \<and> desired t' = v \<and> inFlight t' = None \<and> \<not> unsent t'"
proof -
  let ?s = "fold observe vs (promote (wr v t))"
  have "observed ?s = observed t \<and> desired ?s = v \<and> inFlight ?s = Some v"
    using stale_polls [of vs "promote (wr v t)" v] assms by (simp add: contract)
  then show ?thesis
    using confirmed [of ?s v] by (simp add: Let_def)
qed

end

interpretation twin: twin_contract
  mObserved mDesired mInFlight dirty setDesired promoteDesiredToInFlight
  "\<lambda>v. applyObservation v Device"
  by unfold_locales (auto simp: dirty_def twin_observe split: option.splits)

lemmas dirty_iff = twin.unsent_iff

lemma fold_applyObservation_attribution:
  "set vs \<subseteq> {mObserved t} \<Longrightarrow> mInFlight t = Some f \<Longrightarrow> f \<noteq> mObserved t \<Longrightarrow>
     mAttribution (fold (\<lambda>v. applyObservation v Device) vs t) = mAttribution t"
  by (induction vs arbitrary: t) (simp_all add: twin_observe)

section \<open>Properties\<close>

text \<open>
  C1. Echo suppression. A controller write of a value that differs from the observed one is
  sent, any number of stale polls still reporting the old value arrive, and then the
  device reports the new value: the twin ends settled on the written value (observed and
  desired agree, nothing is in flight, nothing is left to send) and the value is still
  attributed to the Matter controller, although the last observation came from the device.
\<close>

theorem twin_write_survives_stale_polls:
  fixes t :: "'a TwinField"
  assumes "set polls \<subseteq> {mObserved t}" and "v \<noteq> mObserved t" and "v \<noteq> mDesired t"
  shows "let t' = applyObservation v Device
                   (fold (\<lambda>x. applyObservation x Device) polls
                     (promoteDesiredToInFlight (setDesired v t)))
         in mObserved t' = v \<and> mDesired t' = v \<and> mInFlight t' = None \<and> \<not> dirty t'
            \<and> mAttribution t' = Matter \<and> mLastSource t' = Device"
proof -
  let ?s = "promoteDesiredToInFlight (setDesired v t)"
  let ?p = "fold (\<lambda>x. applyObservation x Device) polls ?s"
  have "mAttribution ?p = Matter"
    using fold_applyObservation_attribution [of polls ?s v] assms by simp
  moreover have "mInFlight ?p = Some v"
    using twin.stale_polls [of polls ?s v] assms by simp
  ultimately show ?thesis
    using twin.write_cycle [OF assms(1,2)] by (simp add: Let_def applyObservation_mAttribution)
qed

theorem twin_write_survives_stale_polls_witness:
  "let t' = applyObservation (5::int) Device
              (fold (\<lambda>x. applyObservation x Device) [3, 3]
                (promoteDesiredToInFlight (setDesired 5 (TwinField_new 3))))
   in mObserved t' = 5 \<and> mDesired t' = 5 \<and> mInFlight t' = None \<and> \<not> dirty t'
      \<and> mAttribution t' = Matter \<and> mLastSource t' = Device"
  by (rule twin_write_survives_stale_polls) simp_all

text \<open>
  C13. The twin refines the four-phase write protocol: recording an intent, promoting it to
  in-flight and applying an observation act on the abstract phase as the protocol's
  write, send and observe, and the dirty test is exactly "there is unsent intent".
\<close>

theorem twin_refines_protocol:
  fixes t :: "'a TwinField"
  shows "twin_phase (setDesired v t) = phase_write v (twin_phase t)
    \<and> twin_phase (promoteDesiredToInFlight t) = phase_send (twin_phase t)
    \<and> twin_phase (applyObservation v src t) = phase_observe v (twin_phase t)
    \<and> dirty t = phase_unsent (twin_phase t)"
  by (cases "mInFlight t") (auto simp: twin_phase_def twin_observe dirty_def)

end
