(* ===== verification/Wire_Types.thy ===== *)
theory Wire_Types
  imports Prelude
begin

text \<open>
  The enumerations of the S21 wire format (\<open>s21/s21_presentation.h\<close>) and the result and
  command types built from them. Both C++ enumerations have the fixed underlying type
  \<open>uint8_t\<close>, and the decoder casts whatever byte the unit sends, so a value outside the
  named enumerators is possible; the constructors \<open>OperatingMode_raw\<close> and \<open>FanMode_raw\<close>
  hold those.
\<close>

datatype OperatingMode =
  Auto_Cooling | Auto | Dry | Cool | Heat | FanOnly | Auto_Heating
  | OperatingMode_raw u8

primrec OperatingMode_byte :: "OperatingMode \<Rightarrow> u8" where
  "OperatingMode_byte Auto_Cooling = 0x30"
| "OperatingMode_byte OperatingMode.Auto = 0x31"
| "OperatingMode_byte Dry = 0x32"
| "OperatingMode_byte Cool = 0x33"
| "OperatingMode_byte Heat = 0x34"
| "OperatingMode_byte FanOnly = 0x36"
| "OperatingMode_byte Auto_Heating = 0x37"
| "OperatingMode_byte (OperatingMode_raw b) = b"

definition OperatingMode_cast :: "u8 \<Rightarrow> OperatingMode" where
  "OperatingMode_cast b =
     (if b = 0x30 then Auto_Cooling
      else if b = 0x31 then OperatingMode.Auto
      else if b = 0x32 then Dry
      else if b = 0x33 then Cool
      else if b = 0x34 then Heat
      else if b = 0x36 then FanOnly
      else if b = 0x37 then Auto_Heating
      else OperatingMode_raw b)"

datatype FanMode =
  Low | MidLow | Medium | MidHigh | High | Auto | Quiet
  | FanMode_raw u8

primrec FanMode_byte :: "FanMode \<Rightarrow> u8" where
  "FanMode_byte FanMode.Low = 0x33"
| "FanMode_byte FanMode.MidLow = 0x34"
| "FanMode_byte FanMode.Medium = 0x35"
| "FanMode_byte FanMode.MidHigh = 0x36"
| "FanMode_byte FanMode.High = 0x37"
| "FanMode_byte FanMode.Auto = 0x41"
| "FanMode_byte FanMode.Quiet = 0x42"
| "FanMode_byte (FanMode_raw b) = b"

definition FanMode_cast :: "u8 \<Rightarrow> FanMode" where
  "FanMode_cast b =
     (if b = 0x33 then FanMode.Low
      else if b = 0x34 then FanMode.MidLow
      else if b = 0x35 then FanMode.Medium
      else if b = 0x36 then FanMode.MidHigh
      else if b = 0x37 then FanMode.High
      else if b = 0x41 then FanMode.Auto
      else if b = 0x42 then FanMode.Quiet
      else FanMode_raw b)"

definition named_OperatingMode :: "OperatingMode \<Rightarrow> bool" where
  "named_OperatingMode m = (OperatingMode_cast (OperatingMode_byte m) = m)"

definition named_FanMode :: "FanMode \<Rightarrow> bool" where
  "named_FanMode m = (FanMode_cast (FanMode_byte m) = m)"

text \<open>The tuple \<open>GetOperationResult\<close> and the command handed to the S21 layer.\<close>

type_synonym GetOperationResult = "bool \<times> OperatingMode \<times> i16 \<times> FanMode"

record S21OperationCommand =
  cmd_onOff :: bool
  cmd_operatingMode :: OperatingMode
  cmd_setpointCelsius :: i16
  cmd_fanMode :: FanMode

definition S21OperationCommand_default :: S21OperationCommand where
  "S21OperationCommand_default =
     \<lparr>cmd_onOff = False, cmd_operatingMode = OperatingMode.Auto,
      cmd_setpointCelsius = 2600, cmd_fanMode = FanMode.Auto\<rparr>"

record S21OperationalObservation =
  obs_onOff :: bool
  obs_operatingMode :: OperatingMode
  obs_setpointCelsius :: i16
  obs_fanMode :: FanMode
  obs_refrigerantValveOpen :: "bool option"

record S21EnvironmentalObservation =
  env_indoorTemperatureCelsius :: i16
  env_outdoorTemperatureCelsius :: i16
  env_indoorRelativeHumidityPercent :: u8

lemma OperatingMode_byte_cast [simp]: "OperatingMode_byte (OperatingMode_cast b) = b"
  by (simp add: OperatingMode_cast_def)

lemma FanMode_byte_cast [simp]: "FanMode_byte (FanMode_cast b) = b"
  by (simp add: FanMode_cast_def)

lemma OperatingMode_cast_byte:
  "\<not> (\<exists>b. m = OperatingMode_raw b) \<Longrightarrow> OperatingMode_cast (OperatingMode_byte m) = m"
  by (cases m) (simp_all add: OperatingMode_cast_def)

lemma FanMode_cast_byte:
  "\<not> (\<exists>b. m = FanMode_raw b) \<Longrightarrow> FanMode_cast (FanMode_byte m) = m"
  by (cases m) (simp_all add: FanMode_cast_def)

end
