(* ===== verification/Domain_State.thy ===== *)
theory Domain_State
  imports Twin_Field Wire_Types
begin

text \<open>
  The bridge's domain vocabulary and canonical state: the mode, running-mode and attribute
  enumerations (\<open>sync/operational_mode.h\<close>, \<open>sync/logical_attribute.h\<close>), the fan levels and
  \<open>LogicalACState\<close> (\<open>sync/logical_ac_state.h\<close>), and the write intents
  (\<open>sync/write_intent.h\<close>).
\<close>

datatype OperationalMode = Auto | Cool | Heat | Dry | FanOnly

datatype RunningMode = Off | Cooling | Heating

datatype LogicalAttribute =
  OnOff | SystemMode | OccupiedHeatingSetpoint | OccupiedCoolingSetpoint | RunningMode
  | LocalTemperature | OutdoorTemperature | SetpointSource | SpeedSetting | FanMode
  | SpeedCurrent | PercentSetting | PercentCurrent | Humidity | Reachable

text \<open>
  \<open>FanLevel\<close> has underlying type \<open>uint8_t\<close>; \<open>static_cast<FanLevel>(n)\<close> yields an unnamed
  value for \<open>n\<close> outside 1..6, held by \<open>FanLevel_raw\<close>.
\<close>

datatype FanLevel = Quiet | Low | MidLow | Medium | MidHigh | High | FanLevel_raw u8

primrec FanLevel_byte :: "FanLevel \<Rightarrow> u8" where
  "FanLevel_byte FanLevel.Quiet = 1"
| "FanLevel_byte FanLevel.Low = 2"
| "FanLevel_byte FanLevel.MidLow = 3"
| "FanLevel_byte FanLevel.Medium = 4"
| "FanLevel_byte FanLevel.MidHigh = 5"
| "FanLevel_byte FanLevel.High = 6"
| "FanLevel_byte (FanLevel_raw b) = b"

definition FanLevel_cast :: "u8 \<Rightarrow> FanLevel" where
  "FanLevel_cast b =
     (if b = 1 then FanLevel.Quiet
      else if b = 2 then FanLevel.Low
      else if b = 3 then FanLevel.MidLow
      else if b = 4 then FanLevel.Medium
      else if b = 5 then FanLevel.MidHigh
      else if b = 6 then FanLevel.High
      else FanLevel_raw b)"

primrec named_FanLevel :: "FanLevel \<Rightarrow> bool" where
  "named_FanLevel FanLevel.Quiet = True"
| "named_FanLevel FanLevel.Low = True"
| "named_FanLevel FanLevel.MidLow = True"
| "named_FanLevel FanLevel.Medium = True"
| "named_FanLevel FanLevel.MidHigh = True"
| "named_FanLevel FanLevel.High = True"
| "named_FanLevel (FanLevel_raw b) = False"

type_synonym FanSpeed = "FanLevel option"

record LogicalACStateDefaults =
  def_onOff :: bool
  def_mode :: OperationalMode
  def_heatSetpoint :: i16
  def_coolSetpoint :: i16
  def_autoSetpoint :: i16
  def_fan :: FanSpeed
  def_fanPercentSetting :: "u8 option"
  def_runningMode :: RunningMode
  def_indoorTemp :: "i16 option"
  def_outdoorTemp :: "i16 option"
  def_humidity :: "u8 option"
  def_refrigerantValveOpen :: "bool option"
  def_reachable :: bool

definition LogicalACStateDefaults_default :: LogicalACStateDefaults where
  "LogicalACStateDefaults_default =
     \<lparr>def_onOff = False, def_mode = OperationalMode.Auto,
      def_heatSetpoint = 2000, def_coolSetpoint = 2500, def_autoSetpoint = 2200,
      def_fan = None, def_fanPercentSetting = None, def_runningMode = RunningMode.Off,
      def_indoorTemp = None, def_outdoorTemp = None, def_humidity = None,
      def_refrigerantValveOpen = None, def_reachable = False\<rparr>"

record LogicalACState =
  onOff :: "bool TwinField"
  mode :: "OperationalMode TwinField"
  heatSetpoint :: "i16 TwinField"
  coolSetpoint :: "i16 TwinField"
  autoSetpoint :: "i16 TwinField"
  fan :: "FanSpeed TwinField"
  fanPercentSetting :: "u8 option"
  runningMode :: "RunningMode SensorField"
  indoorTemp :: "i16 option SensorField"
  outdoorTemp :: "i16 option SensorField"
  humidity :: "u8 option SensorField"
  refrigerantValveOpen :: "bool option SensorField"
  reachable :: "bool SensorField"

definition LogicalACState_new :: "LogicalACStateDefaults \<Rightarrow> LogicalACState" where
  "LogicalACState_new d =
     \<lparr>onOff = TwinField_new (def_onOff d),
      mode = TwinField_new (def_mode d),
      heatSetpoint = TwinField_new (def_heatSetpoint d),
      coolSetpoint = TwinField_new (def_coolSetpoint d),
      autoSetpoint = TwinField_new (def_autoSetpoint d),
      fan = TwinField_new (def_fan d),
      fanPercentSetting = def_fanPercentSetting d,
      runningMode = SensorField_new (def_runningMode d),
      indoorTemp = SensorField_new (def_indoorTemp d),
      outdoorTemp = SensorField_new (def_outdoorTemp d),
      humidity = SensorField_new (def_humidity d),
      refrigerantValveOpen = SensorField_new (def_refrigerantValveOpen d),
      reachable = SensorField_new (def_reachable d)\<rparr>"

definition activeSetpoint :: "LogicalACState \<Rightarrow> OperationalMode \<Rightarrow> i16 TwinField" where
  "activeSetpoint s m =
     (case m of
        OperationalMode.Cool \<Rightarrow> coolSetpoint s
      | OperationalMode.Heat \<Rightarrow> heatSetpoint s
      | OperationalMode.Auto \<Rightarrow> autoSetpoint s
      | OperationalMode.Dry \<Rightarrow> autoSetpoint s
      | OperationalMode.FanOnly \<Rightarrow> autoSetpoint s)"

datatype WriteIntent =
  SetOnOffIntent bool
  | SetSystemModeIntent bool OperationalMode
  | SetOccupiedHeatingSetpointIntent i16
  | SetOccupiedCoolingSetpointIntent i16
  | SetSpeedSettingIntent FanSpeed
  | SetPercentSettingIntent "u8 option"

lemma FanLevel_byte_cast [simp]: "FanLevel_byte (FanLevel_cast b) = b"
  by (simp add: FanLevel_cast_def)

lemma FanLevel_cast_byte: "named_FanLevel l \<Longrightarrow> FanLevel_cast (FanLevel_byte l) = l"
  by (cases l) (simp_all add: FanLevel_cast_def)

lemma named_FanLevel_cast: "named_FanLevel (FanLevel_cast b) \<longleftrightarrow> 1 \<le> b \<and> b \<le> 6"
proof -
  have "1 \<le> b \<and> b \<le> 6 \<longleftrightarrow> b = 1 \<or> b = 2 \<or> b = 3 \<or> b = 4 \<or> b = 5 \<or> b = 6"
    by (simp add: word_le_nat_alt word_unat_eq_iff) arith
  then show ?thesis by (simp add: FanLevel_cast_def)
qed

end
