(* ===== verification/Fan_Mapping.thy ===== *)
theory Fan_Mapping
  imports Domain_State
begin

text \<open>
  The pure conversions of the bridge: the lossy fan level / percent / mode mapping
  (\<open>sync/fan_mapping.h\<close>) and the setpoint arithmetic of the \<open>SetpointRaiseLower\<close> command
  (\<open>sync/setpoint_math.h\<close>).
\<close>

definition kFanSpeedMax :: u8 where
  "kFanSpeedMax = 6"

datatype FanModeCategory = Off | Low | Medium | High | Auto

definition speedLevelToPercent :: "FanLevel \<Rightarrow> u8" where
  "speedLevelToPercent level =
     to_u8 ((uint (FanLevel_byte level) * 100) sdiv uint kFanSpeedMax)"

definition percentToSpeedLevel :: "u8 \<Rightarrow> FanLevel" where
  "percentToSpeedLevel percent =
     (let raw = (unat kFanSpeedMax * unat percent + 99) div 100;
          raw = (if raw < 1 then 1 else raw);
          raw = (if raw > unat kFanSpeedMax then unat kFanSpeedMax else raw)
      in FanLevel_cast (of_nat raw))"

definition fanModeOf :: "FanSpeed \<Rightarrow> FanModeCategory" where
  "fanModeOf f =
     (case f of
        None \<Rightarrow> FanModeCategory.Auto
      | Some FanLevel.Quiet \<Rightarrow> FanModeCategory.Low
      | Some FanLevel.Low \<Rightarrow> FanModeCategory.Low
      | Some FanLevel.MidLow \<Rightarrow> FanModeCategory.Medium
      | Some FanLevel.Medium \<Rightarrow> FanModeCategory.Medium
      | Some FanLevel.MidHigh \<Rightarrow> FanModeCategory.High
      | Some FanLevel.High \<Rightarrow> FanModeCategory.High
      | Some (FanLevel_raw _) \<Rightarrow> FanModeCategory.Auto)"

definition representativeSpeed :: "FanModeCategory \<Rightarrow> FanLevel" where
  "representativeSpeed cat =
     (case cat of
        FanModeCategory.Low \<Rightarrow> FanLevel.Low
      | FanModeCategory.Medium \<Rightarrow> FanLevel.Medium
      | FanModeCategory.High \<Rightarrow> FanLevel.High
      | FanModeCategory.Off \<Rightarrow> FanLevel.Low
      | FanModeCategory.Auto \<Rightarrow> FanLevel.Low)"

definition applySetpointDelta :: "i16 \<Rightarrow> i8 \<Rightarrow> i16 \<Rightarrow> i16 \<Rightarrow> i16" where
  "applySetpointDelta current amount lo hi =
     (let desired = sint current + sint amount * 10;
          desired = (if desired < sint lo then sint lo else desired);
          desired = (if desired > sint hi then sint hi else desired)
      in to_i16 desired)"

section \<open>Evaluation on named levels\<close>

lemma speedLevelToPercent_named [simp]:
  "speedLevelToPercent FanLevel.Quiet = 16" "speedLevelToPercent FanLevel.Low = 33"
  "speedLevelToPercent FanLevel.MidLow = 50" "speedLevelToPercent FanLevel.Medium = 66"
  "speedLevelToPercent FanLevel.MidHigh = 83" "speedLevelToPercent FanLevel.High = 100"
  "speedLevelToPercent (FanLevel_raw 0) = 0"
  by (simp_all add: speedLevelToPercent_def kFanSpeedMax_def)

lemma percentToSpeedLevel_byte:
  "unat (FanLevel_byte (percentToSpeedLevel p)) = max 1 (min 6 ((6 * unat p + 99) div 100))"
proof -
  let ?r = "max 1 (min 6 ((6 * unat p + 99) div 100)) :: nat"
  have "percentToSpeedLevel p = FanLevel_cast (of_nat ?r)"
    by (simp add: percentToSpeedLevel_def kFanSpeedMax_def Let_def max_def min_def)
  moreover have "unat (of_nat ?r :: u8) = ?r"
    by (simp add: unat_of_nat max_def min_def)
  ultimately show ?thesis by simp
qed

lemma percentToSpeedLevel_named [simp]: "named_FanLevel (percentToSpeedLevel p)"
proof -
  let ?r = "max 1 (min 6 ((6 * unat p + 99) div 100)) :: nat"
  have c: "percentToSpeedLevel p = FanLevel_cast (of_nat ?r)"
    by (simp add: percentToSpeedLevel_def kFanSpeedMax_def Let_def max_def min_def)
  have u: "unat (of_nat ?r :: u8) = ?r" by (simp add: unat_of_nat max_def min_def)
  show ?thesis
    unfolding c named_FanLevel_cast word_le_nat_alt u by simp
qed

lemma percentToSpeedLevel_speedLevelToPercent [simp]:
  "named_FanLevel l \<Longrightarrow> percentToSpeedLevel (speedLevelToPercent l) = l"
  by (cases l) (simp_all add: percentToSpeedLevel_def kFanSpeedMax_def FanLevel_cast_def)

lemma speedLevelToPercent_range:
  "named_FanLevel l \<Longrightarrow> 16 \<le> unat (speedLevelToPercent l) \<and> unat (speedLevelToPercent l) \<le> 100"
  by (cases l) simp_all

lemma unat_speedLevelToPercent:
  "named_FanLevel l \<Longrightarrow> unat (speedLevelToPercent l) = (unat (FanLevel_byte l) * 100) div 6"
  by (cases l) simp_all

lemma representativeSpeed_named [simp]: "named_FanLevel (representativeSpeed c)"
  by (cases c) (simp_all add: representativeSpeed_def)

lemma applySetpointDelta_within:
  assumes "sint lo \<le> sint cur + 10 * sint amount" and "sint cur + 10 * sint amount \<le> sint hi"
  shows "sint (applySetpointDelta cur amount lo hi) = sint cur + 10 * sint amount"
proof -
  have "applySetpointDelta cur amount lo hi = to_i16 (sint cur + 10 * sint amount)"
    using assms unfolding applySetpointDelta_def Let_def
    by (intro arg_cong [where f = to_i16]) simp
  moreover have "- 32768 \<le> sint cur + 10 * sint amount" "sint cur + 10 * sint amount \<le> 32767"
    using assms sint_i16_bounds [of lo] sint_i16_bounds [of hi] by simp_all
  ultimately show ?thesis by (simp only: sint_to_i16)
qed

section \<open>Properties\<close>

text \<open>
  The speed/percent mapping. Every named level survives the trip to its percentage and
  back. A percentage in 1..100 maps to the level \<open>ceil(6 * percent / 100)\<close>, and the
  percentage that level reads back as is never below the written one and less than 17 points
  above it, so the lossy direction loses at most one level step.
\<close>

theorem fan_percent_roundtrip:
  assumes "named_FanLevel l" and "1 \<le> unat p" and "unat p \<le> 100"
  shows "percentToSpeedLevel (speedLevelToPercent l) = l
    \<and> unat (FanLevel_byte (percentToSpeedLevel p)) = (6 * unat p + 99) div 100
    \<and> unat p \<le> unat (speedLevelToPercent (percentToSpeedLevel p))
    \<and> unat (speedLevelToPercent (percentToSpeedLevel p)) < unat p + 17"
proof -
  let ?r = "(6 * unat p + 99) div 100"
  have r: "unat (FanLevel_byte (percentToSpeedLevel p)) = ?r"
    unfolding percentToSpeedLevel_byte using assms(2,3) by arith
  have pct: "unat (speedLevelToPercent (percentToSpeedLevel p)) = (?r * 100) div 6"
    by (simp only: unat_speedLevelToPercent [OF percentToSpeedLevel_named] r)
  have "unat p \<le> (?r * 100) div 6 \<and> (?r * 100) div 6 < unat p + 17"
    using assms(2) by arith
  with r pct assms(1) show ?thesis by simp
qed

theorem fan_percent_roundtrip_witness:
  "percentToSpeedLevel (speedLevelToPercent FanLevel.Medium) = FanLevel.Medium
    \<and> unat (FanLevel_byte (percentToSpeedLevel 40)) = (6 * unat (40::u8) + 99) div 100
    \<and> unat (40::u8) \<le> unat (speedLevelToPercent (percentToSpeedLevel 40))
    \<and> unat (speedLevelToPercent (percentToSpeedLevel 40)) < unat (40::u8) + 17"
  by (rule fan_percent_roundtrip) simp_all

text \<open>
  A FanMode write and the FanMode that is read back agree: the representative speed of
  Low, Medium and High lies in that mode's range, and a null speed reads as Auto.
\<close>

theorem fan_mode_roundtrip:
  "fanModeOf (Some (representativeSpeed FanModeCategory.Low)) = FanModeCategory.Low
    \<and> fanModeOf (Some (representativeSpeed FanModeCategory.Medium)) = FanModeCategory.Medium
    \<and> fanModeOf (Some (representativeSpeed FanModeCategory.High)) = FanModeCategory.High
    \<and> fanModeOf None = FanModeCategory.Auto"
  by (simp add: fanModeOf_def representativeSpeed_def)

text \<open>
  \<open>SetpointRaiseLower\<close> never wraps and respects its limits: for limits in order, the new
  setpoint is exactly the current one plus ten times the signed amount, clamped into the
  limits, for every 16-bit setpoint and every 8-bit amount.
\<close>

theorem setpoint_delta_clamped:
  assumes "sint lo \<le> sint hi"
  shows "sint (applySetpointDelta cur amount lo hi)
           = max (sint lo) (min (sint hi) (sint cur + 10 * sint amount))"
proof -
  let ?d = "max (sint lo) (min (sint hi) (sint cur + 10 * sint amount))"
  have "applySetpointDelta cur amount lo hi = to_i16 ?d"
    using assms unfolding applySetpointDelta_def Let_def
    by (intro arg_cong [where f = to_i16]) (simp add: max_def min_def)
  moreover have "- 32768 \<le> ?d" "?d \<le> 32767"
    using sint_i16_bounds [of lo] sint_i16_bounds [of hi] by (simp_all add: le_max_iff_disj min_le_iff_disj)
  ultimately show ?thesis by (simp only: sint_to_i16)
qed

theorem setpoint_delta_clamped_witness:
  "sint (applySetpointDelta 2900 50 1000 3000)
     = max (sint (1000::i16)) (min (sint (3000::i16)) (sint (2900::i16) + 10 * sint (50::i8)))"
  by (rule setpoint_delta_clamped) simp

end
