(* ===== verification/Projector.thy ===== *)
theory Projector
  imports Fan_Mapping
begin

text \<open>
  The projection of the canonical state onto the cluster view and the field-by-field diff
  that names the changed attributes (\<open>sync/projector.h\<close>, \<open>sync/projector.cpp\<close>).
\<close>

record ProjectorConfig =
  autoBandHalfWidthCentiC :: i16

definition ProjectorConfig_default :: ProjectorConfig where
  "ProjectorConfig_default = \<lparr>autoBandHalfWidthCentiC = 50\<rparr>"

record ProjectedClusterState =
  pj_onOff :: bool
  pj_mode :: OperationalMode
  pj_occupiedHeatingSetpoint :: i16
  pj_occupiedCoolingSetpoint :: i16
  pj_runningMode :: RunningMode
  pj_localTemperature :: "i16 option"
  pj_outdoorTemperature :: "i16 option"
  pj_setpointSource :: ObservationSource
  pj_speedSetting :: "u8 option"
  pj_fanMode :: FanModeCategory
  pj_speedCurrent :: u8
  pj_percentSetting :: "u8 option"
  pj_percentCurrent :: u8
  pj_humidityCentiPercent :: "u16 option"
  pj_reachable :: bool

definition projectedValue :: "'a TwinField \<Rightarrow> 'a" where
  "projectedValue t = (if has_value (mInFlight t) then mObserved t else mDesired t)"

definition projectedOnOff :: "LogicalACState \<Rightarrow> bool" where
  "projectedOnOff s = projectedValue (onOff s)"

definition projectedMode :: "LogicalACState \<Rightarrow> OperationalMode" where
  "projectedMode s = projectedValue (mode s)"

definition projectedOccupiedHeatingSetpoint :: "ProjectorConfig \<Rightarrow> LogicalACState \<Rightarrow> i16" where
  "projectedOccupiedHeatingSetpoint cfg s =
     (if projectedValue (mode s) = OperationalMode.Auto
      then to_i16 (sint (projectedValue (autoSetpoint s)) - sint (autoBandHalfWidthCentiC cfg))
      else projectedValue (heatSetpoint s))"

definition projectedOccupiedCoolingSetpoint :: "ProjectorConfig \<Rightarrow> LogicalACState \<Rightarrow> i16" where
  "projectedOccupiedCoolingSetpoint cfg s =
     (if projectedValue (mode s) = OperationalMode.Auto
      then to_i16 (sint (projectedValue (autoSetpoint s)) + sint (autoBandHalfWidthCentiC cfg))
      else projectedValue (coolSetpoint s))"

definition projectedRunningMode :: "LogicalACState \<Rightarrow> RunningMode" where
  "projectedRunningMode s =
     (if \<not> projectedValue (onOff s) then RunningMode.Off else mValue (runningMode s))"

definition projectedLocalTemperature :: "LogicalACState \<Rightarrow> i16 option" where
  "projectedLocalTemperature s = mValue (indoorTemp s)"

definition projectedOutdoorTemperature :: "LogicalACState \<Rightarrow> i16 option" where
  "projectedOutdoorTemperature s = mValue (outdoorTemp s)"

definition projectedSetpointSource :: "LogicalACState \<Rightarrow> ObservationSource" where
  "projectedSetpointSource s = mAttribution (activeSetpoint s (mObserved (mode s)))"

definition projectedSpeedSetting :: "LogicalACState \<Rightarrow> u8 option" where
  "projectedSpeedSetting s =
     (if \<not> projectedOnOff s then Some 0
      else case projectedValue (fan s) of None \<Rightarrow> None | Some l \<Rightarrow> Some (FanLevel_byte l))"

definition projectedFanMode :: "LogicalACState \<Rightarrow> FanModeCategory" where
  "projectedFanMode s =
     (if \<not> projectedOnOff s then FanModeCategory.Off else fanModeOf (projectedValue (fan s)))"

definition projectedSpeedCurrent :: "LogicalACState \<Rightarrow> u8" where
  "projectedSpeedCurrent s =
     (if \<not> projectedOnOff s then 0
      else FanLevel_byte (case projectedValue (fan s) of None \<Rightarrow> FanLevel.MidLow | Some l \<Rightarrow> l))"

definition projectedPercentSetting :: "LogicalACState \<Rightarrow> u8 option" where
  "projectedPercentSetting s = (if \<not> projectedOnOff s then Some 0 else fanPercentSetting s)"

definition projectedPercentCurrent :: "LogicalACState \<Rightarrow> u8" where
  "projectedPercentCurrent s = speedLevelToPercent (FanLevel_cast (projectedSpeedCurrent s))"

definition projectedHumidityCentiPercent :: "LogicalACState \<Rightarrow> u16 option" where
  "projectedHumidityCentiPercent s =
     (case mValue (humidity s) of None \<Rightarrow> None | Some v \<Rightarrow> Some (ucast v * 100))"

definition projectedReachable :: "LogicalACState \<Rightarrow> bool" where
  "projectedReachable s = mValue (reachable s)"

definition project :: "ProjectorConfig \<Rightarrow> LogicalACState \<Rightarrow> ProjectedClusterState" where
  "project cfg s =
     \<lparr>pj_onOff = projectedOnOff s,
      pj_mode = projectedMode s,
      pj_occupiedHeatingSetpoint = projectedOccupiedHeatingSetpoint cfg s,
      pj_occupiedCoolingSetpoint = projectedOccupiedCoolingSetpoint cfg s,
      pj_runningMode = projectedRunningMode s,
      pj_localTemperature = projectedLocalTemperature s,
      pj_outdoorTemperature = projectedOutdoorTemperature s,
      pj_setpointSource = projectedSetpointSource s,
      pj_speedSetting = projectedSpeedSetting s,
      pj_fanMode = projectedFanMode s,
      pj_speedCurrent = projectedSpeedCurrent s,
      pj_percentSetting = projectedPercentSetting s,
      pj_percentCurrent = projectedPercentCurrent s,
      pj_humidityCentiPercent = projectedHumidityCentiPercent s,
      pj_reachable = projectedReachable s\<rparr>"

text \<open>
  The diff threads the output vector and the \<open>systemModeEmitted\<close> flag of the source's
  lambda; \<open>emit\<close> is one guarded \<open>push_back\<close>.
\<close>

definition emitSystemMode ::
  "LogicalAttribute list \<times> bool \<Rightarrow> LogicalAttribute list \<times> bool" where
  "emitSystemMode acc =
     (case acc of (out, emitted) \<Rightarrow>
        if \<not> emitted then (out @ [LogicalAttribute.SystemMode], True) else (out, emitted))"

definition emit :: "bool \<Rightarrow> LogicalAttribute \<Rightarrow> LogicalAttribute list \<Rightarrow> LogicalAttribute list" where
  "emit changed a out = (if changed then out @ [a] else out)"

definition diffProjections ::
  "ProjectedClusterState \<Rightarrow> ProjectedClusterState \<Rightarrow> LogicalAttribute list" where
  "diffProjections before after =
     (let acc = ([], False);
          acc = (if pj_onOff before \<noteq> pj_onOff after
                 then emitSystemMode (fst acc @ [LogicalAttribute.OnOff], snd acc) else acc);
          acc = (if pj_mode before \<noteq> pj_mode after then emitSystemMode acc else acc);
          out = fst acc;
          out = emit (pj_occupiedHeatingSetpoint before \<noteq> pj_occupiedHeatingSetpoint after)
                  OccupiedHeatingSetpoint out;
          out = emit (pj_occupiedCoolingSetpoint before \<noteq> pj_occupiedCoolingSetpoint after)
                  OccupiedCoolingSetpoint out;
          out = emit (pj_runningMode before \<noteq> pj_runningMode after) LogicalAttribute.RunningMode out;
          out = emit (pj_localTemperature before \<noteq> pj_localTemperature after) LocalTemperature out;
          out = emit (pj_outdoorTemperature before \<noteq> pj_outdoorTemperature after)
                  OutdoorTemperature out;
          out = emit (pj_setpointSource before \<noteq> pj_setpointSource after) SetpointSource out;
          out = emit (pj_speedSetting before \<noteq> pj_speedSetting after) SpeedSetting out;
          out = emit (pj_fanMode before \<noteq> pj_fanMode after) LogicalAttribute.FanMode out;
          out = emit (pj_speedCurrent before \<noteq> pj_speedCurrent after) SpeedCurrent out;
          out = emit (pj_percentSetting before \<noteq> pj_percentSetting after) PercentSetting out;
          out = emit (pj_percentCurrent before \<noteq> pj_percentCurrent after) PercentCurrent out;
          out = emit (pj_humidityCentiPercent before \<noteq> pj_humidityCentiPercent after) Humidity out;
          out = emit (pj_reachable before \<noteq> pj_reachable after) Reachable out
      in out)"

section \<open>What the diff promises\<close>

text \<open>
  The specification of the diff: which attribute is affected by which projected field, in
  the order the attributes are reported. \<open>SystemMode\<close> is derived from power and mode.
\<close>

primrec attributeChanged ::
  "ProjectedClusterState \<Rightarrow> ProjectedClusterState \<Rightarrow> LogicalAttribute \<Rightarrow> bool" where
  "attributeChanged b a LogicalAttribute.OnOff = (pj_onOff b \<noteq> pj_onOff a)"
| "attributeChanged b a LogicalAttribute.SystemMode =
     ((pj_onOff b, pj_mode b) \<noteq> (pj_onOff a, pj_mode a))"
| "attributeChanged b a OccupiedHeatingSetpoint =
     (pj_occupiedHeatingSetpoint b \<noteq> pj_occupiedHeatingSetpoint a)"
| "attributeChanged b a OccupiedCoolingSetpoint =
     (pj_occupiedCoolingSetpoint b \<noteq> pj_occupiedCoolingSetpoint a)"
| "attributeChanged b a LogicalAttribute.RunningMode = (pj_runningMode b \<noteq> pj_runningMode a)"
| "attributeChanged b a LocalTemperature = (pj_localTemperature b \<noteq> pj_localTemperature a)"
| "attributeChanged b a OutdoorTemperature = (pj_outdoorTemperature b \<noteq> pj_outdoorTemperature a)"
| "attributeChanged b a SetpointSource = (pj_setpointSource b \<noteq> pj_setpointSource a)"
| "attributeChanged b a SpeedSetting = (pj_speedSetting b \<noteq> pj_speedSetting a)"
| "attributeChanged b a LogicalAttribute.FanMode = (pj_fanMode b \<noteq> pj_fanMode a)"
| "attributeChanged b a SpeedCurrent = (pj_speedCurrent b \<noteq> pj_speedCurrent a)"
| "attributeChanged b a PercentSetting = (pj_percentSetting b \<noteq> pj_percentSetting a)"
| "attributeChanged b a PercentCurrent = (pj_percentCurrent b \<noteq> pj_percentCurrent a)"
| "attributeChanged b a Humidity = (pj_humidityCentiPercent b \<noteq> pj_humidityCentiPercent a)"
| "attributeChanged b a Reachable = (pj_reachable b \<noteq> pj_reachable a)"

definition reportOrder :: "LogicalAttribute list" where
  "reportOrder =
     [LogicalAttribute.OnOff, LogicalAttribute.SystemMode, OccupiedHeatingSetpoint,
      OccupiedCoolingSetpoint, LogicalAttribute.RunningMode, LocalTemperature,
      OutdoorTemperature, SetpointSource, SpeedSetting, LogicalAttribute.FanMode,
      SpeedCurrent, PercentSetting, PercentCurrent, Humidity, Reachable]"

lemma reportOrder_complete: "a \<in> set reportOrder"
  by (cases a) (simp_all add: reportOrder_def)

lemma reportOrder_distinct: "distinct reportOrder"
  by (simp add: reportOrder_def)

lemma emit_filter: "c = P a \<Longrightarrow> emit c a (filter P xs) = filter P (xs @ [a])"
  by (simp add: emit_def)

lemma diffProjections_filter: "diffProjections b a = filter (attributeChanged b a) reportOrder"
proof -
  let ?P = "attributeChanged b a"
  have head: "fst (if pj_mode b \<noteq> pj_mode a
      then emitSystemMode (if pj_onOff b \<noteq> pj_onOff a
             then emitSystemMode (fst ([], False) @ [LogicalAttribute.OnOff], snd ([], False))
             else ([], False))
      else (if pj_onOff b \<noteq> pj_onOff a
             then emitSystemMode (fst ([], False) @ [LogicalAttribute.OnOff], snd ([], False))
             else ([], False)))
    = filter ?P [LogicalAttribute.OnOff, LogicalAttribute.SystemMode]"
    by (simp add: emitSystemMode_def)
  show ?thesis
    unfolding diffProjections_def Let_def head reportOrder_def
    by (simp add: emit_filter [where P = "attributeChanged b a"] del: filter.simps)
qed

lemma projection_eq_iff:
  "(b :: ProjectedClusterState) = a \<longleftrightarrow> (\<forall>x. \<not> attributeChanged b a x)"
proof
  assume "\<forall>x. \<not> attributeChanged b a x"
  then have "\<not> attributeChanged b a x" for x by blast
  note this [of LogicalAttribute.SystemMode] this [of OccupiedHeatingSetpoint]
    this [of OccupiedCoolingSetpoint] this [of LogicalAttribute.RunningMode]
    this [of LocalTemperature] this [of OutdoorTemperature] this [of SetpointSource]
    this [of SpeedSetting] this [of LogicalAttribute.FanMode] this [of SpeedCurrent]
    this [of PercentSetting] this [of PercentCurrent] this [of Humidity] this [of Reachable]
  then show "b = a" by simp
next
  assume "b = a"
  then have "\<not> attributeChanged b a x" for x by (cases x) simp_all
  then show "\<forall>x. \<not> attributeChanged b a x" by blast
qed

lemma diffProjections_Nil: "diffProjections b a = [] \<longleftrightarrow> b = a"
  using reportOrder_complete
  by (auto simp: diffProjections_filter filter_empty_conv projection_eq_iff)

lemma diffProjections_same [simp]: "diffProjections a a = []"
  by (simp add: diffProjections_Nil)

lemma set_diffProjections: "set (diffProjections b a) = {x. attributeChanged b a x}"
  using reportOrder_complete by (auto simp: diffProjections_filter)

lemmas power_views = projectedRunningMode_def projectedSpeedSetting_def projectedFanMode_def
  projectedSpeedCurrent_def projectedPercentSetting_def projectedPercentCurrent_def

section \<open>Properties\<close>

text \<open>
  C18. The dirty-attribute set is exact: the diff lists, in a fixed order and each at most
  once, precisely the attributes whose projected value changed (\<open>SystemMode\<close> when power or
  mode did), so it is empty exactly when the two projections are equal.
\<close>

theorem diff_is_exact:
  "diffProjections b a = filter (attributeChanged b a) reportOrder
    \<and> set (diffProjections b a) = {x. attributeChanged b a x}
    \<and> distinct (diffProjections b a)
    \<and> (diffProjections b a = [] \<longleftrightarrow> b = a)"
  by (simp add: diffProjections_filter [symmetric] set_diffProjections diffProjections_Nil)
     (simp add: diffProjections_filter reportOrder_distinct)

text \<open>
  The auto band. While the projected mode is Auto, the two occupied setpoints are the
  edges of a band of the configured half width centred on the projected auto setpoint, as
  long as neither edge leaves the 16-bit range.
\<close>

theorem auto_band_is_centred:
  assumes "projectedMode s = OperationalMode.Auto"
    and "0 \<le> sint (autoBandHalfWidthCentiC cfg)"
    and "- 32768 \<le> sint (projectedValue (autoSetpoint s)) - sint (autoBandHalfWidthCentiC cfg)"
    and "sint (projectedValue (autoSetpoint s)) + sint (autoBandHalfWidthCentiC cfg) \<le> 32767"
  shows "sint (projectedOccupiedHeatingSetpoint cfg s)
           = sint (projectedValue (autoSetpoint s)) - sint (autoBandHalfWidthCentiC cfg)
    \<and> sint (projectedOccupiedCoolingSetpoint cfg s)
           = sint (projectedValue (autoSetpoint s)) + sint (autoBandHalfWidthCentiC cfg)
    \<and> sint (projectedOccupiedHeatingSetpoint cfg s) \<le> sint (projectedOccupiedCoolingSetpoint cfg s)"
proof -
  let ?a = "sint (projectedValue (autoSetpoint s))" and ?h = "sint (autoBandHalfWidthCentiC cfg)"
  have heat: "projectedOccupiedHeatingSetpoint cfg s = to_i16 (?a - ?h)"
    and cool: "projectedOccupiedCoolingSetpoint cfg s = to_i16 (?a + ?h)"
    using assms(1) by (simp_all add: projectedOccupiedHeatingSetpoint_def
        projectedOccupiedCoolingSetpoint_def projectedMode_def)
  have "sint (projectedOccupiedHeatingSetpoint cfg s) = ?a - ?h"
    unfolding heat by (rule sint_to_i16) (use assms in simp_all)
  moreover have "sint (projectedOccupiedCoolingSetpoint cfg s) = ?a + ?h"
    unfolding cool by (rule sint_to_i16) (use assms in simp_all)
  ultimately show ?thesis using assms(2) by simp
qed

theorem auto_band_is_centred_witness:
  "let s = LogicalACState_new LogicalACStateDefaults_default in
   sint (projectedOccupiedHeatingSetpoint ProjectorConfig_default s)
     = sint (projectedValue (autoSetpoint s)) - sint (autoBandHalfWidthCentiC ProjectorConfig_default)
   \<and> sint (projectedOccupiedCoolingSetpoint ProjectorConfig_default s)
     = sint (projectedValue (autoSetpoint s)) + sint (autoBandHalfWidthCentiC ProjectorConfig_default)
   \<and> sint (projectedOccupiedHeatingSetpoint ProjectorConfig_default s)
     \<le> sint (projectedOccupiedCoolingSetpoint ProjectorConfig_default s)"
  unfolding Let_def
  by (rule auto_band_is_centred)
     (simp_all add: projectedMode_def projectedValue_def LogicalACState_new_def
        LogicalACStateDefaults_default_def ProjectorConfig_default_def)

text \<open>
  The fan view is power-coupled and coherent. With the unit off every fan attribute reads
  zero or Off and no running mode is reported. With it on and a named level running, the
  speed setting and the current speed are that level, the current percentage is
  \<open>floor(100 * speed / 6)\<close>, and the fan mode is the range the speed falls in.
\<close>

theorem fan_view_power_coupled:
  "(\<not> projectedOnOff s \<longrightarrow>
      projectedSpeedSetting s = Some 0 \<and> projectedFanMode s = FanModeCategory.Off
      \<and> projectedSpeedCurrent s = 0 \<and> projectedPercentSetting s = Some 0
      \<and> projectedPercentCurrent s = 0 \<and> projectedRunningMode s = RunningMode.Off)
   \<and> (\<forall>l. projectedOnOff s \<and> projectedValue (fan s) = Some l \<and> named_FanLevel l \<longrightarrow>
      projectedSpeedSetting s = Some (projectedSpeedCurrent s)
      \<and> 1 \<le> unat (projectedSpeedCurrent s) \<and> unat (projectedSpeedCurrent s) \<le> 6
      \<and> unat (projectedPercentCurrent s) = unat (projectedSpeedCurrent s) * 100 div 6
      \<and> projectedFanMode s =
          (if unat (projectedSpeedCurrent s) \<le> 2 then FanModeCategory.Low
           else if unat (projectedSpeedCurrent s) \<le> 4 then FanModeCategory.Medium
           else FanModeCategory.High))"
proof (intro conjI impI allI)
  assume off: "\<not> projectedOnOff s"
  then show "projectedSpeedSetting s = Some 0" "projectedFanMode s = FanModeCategory.Off"
      "projectedSpeedCurrent s = 0" "projectedPercentSetting s = Some 0"
      "projectedRunningMode s = RunningMode.Off"
    by (simp_all add: power_views projectedOnOff_def)
  with off show "projectedPercentCurrent s = 0"
    by (simp add: projectedPercentCurrent_def FanLevel_cast_def)
next
  fix l
  assume on: "projectedOnOff s \<and> projectedValue (fan s) = Some l \<and> named_FanLevel l"
  then have speed: "projectedSpeedCurrent s = FanLevel_byte l"
    by (simp add: projectedSpeedCurrent_def)
  with on show "projectedSpeedSetting s = Some (projectedSpeedCurrent s)"
    by (simp add: projectedSpeedSetting_def)
  from on have range: "1 \<le> unat (FanLevel_byte l)" "unat (FanLevel_byte l) \<le> 6"
    by (cases l; simp)+
  with speed show "1 \<le> unat (projectedSpeedCurrent s)" "unat (projectedSpeedCurrent s) \<le> 6"
    by simp_all
  from on speed show "unat (projectedPercentCurrent s) = unat (projectedSpeedCurrent s) * 100 div 6"
    by (simp add: projectedPercentCurrent_def FanLevel_cast_byte unat_speedLevelToPercent)
  from on have "projectedFanMode s = fanModeOf (Some l)"
    by (simp add: projectedFanMode_def)
  with on speed show "projectedFanMode s =
      (if unat (projectedSpeedCurrent s) \<le> 2 then FanModeCategory.Low
       else if unat (projectedSpeedCurrent s) \<le> 4 then FanModeCategory.Medium
       else FanModeCategory.High)"
    by (cases l) (simp_all add: fanModeOf_def)
qed

theorem fan_view_power_coupled_witness:
  "projectedSpeedSetting (LogicalACState_new LogicalACStateDefaults_default) = Some 0
   \<and> projectedFanMode (LogicalACState_new LogicalACStateDefaults_default) = FanModeCategory.Off
   \<and> projectedSpeedSetting (LogicalACState_new (LogicalACStateDefaults_default
        \<lparr>def_onOff := True, def_fan := Some FanLevel.MidHigh\<rparr>)) =
      Some (projectedSpeedCurrent (LogicalACState_new (LogicalACStateDefaults_default
        \<lparr>def_onOff := True, def_fan := Some FanLevel.MidHigh\<rparr>)))"
proof -
  let ?s = "LogicalACState_new LogicalACStateDefaults_default"
  let ?t = "LogicalACState_new (LogicalACStateDefaults_default
        \<lparr>def_onOff := True, def_fan := Some FanLevel.MidHigh\<rparr>)"
  have "\<not> projectedOnOff ?s" "projectedOnOff ?t" "projectedValue (fan ?t) = Some FanLevel.MidHigh"
    by (simp_all add: projectedOnOff_def projectedValue_def LogicalACState_new_def
          LogicalACStateDefaults_default_def)
  then show ?thesis
    using fan_view_power_coupled [of ?s] fan_view_power_coupled [of ?t] by auto
qed

end
