(* ===== verification/Reconciler.thy ===== *)
theory Reconciler
  imports Projector
begin

text \<open>
  The policy engine (\<open>sync/reconciler.h\<close>, \<open>sync/reconciler.cpp\<close>): how controller intents and
  device observations act on the twins, which S21 command follows, and which attributes
  changed. The reconciler's reference to the canonical state is the field \<open>mState\<close>; a
  reading of its time source is the argument \<open>now\<close>.
\<close>

record ReconcilerConfig =
  deviceWinsWindowMs :: millis
  projectorConfig :: ProjectorConfig
  runningModeHysteresisCentiC :: i16

definition ReconcilerConfig_default :: ReconcilerConfig where
  "ReconcilerConfig_default =
     \<lparr>deviceWinsWindowMs = 1000, projectorConfig = ProjectorConfig_default,
      runningModeHysteresisCentiC = 50\<rparr>"

record OperationalChange =
  dirtyAttributes :: "LogicalAttribute list"
  sendCommand :: "S21OperationCommand option"

record EnvironmentalChange =
  envDirtyAttributes :: "LogicalAttribute list"

record LastDeviceTimes =
  at_onOff :: millis
  at_mode :: millis
  at_heatSetpoint :: millis
  at_coolSetpoint :: millis
  at_autoSetpoint :: millis
  at_fan :: millis

record Reconciler =
  mState :: LogicalACState
  mConfig :: ReconcilerConfig
  mLastSentCommand :: "S21OperationCommand option"
  mLastDeviceObserved :: LastDeviceTimes

definition Reconciler_new :: "LogicalACState \<Rightarrow> ReconcilerConfig \<Rightarrow> Reconciler" where
  "Reconciler_new st cfg =
     \<lparr>mState = st, mConfig = cfg, mLastSentCommand = None,
      mLastDeviceObserved =
        \<lparr>at_onOff = 0, at_mode = 0, at_heatSetpoint = 0, at_coolSetpoint = 0,
         at_autoSetpoint = 0, at_fan = 0\<rparr>\<rparr>"

section \<open>Enum routing\<close>

definition operationalModeToS21OperatingMode :: "OperationalMode \<Rightarrow> OperatingMode" where
  "operationalModeToS21OperatingMode m =
     (case m of
        OperationalMode.Cool \<Rightarrow> OperatingMode.Cool
      | OperationalMode.Heat \<Rightarrow> OperatingMode.Heat
      | OperationalMode.Dry \<Rightarrow> OperatingMode.Dry
      | OperationalMode.FanOnly \<Rightarrow> OperatingMode.FanOnly
      | OperationalMode.Auto \<Rightarrow> OperatingMode.Auto)"

definition s21OperatingModeToOperationalMode :: "OperatingMode \<Rightarrow> OperationalMode" where
  "s21OperatingModeToOperationalMode m =
     (case m of
        OperatingMode.Cool \<Rightarrow> OperationalMode.Cool
      | OperatingMode.Heat \<Rightarrow> OperationalMode.Heat
      | OperatingMode.Dry \<Rightarrow> OperationalMode.Dry
      | OperatingMode.FanOnly \<Rightarrow> OperationalMode.FanOnly
      | OperatingMode.Auto \<Rightarrow> OperationalMode.Auto
      | Auto_Cooling \<Rightarrow> OperationalMode.Auto
      | Auto_Heating \<Rightarrow> OperationalMode.Auto
      | OperatingMode_raw _ \<Rightarrow> OperationalMode.Auto)"

definition s21OperatingModeDirectionHint :: "OperatingMode \<Rightarrow> RunningMode option" where
  "s21OperatingModeDirectionHint m =
     (case m of
        Auto_Cooling \<Rightarrow> Some Cooling
      | Auto_Heating \<Rightarrow> Some Heating
      | _ \<Rightarrow> None)"

definition fanSpeedToS21FanMode :: "FanSpeed \<Rightarrow> FanMode" where
  "fanSpeedToS21FanMode s =
     (case s of
        None \<Rightarrow> FanMode.Auto
      | Some FanLevel.Quiet \<Rightarrow> FanMode.Quiet
      | Some FanLevel.Low \<Rightarrow> FanMode.Low
      | Some FanLevel.MidLow \<Rightarrow> FanMode.MidLow
      | Some FanLevel.Medium \<Rightarrow> FanMode.Medium
      | Some FanLevel.MidHigh \<Rightarrow> FanMode.MidHigh
      | Some FanLevel.High \<Rightarrow> FanMode.High
      | Some (FanLevel_raw _) \<Rightarrow> FanMode.Auto)"

definition s21FanModeToSpeedSetting :: "FanMode \<Rightarrow> FanSpeed" where
  "s21FanModeToSpeedSetting m =
     (case m of
        FanMode.Auto \<Rightarrow> None
      | FanMode.Quiet \<Rightarrow> Some FanLevel.Quiet
      | FanMode.Low \<Rightarrow> Some FanLevel.Low
      | FanMode.MidLow \<Rightarrow> Some FanLevel.MidLow
      | FanMode.Medium \<Rightarrow> Some FanLevel.Medium
      | FanMode.MidHigh \<Rightarrow> Some FanLevel.MidHigh
      | FanMode.High \<Rightarrow> Some FanLevel.High
      | FanMode_raw _ \<Rightarrow> None)"

section \<open>Running-mode fusion\<close>

definition fuseRunningMode ::
  "Reconciler \<Rightarrow> bool \<Rightarrow> OperatingMode \<Rightarrow> bool option \<Rightarrow> RunningMode" where
  "fuseRunningMode r on s21OperatingMode valveOpen =
     (let st = mState r;
          opMode = s21OperatingModeToOperationalMode s21OperatingMode;
          hyst = sint (runningModeHysteresisCentiC (mConfig r))
      in
      if \<not> on then RunningMode.Off
      else case s21OperatingModeDirectionHint s21OperatingMode of
        Some hint \<Rightarrow> hint
      | None \<Rightarrow>
        (case valveOpen of
           Some False \<Rightarrow> RunningMode.Off
         | Some True \<Rightarrow>
             (case opMode of
                OperationalMode.Cool \<Rightarrow> Cooling
              | OperationalMode.Heat \<Rightarrow> Heating
              | OperationalMode.Auto \<Rightarrow>
                  (case mValue (indoorTemp st) of
                     Some indoor \<Rightarrow>
                       if sint indoor < sint (mObserved (autoSetpoint st)) then Heating else Cooling
                   | None \<Rightarrow> Cooling)
              | OperationalMode.Dry \<Rightarrow> RunningMode.Off
              | OperationalMode.FanOnly \<Rightarrow> RunningMode.Off)
         | None \<Rightarrow>
             (case mValue (indoorTemp st) of
                None \<Rightarrow> RunningMode.Off
              | Some indoor \<Rightarrow>
                  (case opMode of
                     OperationalMode.Cool \<Rightarrow>
                       if sint (mObserved (coolSetpoint st)) + hyst \<ge> sint indoor
                       then RunningMode.Off else Cooling
                   | OperationalMode.Heat \<Rightarrow>
                       if sint (mObserved (heatSetpoint st)) - hyst \<le> sint indoor
                       then RunningMode.Off else Heating
                   | OperationalMode.Auto \<Rightarrow>
                       if sint indoor > sint (mObserved (autoSetpoint st)) + hyst then Cooling
                       else if sint indoor < sint (mObserved (autoSetpoint st)) - hyst then Heating
                       else RunningMode.Off
                   | OperationalMode.Dry \<Rightarrow> RunningMode.Off
                   | OperationalMode.FanOnly \<Rightarrow> RunningMode.Off))))"

section \<open>Guard window\<close>

definition intentPassesGuard :: "millis \<Rightarrow> Reconciler \<Rightarrow> millis \<Rightarrow> bool \<Rightarrow> bool" where
  "intentPassesGuard now r lastDeviceObservationMs valueDiffersFromObserved =
     (if \<not> valueDiffersFromObserved then True
      else if lastDeviceObservationMs = 0 then True
      else now - lastDeviceObservationMs \<ge> deviceWinsWindowMs (mConfig r))"

section \<open>Per-intent application\<close>

definition apply_SetOnOffIntent :: "millis \<Rightarrow> bool \<Rightarrow> Reconciler \<Rightarrow> Reconciler" where
  "apply_SetOnOffIntent now v r =
     (if \<not> intentPassesGuard now r (at_onOff (mLastDeviceObserved r))
            (v \<noteq> mObserved (onOff (mState r)))
      then r
      else mState_update (onOff_update (setDesired v)) r)"

definition apply_SetSystemModeIntent ::
  "millis \<Rightarrow> bool \<Rightarrow> OperationalMode \<Rightarrow> Reconciler \<Rightarrow> Reconciler" where
  "apply_SetSystemModeIntent now pwr m r0 =
     (let r = (if intentPassesGuard now r0 (at_onOff (mLastDeviceObserved r0))
                    (pwr \<noteq> mObserved (onOff (mState r0)))
               then mState_update (onOff_update (setDesired pwr)) r0 else r0)
      in if pwr \<and> intentPassesGuard now r (at_mode (mLastDeviceObserved r))
                    (m \<noteq> mObserved (mode (mState r)))
         then mState_update (mode_update (setDesired m)) r else r)"

definition apply_SetOccupiedHeatingSetpointIntent ::
  "millis \<Rightarrow> i16 \<Rightarrow> Reconciler \<Rightarrow> Reconciler" where
  "apply_SetOccupiedHeatingSetpointIntent now v r =
     (case mObserved (mode (mState r)) of
        OperationalMode.Heat \<Rightarrow>
          if \<not> intentPassesGuard now r (at_heatSetpoint (mLastDeviceObserved r))
                 (v \<noteq> mObserved (heatSetpoint (mState r)))
          then r
          else mState_update (heatSetpoint_update (setDesired v)) r
      | OperationalMode.Auto \<Rightarrow>
          (let projectedCool = to_i16 (sint (mDesired (autoSetpoint (mState r)))
                 + sint (autoBandHalfWidthCentiC (projectorConfig (mConfig r))));
               newCentre = to_i16 ((sint projectedCool + sint v) sdiv 2)
           in if \<not> intentPassesGuard now r (at_autoSetpoint (mLastDeviceObserved r))
                     (newCentre \<noteq> mObserved (autoSetpoint (mState r)))
              then r
              else mState_update (autoSetpoint_update (setDesired newCentre)) r)
      | _ \<Rightarrow> mState_update (heatSetpoint_update (setDesired v)) r)"

definition apply_SetOccupiedCoolingSetpointIntent ::
  "millis \<Rightarrow> i16 \<Rightarrow> Reconciler \<Rightarrow> Reconciler" where
  "apply_SetOccupiedCoolingSetpointIntent now v r =
     (case mObserved (mode (mState r)) of
        OperationalMode.Cool \<Rightarrow>
          if \<not> intentPassesGuard now r (at_coolSetpoint (mLastDeviceObserved r))
                 (v \<noteq> mObserved (coolSetpoint (mState r)))
          then r
          else mState_update (coolSetpoint_update (setDesired v)) r
      | OperationalMode.Auto \<Rightarrow>
          (let projectedHeat = to_i16 (sint (mDesired (autoSetpoint (mState r)))
                 - sint (autoBandHalfWidthCentiC (projectorConfig (mConfig r))));
               newCentre = to_i16 ((sint v + sint projectedHeat) sdiv 2)
           in if \<not> intentPassesGuard now r (at_autoSetpoint (mLastDeviceObserved r))
                     (newCentre \<noteq> mObserved (autoSetpoint (mState r)))
              then r
              else mState_update (autoSetpoint_update (setDesired newCentre)) r)
      | _ \<Rightarrow> mState_update (coolSetpoint_update (setDesired v)) r)"

definition powerOnForFanWrite :: "millis \<Rightarrow> Reconciler \<Rightarrow> Reconciler" where
  "powerOnForFanWrite now r =
     (if mObserved (onOff (mState r)) then r
      else if \<not> intentPassesGuard now r (at_onOff (mLastDeviceObserved r)) True then r
      else mState_update (onOff_update (setDesired True)) r)"

definition apply_SetSpeedSettingIntent ::
  "millis \<Rightarrow> FanSpeed \<Rightarrow> Reconciler \<Rightarrow> Reconciler" where
  "apply_SetSpeedSettingIntent now v r =
     (if \<not> intentPassesGuard now r (at_fan (mLastDeviceObserved r))
            (v \<noteq> mObserved (fan (mState r)))
      then r
      else mState_update
             (\<lambda>s. s\<lparr>fan := setDesired v (fan s),
                    fanPercentSetting := map_option speedLevelToPercent v\<rparr>)
             (powerOnForFanWrite now r))"

definition apply_SetPercentSettingIntent ::
  "millis \<Rightarrow> u8 option \<Rightarrow> Reconciler \<Rightarrow> Reconciler" where
  "apply_SetPercentSettingIntent now v r =
     (case v of
        None \<Rightarrow> r
      | Some p \<Rightarrow>
          (let f = Some (percentToSpeedLevel p) in
           if \<not> intentPassesGuard now r (at_fan (mLastDeviceObserved r))
                  (f \<noteq> mObserved (fan (mState r)))
           then r
           else mState_update
                  (\<lambda>s. s\<lparr>fan := setDesired f (fan s), fanPercentSetting := Some p\<rparr>)
                  (powerOnForFanWrite now r)))"

primrec applyOne :: "millis \<Rightarrow> WriteIntent \<Rightarrow> Reconciler \<Rightarrow> Reconciler" where
  "applyOne now (SetOnOffIntent v) r = apply_SetOnOffIntent now v r"
| "applyOne now (SetSystemModeIntent p m) r = apply_SetSystemModeIntent now p m r"
| "applyOne now (SetOccupiedHeatingSetpointIntent v) r =
     apply_SetOccupiedHeatingSetpointIntent now v r"
| "applyOne now (SetOccupiedCoolingSetpointIntent v) r =
     apply_SetOccupiedCoolingSetpointIntent now v r"
| "applyOne now (SetSpeedSettingIntent v) r = apply_SetSpeedSettingIntent now v r"
| "applyOne now (SetPercentSettingIntent v) r = apply_SetPercentSettingIntent now v r"

section \<open>Public entry points\<close>

definition anyDirty :: "LogicalACState \<Rightarrow> bool" where
  "anyDirty s =
     (dirty (onOff s) \<or> dirty (mode s) \<or> dirty (heatSetpoint s) \<or> dirty (coolSetpoint s)
      \<or> dirty (autoSetpoint s) \<or> dirty (fan s))"

definition desiredCommand :: "LogicalACState \<Rightarrow> S21OperationCommand" where
  "desiredCommand s =
     S21OperationCommand_default
       \<lparr>cmd_onOff := mDesired (onOff s),
        cmd_operatingMode := operationalModeToS21OperatingMode (mDesired (mode s)),
        cmd_setpointCelsius :=
          (case mDesired (mode s) of
             OperationalMode.Cool \<Rightarrow> mDesired (coolSetpoint s)
           | OperationalMode.Heat \<Rightarrow> mDesired (heatSetpoint s)
           | OperationalMode.Auto \<Rightarrow> mDesired (autoSetpoint s)
           | OperationalMode.Dry \<Rightarrow> mDesired (autoSetpoint s)
           | OperationalMode.FanOnly \<Rightarrow> mDesired (autoSetpoint s)),
        cmd_fanMode := fanSpeedToS21FanMode (mDesired (fan s))\<rparr>"

definition pendingCommand :: "Reconciler \<Rightarrow> S21OperationCommand option" where
  "pendingCommand r =
     (if \<not> anyDirty (mState r) then None
      else let cmd = desiredCommand (mState r) in
           if mLastSentCommand r = Some cmd then None else Some cmd)"

definition applyIntent ::
  "millis \<Rightarrow> WriteIntent \<Rightarrow> Reconciler \<Rightarrow> OperationalChange \<times> Reconciler" where
  "applyIntent now intent r =
     (let before = project (projectorConfig (mConfig r)) (mState r);
          r' = applyOne now intent r;
          after = project (projectorConfig (mConfig r')) (mState r')
      in (\<lparr>dirtyAttributes = diffProjections before after, sendCommand = pendingCommand r'\<rparr>, r'))"

fun lastHeat :: "WriteIntent list \<Rightarrow> i16 option \<Rightarrow> i16 option" where
  "lastHeat [] acc = acc"
| "lastHeat (SetOccupiedHeatingSetpointIntent v # is) acc = lastHeat is (Some v)"
| "lastHeat (_ # is) acc = lastHeat is acc"

fun lastCool :: "WriteIntent list \<Rightarrow> i16 option \<Rightarrow> i16 option" where
  "lastCool [] acc = acc"
| "lastCool (SetOccupiedCoolingSetpointIntent v # is) acc = lastCool is (Some v)"
| "lastCool (_ # is) acc = lastCool is acc"

fun isSetpointIntent :: "WriteIntent \<Rightarrow> bool" where
  "isSetpointIntent (SetOccupiedHeatingSetpointIntent _) = True"
| "isSetpointIntent (SetOccupiedCoolingSetpointIntent _) = True"
| "isSetpointIntent _ = False"

fun applyRest :: "millis \<Rightarrow> bool \<Rightarrow> WriteIntent list \<Rightarrow> Reconciler \<Rightarrow> Reconciler" where
  "applyRest now collapsed [] r = r"
| "applyRest now collapsed (i # is) r =
     applyRest now collapsed is (if collapsed \<and> isSetpointIntent i then r else applyOne now i r)"

definition applyIntentBundle ::
  "millis \<Rightarrow> WriteIntent list \<Rightarrow> Reconciler \<Rightarrow> OperationalChange \<times> Reconciler" where
  "applyIntentBundle now intents r =
     (let before = project (projectorConfig (mConfig r)) (mState r);
          h = lastHeat intents None;
          c = lastCool intents None;
          collapseAutoBand =
            (mObserved (mode (mState r)) = OperationalMode.Auto \<and> has_value h \<and> has_value c);
          r1 = (if collapseAutoBand
                then (let newCentre = to_i16 ((sint (the h) + sint (the c)) sdiv 2) in
                      if intentPassesGuard now r (at_autoSetpoint (mLastDeviceObserved r))
                           (newCentre \<noteq> mObserved (autoSetpoint (mState r)))
                      then mState_update (autoSetpoint_update (setDesired newCentre)) r else r)
                else r);
          r2 = applyRest now collapseAutoBand intents r1;
          after = project (projectorConfig (mConfig r2)) (mState r2)
      in (\<lparr>dirtyAttributes = diffProjections before after, sendCommand = pendingCommand r2\<rparr>, r2))"

definition observeSetpoint :: "millis \<Rightarrow> OperationalMode \<Rightarrow> i16 \<Rightarrow> Reconciler \<Rightarrow> Reconciler" where
  "observeSetpoint now observedMode sp r =
     (case observedMode of
        OperationalMode.Cool \<Rightarrow>
          r\<lparr>mState := coolSetpoint_update (applyObservation sp Device) (mState r),
            mLastDeviceObserved := (mLastDeviceObserved r)\<lparr>at_coolSetpoint := now\<rparr>\<rparr>
      | OperationalMode.Heat \<Rightarrow>
          r\<lparr>mState := heatSetpoint_update (applyObservation sp Device) (mState r),
            mLastDeviceObserved := (mLastDeviceObserved r)\<lparr>at_heatSetpoint := now\<rparr>\<rparr>
      | OperationalMode.Auto \<Rightarrow>
          r\<lparr>mState := autoSetpoint_update (applyObservation sp Device) (mState r),
            mLastDeviceObserved := (mLastDeviceObserved r)\<lparr>at_autoSetpoint := now\<rparr>\<rparr>
      | OperationalMode.Dry \<Rightarrow> r
      | OperationalMode.FanOnly \<Rightarrow> r)"

definition observeFan :: "millis \<Rightarrow> FanSpeed \<Rightarrow> Reconciler \<Rightarrow> Reconciler" where
  "observeFan now observedFan r =
     (let fanObservedBefore = mObserved (fan (mState r));
          st = fan_update (applyObservation observedFan Device) (mState r);
          st = (if mObserved (fan st) \<noteq> fanObservedBefore \<and> mAttribution (fan st) = Device
                then st\<lparr>fanPercentSetting := map_option speedLevelToPercent (mObserved (fan st))\<rparr>
                else st)
      in r\<lparr>mState := st, mLastDeviceObserved := (mLastDeviceObserved r)\<lparr>at_fan := now\<rparr>\<rparr>)"

definition observeTwins ::
  "millis \<Rightarrow> S21OperationalObservation \<Rightarrow> Reconciler \<Rightarrow> Reconciler" where
  "observeTwins now obs r0 =
     (let r = r0\<lparr>mState := onOff_update (applyObservation (obs_onOff obs) Device) (mState r0),
                 mLastDeviceObserved := (mLastDeviceObserved r0)\<lparr>at_onOff := now\<rparr>\<rparr>;
          observedMode = s21OperatingModeToOperationalMode (obs_operatingMode obs);
          r = r\<lparr>mState := mode_update (applyObservation observedMode Device) (mState r),
                mLastDeviceObserved := (mLastDeviceObserved r)\<lparr>at_mode := now\<rparr>\<rparr>;
          r = observeSetpoint now observedMode (obs_setpointCelsius obs) r
      in observeFan now (s21FanModeToSpeedSetting (obs_fanMode obs)) r)"

definition observeSensors :: "S21OperationalObservation \<Rightarrow> Reconciler \<Rightarrow> Reconciler" where
  "observeSensors obs r0 =
     (let r = mState_update (refrigerantValveOpen_update
                 (sensorApplyObservation (obs_refrigerantValveOpen obs))) r0;
          r = mState_update (runningMode_update (sensorApplyObservation
                 (fuseRunningMode r (obs_onOff obs) (obs_operatingMode obs)
                    (obs_refrigerantValveOpen obs)))) r
      in mState_update (reachable_update (sensorApplyObservation True)) r)"

definition applyOperationalObservation ::
  "millis \<Rightarrow> S21OperationalObservation \<Rightarrow> Reconciler \<Rightarrow> OperationalChange \<times> Reconciler" where
  "applyOperationalObservation now obs r =
     (let before = project (projectorConfig (mConfig r)) (mState r);
          r' = observeSensors obs (observeTwins now obs r);
          after = project (projectorConfig (mConfig r')) (mState r')
      in (\<lparr>dirtyAttributes = diffProjections before after, sendCommand = pendingCommand r'\<rparr>, r'))"

definition applyEnvironmentalObservation ::
  "S21EnvironmentalObservation \<Rightarrow> Reconciler \<Rightarrow> EnvironmentalChange \<times> Reconciler" where
  "applyEnvironmentalObservation obs r =
     (let before = project (projectorConfig (mConfig r)) (mState r);
          st = (mState r)
            \<lparr>indoorTemp := sensorApplyObservation (Some (env_indoorTemperatureCelsius obs))
                            (indoorTemp (mState r)),
             outdoorTemp := sensorApplyObservation (Some (env_outdoorTemperatureCelsius obs))
                            (outdoorTemp (mState r)),
             humidity := sensorApplyObservation (Some (env_indoorRelativeHumidityPercent obs))
                            (humidity (mState r))\<rparr>;
          after = project (projectorConfig (mConfig r)) st
      in (\<lparr>envDirtyAttributes = diffProjections before after\<rparr>, r\<lparr>mState := st\<rparr>))"

definition promoteSetpoint :: "OperationalMode \<Rightarrow> LogicalACState \<Rightarrow> LogicalACState" where
  "promoteSetpoint m s =
     (case m of
        OperationalMode.Cool \<Rightarrow> coolSetpoint_update promoteDesiredToInFlight s
      | OperationalMode.Heat \<Rightarrow> heatSetpoint_update promoteDesiredToInFlight s
      | OperationalMode.Auto \<Rightarrow> autoSetpoint_update promoteDesiredToInFlight s
      | OperationalMode.Dry \<Rightarrow> s
      | OperationalMode.FanOnly \<Rightarrow> s)"

definition onCommandSent :: "S21OperationCommand \<Rightarrow> Reconciler \<Rightarrow> Reconciler" where
  "onCommandSent cmd r =
     (let s = onOff_update promoteDesiredToInFlight (mState r);
          s = mode_update promoteDesiredToInFlight s;
          s = promoteSetpoint (mDesired (mode s)) s;
          s = fan_update promoteDesiredToInFlight s
      in r\<lparr>mLastSentCommand := Some cmd, mState := s\<rparr>)"

definition onCommandFailed :: "Reconciler \<Rightarrow> Reconciler" where
  "onCommandFailed r = r\<lparr>mLastSentCommand := None\<rparr>"

section \<open>Frame and field lemmas\<close>

lemma mode_wire_roundtrip [simp]:
  "s21OperatingModeToOperationalMode (operationalModeToS21OperatingMode m) = m"
  by (cases m)
     (simp_all add: s21OperatingModeToOperationalMode_def operationalModeToS21OperatingMode_def)

lemma fan_wire_roundtrip [simp]:
  "pred_option named_FanLevel f \<Longrightarrow> s21FanModeToSpeedSetting (fanSpeedToS21FanMode f) = f"
  by (cases f rule: option.exhaust)
     (auto simp: s21FanModeToSpeedSetting_def fanSpeedToS21FanMode_def split: FanLevel.splits)

lemma s21FanModeToSpeedSetting_named [simp]:
  "pred_option named_FanLevel (s21FanModeToSpeedSetting m)"
  by (cases m) (simp_all add: s21FanModeToSpeedSetting_def)

lemmas apply_defs = apply_SetOnOffIntent_def apply_SetSystemModeIntent_def
  apply_SetOccupiedHeatingSetpointIntent_def apply_SetOccupiedCoolingSetpointIntent_def
  powerOnForFanWrite_def apply_SetSpeedSettingIntent_def apply_SetPercentSettingIntent_def

lemma applyOne_frame [simp]:
  "mConfig (applyOne now i r) = mConfig r"
  "mLastSentCommand (applyOne now i r) = mLastSentCommand r"
  "mLastDeviceObserved (applyOne now i r) = mLastDeviceObserved r"
  by (cases i; simp add: apply_defs Let_def split: OperationalMode.splits option.splits)+

lemma observeSetpoint_fields [simp]:
  "mConfig (observeSetpoint now m sp r) = mConfig r"
  "mLastSentCommand (observeSetpoint now m sp r) = mLastSentCommand r"
  "onOff (mState (observeSetpoint now m sp r)) = onOff (mState r)"
  "mode (mState (observeSetpoint now m sp r)) = mode (mState r)"
  "fan (mState (observeSetpoint now m sp r)) = fan (mState r)"
  "fanPercentSetting (mState (observeSetpoint now m sp r)) = fanPercentSetting (mState r)"
  "coolSetpoint (mState (observeSetpoint now m sp r)) =
     (if m = OperationalMode.Cool then applyObservation sp Device (coolSetpoint (mState r))
      else coolSetpoint (mState r))"
  "heatSetpoint (mState (observeSetpoint now m sp r)) =
     (if m = OperationalMode.Heat then applyObservation sp Device (heatSetpoint (mState r))
      else heatSetpoint (mState r))"
  "autoSetpoint (mState (observeSetpoint now m sp r)) =
     (if m = OperationalMode.Auto then applyObservation sp Device (autoSetpoint (mState r))
      else autoSetpoint (mState r))"
  "at_onOff (mLastDeviceObserved (observeSetpoint now m sp r)) = at_onOff (mLastDeviceObserved r)"
  "at_mode (mLastDeviceObserved (observeSetpoint now m sp r)) = at_mode (mLastDeviceObserved r)"
  by (cases m; simp add: observeSetpoint_def)+

lemma observeFan_fields [simp]:
  "mConfig (observeFan now f r) = mConfig r"
  "mLastSentCommand (observeFan now f r) = mLastSentCommand r"
  "onOff (mState (observeFan now f r)) = onOff (mState r)"
  "mode (mState (observeFan now f r)) = mode (mState r)"
  "coolSetpoint (mState (observeFan now f r)) = coolSetpoint (mState r)"
  "heatSetpoint (mState (observeFan now f r)) = heatSetpoint (mState r)"
  "autoSetpoint (mState (observeFan now f r)) = autoSetpoint (mState r)"
  "fan (mState (observeFan now f r)) = applyObservation f Device (fan (mState r))"
  "fanPercentSetting (mState (observeFan now f r)) =
     (if f \<noteq> mObserved (fan (mState r))
         \<and> mAttribution (applyObservation f Device (fan (mState r))) = Device
      then map_option speedLevelToPercent f else fanPercentSetting (mState r))"
  "mLastDeviceObserved (observeFan now f r) = (mLastDeviceObserved r)\<lparr>at_fan := now\<rparr>"
  by (simp_all add: observeFan_def Let_def)

definition observed :: "millis \<Rightarrow> S21OperationalObservation \<Rightarrow> Reconciler \<Rightarrow> Reconciler" where
  "observed now obs r = observeSensors obs (observeTwins now obs r)"

lemma observed_fields [simp]:
  fixes r :: Reconciler and obs :: S21OperationalObservation
  defines "om \<equiv> s21OperatingModeToOperationalMode (obs_operatingMode obs)"
  shows "mConfig (observed now obs r) = mConfig r"
    and "mLastSentCommand (observed now obs r) = mLastSentCommand r"
    and "onOff (mState (observed now obs r)) = applyObservation (obs_onOff obs) Device (onOff (mState r))"
    and "mode (mState (observed now obs r)) = applyObservation om Device (mode (mState r))"
    and "coolSetpoint (mState (observed now obs r)) =
          (if om = OperationalMode.Cool
           then applyObservation (obs_setpointCelsius obs) Device (coolSetpoint (mState r))
           else coolSetpoint (mState r))"
    and "heatSetpoint (mState (observed now obs r)) =
          (if om = OperationalMode.Heat
           then applyObservation (obs_setpointCelsius obs) Device (heatSetpoint (mState r))
           else heatSetpoint (mState r))"
    and "autoSetpoint (mState (observed now obs r)) =
          (if om = OperationalMode.Auto
           then applyObservation (obs_setpointCelsius obs) Device (autoSetpoint (mState r))
           else autoSetpoint (mState r))"
    and "fan (mState (observed now obs r)) =
          applyObservation (s21FanModeToSpeedSetting (obs_fanMode obs)) Device (fan (mState r))"
    and "mValue (reachable (mState (observed now obs r))) = True"
    and "at_onOff (mLastDeviceObserved (observed now obs r)) = now"
    and "at_mode (mLastDeviceObserved (observed now obs r)) = now"
    and "at_fan (mLastDeviceObserved (observed now obs r)) = now"
  by (simp_all add: observed_def observeSensors_def observeTwins_def Let_def om_def)

lemma observed_percent:
  "fanPercentSetting (mState (observed now obs r)) =
     (let f = s21FanModeToSpeedSetting (obs_fanMode obs) in
      if f \<noteq> mObserved (fan (mState r))
         \<and> mAttribution (applyObservation f Device (fan (mState r))) = Device
      then map_option speedLevelToPercent f else fanPercentSetting (mState r))"
  by (simp add: observed_def observeSensors_def observeTwins_def Let_def)

lemma applyOperationalObservation_eq:
  "snd (applyOperationalObservation now obs r) = observed now obs r"
  "sendCommand (fst (applyOperationalObservation now obs r)) = pendingCommand (observed now obs r)"
  by (simp_all add: applyOperationalObservation_def observed_def Let_def)

lemma applyIntent_eq:
  "snd (applyIntent now i r) = applyOne now i r"
  "sendCommand (fst (applyIntent now i r)) = pendingCommand (applyOne now i r)"
  by (simp_all add: applyIntent_def Let_def)

section \<open>Commands\<close>

lemma onCommandSent_desired [simp]:
  "mDesired (onOff (mState (onCommandSent c r))) = mDesired (onOff (mState r))"
  "mDesired (mode (mState (onCommandSent c r))) = mDesired (mode (mState r))"
  "mDesired (heatSetpoint (mState (onCommandSent c r))) = mDesired (heatSetpoint (mState r))"
  "mDesired (coolSetpoint (mState (onCommandSent c r))) = mDesired (coolSetpoint (mState r))"
  "mDesired (autoSetpoint (mState (onCommandSent c r))) = mDesired (autoSetpoint (mState r))"
  "mDesired (fan (mState (onCommandSent c r))) = mDesired (fan (mState r))"
  by (simp_all add: onCommandSent_def promoteSetpoint_def Let_def split: OperationalMode.splits)

lemma onCommandSent_fields [simp]:
  "mConfig (onCommandSent c r) = mConfig r"
  "mLastSentCommand (onCommandSent c r) = Some c"
  "mLastDeviceObserved (onCommandSent c r) = mLastDeviceObserved r"
  "onOff (mState (onCommandSent c r)) = promoteDesiredToInFlight (onOff (mState r))"
  "mode (mState (onCommandSent c r)) = promoteDesiredToInFlight (mode (mState r))"
  "fan (mState (onCommandSent c r)) = promoteDesiredToInFlight (fan (mState r))"
  "fanPercentSetting (mState (onCommandSent c r)) = fanPercentSetting (mState r)"
  by (simp_all add: onCommandSent_def promoteSetpoint_def Let_def split: OperationalMode.splits)

lemma onCommandSent_setpoints:
  "coolSetpoint (mState (onCommandSent c r)) =
     (if mDesired (mode (mState r)) = OperationalMode.Cool
      then promoteDesiredToInFlight (coolSetpoint (mState r)) else coolSetpoint (mState r))"
  "heatSetpoint (mState (onCommandSent c r)) =
     (if mDesired (mode (mState r)) = OperationalMode.Heat
      then promoteDesiredToInFlight (heatSetpoint (mState r)) else heatSetpoint (mState r))"
  "autoSetpoint (mState (onCommandSent c r)) =
     (if mDesired (mode (mState r)) = OperationalMode.Auto
      then promoteDesiredToInFlight (autoSetpoint (mState r)) else autoSetpoint (mState r))"
  by (simp_all add: onCommandSent_def promoteSetpoint_def Let_def split: OperationalMode.splits)

lemma desiredCommand_cong:
  assumes "mDesired (onOff s) = mDesired (onOff t)" "mDesired (mode s) = mDesired (mode t)"
    "mDesired (heatSetpoint s) = mDesired (heatSetpoint t)"
    "mDesired (coolSetpoint s) = mDesired (coolSetpoint t)"
    "mDesired (autoSetpoint s) = mDesired (autoSetpoint t)"
    "mDesired (fan s) = mDesired (fan t)"
  shows "desiredCommand s = desiredCommand t"
  using assms by (simp add: desiredCommand_def split: OperationalMode.splits)

lemma desiredCommand_fields [simp]:
  "cmd_onOff (desiredCommand s) = mDesired (onOff s)"
  "cmd_operatingMode (desiredCommand s) = operationalModeToS21OperatingMode (mDesired (mode s))"
  "cmd_fanMode (desiredCommand s) = fanSpeedToS21FanMode (mDesired (fan s))"
  "cmd_setpointCelsius (desiredCommand s) = mDesired (activeSetpoint s (mDesired (mode s)))"
  by (simp_all add: desiredCommand_def activeSetpoint_def split: OperationalMode.splits)

lemma pendingCommand_Some_iff:
  "pendingCommand r = Some c \<longleftrightarrow>
     anyDirty (mState r) \<and> c = desiredCommand (mState r) \<and> mLastSentCommand r \<noteq> Some c"
  by (auto simp: pendingCommand_def Let_def)

lemma pendingCommand_None_iff:
  "pendingCommand r = None \<longleftrightarrow>
     \<not> anyDirty (mState r) \<or> mLastSentCommand r = Some (desiredCommand (mState r))"
  by (auto simp: pendingCommand_def Let_def)

lemma pendingCommand_after_sent:
  "desiredCommand (mState r) = c \<Longrightarrow> pendingCommand (onCommandSent c r) = None"
  unfolding pendingCommand_None_iff by (auto intro!: desiredCommand_cong)

section \<open>Polls that repeat what is already observed\<close>

definition repeatsObserved :: "S21OperationalObservation \<Rightarrow> Reconciler \<Rightarrow> bool" where
  "repeatsObserved obs r =
     (obs_onOff obs = mObserved (onOff (mState r))
      \<and> s21OperatingModeToOperationalMode (obs_operatingMode obs) = mObserved (mode (mState r))
      \<and> obs_setpointCelsius obs
          = mObserved (activeSetpoint (mState r) (mObserved (mode (mState r))))
      \<and> s21FanModeToSpeedSetting (obs_fanMode obs) = mObserved (fan (mState r)))"

text \<open>
  A poll that shows what a command asked for. A unit in Auto may name the side it is working on, which is the same
  operational mode.
\<close>

definition echoesCommand :: "S21OperationalObservation \<Rightarrow> S21OperationCommand \<Rightarrow> bool" where
  "echoesCommand obs cmd =
     (obs_onOff obs = cmd_onOff cmd
      \<and> s21OperatingModeToOperationalMode (obs_operatingMode obs)
          = s21OperatingModeToOperationalMode (cmd_operatingMode cmd)
      \<and> obs_setpointCelsius obs = cmd_setpointCelsius cmd \<and> obs_fanMode obs = cmd_fanMode cmd)"

definition pollAll :: "(millis \<times> S21OperationalObservation) list \<Rightarrow> Reconciler \<Rightarrow> Reconciler" where
  "pollAll = fold (\<lambda>(t, obs) r. snd (applyOperationalObservation t obs r))"

definition allSent :: "Reconciler \<Rightarrow> bool" where
  "allSent r =
     (let s = mState r in
      \<not> dirty (onOff s) \<and> \<not> dirty (mode s) \<and> \<not> dirty (fan s)
      \<and> (mDesired (mode s) \<in> {OperationalMode.Cool, OperationalMode.Heat, OperationalMode.Auto}
          \<longrightarrow> \<not> dirty (activeSetpoint s (mDesired (mode s)))))"

lemma sent_twin_stale [simp]:
  "\<not> dirty t \<Longrightarrow> \<not> dirty (applyObservation (mObserved t) src t)"
  "mDesired (applyObservation (mObserved t) src t) = mDesired t"
  by (auto simp: dirty_iff twin_observe split: option.splits)

lemma sent_twin_settles:
  "\<not> dirty t \<Longrightarrow> v = mDesired t \<Longrightarrow> twin_phase (applyObservation v src t) = Settled v"
  by (auto simp: dirty_iff twin_observe twin_phase_def split: option.splits)

lemma sent_twin_keeps_desired:
  "\<not> dirty t \<Longrightarrow> mDesired (applyObservation (mDesired t) src t) = mDesired t"
  by (simp add: twin_observe)

lemma stale_poll_desired:
  assumes "repeatsObserved obs r"
  shows "desiredCommand (mState (observed now obs r)) = desiredCommand (mState r)"
proof (rule desiredCommand_cong)
  show "mDesired (heatSetpoint (mState (observed now obs r))) = mDesired (heatSetpoint (mState r))"
    "mDesired (coolSetpoint (mState (observed now obs r))) = mDesired (coolSetpoint (mState r))"
    "mDesired (autoSetpoint (mState (observed now obs r))) = mDesired (autoSetpoint (mState r))"
    using assms by (cases "mObserved (mode (mState r))";
        simp add: repeatsObserved_def activeSetpoint_def)+
qed (use assms in \<open>simp_all add: repeatsObserved_def\<close>)

lemma stale_poll_observed:
  assumes "repeatsObserved obs r"
  shows "repeatsObserved o' (observed now obs r) = repeatsObserved o' r"
  using assms by (cases "mObserved (mode (mState r))")
    (simp_all add: repeatsObserved_def activeSetpoint_def)

lemma stale_poll_allSent:
  assumes "repeatsObserved obs r" and "allSent r"
  shows "allSent (observed now obs r)"
  using assms by (cases "mDesired (mode (mState r))")
    (auto simp: repeatsObserved_def allSent_def activeSetpoint_def Let_def)

lemma stale_polls_keep_command:
  assumes "\<forall>(t, obs) \<in> set polls. repeatsObserved obs r" and "allSent r"
    and "mLastSentCommand r = Some cmd" and "desiredCommand (mState r) = cmd"
  shows "allSent (pollAll polls r) \<and> mLastSentCommand (pollAll polls r) = Some cmd
    \<and> desiredCommand (mState (pollAll polls r)) = cmd
    \<and> mDesired (mode (mState (pollAll polls r))) = mDesired (mode (mState r))
    \<and> mDesired (fan (mState (pollAll polls r))) = mDesired (fan (mState r))"
  using assms
proof (induction polls arbitrary: r)
  case Nil
  then show ?case by (simp add: pollAll_def)
next
  case (Cons p polls)
  obtain t obs where p: "p = (t, obs)" by fastforce
  let ?r = "observed t obs r"
  have stale: "repeatsObserved obs r" using Cons.prems(1) by (simp add: p)
  have "mDesired (mode (mState ?r)) = mDesired (mode (mState r))"
      "mDesired (fan (mState ?r)) = mDesired (fan (mState r))"
    using stale by (simp_all add: repeatsObserved_def)
  then show ?case
    using Cons.IH [of ?r] Cons.prems stale
    by (simp add: pollAll_def p applyOperationalObservation_eq stale_poll_observed
        stale_poll_allSent stale_poll_desired)
qed

lemma allSent_after_sent: "allSent (onCommandSent cmd r)"
  by (cases "mDesired (mode (mState r))")
     (simp_all add: allSent_def activeSetpoint_def onCommandSent_setpoints dirty_iff)

lemma desiredCommand_after_sent: "desiredCommand (mState (onCommandSent cmd r)) = desiredCommand (mState r)"
  by (rule desiredCommand_cong) simp_all

definition keepsDesired :: "LogicalACState \<Rightarrow> LogicalACState \<Rightarrow> bool" where
  "keepsDesired s s' =
     (mDesired (onOff s') = mDesired (onOff s) \<and> mDesired (mode s') = mDesired (mode s)
      \<and> mDesired (heatSetpoint s') = mDesired (heatSetpoint s) \<and> mDesired (coolSetpoint s') = mDesired (coolSetpoint s)
      \<and> mDesired (autoSetpoint s') = mDesired (autoSetpoint s) \<and> mDesired (fan s') = mDesired (fan s))"

lemma keepsDesired_command: "keepsDesired s s' \<Longrightarrow> desiredCommand s' = desiredCommand s"
  unfolding keepsDesired_def by (rule desiredCommand_cong) simp_all

lemma echo_observation:
  assumes cmd: "desiredCommand (mState r) = cmd" and fan: "pred_option named_FanLevel (mDesired (fan (mState r)))"
    and echo: "echoesCommand obs cmd"
  shows "obs_onOff obs = mDesired (onOff (mState r))"
    and "s21OperatingModeToOperationalMode (obs_operatingMode obs) = mDesired (mode (mState r))"
    and "obs_setpointCelsius obs = mDesired (activeSetpoint (mState r) (mDesired (mode (mState r))))"
    and "s21FanModeToSpeedSetting (obs_fanMode obs) = mDesired (fan (mState r))"
  using echo fan by (simp_all add: echoesCommand_def cmd [symmetric])

lemma echo_keeps_desired:
  assumes sent: "allSent r" and cmd: "desiredCommand (mState r) = cmd"
    and fan: "pred_option named_FanLevel (mDesired (fan (mState r)))"
    and echo: "echoesCommand obs cmd"
  shows "keepsDesired (mState r) (mState (observed now obs r))"
proof -
  note o = echo_observation [OF cmd fan echo]
  have "mDesired (applyObservation (mDesired (mode (mState r))) Device (mode (mState r))) = mDesired (mode (mState r))"
    using sent by (simp add: allSent_def sent_twin_keeps_desired Let_def)
  then show ?thesis
    using sent by (cases "mDesired (mode (mState r))")
      (simp_all add: keepsDesired_def o allSent_def activeSetpoint_def sent_twin_keeps_desired Let_def)
qed

lemma echo_settles:
  assumes sent: "allSent r" and cmd: "desiredCommand (mState r) = cmd"
    and fan: "pred_option named_FanLevel (mDesired (fan (mState r)))"
    and echo: "echoesCommand obs cmd"
  shows "let s = mState (observed now obs r); m = mDesired (mode (mState r))
         in twin_phase (onOff s) = Settled (cmd_onOff cmd) \<and> twin_phase (mode s) = Settled m
          \<and> twin_phase (fan s) = Settled (mDesired (fan (mState r)))
          \<and> (m \<in> {OperationalMode.Cool, OperationalMode.Heat, OperationalMode.Auto} \<longrightarrow>
               twin_phase (activeSetpoint s m) = Settled (cmd_setpointCelsius cmd))"
    and "desiredCommand (mState (observed now obs r)) = cmd"
proof -
  let ?m = "mDesired (mode (mState r))"
  note o = echo_observation [OF cmd fan echo]
  show "let s = mState (observed now obs r); m = ?m
         in twin_phase (onOff s) = Settled (cmd_onOff cmd) \<and> twin_phase (mode s) = Settled m
          \<and> twin_phase (fan s) = Settled (mDesired (fan (mState r)))
          \<and> (m \<in> {OperationalMode.Cool, OperationalMode.Heat, OperationalMode.Auto} \<longrightarrow>
               twin_phase (activeSetpoint s m) = Settled (cmd_setpointCelsius cmd))"
    using sent by (cases ?m)
      (simp_all add: o allSent_def activeSetpoint_def sent_twin_settles cmd [symmetric] Let_def)
  show "desiredCommand (mState (observed now obs r)) = cmd"
    using keepsDesired_command [OF echo_keeps_desired [OF assms]] cmd by simp
qed

section \<open>Properties\<close>

text \<open>
  C2. No duplicate command. The command the reconciler proposes carries exactly the desired
  values of every twin, and once it has been handed to the link it is not proposed again.
\<close>

theorem sent_command_not_repeated:
  assumes "pendingCommand r = Some cmd"
  shows "cmd_onOff cmd = mDesired (onOff (mState r))
    \<and> cmd_operatingMode cmd = operationalModeToS21OperatingMode (mDesired (mode (mState r)))
    \<and> cmd_setpointCelsius cmd
        = mDesired (activeSetpoint (mState r) (mDesired (mode (mState r))))
    \<and> cmd_fanMode cmd = fanSpeedToS21FanMode (mDesired (fan (mState r)))
    \<and> pendingCommand (onCommandSent cmd r) = None"
  using assms by (simp add: pendingCommand_Some_iff pendingCommand_after_sent)

definition booted :: Reconciler where
  "booted = Reconciler_new (LogicalACState_new LogicalACStateDefaults_default) ReconcilerConfig_default"

lemma booted_eval [simp]:
  "onOff (mState booted) = TwinField_new False"
  "mode (mState booted) = TwinField_new OperationalMode.Auto"
  "heatSetpoint (mState booted) = TwinField_new 2000"
  "coolSetpoint (mState booted) = TwinField_new 2500"
  "autoSetpoint (mState booted) = TwinField_new 2200"
  "fan (mState booted) = TwinField_new None" "fanPercentSetting (mState booted) = None"
  "mConfig booted = ReconcilerConfig_default" "mLastSentCommand booted = None"
  "at_onOff (mLastDeviceObserved booted) = 0" "at_mode (mLastDeviceObserved booted) = 0"
  "at_heatSetpoint (mLastDeviceObserved booted) = 0"
  "at_coolSetpoint (mLastDeviceObserved booted) = 0"
  "at_autoSetpoint (mLastDeviceObserved booted) = 0" "at_fan (mLastDeviceObserved booted) = 0"
  by (simp_all add: booted_def Reconciler_new_def LogicalACState_new_def
        LogicalACStateDefaults_default_def)

lemma dirty_eval [simp]:
  "\<not> dirty (TwinField_new v)" "\<not> dirty (promoteDesiredToInFlight t)"
  "dirty (setDesired v t) = (v \<noteq> (case mInFlight t of None \<Rightarrow> mObserved t | Some f \<Rightarrow> f))"
  by (simp_all add: dirty_iff split: option.split)

definition poweredOnByIntent :: Reconciler where
  "poweredOnByIntent = applyOne 5 (SetOnOffIntent True) booted"

lemma poweredOnByIntent_pending:
  "pendingCommand poweredOnByIntent = Some (desiredCommand (mState poweredOnByIntent))"
  by (simp add: poweredOnByIntent_def apply_SetOnOffIntent_def intentPassesGuard_def
        pendingCommand_Some_iff anyDirty_def)

theorem sent_command_not_repeated_witness:
  "cmd_onOff (desiredCommand (mState poweredOnByIntent)) = mDesired (onOff (mState poweredOnByIntent))
   \<and> pendingCommand (onCommandSent (desiredCommand (mState poweredOnByIntent)) poweredOnByIntent) = None"
  using sent_command_not_repeated [OF poweredOnByIntent_pending] by blast

lemma stale_poll_keeps_pending:
  assumes "pendingCommand r = Some cmd"
    and "mInFlight (onOff (mState r)) = None" "mInFlight (mode (mState r)) = None"
    and "mInFlight (fan (mState r)) = None"
    and "mInFlight (activeSetpoint (mState r) (mObserved (mode (mState r)))) = None"
    and "repeatsObserved obs r"
  shows "pendingCommand (observed now obs r) = Some cmd"
proof -
  have d: "dirty (applyObservation v Device t) = dirty t"
    if "mInFlight t = None" "mObserved t = v" for t :: "'x TwinField" and v
    using that by (simp add: dirty_iff twin_observe)
  have "anyDirty (mState (observed now obs r)) = anyDirty (mState r)"
    using assms(2-) by (cases "mObserved (mode (mState r))")
      (simp_all add: anyDirty_def repeatsObserved_def activeSetpoint_def d)
  then show ?thesis
    using assms(1) stale_poll_desired [OF assms(6), of now] by (auto simp: pendingCommand_Some_iff)
qed

lemma onCommandFailed_frame [simp]:
  "mState (onCommandFailed r) = mState r" "mLastSentCommand (onCommandFailed r) = None"
  "onCommandFailed (onCommandFailed r) = onCommandFailed r"
  by (simp_all add: onCommandFailed_def)

lemma pendingCommand_failed: "pendingCommand r = Some cmd \<Longrightarrow> pendingCommand (onCommandFailed r) = Some cmd"
  by (auto simp: pendingCommand_Some_iff)

text \<open>
  Retry after failure. A failed transmission leaves every twin as it was and forgets the
  last command, so when nothing is awaited and there is unsent intent, an operational poll
  that repeats what is already observed proposes the same command again.
\<close>

theorem failed_command_is_retried:
  assumes "pendingCommand r = Some cmd"
    and "mInFlight (onOff (mState r)) = None" "mInFlight (mode (mState r)) = None"
    and "mInFlight (fan (mState r)) = None"
    and "mInFlight (activeSetpoint (mState r) (mObserved (mode (mState r)))) = None"
    and "repeatsObserved obs r"
  shows "mState (onCommandFailed r) = mState r
    \<and> sendCommand (fst (applyOperationalObservation now obs (onCommandFailed r))) = Some cmd"
proof -
  have "repeatsObserved obs (onCommandFailed r)" using assms(6) by (simp add: repeatsObserved_def)
  with stale_poll_keeps_pending [OF pendingCommand_failed [OF assms(1)], of obs now] assms(2-5)
  show ?thesis by (simp add: applyOperationalObservation_eq)
qed

theorem failed_command_is_retried_witness:
  "mState (onCommandFailed poweredOnByIntent) = mState poweredOnByIntent
   \<and> sendCommand (fst (applyOperationalObservation 20
         \<lparr>obs_onOff = False, obs_operatingMode = OperatingMode.Auto, obs_setpointCelsius = 2200,
          obs_fanMode = FanMode.Auto, obs_refrigerantValveOpen = None\<rparr>
         (onCommandFailed poweredOnByIntent)))
     = Some (desiredCommand (mState poweredOnByIntent))"
  by (rule failed_command_is_retried [OF poweredOnByIntent_pending])
     (simp_all add: repeatsObserved_def poweredOnByIntent_def apply_SetOnOffIntent_def intentPassesGuard_def
        activeSetpoint_def s21OperatingModeToOperationalMode_def s21FanModeToSpeedSetting_def)

text \<open>
  C14. The life of a command. The command the bridge works towards is handed to the link, any
  number of polls arrive that still report the old device state, and then the device
  reports exactly that power, mode, setpoint and fan. After every one of the stale polls
  nothing further is proposed; after the echo power, mode and fan, and the setpoint of a
  mode that has one, agree between observed and desired with nothing in flight, and no
  further command is proposed.
\<close>

theorem echoed_command_settles:
  assumes fan: "pred_option named_FanLevel (mDesired (fan (mState r)))"
    and cmd: "cmd = desiredCommand (mState r)"
    and stale: "\<forall>(t, o') \<in> set polls. repeatsObserved o' (onCommandSent cmd r)"
    and echo: "echoesCommand obs cmd"
  shows "let waiting = pollAll polls (onCommandSent cmd r);
             r' = snd (applyOperationalObservation now obs waiting);
             s = mState r'; m = mDesired (mode (mState r))
         in pendingCommand waiting = None
          \<and> twin_phase (onOff s) = Settled (cmd_onOff cmd)
          \<and> twin_phase (mode s) = Settled m
          \<and> twin_phase (fan s) = Settled (mDesired (fan (mState r)))
          \<and> (m \<in> {OperationalMode.Cool, OperationalMode.Heat, OperationalMode.Auto} \<longrightarrow>
               twin_phase (activeSetpoint s m) = Settled (cmd_setpointCelsius cmd))
          \<and> pendingCommand r' = None"
proof -
  let ?w = "pollAll polls (onCommandSent cmd r)"
  have w: "allSent ?w \<and> mLastSentCommand ?w = Some cmd \<and> desiredCommand (mState ?w) = cmd
      \<and> mDesired (mode (mState ?w)) = mDesired (mode (mState r))
      \<and> mDesired (fan (mState ?w)) = mDesired (fan (mState r))"
    using stale_polls_keep_command [OF stale allSent_after_sent, of cmd]
    by (simp add: cmd desiredCommand_after_sent)
  then have "pendingCommand ?w = None" "pendingCommand (observed now obs ?w) = None"
    using echo_settles(2) [of ?w cmd obs now] fan echo
    by (simp_all add: pendingCommand_None_iff)
  with w show ?thesis
    using echo_settles(1) [of ?w cmd obs now] fan echo
    by (simp add: applyOperationalObservation_eq Let_def)
qed

theorem echoed_command_settles_witness:
  "let cmd = desiredCommand (mState poweredOnByIntent);
       old = \<lparr>obs_onOff = False, obs_operatingMode = OperatingMode.Auto, obs_setpointCelsius = 2200,
              obs_fanMode = FanMode.Auto, obs_refrigerantValveOpen = None\<rparr>;
       r' = snd (applyOperationalObservation 9 (old\<lparr>obs_onOff := True\<rparr>)
              (pollAll [(7, old), (8, old)] (onCommandSent cmd poweredOnByIntent)))
   in twin_phase (onOff (mState r')) = Settled True \<and> pendingCommand r' = None"
proof -
  let ?r = poweredOnByIntent
  let ?cmd = "desiredCommand (mState ?r)"
  let ?old = "\<lparr>obs_onOff = False, obs_operatingMode = OperatingMode.Auto, obs_setpointCelsius = 2200,
               obs_fanMode = FanMode.Auto, obs_refrigerantValveOpen = None\<rparr>"
  have st: "onOff (mState ?r) = setDesired True (TwinField_new False)"
    "mode (mState ?r) = TwinField_new OperationalMode.Auto" "fan (mState ?r) = TwinField_new None"
    "autoSetpoint (mState ?r) = TwinField_new 2200"
    by (simp_all add: poweredOnByIntent_def apply_SetOnOffIntent_def intentPassesGuard_def)
  have "pred_option named_FanLevel (mDesired (fan (mState ?r)))" by (simp add: st)
  moreover have "\<forall>(t, o') \<in> set [(7, ?old), (8, ?old)]. repeatsObserved o' (onCommandSent ?cmd ?r)"
    by (simp add: repeatsObserved_def st activeSetpoint_def onCommandSent_setpoints
        s21OperatingModeToOperationalMode_def s21FanModeToSpeedSetting_def)
  moreover have "echoesCommand (?old\<lparr>obs_onOff := True\<rparr>) ?cmd"
    by (simp add: echoesCommand_def st activeSetpoint_def operationalModeToS21OperatingMode_def
        fanSpeedToS21FanMode_def)
  ultimately show ?thesis
    using echoed_command_settles [of ?r ?cmd "[(7, ?old), (8, ?old)]" "?old\<lparr>obs_onOff := True\<rparr>" 9]
    by (simp add: Let_def st)
qed

lemma observed_setpoint_times:
  "s21OperatingModeToOperationalMode (obs_operatingMode obs) = OperationalMode.Cool \<Longrightarrow>
     at_coolSetpoint (mLastDeviceObserved (observed now obs r)) = now"
  "s21OperatingModeToOperationalMode (obs_operatingMode obs) = OperationalMode.Heat \<Longrightarrow>
     at_heatSetpoint (mLastDeviceObserved (observed now obs r)) = now"
  "s21OperatingModeToOperationalMode (obs_operatingMode obs) = OperationalMode.Auto \<Longrightarrow>
     at_autoSetpoint (mLastDeviceObserved (observed now obs r)) = now"
  by (simp_all add: observed_def observeSensors_def observeTwins_def observeSetpoint_def Let_def)

text \<open>An intent that leaves the reconciler as it is and reports no attribute.\<close>

definition dropped :: "millis \<Rightarrow> WriteIntent \<Rightarrow> Reconciler \<Rightarrow> bool" where
  "dropped now i r = (snd (applyIntent now i r) = r \<and> dirtyAttributes (fst (applyIntent now i r)) = [])"

lemma dropped_iff: "dropped now i r \<longleftrightarrow> applyOne now i r = r"
  by (auto simp: dropped_def applyIntent_def Let_def)

text \<open>The centre an edge written in Auto asks for: the middle between it and the other edge as it is projected.\<close>

definition centreForHeatingEdge :: "i16 \<Rightarrow> Reconciler \<Rightarrow> i16" where
  "centreForHeatingEdge v r = to_i16 ((sint (to_i16 (sint (mDesired (autoSetpoint (mState r)))
     + sint (autoBandHalfWidthCentiC (projectorConfig (mConfig r)))) :: i16) + sint v) sdiv 2)"

definition centreForCoolingEdge :: "i16 \<Rightarrow> Reconciler \<Rightarrow> i16" where
  "centreForCoolingEdge v r = to_i16 ((sint v + sint (to_i16 (sint (mDesired (autoSetpoint (mState r)))
     - sint (autoBandHalfWidthCentiC (projectorConfig (mConfig r)))) :: i16)) sdiv 2)"

definition guardClosed :: "millis \<Rightarrow> Reconciler \<Rightarrow> bool" where
  "guardClosed now r = (\<not> intentPassesGuard now r (at_onOff (mLastDeviceObserved r)) True
     \<and> \<not> intentPassesGuard now r (at_mode (mLastDeviceObserved r)) True
     \<and> \<not> intentPassesGuard now r (at_fan (mLastDeviceObserved r)) True)"

lemma intentPassesGuard_agreed [simp]: "intentPassesGuard now r u False"
  by (simp add: intentPassesGuard_def)

lemma intentPassesGuard_frame [simp]: "intentPassesGuard now (mState_update u r) t b = intentPassesGuard now r t b"
  by (simp add: intentPassesGuard_def)

lemma guard_closed_cases:
  assumes "guardClosed now r"
  shows "intentPassesGuard now r (at_onOff (mLastDeviceObserved r)) b = (\<not> b)"
    "intentPassesGuard now r (at_mode (mLastDeviceObserved r)) b = (\<not> b)"
    "intentPassesGuard now r (at_fan (mLastDeviceObserved r)) b = (\<not> b)"
  using assms by (cases b; simp add: guardClosed_def)+

lemma guard_closed_drops:
  assumes "guardClosed now r"
  shows "pwr \<noteq> mObserved (onOff (mState r)) \<Longrightarrow> dropped now (SetOnOffIntent pwr) r"
    and "f \<noteq> mObserved (fan (mState r)) \<Longrightarrow> dropped now (SetSpeedSettingIntent f) r"
    and "Some (percentToSpeedLevel p) \<noteq> mObserved (fan (mState r)) \<Longrightarrow> dropped now (SetPercentSettingIntent (Some p)) r"
  using guard_closed_cases [OF assms]
  by (simp_all add: dropped_iff apply_SetOnOffIntent_def apply_SetSpeedSettingIntent_def apply_SetPercentSettingIntent_def)

lemma guard_closed_system_mode:
  assumes "guardClosed now r"
  shows "pwr \<noteq> mObserved (onOff (mState r)) \<Longrightarrow>
      onOff (mState (applyOne now (SetSystemModeIntent pwr m) r)) = onOff (mState r)"
    and "m \<noteq> mObserved (mode (mState r)) \<Longrightarrow>
      mode (mState (applyOne now (SetSystemModeIntent pwr m) r)) = mode (mState r)"
    and "pwr \<noteq> mObserved (onOff (mState r)) \<and> (pwr \<longrightarrow> m \<noteq> mObserved (mode (mState r))) \<Longrightarrow>
      dropped now (SetSystemModeIntent pwr m) r"
  using guard_closed_cases [OF assms] by (auto simp: dropped_iff apply_SetSystemModeIntent_def Let_def)

lemma guard_closed_fan_power:
  assumes "guardClosed now r"
  shows "onOff (mState (applyOne now (SetSpeedSettingIntent f) r)) = onOff (mState r)"
    and "onOff (mState (applyOne now (SetPercentSettingIntent q) r)) = onOff (mState r)"
  using guard_closed_cases [OF assms]
  by (simp_all add: apply_SetSpeedSettingIntent_def apply_SetPercentSettingIntent_def powerOnForFanWrite_def Let_def split: option.split)

lemma guard_closed_drops_setpoints:
  assumes "\<not> intentPassesGuard now r (at_coolSetpoint (mLastDeviceObserved r)) True"
  shows "mObserved (mode (mState r)) = OperationalMode.Cool \<Longrightarrow> v \<noteq> mObserved (coolSetpoint (mState r)) \<Longrightarrow>
      dropped now (SetOccupiedCoolingSetpointIntent v) r"
  using assms by (simp add: dropped_iff apply_SetOccupiedCoolingSetpointIntent_def)

lemma guard_closed_drops_heating:
  assumes "\<not> intentPassesGuard now r (at_heatSetpoint (mLastDeviceObserved r)) True"
  shows "mObserved (mode (mState r)) = OperationalMode.Heat \<Longrightarrow> v \<noteq> mObserved (heatSetpoint (mState r)) \<Longrightarrow>
      dropped now (SetOccupiedHeatingSetpointIntent v) r"
  using assms by (simp add: dropped_iff apply_SetOccupiedHeatingSetpointIntent_def)

lemma guard_closed_drops_edges:
  assumes "\<not> intentPassesGuard now r (at_autoSetpoint (mLastDeviceObserved r)) True"
    and "mObserved (mode (mState r)) = OperationalMode.Auto"
  shows "centreForHeatingEdge v r \<noteq> mObserved (autoSetpoint (mState r)) \<Longrightarrow> dropped now (SetOccupiedHeatingSetpointIntent v) r"
    and "centreForCoolingEdge v r \<noteq> mObserved (autoSetpoint (mState r)) \<Longrightarrow> dropped now (SetOccupiedCoolingSetpointIntent v) r"
  using assms by (simp_all add: dropped_iff apply_SetOccupiedHeatingSetpointIntent_def apply_SetOccupiedCoolingSetpointIntent_def
      centreForHeatingEdge_def centreForCoolingEdge_def Let_def)

text \<open>
  C15. Device wins inside the guard window. Take any operational poll at time \<open>t\<close> and any intent less than the window later.
  A power, fan-speed or fan-percent intent, a setpoint of the reported mode, and in Auto an edge of the band whose new centre
  disagrees with what the poll reported, are dropped: nothing changes and no attribute is reported. A mode selection
  leaves each of power and mode alone that it disagrees on, and is dropped when it disagrees on all it sets. A fan write
  does not switch the unit on or off, whether it agrees on the fan or not. Setpoints of a mode the unit is not in are not guarded.
\<close>

theorem guard_window_device_wins:
  fixes r0 :: Reconciler and obs :: S21OperationalObservation and t :: millis
  defines "r \<equiv> snd (applyOperationalObservation t obs r0)"
    and "om \<equiv> s21OperatingModeToOperationalMode (obs_operatingMode obs)"
  assumes t: "t \<noteq> 0" "now - t < deviceWinsWindowMs (mConfig r0)"
  shows "(pwr \<noteq> obs_onOff obs \<longrightarrow> dropped now (SetOnOffIntent pwr) r)
    \<and> (f \<noteq> s21FanModeToSpeedSetting (obs_fanMode obs) \<longrightarrow> dropped now (SetSpeedSettingIntent f) r)
    \<and> (Some (percentToSpeedLevel p) \<noteq> s21FanModeToSpeedSetting (obs_fanMode obs) \<longrightarrow>
          dropped now (SetPercentSettingIntent (Some p)) r)
    \<and> (om = OperationalMode.Cool \<and> v \<noteq> obs_setpointCelsius obs \<longrightarrow> dropped now (SetOccupiedCoolingSetpointIntent v) r)
    \<and> (om = OperationalMode.Heat \<and> v \<noteq> obs_setpointCelsius obs \<longrightarrow> dropped now (SetOccupiedHeatingSetpointIntent v) r)
    \<and> (om = OperationalMode.Auto \<and> centreForHeatingEdge v r \<noteq> obs_setpointCelsius obs \<longrightarrow>
          dropped now (SetOccupiedHeatingSetpointIntent v) r)
    \<and> (om = OperationalMode.Auto \<and> centreForCoolingEdge v r \<noteq> obs_setpointCelsius obs \<longrightarrow>
          dropped now (SetOccupiedCoolingSetpointIntent v) r)
    \<and> (pwr \<noteq> obs_onOff obs \<longrightarrow>
          onOff (mState (snd (applyIntent now (SetSystemModeIntent pwr m) r))) = onOff (mState r))
    \<and> (m \<noteq> om \<longrightarrow> mode (mState (snd (applyIntent now (SetSystemModeIntent pwr m) r))) = mode (mState r))
    \<and> (pwr \<noteq> obs_onOff obs \<and> (pwr \<longrightarrow> m \<noteq> om) \<longrightarrow> dropped now (SetSystemModeIntent pwr m) r)
    \<and> onOff (mState (snd (applyIntent now (SetSpeedSettingIntent f) r))) = onOff (mState r)
    \<and> onOff (mState (snd (applyIntent now (SetPercentSettingIntent q) r))) = onOff (mState r)"
proof -
  have r: "r = observed t obs r0" by (simp add: r_def applyOperationalObservation_eq)
  have closed: "\<not> intentPassesGuard now r t True" using t by (simp add: intentPassesGuard_def r)
  have times: "at_onOff (mLastDeviceObserved r) = t" "at_mode (mLastDeviceObserved r) = t" "at_fan (mLastDeviceObserved r) = t"
    by (simp_all add: r)
  have obs: "mObserved (onOff (mState r)) = obs_onOff obs" "mObserved (mode (mState r)) = om"
      "mObserved (fan (mState r)) = s21FanModeToSpeedSetting (obs_fanMode obs)"
    by (simp_all add: r om_def)
  have all: "guardClosed now r" using closed times by (simp add: guardClosed_def)
  have cool: "dropped now (SetOccupiedCoolingSetpointIntent v) r"
    if "om = OperationalMode.Cool" "v \<noteq> obs_setpointCelsius obs"
    using that closed guard_closed_drops_setpoints [of now r v] obs(2) by (simp add: r om_def observed_setpoint_times)
  have heat: "dropped now (SetOccupiedHeatingSetpointIntent v) r"
    if "om = OperationalMode.Heat" "v \<noteq> obs_setpointCelsius obs"
    using that closed guard_closed_drops_heating [of now r v] obs(2) by (simp add: r om_def observed_setpoint_times)
  have edges: "centreForHeatingEdge v r \<noteq> obs_setpointCelsius obs \<Longrightarrow> dropped now (SetOccupiedHeatingSetpointIntent v) r"
      "centreForCoolingEdge v r \<noteq> obs_setpointCelsius obs \<Longrightarrow> dropped now (SetOccupiedCoolingSetpointIntent v) r"
    if "om = OperationalMode.Auto"
    using that closed guard_closed_drops_edges [of now r v] obs(2) by (simp_all add: r om_def observed_setpoint_times)
  show ?thesis
    unfolding applyIntent_eq
    by (intro conjI impI guard_closed_fan_power [OF all];
        (rule guard_closed_system_mode(3) [OF all, unfolded obs], assumption)?; (elim conjE)?;
        (rule guard_closed_drops [OF all, unfolded obs] guard_closed_system_mode(1,2) [OF all, unfolded obs] cool heat edges;
         assumption)?)
qed

theorem guard_window_device_wins_witness:
  "let r = snd (applyOperationalObservation 1000
       \<lparr>obs_onOff = False, obs_operatingMode = OperatingMode.Cool, obs_setpointCelsius = 2400,
        obs_fanMode = FanMode.Auto, obs_refrigerantValveOpen = None\<rparr> booted)
   in dropped 1500 (SetOnOffIntent True) r \<and> dropped 1500 (SetSystemModeIntent True OperationalMode.Heat) r"
proof -
  have "1000 \<noteq> (0 :: millis)" "1500 - 1000 < deviceWinsWindowMs (mConfig booted)" by (simp_all add: ReconcilerConfig_default_def)
  note w = guard_window_device_wins [OF this, where pwr = True and m = OperationalMode.Heat and
      obs = "\<lparr>obs_onOff = False, obs_operatingMode = OperatingMode.Cool, obs_setpointCelsius = 2400,
        obs_fanMode = FanMode.Auto, obs_refrigerantValveOpen = None\<rparr>"]
  have "True \<noteq> obs_onOff \<lparr>obs_onOff = False, obs_operatingMode = OperatingMode.Cool, obs_setpointCelsius = 2400,
        obs_fanMode = FanMode.Auto, obs_refrigerantValveOpen = None\<rparr>"
    "OperationalMode.Heat \<noteq> s21OperatingModeToOperationalMode (obs_operatingMode \<lparr>obs_onOff = False,
        obs_operatingMode = OperatingMode.Cool, obs_setpointCelsius = 2400, obs_fanMode = FanMode.Auto,
        obs_refrigerantValveOpen = None\<rparr>)"
    by (simp_all add: s21OperatingModeToOperationalMode_def)
  with w show ?thesis unfolding Let_def by blast
qed

text \<open>
  A poll cannot revert a controller's intent. An operational observation that repeats
  the values already observed leaves every desired value, hence the command the bridge
  works towards, unchanged; in-flight values do not matter.
\<close>

theorem repeated_poll_keeps_intent:
  assumes "repeatsObserved obs r"
  shows "desiredCommand (mState (snd (applyOperationalObservation now obs r)))
           = desiredCommand (mState r)"
  unfolding applyOperationalObservation_eq using assms by (rule stale_poll_desired)

theorem repeated_poll_keeps_intent_witness:
  "desiredCommand (mState (snd (applyOperationalObservation 20
      \<lparr>obs_onOff = False, obs_operatingMode = Auto_Cooling, obs_setpointCelsius = 2200,
       obs_fanMode = FanMode.Auto, obs_refrigerantValveOpen = Some True\<rparr> poweredOnByIntent)))
   = desiredCommand (mState poweredOnByIntent)"
  by (rule repeated_poll_keeps_intent)
     (simp add: repeatsObserved_def poweredOnByIntent_def apply_SetOnOffIntent_def intentPassesGuard_def
        activeSetpoint_def s21OperatingModeToOperationalMode_def s21FanModeToSpeedSetting_def)

text \<open>
  Environmental observations are inert for control. They never change which command is
  pending, and the only attributes they can report are the two temperatures and humidity.
\<close>

theorem environmental_observation_is_inert:
  "pendingCommand (snd (applyEnvironmentalObservation obs r)) = pendingCommand r
    \<and> set (envDirtyAttributes (fst (applyEnvironmentalObservation obs r)))
        \<subseteq> {LocalTemperature, OutdoorTemperature, Humidity}"
proof -
  have same: "anyDirty ((mState r)\<lparr>indoorTemp := i, outdoorTemp := o', humidity := h\<rparr>) = anyDirty (mState r)"
     "desiredCommand ((mState r)\<lparr>indoorTemp := i, outdoorTemp := o', humidity := h\<rparr>) = desiredCommand (mState r)"
     for i o' h
    by (simp add: anyDirty_def, rule desiredCommand_cong) simp_all
  have unchanged: "\<not> attributeChanged (project cfg (mState r))
        (project cfg ((mState r)\<lparr>indoorTemp := i, outdoorTemp := o', humidity := h\<rparr>)) a"
    if "a \<notin> {LocalTemperature, OutdoorTemperature, Humidity}" for i o' h cfg a
    using that
    by (cases a) (simp_all add: project_def power_views projectedOnOff_def projectedMode_def
        projectedOccupiedHeatingSetpoint_def projectedOccupiedCoolingSetpoint_def
        projectedSetpointSource_def projectedReachable_def activeSetpoint_def
        split: OperationalMode.splits)
  have "set (envDirtyAttributes (fst (applyEnvironmentalObservation obs r)))
        \<subseteq> {LocalTemperature, OutdoorTemperature, Humidity}"
    using unchanged by (fastforce simp: applyEnvironmentalObservation_def Let_def set_diffProjections)
  moreover have "pendingCommand (snd (applyEnvironmentalObservation obs r)) = pendingCommand r"
    by (simp add: applyEnvironmentalObservation_def pendingCommand_def Let_def same)
  ultimately show ?thesis by blast
qed

end
