(* ===== verification/Time_Source.thy ===== *)
theory Time_Source
  imports Reconciler
begin

text \<open>
  The clocks behind the coordinator (\<open>sync/time_source.h\<close>, \<open>sync/monotonic_time_source.h\<close>). The interface promises a
  time that never goes back; what the reconciler relies on is that its device-wins window, once over, stays over.
  Zephyr's uptime is a parameter, the state of the production clock.
\<close>

record ManualTimeSource =
  mNow :: millis

definition ManualTimeSource_new :: "millis \<Rightarrow> ManualTimeSource" where
  "ManualTimeSource_new initial = \<lparr>mNow = initial\<rparr>"

definition ManualTimeSource_millis :: "ManualTimeSource \<Rightarrow> millis" where
  "ManualTimeSource_millis t = mNow t"

definition ManualTimeSource_advance :: "millis \<Rightarrow> ManualTimeSource \<Rightarrow> ManualTimeSource" where
  "ManualTimeSource_advance ms t = t\<lparr>mNow := mNow t + ms\<rparr>"

definition ManualTimeSource_set :: "millis \<Rightarrow> ManualTimeSource \<Rightarrow> ManualTimeSource" where
  "ManualTimeSource_set ms t = t\<lparr>mNow := ms\<rparr>"

definition MonotonicTimeSource_millis :: "('w \<Rightarrow> millis) \<Rightarrow> 'w \<Rightarrow> millis" where
  "MonotonicTimeSource_millis k_uptime_get w = k_uptime_get w"

text \<open>The interface: \<open>later\<close> is the order in which the clock's states follow each other.\<close>

locale time_source =
  fixes clock_millis :: "'s \<Rightarrow> millis"
    and later :: "'s \<Rightarrow> 's \<Rightarrow> bool"
  assumes monotonic: "later s s' \<Longrightarrow> clock_millis s \<le> clock_millis s'"
begin

lemma guard_stays_open:
  assumes "intentPassesGuard (clock_millis s) r t d" and "later s s'"
  shows "intentPassesGuard (clock_millis s') r t d"
  using assms(1) monotonic [OF assms(2)] by (auto simp: intentPassesGuard_def split: if_splits)

lemma guard_opens:
  assumes "later s s'" and "t \<le> clock_millis s" and "deviceWinsWindowMs (mConfig r) \<le> clock_millis s' - clock_millis s"
  shows "intentPassesGuard (clock_millis s') r t d"
  using assms by (auto simp: intentPassesGuard_def)

end

interpretation manual_clock: time_source ManualTimeSource_millis "\<lambda>t t'. \<exists>ms \<ge> 0. t' = ManualTimeSource_advance ms t"
  by unfold_locales (auto simp: ManualTimeSource_millis_def ManualTimeSource_advance_def)

interpretation uptime_clock: time_source "MonotonicTimeSource_millis k_uptime_get" "\<lambda>w w'. k_uptime_get w \<le> k_uptime_get w'"
  for k_uptime_get :: "'w \<Rightarrow> millis"
  by unfold_locales (simp add: MonotonicTimeSource_millis_def)

text \<open>
  On the production clock: a controller's power write that the guard lets through at one moment is let through at every later
  one, and after the window any is, until the unit is observed again.
\<close>

lemma power_write_passes_later:
  fixes k_uptime_get :: "'w \<Rightarrow> millis"
  assumes order: "k_uptime_get w \<le> k_uptime_get w'" and seen: "at_onOff (mLastDeviceObserved r) \<le> k_uptime_get w"
    and passes: "intentPassesGuard (MonotonicTimeSource_millis k_uptime_get w) r (at_onOff (mLastDeviceObserved r))
         (v \<noteq> mObserved (onOff (mState r)))
       \<or> deviceWinsWindowMs (mConfig r) \<le> k_uptime_get w' - k_uptime_get w"
  shows "apply_SetOnOffIntent (MonotonicTimeSource_millis k_uptime_get w') v r = mState_update (onOff_update (setDesired v)) r"
proof -
  from passes have "intentPassesGuard (MonotonicTimeSource_millis k_uptime_get w') r (at_onOff (mLastDeviceObserved r))
      (v \<noteq> mObserved (onOff (mState r)))"
  proof
    assume "deviceWinsWindowMs (mConfig r) \<le> k_uptime_get w' - k_uptime_get w"
    then show ?thesis
      using seen by (intro uptime_clock.guard_opens [of k_uptime_get w w', OF order]) (simp_all add: MonotonicTimeSource_millis_def)
  qed (rule uptime_clock.guard_stays_open [of k_uptime_get w _ _ _ w', OF _ order])
  then show ?thesis by (simp add: apply_SetOnOffIntent_def)
qed

end
