(* ===== verification/Shell_Text.thy ===== *)
theory Shell_Text
  imports Prelude
begin

text \<open>
  The C library's text conversions the two shells use: \<open>%u\<close>, \<open>%d\<close>, \<open>%02d\<close> and \<open>%-Ns\<close> of the
  \<open>printf\<close> family, the truncation of \<open>snprintf\<close>, and \<open>strtol\<close> in base ten with a 32-bit \<open>long\<close>
  (white space, optional sign, digits, saturation, and the rest of the text, which is the
  whole text when there are no digits). Printing and reading are inverse.
\<close>

definition digit_char :: "nat \<Rightarrow> char" where
  "digit_char n = char_of (48 + n)"

definition is_digit :: "char \<Rightarrow> bool" where
  "is_digit c = (48 \<le> (of_char c :: nat) \<and> (of_char c :: nat) \<le> 57)"

definition digit_value :: "char \<Rightarrow> nat" where
  "digit_value c = of_char c - 48"

fun show_nat :: "nat \<Rightarrow> string" where
  "show_nat n = (if n < 10 then [digit_char n] else show_nat (n div 10) @ [digit_char (n mod 10)])"

declare show_nat.simps [simp del]

definition show_int :: "int \<Rightarrow> string" where
  "show_int i = (if i < 0 then CHR ''-'' # show_nat (nat (- i)) else show_nat (nat i))"

definition zero_pad :: "nat \<Rightarrow> string \<Rightarrow> string" where
  "zero_pad w s = replicate (w - length s) CHR ''0'' @ s"

definition show_02d :: "int \<Rightarrow> string" where
  "show_02d i = (if i < 0 then CHR ''-'' # zero_pad 1 (show_nat (nat (- i))) else zero_pad 2 (show_nat (nat i)))"

definition left_justify :: "nat \<Rightarrow> string \<Rightarrow> string" where
  "left_justify w s = s @ replicate (w - length s) CHR '' ''"

definition snprintf :: "nat \<Rightarrow> string \<Rightarrow> string" where
  "snprintf n s = take (n - 1) s"

definition is_space :: "char \<Rightarrow> bool" where
  "is_space c = (c = CHR '' '' \<or> 9 \<le> (of_char c :: nat) \<and> (of_char c :: nat) \<le> 13)"

definition read_digits :: "string \<Rightarrow> nat" where
  "read_digits s = foldl (\<lambda>a c. 10 * a + digit_value c) 0 s"

definition LONG_MAX :: int where "LONG_MAX = 2147483647"

definition saturate :: "int \<Rightarrow> int" where
  "saturate i = max (- LONG_MAX - 1) (min LONG_MAX i)"

definition strtol :: "string \<Rightarrow> int \<times> string" where
  "strtol str =
     (let s = dropWhile is_space str;
          (neg, s) = (case s of c # cs \<Rightarrow> if c = CHR ''-'' then (True, cs) else if c = CHR ''+'' then (False, cs)
                                          else (False, s) | [] \<Rightarrow> (False, s));
          ds = takeWhile is_digit s
      in if ds = [] then (0, str)
         else (saturate (if neg then - int (read_digits ds) else int (read_digits ds)), dropWhile is_digit s))"

section \<open>Digits\<close>

lemma of_char_digit [simp]: "n < 10 \<Longrightarrow> (of_char (digit_char n) :: nat) = 48 + n"
  by (simp add: digit_char_def)

lemma is_digit_digit_char [simp]: "n < 10 \<Longrightarrow> is_digit (digit_char n)"
  by (simp add: is_digit_def)

lemma digit_value_digit_char [simp]: "n < 10 \<Longrightarrow> digit_value (digit_char n) = n"
  by (simp add: digit_value_def)

lemma show_nat_digits: "list_all is_digit (show_nat n)"
proof (induction n rule: show_nat.induct)
  case (1 n)
  then show ?case by (subst show_nat.simps) simp
qed

lemma show_nat_nonempty [simp]: "show_nat n \<noteq> []"
  by (subst show_nat.simps) simp

lemma read_digits_snoc: "read_digits (s @ [c]) = 10 * read_digits s + digit_value c"
  by (simp add: read_digits_def)

lemma read_show_nat [simp]: "read_digits (show_nat n) = n"
proof (induction n rule: show_nat.induct)
  case (1 n)
  then show ?case
    by (subst show_nat.simps) (auto simp: read_digits_snoc, simp add: read_digits_def)
qed

lemma read_digits_zeros: "read_digits (replicate k CHR ''0'' @ s) = read_digits s"
proof (induction k)
  case (Suc k)
  have "digit_value CHR ''0'' = 0" by (simp add: digit_value_def)
  then have "read_digits (CHR ''0'' # xs) = read_digits xs" for xs by (simp add: read_digits_def)
  with Suc show ?case by simp
qed simp

lemma length_show_nat: "n < 10 ^ Suc k \<Longrightarrow> length (show_nat n) \<le> Suc k"
proof (induction k arbitrary: n)
  case 0
  then show ?case by (subst show_nat.simps) simp
next
  case (Suc k)
  show ?case
  proof (cases "n < 10")
    case False
    have "n div 10 < 10 ^ Suc k" using Suc.prems by (simp add: div_less_iff_less_mult)
    from Suc.IH [OF this] False show ?thesis by (subst show_nat.simps) simp
  qed (subst show_nat.simps, simp)
qed

lemma digit_not_sign:
  "is_digit c \<Longrightarrow> c \<noteq> CHR ''-'' \<and> c \<noteq> CHR ''+'' \<and> \<not> is_space c"
  by (auto simp: is_digit_def is_space_def)

lemma strtol_digits:
  assumes "list_all is_digit ds" and "ds \<noteq> []" and "case rest of [] \<Rightarrow> True | c # cs \<Rightarrow> \<not> is_digit c"
  shows "strtol (ds @ rest) = (saturate (int (read_digits ds)), rest)"
    and "strtol (CHR ''-'' # ds @ rest) = (saturate (- int (read_digits ds)), rest)"
proof -
  obtain c cs where ds: "ds = c # cs" using assms(2) by (cases ds) auto
  have c: "c \<noteq> CHR ''-'' \<and> c \<noteq> CHR ''+'' \<and> \<not> is_space c"
    using assms(1) ds digit_not_sign by simp
  have all: "\<forall>x \<in> set ds. is_digit x" using assms(1) by (simp add: list_all_iff)
  have tw: "takeWhile is_digit (ds @ rest) = ds" "dropWhile is_digit (ds @ rest) = rest"
    using all assms(3) by (auto simp: takeWhile_append dropWhile_append split: list.splits)
  show "strtol (ds @ rest) = (saturate (int (read_digits ds)), rest)"
    using c tw assms(2) by (simp add: strtol_def ds)
  have "\<not> is_space CHR ''-''" by (simp add: is_space_def)
  then show "strtol (CHR ''-'' # ds @ rest) = (saturate (- int (read_digits ds)), rest)"
    using tw assms(2) by (simp add: strtol_def)
qed

lemma saturate_id: "- LONG_MAX - 1 \<le> i \<Longrightarrow> i \<le> LONG_MAX \<Longrightarrow> saturate i = i"
  by (simp add: saturate_def)

lemma strtol_show_int:
  assumes "- LONG_MAX - 1 \<le> i" "i \<le> LONG_MAX" and "case rest of [] \<Rightarrow> True | c # cs \<Rightarrow> \<not> is_digit c"
  shows "strtol (show_int i @ rest) = (i, rest)"
  using strtol_digits [OF show_nat_digits show_nat_nonempty assms(3)] assms(1,2)
  by (auto simp: show_int_def saturate_id)

section \<open>Temperatures\<close>

text \<open>The text of a temperature as a person reads it: sign, whole degrees, hundredths.\<close>

definition readTemp :: "string \<Rightarrow> int \<times> string" where
  "readTemp s =
     (let (neg, s) = (case s of c # cs \<Rightarrow> if c = CHR ''-'' then (True, cs) else (False, s) | [] \<Rightarrow> (False, s));
          (whole, rest) = strtol s;
          (frac, rest) = strtol (tl rest)
      in (if neg then - (100 * whole + frac) else 100 * whole + frac, rest))"

lemma smod_100: "\<bar>v sdiv 100\<bar> * 100 + \<bar>v smod 100\<bar> = \<bar>v :: int\<bar>" "\<bar>v smod 100\<bar> < 100"
proof -
  have "v smod 100 = (if v < 0 then - ((- v) mod 100) else v mod 100)"
    by (auto simp: signed_modulo_int_def sgn_if)
  moreover have "v sdiv 100 = (if v < 0 then - ((- v) div 100) else v div 100)"
    by (auto simp: sdiv_nonneg sdiv_neg)
  moreover have "0 \<le> (- v) mod 100" "(- v) mod 100 < 100" "0 \<le> v mod 100" "v mod 100 < 100" by simp_all
  moreover have "(- v) div 100 * 100 + (- v) mod 100 = - v" "v div 100 * 100 + v mod 100 = v" by simp_all
  moreover have "v < 0 \<Longrightarrow> 0 \<le> (- v) div 100" "\<not> v < 0 \<Longrightarrow> 0 \<le> v div 100"
    by (simp_all add: pos_imp_zdiv_nonneg_iff)
  ultimately show "\<bar>v sdiv 100\<bar> * 100 + \<bar>v smod 100\<bar> = \<bar>v\<bar>" "\<bar>v smod 100\<bar> < 100"
    by (simp_all split: if_split)
qed

lemma show_02d_digits:
  assumes "0 \<le> v"
  shows "list_all is_digit (show_02d v)" and "show_02d v \<noteq> []"
  using show_nat_digits [of "nat v"] assms by (auto simp: show_02d_def zero_pad_def is_digit_def list_all_iff)

lemma strtol_show_02d:
  assumes "0 \<le> v" "v \<le> LONG_MAX" and "case rest of [] \<Rightarrow> True | c # cs \<Rightarrow> \<not> is_digit c"
  shows "strtol (show_02d v @ rest) = (v, rest)"
proof -
  have "read_digits (show_02d v) = nat v"
    using assms(1) by (simp add: show_02d_def zero_pad_def read_digits_zeros)
  with strtol_digits(1) [OF show_02d_digits [OF assms(1)] assms(3)] show ?thesis
    using assms(1,2) by (simp add: saturate_id LONG_MAX_def)
qed

lemma show_int_first: "0 \<le> v \<Longrightarrow> \<exists>c cs. show_int v = c # cs \<and> is_digit c"
  using show_nat_digits [of "nat v"] by (cases "show_nat (nat v)") (simp_all add: show_int_def)

definition tempText :: "int \<Rightarrow> string \<Rightarrow> string" where
  "tempText v unit_text =
     (if v < 0 then ''-'' else []) @ show_int \<bar>v sdiv 100\<bar> @ ''.'' @ show_02d \<bar>v smod 100\<bar> @ unit_text"

lemma readTemp_tempText:
  assumes "\<bar>v\<bar> \<le> LONG_MAX" and "case unit_text of [] \<Rightarrow> True | c # cs \<Rightarrow> \<not> is_digit c"
  shows "readTemp (tempText v unit_text) = (v, unit_text)"
proof -
  have bounds: "- LONG_MAX - 1 \<le> \<bar>v sdiv 100\<bar>" "\<bar>v sdiv 100\<bar> \<le> LONG_MAX" "\<bar>v smod 100\<bar> \<le> LONG_MAX"
    using smod_100 [of v] assms(1) by (simp_all add: LONG_MAX_def)
  have whole: "strtol (show_int \<bar>v sdiv 100\<bar> @ ''.'' @ show_02d \<bar>v smod 100\<bar> @ unit_text)
      = (\<bar>v sdiv 100\<bar>, ''.'' @ show_02d \<bar>v smod 100\<bar> @ unit_text)"
    by (rule strtol_show_int [OF bounds(1,2)]) (simp add: is_digit_def)
  have frac: "strtol (show_02d \<bar>v smod 100\<bar> @ unit_text) = (\<bar>v smod 100\<bar>, unit_text)"
    by (rule strtol_show_02d) (use bounds assms(2) in simp_all)
  obtain c cs where first: "show_int \<bar>v sdiv 100\<bar> = c # cs" "is_digit c"
    using show_int_first [of "\<bar>v sdiv 100\<bar>"] by auto
  then have "c \<noteq> CHR ''-''" using digit_not_sign by blast
  then show ?thesis
    using whole frac smod_100(1) [of v] first(1) by (auto simp: readTemp_def tempText_def)
qed

end
