(* ===== verification/S21_Frame.thy ===== *)
theory S21_Frame
  imports Prelude
begin

text \<open>
  Framing of S21 payloads (\<open>s21/s21_frame.h\<close>, \<open>s21/s21_frame.cpp\<close>): start byte, payload,
  checksum avoiding the control bytes, end byte. The locale \<open>framing\<close> is what the data link
  relies on; it is interpreted on the two functions of the source.
\<close>

type_synonym bytes = "u8 list"

datatype FrameError = FrameTooShort | MissingSTX | MissingETX | BadChecksum

definition kReserved :: bytes where
  "kReserved = [0x02, 0x03, 0x06, 0x0A, 0x15]"

definition computeChecksum :: "bytes \<Rightarrow> u8" where
  "computeChecksum payload =
     (let total = foldl (\<lambda>acc b. acc + b) 0 payload
      in if total \<in> set kReserved then total + 2 else total)"

definition encode :: "bytes \<Rightarrow> bytes" where
  "encode payload = [0x02] @ payload @ [computeChecksum payload] @ [0x03]"

definition decode :: "bytes \<Rightarrow> (bytes, FrameError) expected" where
  "decode frame =
     (if length frame < 4 then Inl FrameTooShort
      else if hd frame \<noteq> 0x02 then Inl MissingSTX
      else if last frame \<noteq> 0x03 then Inl MissingETX
      else let payload = take (length frame - 3) (drop 1 frame);
               checksumByte = frame ! (length frame - 2)
           in if computeChecksum payload \<noteq> checksumByte then Inl BadChecksum
              else Inr payload)"

section \<open>Lemmas\<close>

lemma checksum_not_reserved: "computeChecksum p \<notin> set kReserved"
proof -
  have "s \<in> set kReserved \<Longrightarrow> s + 2 \<notin> set kReserved" for s
    by (auto simp: kReserved_def)
  then show ?thesis by (auto simp: computeChecksum_def Let_def)
qed

lemma length_encode [simp]: "length (encode p) = length p + 3"
  by (simp add: encode_def)

lemma decode_encode: "p \<noteq> [] \<Longrightarrow> decode (encode p) = Inr p"
  by (cases p) (simp_all add: decode_def encode_def nth_append nth_Cons')

lemma frame_split:
  assumes "4 \<le> length f" and "hd f = a" and "last f = z"
  shows "f = [a] @ take (length f - 3) (drop 1 f) @ [f ! (length f - 2)] @ [z]"
proof -
  obtain x xs where f: "f = x # xs" using assms(1) by (cases f) auto
  obtain ys y where xs: "xs = ys @ [y]" using assms(1) f by (cases xs rule: rev_cases) auto
  obtain zs w where ys: "ys = zs @ [w]" using assms(1) f xs by (cases ys rule: rev_cases) auto
  show ?thesis using assms(2,3) by (simp add: f xs ys nth_append)
qed

lemma decode_only_encode:
  assumes "decode f = Inr p"
  shows "f = encode p \<and> p \<noteq> []"
proof -
  have f: "4 \<le> length f" "hd f = 0x02" "last f = 0x03"
    "p = take (length f - 3) (drop 1 f)" "computeChecksum p = f ! (length f - 2)"
    using assms by (auto simp: decode_def Let_def split: if_splits)
  then have "f = encode p" using frame_split [OF f(1-3)] by (simp add: encode_def)
  moreover have "length p = length f - 3" using f(1,4) by simp
  ultimately show ?thesis using f(1) by auto
qed

section \<open>What the data link relies on\<close>

locale framing =
  fixes enc :: "'p list \<Rightarrow> 'p list"
    and dec :: "'p list \<Rightarrow> ('p list, 'e) expected"
  assumes dec_enc: "p \<noteq> [] \<Longrightarrow> dec (enc p) = Inr p"
    and enc_dec: "dec f = Inr p \<Longrightarrow> f = enc p \<and> p \<noteq> []"
begin

lemma dec_iff: "dec f = Inr p \<longleftrightarrow> f = enc p \<and> p \<noteq> []"
  using dec_enc enc_dec by blast

lemma enc_inj: "p \<noteq> [] \<Longrightarrow> q \<noteq> [] \<Longrightarrow> enc p = enc q \<Longrightarrow> p = q"
  using dec_enc by (metis sum.inject(2))

lemma dec_error: "\<nexists>p. p \<noteq> [] \<and> f = enc p \<Longrightarrow> \<exists>e. dec f = Inl e"
  using enc_dec by (metis sum.exhaust)

end

interpretation frame: framing encode decode
  using decode_encode decode_only_encode by unfold_locales blast+

section \<open>Properties\<close>

text \<open>
  C11. Framing is exact. Decoding accepts a byte string if and only if it is the encoding of a
  non-empty payload, and then returns that payload, so a frame is never misread as another;
  the checksum byte is never one of the control bytes, so only the last byte of a frame
  whose payload has no end byte is the end byte.
\<close>

theorem frame_decode_exact:
  "(decode f = Inr p \<longleftrightarrow> f = encode p \<and> p \<noteq> [])
   \<and> computeChecksum p \<notin> {0x02, 0x03, 0x06, 0x0A, 0x15}
   \<and> (0x03 \<in> set p \<or> takeWhile (\<lambda>b. b \<noteq> 0x03) (encode p) = butlast (encode p))"
proof -
  have c: "computeChecksum p \<notin> {0x02, 0x03, 0x06, 0x0A, 0x15}"
    using checksum_not_reserved [of p] by (simp add: kReserved_def)
  then have "takeWhile (\<lambda>b. b \<noteq> 0x03) (encode p) = butlast (encode p)" if "0x03 \<notin> set p"
    using that takeWhile_eq_all_conv [of "\<lambda>b. b \<noteq> 0x03" p]
    by (auto simp: encode_def butlast_append takeWhile_append)
  with c show ?thesis using frame.dec_iff by auto
qed

end
