(* ===== verification/S21_Presentation.thy ===== *)
theory S21_Presentation
  imports Wire_Types S21_Frame "HOL-Library.Monad_Syntax"
begin

text \<open>
  Encoding of S21 commands and decoding of responses (\<open>s21/s21_presentation.h\<close>,
  \<open>s21/s21_presentation.cpp\<close>) over the abstract data link (\<open>s21/s21_datalink.h\<close>). A callback
  is identified with the value it is called with: an operation of the link takes the
  payload and yields the result its callback receives. The source indexes the response
  without checking its length; an index past the end is undefined behaviour, and the
  outcome is then \<open>None\<close>.
\<close>

datatype S21DataLinkError =
  Busy | Timeout | UartError | NoResponse | NAK | UnexpectedResponse
  | FrameFailure FrameError | SetPointOutOfRange

datatype S21PresentationError =
  LinkError S21DataLinkError | UnexpectedResponseCode | Unsupported

record 'l S21DataLink =
  dl_send :: "bytes \<Rightarrow> 'l \<Rightarrow> (unit, S21DataLinkError) expected \<times> 'l"
  dl_transact :: "bytes \<Rightarrow> 'l \<Rightarrow> (bytes, S21DataLinkError) expected \<times> 'l"

type_synonym response = "(bytes, S21DataLinkError) expected"
type_synonym 'a outcome = "('a, S21PresentationError) expected option"

record UnitState =
  us_powerful :: bool
  us_defrost :: bool
  us_refrigerantValveOpen :: bool
  us_online :: bool

definition byte_at :: "bytes \<Rightarrow> nat \<Rightarrow> u8 option" where
  "byte_at r i = (if i < length r then Some (r ! i) else None)"

definition setPointToTempByte :: "i16 \<Rightarrow> u8" where
  "setPointToTempByte setPoint = 0x40 + to_u8 ((sint setPoint - 1800) sdiv 50)"

definition tempByteToSetPoint :: "u8 \<Rightarrow> i16" where
  "tempByteToSetPoint tempByte = to_i16 ((uint tempByte - 0x40) * 50 + 1800)"

definition operationPayload :: "bool \<Rightarrow> OperatingMode \<Rightarrow> i16 \<Rightarrow> FanMode \<Rightarrow> bytes" where
  "operationPayload on m setPoint f =
     [byte_of_char CHR ''D'', byte_of_char CHR ''1'',
      (if on then byte_of_char CHR ''1'' else byte_of_char CHR ''0''),
      OperatingMode_byte m, setPointToTempByte setPoint, FanMode_byte f]"

definition pres_setOperation ::
  "'l S21DataLink \<Rightarrow> bool \<Rightarrow> OperatingMode \<Rightarrow> i16 \<Rightarrow> FanMode \<Rightarrow> 'l
    \<Rightarrow> (unit, S21DataLinkError) expected \<times> 'l" where
  "pres_setOperation dl on m setPoint f l =
     (if sint setPoint < 1000 \<or> sint setPoint > 3200 then (Inl SetPointOutOfRange, l)
      else dl_send dl (operationPayload on m setPoint f) l)"

definition decodeReversedDigits :: "bytes \<Rightarrow> nat \<Rightarrow> int option" where
  "decodeReversedDigits r offset =
     do {
       d0 \<leftarrow> byte_at r offset;
       d1 \<leftarrow> byte_at r (offset + 1);
       d2 \<leftarrow> byte_at r (offset + 2);
       Some ((uint d0 - 48) + (uint d1 - 48) * 10 + (uint d2 - 48) * 100)
     }"

definition decodeSensorTemp :: "bytes \<Rightarrow> nat \<Rightarrow> i16 option" where
  "decodeSensorTemp r offset =
     do {
       val \<leftarrow> decodeReversedDigits r offset;
       sign \<leftarrow> byte_at r (offset + 3);
       Some (to_i16 ((if sign = byte_of_char CHR ''+'' then val else - val) * 10))
     }"

definition decodeHumidity :: "bytes \<Rightarrow> nat \<Rightarrow> u8 option" where
  "decodeHumidity r offset = map_option to_u8 (decodeReversedDigits r offset)"

definition decodeVersionDigit :: "u8 \<Rightarrow> u8" where
  "decodeVersionDigit c = (if 48 \<le> c \<and> c \<le> 57 then c - 48 else 0)"

definition validateResponseCode ::
  "response \<Rightarrow> char \<Rightarrow> char \<Rightarrow> (bytes \<Rightarrow> 'a outcome) \<Rightarrow> 'a outcome" where
  "validateResponseCode response c0 c1 continue =
     (case response of
        Inl e \<Rightarrow> Some (Inl (LinkError e))
      | Inr r \<Rightarrow>
          do {
            b0 \<leftarrow> byte_at r 0;
            if b0 \<noteq> byte_of_char c0 then Some (Inl UnexpectedResponseCode)
            else do {
              b1 \<leftarrow> byte_at r 1;
              if b1 \<noteq> byte_of_char c1 then Some (Inl UnexpectedResponseCode)
              else continue r
            }
          })"

definition decodeOperation :: "response \<Rightarrow> GetOperationResult outcome" where
  "decodeOperation response = validateResponseCode response CHR ''G'' CHR ''1'' (\<lambda>r.
     do {
       b2 \<leftarrow> byte_at r 2;
       b3 \<leftarrow> byte_at r 3;
       b4 \<leftarrow> byte_at r 4;
       b5 \<leftarrow> byte_at r 5;
       Some (Inr (b2 \<noteq> byte_of_char CHR ''0'', OperatingMode_cast b3, tempByteToSetPoint b4,
                  FanMode_cast b5))
     })"

definition pres_getOperation :: "'l S21DataLink \<Rightarrow> 'l \<Rightarrow> GetOperationResult outcome \<times> 'l" where
  "pres_getOperation dl l =
     map_prod decodeOperation id (dl_transact dl [byte_of_char CHR ''F'', byte_of_char CHR ''1''] l)"

definition pres_getRoomTemperature :: "'l S21DataLink \<Rightarrow> 'l \<Rightarrow> i16 outcome \<times> 'l" where
  "pres_getRoomTemperature dl l =
     map_prod (\<lambda>response. validateResponseCode response CHR ''S'' CHR ''H''
         (\<lambda>r. map_option Inr (decodeSensorTemp r 2))) id
       (dl_transact dl [byte_of_char CHR ''R'', byte_of_char CHR ''H''] l)"

definition pres_getOutdoorTemperature :: "'l S21DataLink \<Rightarrow> 'l \<Rightarrow> i16 outcome \<times> 'l" where
  "pres_getOutdoorTemperature dl l =
     map_prod (\<lambda>response. validateResponseCode response CHR ''S'' CHR ''a''
         (\<lambda>r. map_option Inr (decodeSensorTemp r 2))) id
       (dl_transact dl [byte_of_char CHR ''R'', byte_of_char CHR ''a''] l)"

definition pres_getHumidity :: "'l S21DataLink \<Rightarrow> 'l \<Rightarrow> u8 outcome \<times> 'l" where
  "pres_getHumidity dl l =
     map_prod (\<lambda>response. validateResponseCode response CHR ''S'' CHR ''e''
         (\<lambda>r. map_option Inr (decodeHumidity r 2))) id
       (dl_transact dl [byte_of_char CHR ''R'', byte_of_char CHR ''e''] l)"

definition coarseTemp :: "u8 \<Rightarrow> i16" where
  "coarseTemp b = to_i16 (sint (to_u8 (uint b - 0x80) :: i8) * 50)"

definition pres_getCoarseTemperatureAndHumidity ::
  "'l S21DataLink \<Rightarrow> 'l \<Rightarrow> (i16 \<times> i16 \<times> u8) outcome \<times> 'l" where
  "pres_getCoarseTemperatureAndHumidity dl l =
     map_prod (\<lambda>response. validateResponseCode response CHR ''G'' CHR ''9'' (\<lambda>r.
         do {
           b2 \<leftarrow> byte_at r 2;
           b3 \<leftarrow> byte_at r 3;
           b4 \<leftarrow> byte_at r 4;
           Some (Inr (coarseTemp b2, coarseTemp b3, b4 - 0x30))
         })) id
       (dl_transact dl [byte_of_char CHR ''F'', byte_of_char CHR ''9''] l)"

definition pres_getFanMode :: "'l S21DataLink \<Rightarrow> 'l \<Rightarrow> FanMode outcome \<times> 'l" where
  "pres_getFanMode dl l =
     map_prod (\<lambda>response. validateResponseCode response CHR ''S'' CHR ''G''
         (\<lambda>r. map_option (\<lambda>b. Inr (FanMode_cast b)) (byte_at r 2))) id
       (dl_transact dl [byte_of_char CHR ''R'', byte_of_char CHR ''G''] l)"

definition pres_getProtocolVersion :: "'l S21DataLink \<Rightarrow> 'l \<Rightarrow> (u8 \<times> u8) outcome \<times> 'l" where
  "pres_getProtocolVersion dl l =
     map_prod (\<lambda>response. validateResponseCode response CHR ''G'' CHR ''8'' (\<lambda>r.
         do {
           minor \<leftarrow> byte_at r 2;
           major \<leftarrow> byte_at r 3;
           Some (Inr (decodeVersionDigit major, decodeVersionDigit minor))
         })) id
       (dl_transact dl [byte_of_char CHR ''F'', byte_of_char CHR ''8''] l)"

definition hexNibble :: "u8 \<Rightarrow> u8" where
  "hexNibble c =
     (if 48 \<le> c \<and> c \<le> 57 then c - 48
      else if 65 \<le> c \<and> c \<le> 70 then c - 65 + 10
      else if 97 \<le> c \<and> c \<le> 102 then c - 97 + 10
      else 0)"

definition decodeRzHexByte :: "bytes \<Rightarrow> nat \<Rightarrow> u8 option" where
  "decodeRzHexByte r offset =
     do {
       lo \<leftarrow> byte_at r offset;
       hi \<leftarrow> byte_at r (offset + 1);
       Some (hexNibble lo OR push_bit 4 (hexNibble hi))
     }"

definition pres_getExtendedProtocolVersion :: "'l S21DataLink \<Rightarrow> 'l \<Rightarrow> (u8 \<times> u8) outcome \<times> 'l" where
  "pres_getExtendedProtocolVersion dl l =
     map_prod (\<lambda>response. validateResponseCode response CHR ''G'' CHR ''Y'' (\<lambda>r.
         do {
           b4 \<leftarrow> byte_at r 4;
           b5 \<leftarrow> byte_at r 5;
           b6 \<leftarrow> byte_at r 6;
           b7 \<leftarrow> byte_at r 7;
           Some (Inr (decodeVersionDigit b6 + decodeVersionDigit b7 * 10,
                      decodeVersionDigit b4 + decodeVersionDigit b5 * 10))
         })) id
       (dl_transact dl
         [byte_of_char CHR ''F'', byte_of_char CHR ''Y'', byte_of_char CHR ''0'', byte_of_char CHR ''0''] l)"

definition pres_getUnitState :: "'l S21DataLink \<Rightarrow> 'l \<Rightarrow> UnitState outcome \<times> 'l" where
  "pres_getUnitState dl l =
     map_prod (\<lambda>response. validateResponseCode response CHR ''S'' CHR ''z'' (\<lambda>r.
         do {
           b2 \<leftarrow> byte_at r 2;
           if b2 \<noteq> byte_of_char CHR ''B'' then Some (Inl UnexpectedResponseCode)
           else do {
             b3 \<leftarrow> byte_at r 3;
             if b3 \<noteq> byte_of_char CHR ''2'' then Some (Inl UnexpectedResponseCode)
             else do {
               bits \<leftarrow> decodeRzHexByte r 4;
               Some (Inr \<lparr>us_powerful = (bits AND 0x01 \<noteq> 0), us_defrost = (bits AND 0x02 \<noteq> 0),
                          us_refrigerantValveOpen = (bits AND 0x04 \<noteq> 0),
                          us_online = (bits AND 0x08 \<noteq> 0)\<rparr>)
             }
           }
         })) id
       (dl_transact dl
         [byte_of_char CHR ''R'', byte_of_char CHR ''z'', byte_of_char CHR ''B'', byte_of_char CHR ''2''] l)"

section \<open>Lemmas\<close>

abbreviation setPoint_ok :: "i16 \<Rightarrow> bool" where
  "setPoint_ok sp \<equiv> 1000 \<le> sint sp \<and> sint sp \<le> 3200"

lemma byte_at_Cons [simp]:
  "byte_at (b # bs) 0 = Some b" "byte_at (b # bs) (Suc i) = byte_at bs i" "byte_at [] i = None"
  "byte_at (b # bs) (numeral n) = byte_at bs (pred_numeral n)" "byte_at (b # bs) 1 = byte_at bs 0"
  by (simp_all add: byte_at_def numeral_eq_Suc)

lemma steps_range:
  assumes "1000 \<le> (x :: int)" and "x \<le> 3200"
  shows "- 16 \<le> (x - 1800) sdiv 50 \<and> (x - 1800) sdiv 50 \<le> 28"
proof (cases "x < 1800")
  case True
  then have "(x - 1800) sdiv 50 = - ((1800 - x) div 50)" using sdiv_neg [of "x - 1800" 50] by simp
  moreover have "0 \<le> (1800 - x) div 50 \<and> (1800 - x) div 50 \<le> 16"
    using zdiv_mono1 [of "1800 - x" 800 50] assms True by (simp add: pos_imp_zdiv_nonneg_iff)
  ultimately show ?thesis by simp
next
  case False
  then have "(x - 1800) sdiv 50 = (x - 1800) div 50" using sdiv_nonneg [of "x - 1800" 50] by simp
  moreover have "0 \<le> (x - 1800) div 50 \<and> (x - 1800) div 50 \<le> 28"
    using zdiv_mono1 [of "x - 1800" 1400 50] assms False by (simp add: pos_imp_zdiv_nonneg_iff)
  ultimately show ?thesis by simp
qed

lemma tempByte_value:
  assumes "setPoint_ok sp"
  shows "uint (setPointToTempByte sp) = 64 + (sint sp - 1800) sdiv 50"
proof -
  let ?d = "(sint sp - 1800) sdiv 50"
  have "setPointToTempByte sp = to_u8 (64 + ?d)"
    by (simp add: setPointToTempByte_def wi_hom_add [symmetric])
  moreover have "0 \<le> 64 + ?d \<and> 64 + ?d < 256" using steps_range [of "sint sp"] assms by linarith
  ultimately show ?thesis by (simp only: uint_word_of_int) simp
qed

lemma tempByte_roundtrip:
  assumes "setPoint_ok sp"
  shows "sint (tempByteToSetPoint (setPointToTempByte sp)) = 1800 + 50 * ((sint sp - 1800) sdiv 50)"
proof -
  let ?d = "(sint sp - 1800) sdiv 50"
  have "tempByteToSetPoint (setPointToTempByte sp) = to_i16 (1800 + 50 * ?d)"
    by (simp only: tempByteToSetPoint_def tempByte_value [OF assms]) (simp add: algebra_simps)
  moreover have "- 32768 \<le> 1800 + 50 * ?d" "1800 + 50 * ?d \<le> 32767"
    using steps_range [of "sint sp"] assms by linarith+
  ultimately show ?thesis by (simp only: sint_to_i16)
qed

lemma steps_rounding: "\<bar>50 * (x sdiv 50) - (x :: int)\<bar> < 50 \<and> (50 dvd x \<longrightarrow> 50 * (x sdiv 50) = x)"
proof (cases "x < 0")
  case True
  then have "x sdiv 50 = - ((- x) div 50)" by (simp add: sdiv_neg)
  then show ?thesis by (auto simp: dvd_minus_iff)
next
  case False
  then have "x sdiv 50 = x div 50" by (simp add: sdiv_nonneg)
  then show ?thesis by auto
qed

section \<open>Properties\<close>

text \<open>
  Setpoints survive the wire. For every setpoint the command accepts, the temperature byte
  lies in 48..92, hence is no control byte, and decodes to within half a degree of the
  setpoint; a setpoint in steps of half a degree decodes to exactly itself.
\<close>

theorem setpoint_wire_roundtrip:
  assumes "setPoint_ok sp"
  shows "48 \<le> uint (setPointToTempByte sp) \<and> uint (setPointToTempByte sp) \<le> 92
    \<and> \<bar>sint (tempByteToSetPoint (setPointToTempByte sp)) - sint sp\<bar> < 50
    \<and> (50 dvd sint sp \<longrightarrow> tempByteToSetPoint (setPointToTempByte sp) = sp)"
proof -
  note r = steps_rounding [of "sint sp - 1800"]
  have "50 dvd sint sp \<longrightarrow> 50 dvd sint sp - 1800" by (simp add: dvd_diff)
  then have "50 dvd sint sp \<longrightarrow> sint (tempByteToSetPoint (setPointToTempByte sp)) = sint sp"
    using r tempByte_roundtrip [OF assms] by auto
  moreover have "\<bar>sint (tempByteToSetPoint (setPointToTempByte sp)) - sint sp\<bar> < 50"
    using r tempByte_roundtrip [OF assms] by linarith
  moreover have "48 \<le> uint (setPointToTempByte sp) \<and> uint (setPointToTempByte sp) \<le> 92"
    using tempByte_value [OF assms] steps_range [of "sint sp"] assms by linarith
  ultimately show ?thesis by (simp add: i16_eq_iff_sint)
qed

theorem setpoint_wire_roundtrip_witness: "tempByteToSetPoint (setPointToTempByte 1650) = 1650"
  using setpoint_wire_roundtrip [of 1650] by simp

text \<open>
  What is set is what is read. A command with a setpoint in range puts exactly one
  six-byte payload on the link, and a unit that answers a status request with the four
  status bytes of that payload is decoded to the same power, mode and fan and to the
  setpoint as the unit holds it; a setpoint out of range is refused without touching the
  link.
\<close>

theorem set_then_get_operation:
  fixes dl :: "'l S21DataLink"
  assumes "named_OperatingMode m" and "named_FanMode f"
  shows "(setPoint_ok sp \<longrightarrow>
      pres_setOperation dl on m sp f l = dl_send dl (operationPayload on m sp f) l
      \<and> length (operationPayload on m sp f) = 6
      \<and> decodeOperation (Inr ([byte_of_char CHR ''G'', byte_of_char CHR ''1'']
            @ drop 2 (operationPayload on m sp f)))
        = Some (Inr (on, m, tempByteToSetPoint (setPointToTempByte sp), f)))
    \<and> (\<not> setPoint_ok sp \<longrightarrow> pres_setOperation dl on m sp f l = (Inl SetPointOutOfRange, l))"
  using assms by (auto simp: pres_setOperation_def operationPayload_def decodeOperation_def
      validateResponseCode_def named_OperatingMode_def named_FanMode_def)

theorem set_then_get_operation_witness:
  "fst (pres_setOperation \<lparr>dl_send = (\<lambda>p l. (Inr (), p # l)), dl_transact = (\<lambda>p l. (Inl Timeout, l))\<rparr>
      True OperatingMode.Cool 900 FanMode.Low []) = Inl SetPointOutOfRange"
  using set_then_get_operation [of OperatingMode.Cool FanMode.Low 900
      "\<lparr>dl_send = (\<lambda>p l. (Inr (), p # l)), dl_transact = (\<lambda>p l. (Inl Timeout, l))\<rparr>" True "[]"]
  by (simp add: named_OperatingMode_def named_FanMode_def OperatingMode_cast_def FanMode_cast_def)

text \<open>The digits a unit sends for a reading in tenths: units, tens, hundreds, sign.\<close>

definition digit_byte :: "int \<Rightarrow> u8" where
  "digit_byte d = to_u8 (48 + d)"

definition sensorDigits :: "int \<Rightarrow> bytes" where
  "sensorDigits t =
     [digit_byte (\<bar>t\<bar> mod 10), digit_byte (\<bar>t\<bar> div 10 mod 10), digit_byte (\<bar>t\<bar> div 100),
      (if 0 \<le> t then byte_of_char CHR ''+'' else byte_of_char CHR ''-'')]"

lemma uint_digit_byte: "0 \<le> d \<Longrightarrow> d \<le> 9 \<Longrightarrow> uint (digit_byte d) = 48 + d"
proof -
  assume d: "0 \<le> d" "d \<le> 9"
  then have "(48 + d) mod 256 = 48 + d" by simp
  then show ?thesis by (simp only: digit_byte_def uint_word_of_int) simp
qed

lemma three_digits: "(n :: int) mod 10 + n div 10 mod 10 * 10 + n div 100 * 100 = n"
proof -
  have "n div 100 = n div 10 div 10" using zdiv_zmult2_eq [of 10 n 10] by simp
  then show ?thesis
    using mult_div_mod_eq [of 10 n] mult_div_mod_eq [of 10 "n div 10"] by linarith
qed

lemma reading_digits:
  assumes "\<bar>t :: int\<bar> \<le> 999"
  shows "0 \<le> \<bar>t\<bar> mod 10" "\<bar>t\<bar> mod 10 \<le> 9" "0 \<le> \<bar>t\<bar> div 10 mod 10" "\<bar>t\<bar> div 10 mod 10 \<le> 9"
    "0 \<le> \<bar>t\<bar> div 100" "\<bar>t\<bar> div 100 \<le> 9"
proof -
  show "0 \<le> \<bar>t\<bar> mod 10" "\<bar>t\<bar> mod 10 \<le> 9" "0 \<le> \<bar>t\<bar> div 10 mod 10" "\<bar>t\<bar> div 10 mod 10 \<le> 9"
    using pos_mod_bound [of 10 "\<bar>t\<bar>"] pos_mod_bound [of 10 "\<bar>t\<bar> div 10"] by simp_all
  show "0 \<le> \<bar>t\<bar> div 100" "\<bar>t\<bar> div 100 \<le> 9"
    using zdiv_mono1 [of "\<bar>t\<bar>" 999 100] assms by (simp_all add: pos_imp_zdiv_nonneg_iff)
qed

lemma decode_sensorDigits:
  assumes "\<bar>t\<bar> \<le> 999"
  shows "decodeReversedDigits (x # y # sensorDigits t) 2 = Some \<bar>t\<bar>"
proof -
  let ?n = "\<bar>t\<bar>"
  note d = reading_digits [OF assms]
  have "decodeReversedDigits (x # y # sensorDigits t) 2 = Some ((uint (digit_byte (?n mod 10)) - 48)
      + (uint (digit_byte (?n div 10 mod 10)) - 48) * 10 + (uint (digit_byte (?n div 100)) - 48) * 100)"
    by (simp add: decodeReversedDigits_def sensorDigits_def)
  also have "\<dots> = Some ?n"
    by (simp only: uint_digit_byte [OF d(1,2)] uint_digit_byte [OF d(3,4)] uint_digit_byte [OF d(5,6)]
        add_diff_cancel_left' three_digits)
  finally show ?thesis .
qed

lemma decodeSensorTemp_digits:
  assumes "\<bar>t\<bar> \<le> 999"
  shows "decodeSensorTemp (x # y # sensorDigits t) 2 = Some (to_i16 (10 * t))" and "sint (to_i16 (10 * t)) = 10 * t"
proof -
  have sign: "byte_at (x # y # sensorDigits t) 5
      = Some (if 0 \<le> t then byte_of_char CHR ''+'' else byte_of_char CHR ''-'')"
    by (simp add: sensorDigits_def)
  have "(if 0 \<le> t then \<bar>t\<bar> else - \<bar>t\<bar>) * 10 = 10 * t" by simp
  then show "decodeSensorTemp (x # y # sensorDigits t) 2 = Some (to_i16 (10 * t))"
    using sign by (simp add: decodeSensorTemp_def decode_sensorDigits [OF assms] mult.commute)
  show "sint (to_i16 (10 * t)) = 10 * t" using assms by (intro sint_to_i16) simp_all
qed

lemma decodeHumidity_digits:
  assumes "0 \<le> t" and "t \<le> 255"
  shows "decodeHumidity (x # y # sensorDigits t) 2 = Some (to_u8 t)" and "uint (to_u8 t) = t"
  using assms by (simp_all add: decodeHumidity_def decode_sensorDigits uint_word_of_int)

text \<open>
  Sensor readings decode exactly. For every reading between -99.9 and 99.9 degrees, the
  digits the unit sends after its response code decode to that temperature in hundredths of
  a degree, sign included; for every humidity up to 255 the first three digits decode to
  that percentage.
\<close>

theorem sensor_reading_decodes:
  fixes dl :: "'l S21DataLink"
  assumes "\<bar>t\<bar> \<le> 999"
    and "dl_transact dl [byte_of_char CHR ''R'', byte_of_char CHR ''H''] l
           = (Inr (byte_of_char CHR ''S'' # byte_of_char CHR ''H'' # sensorDigits t), l')"
    and "dl_transact dl [byte_of_char CHR ''R'', byte_of_char CHR ''e''] l
           = (Inr (byte_of_char CHR ''S'' # byte_of_char CHR ''e'' # sensorDigits t), l')"
  shows "(\<exists>c. fst (pres_getRoomTemperature dl l) = Some (Inr c) \<and> sint c = 10 * t)
    \<and> (0 \<le> t \<and> t \<le> 255 \<longrightarrow> (\<exists>h. fst (pres_getHumidity dl l) = Some (Inr h) \<and> uint h = t))"
proof -
  have "\<exists>c. fst (pres_getRoomTemperature dl l) = Some (Inr c) \<and> sint c = 10 * t"
    by (simp only: pres_getRoomTemperature_def assms(2) validateResponseCode_def)
      (use decodeSensorTemp_digits [OF assms(1)] in simp)
  moreover have "\<exists>h. fst (pres_getHumidity dl l) = Some (Inr h) \<and> uint h = t"
    if "0 \<le> t" "t \<le> 255"
    by (simp only: pres_getHumidity_def assms(3) validateResponseCode_def)
      (simp add: decodeHumidity_digits [OF that])
  ultimately show ?thesis by blast
qed

theorem sensor_reading_decodes_witness:
  "let dl = \<lparr>dl_send = (\<lambda>p l. (Inl Timeout, l)),
             dl_transact = (\<lambda>p (l :: unit). (Inr (byte_of_char CHR ''S'' # p ! 1 # sensorDigits (- 53)), l))\<rparr>
   in \<exists>c. fst (pres_getRoomTemperature dl ()) = Some (Inr c) \<and> sint c = - 530"
  using sensor_reading_decodes [of "- 53" "\<lparr>dl_send = (\<lambda>p l. (Inl Timeout, l)),
      dl_transact = (\<lambda>p (l :: unit). (Inr (byte_of_char CHR ''S'' # p ! 1 # sensorDigits (- 53)), l))\<rparr>"
      "()" "()"]
  by (simp add: Let_def)

text \<open>
  Short responses are read past their end. The decoder of the status response checks only
  the two code bytes: on a payload with the right code its outcome is undefined exactly
  when the payload has fewer than six bytes, and framing lets such payloads through.
\<close>

theorem short_status_reads_out_of_bounds:
  assumes "r = byte_of_char CHR ''G'' # byte_of_char CHR ''1'' # rest"
  shows "(decodeOperation (Inr r) = None \<longleftrightarrow> length r < 6) \<and> decode (encode r) = Inr r"
proof -
  have "decodeOperation (Inr r) = None \<longleftrightarrow> length r < 6"
    by (auto simp: assms decodeOperation_def validateResponseCode_def byte_at_def)
  then show ?thesis using frame.dec_enc [of r] by (simp add: assms)
qed

theorem short_status_reads_out_of_bounds_witness:
  "decodeOperation (Inr [byte_of_char CHR ''G'', byte_of_char CHR ''1'', 0x30]) = None"
  using short_status_reads_out_of_bounds [OF refl, of "[0x30]"] by simp

end
