(* ===== verification/S21_Shell.thy ===== *)
theory S21_Shell
  imports Shell_Text S21_Presentation
begin

text \<open>
  The S21 debug shell (\<open>s21/s21_shell.cpp\<close>): argument parsing, the display helpers and the nine
  commands. A handler issues one presentation operation; the lines its callback prints are
  the handler's result here, \<open>None\<close> when a decoder reads past the response. The module-level
  pointer \<open>s_shell\<close>, which the callbacks print to, is modelled apart, as a session of requests
  from several shell instances over a link that takes one request at a time.
\<close>

section \<open>Argument parsing\<close>

definition quoted :: "string \<Rightarrow> string" where
  "quoted s = CHR 0x27 # s @ [CHR 0x27]"

definition parseOnOff :: "string \<Rightarrow> (bool, string) expected" where
  "parseOnOff str =
     (if str = ''on'' then Inr True else if str = ''off'' then Inr False
      else Inl (''expected '' @ quoted ''on'' @ '' or '' @ quoted ''off''))"

definition modeTable :: "(string \<times> OperatingMode) list" where
  "modeTable =
     [(''auto_cool'', Auto_Cooling), (''auto'', OperatingMode.Auto), (''dry'', OperatingMode.Dry),
      (''cool'', OperatingMode.Cool), (''heat'', OperatingMode.Heat), (''fan'', OperatingMode.FanOnly),
      (''auto_heat'', Auto_Heating)]"

definition parseMode :: "string \<Rightarrow> (OperatingMode, string) expected" where
  "parseMode str =
     (case map_of modeTable str of
        Some m \<Rightarrow> Inr m
      | None \<Rightarrow> Inl ''unknown mode (auto_cool|auto|dry|cool|heat|fan|auto_heat)'')"

definition parseSetpoint :: "string \<Rightarrow> (i16, string) expected" where
  "parseSetpoint str =
     (let (val, end) = strtol str in
      if end \<noteq> [] then Inl ''setpoint must be an integer''
      else if val < 10 \<or> val > 32 then Inl ''setpoint out of range (10-32 degC)''
      else Inr (to_i16 (val * 100)))"

definition fanTable :: "(string \<times> FanMode) list" where
  "fanTable =
     [(''low'', FanMode.Low), (''midlow'', FanMode.MidLow), (''medium'', FanMode.Medium),
      (''midhigh'', FanMode.MidHigh), (''high'', FanMode.High), (''auto'', FanMode.Auto),
      (''quiet'', FanMode.Quiet)]"

definition parseFanMode :: "string \<Rightarrow> (FanMode, string) expected" where
  "parseFanMode str =
     (case map_of fanTable str of
        Some f \<Rightarrow> Inr f
      | None \<Rightarrow> Inl ''unknown fan mode (low|midlow|medium|midhigh|high|auto|quiet)'')"

section \<open>Display\<close>

primrec operatingModeStr :: "OperatingMode \<Rightarrow> string" where
  "operatingModeStr Auto_Cooling = ''auto_cool''"
| "operatingModeStr OperatingMode.Auto = ''auto''"
| "operatingModeStr OperatingMode.Dry = ''dry''"
| "operatingModeStr OperatingMode.Cool = ''cool''"
| "operatingModeStr OperatingMode.Heat = ''heat''"
| "operatingModeStr OperatingMode.FanOnly = ''fan''"
| "operatingModeStr Auto_Heating = ''auto_heat''"
| "operatingModeStr (OperatingMode_raw b) = ''unknown''"

primrec fanModeStr :: "FanMode \<Rightarrow> string" where
  "fanModeStr FanMode.Low = ''low''"
| "fanModeStr FanMode.MidLow = ''midlow''"
| "fanModeStr FanMode.Medium = ''medium''"
| "fanModeStr FanMode.MidHigh = ''midhigh''"
| "fanModeStr FanMode.High = ''high''"
| "fanModeStr FanMode.Auto = ''auto''"
| "fanModeStr FanMode.Quiet = ''quiet''"
| "fanModeStr (FanMode_raw b) = ''unknown''"

datatype ShellLine = Print string | ErrorLine string S21PresentationError | ErrorText string string

definition printTemp :: "string \<Rightarrow> i16 \<Rightarrow> ShellLine" where
  "printTemp label t =
     (let v = sint t in
      Print (label @ (if v < 0 then ''-'' else '''') @ show_int \<bar>v sdiv 100\<bar> @ ''.'' @ show_02d \<bar>v smod 100\<bar>
        @ '' degC''))"

definition setpointLine :: "i16 \<Rightarrow> ShellLine" where
  "setpointLine setPoint =
     Print (''setpoint: '' @ show_int (sint setPoint sdiv 100) @ ''.'' @ show_02d (sint setPoint smod 100) @ '' degC'')"

definition versionLine :: "u8 \<times> u8 \<Rightarrow> ShellLine" where
  "versionLine v = Print (''version:  '' @ show_int (uint (fst v)) @ ''.'' @ show_int (uint (snd v)))"

definition humidityLine :: "u8 \<Rightarrow> ShellLine" where
  "humidityLine h = Print (''humidity: '' @ show_int (uint h) @ '' %'')"

section \<open>Commands\<close>

definition reply ::
  "string \<Rightarrow> ('a \<Rightarrow> ShellLine list) \<Rightarrow> 'a outcome \<times> 'l \<Rightarrow> ShellLine list option \<times> 'l" where
  "reply name lines = map_prod
     (map_option (\<lambda>result. case result of Inl e \<Rightarrow> [ErrorLine name e] | Inr v \<Rightarrow> lines v)) id"

definition CmdS21GetOperation :: "'l S21DataLink \<Rightarrow> 'l \<Rightarrow> ShellLine list option \<times> 'l" where
  "CmdS21GetOperation dl l =
     reply ''s21 get_operation error: ''
       (\<lambda>(on, md, sp, f). [Print (''power:    '' @ (if on then ''on'' else ''off'')),
          Print (''mode:     '' @ operatingModeStr md), setpointLine sp, Print (''fan:      '' @ fanModeStr f)])
       (pres_getOperation dl l)"

definition EINVAL :: int where "EINVAL = 22"

text \<open>The arguments after the command's name; the shell guarantees four of them.\<close>

definition CmdS21SetOperation ::
  "'l S21DataLink \<Rightarrow> string \<times> string \<times> string \<times> string \<Rightarrow> 'l \<Rightarrow> int \<times> ShellLine list \<times> 'l" where
  "CmdS21SetOperation dl argv l =
     (case argv of (a1, a2, a3, a4) \<Rightarrow>
      case parseOnOff a1 of
        Inl err \<Rightarrow> (- EINVAL, [ErrorText (''arg '' @ quoted ''on|off'' @ '': '') err], l)
      | Inr on \<Rightarrow>
      case parseMode a2 of
        Inl err \<Rightarrow> (- EINVAL, [ErrorText (''arg '' @ quoted ''mode'' @ '': '') err], l)
      | Inr md \<Rightarrow>
      case parseSetpoint a3 of
        Inl err \<Rightarrow> (- EINVAL, [ErrorText (''arg '' @ quoted ''setpoint'' @ '': '') err], l)
      | Inr sp \<Rightarrow>
      case parseFanMode a4 of
        Inl err \<Rightarrow> (- EINVAL, [ErrorText (''arg '' @ quoted ''fanmode'' @ '': '') err], l)
      | Inr f \<Rightarrow>
          (let (res, l) = pres_setOperation dl on md sp f l in
           (0, [case res of Inl e \<Rightarrow> ErrorLine ''s21 set_operation error: '' (LinkError e)
                | Inr _ \<Rightarrow> Print ''s21 set_operation: OK''], l)))"

definition CmdS21GetRoomTemperature :: "'l S21DataLink \<Rightarrow> 'l \<Rightarrow> ShellLine list option \<times> 'l" where
  "CmdS21GetRoomTemperature dl l =
     reply ''s21 get_room_temp error: '' (\<lambda>t. [printTemp ''room:     '' t]) (pres_getRoomTemperature dl l)"

definition CmdS21GetOutdoorTemperature :: "'l S21DataLink \<Rightarrow> 'l \<Rightarrow> ShellLine list option \<times> 'l" where
  "CmdS21GetOutdoorTemperature dl l =
     reply ''s21 get_outdoor_temp error: '' (\<lambda>t. [printTemp ''outdoor:  '' t]) (pres_getOutdoorTemperature dl l)"

definition CmdS21GetHumidity :: "'l S21DataLink \<Rightarrow> 'l \<Rightarrow> ShellLine list option \<times> 'l" where
  "CmdS21GetHumidity dl l =
     reply ''s21 get_humidity error: '' (\<lambda>h. [humidityLine h]) (pres_getHumidity dl l)"

definition CmdS21GetCoarse :: "'l S21DataLink \<Rightarrow> 'l \<Rightarrow> ShellLine list option \<times> 'l" where
  "CmdS21GetCoarse dl l =
     reply ''s21 get_coarse error: ''
       (\<lambda>(i, od, h). [printTemp ''room:     '' i, printTemp ''outdoor:  '' od, humidityLine h])
       (pres_getCoarseTemperatureAndHumidity dl l)"

definition CmdS21GetFanMode :: "'l S21DataLink \<Rightarrow> 'l \<Rightarrow> ShellLine list option \<times> 'l" where
  "CmdS21GetFanMode dl l =
     reply ''s21 get_fan_mode error: '' (\<lambda>f. [Print (''fan:      '' @ fanModeStr f)]) (pres_getFanMode dl l)"

definition CmdS21GetProtocolVersion :: "'l S21DataLink \<Rightarrow> 'l \<Rightarrow> ShellLine list option \<times> 'l" where
  "CmdS21GetProtocolVersion dl l =
     reply ''s21 get_protocol_version error: '' (\<lambda>v. [versionLine v]) (pres_getProtocolVersion dl l)"

definition CmdS21GetExtendedProtocolVersion :: "'l S21DataLink \<Rightarrow> 'l \<Rightarrow> ShellLine list option \<times> 'l" where
  "CmdS21GetExtendedProtocolVersion dl l =
     reply ''s21 get_extended_protocol_version error: '' (\<lambda>v. [versionLine v])
       (pres_getExtendedProtocolVersion dl l)"

section \<open>Registration\<close>

text \<open>
  The static command table. The shell looks a row up by name and runs its handler when the number
  of arguments, the name included, lies between the mandatory ones and those plus the
  optional ones; otherwise it prints the help text. A handler is given the argument vector; \<open>None\<close> is
  a read past its end or past a response.
\<close>

record 'l ShellCommand =
  sc_name :: string
  sc_handler :: "string list \<Rightarrow> 'l \<Rightarrow> (int \<times> ShellLine list \<times> 'l) option"
  sc_mandatory :: nat
  sc_optional :: nat

definition query_handler ::
  "('l \<Rightarrow> ShellLine list option \<times> 'l) \<Rightarrow> string list \<Rightarrow> 'l \<Rightarrow> (int \<times> ShellLine list \<times> 'l) option" where
  "query_handler cmd argv l = (case cmd l of (lines, l') \<Rightarrow> map_option (\<lambda>ls. (0, ls, l')) lines)"

definition set_handler :: "'l S21DataLink \<Rightarrow> string list \<Rightarrow> 'l \<Rightarrow> (int \<times> ShellLine list \<times> 'l) option" where
  "set_handler dl argv l =
     (case argv of
        name # a1 # a2 # a3 # a4 # rest \<Rightarrow> Some (CmdS21SetOperation dl (a1, a2, a3, a4) l)
      | _ \<Rightarrow> None)"

definition SHELL_CMD_ARG ::
  "string \<Rightarrow> (string list \<Rightarrow> 'l \<Rightarrow> (int \<times> ShellLine list \<times> 'l) option) \<Rightarrow> nat \<Rightarrow> nat \<Rightarrow> 'l ShellCommand" where
  "SHELL_CMD_ARG name h m n = \<lparr>sc_name = name, sc_handler = h, sc_mandatory = m, sc_optional = n\<rparr>"

definition sub_s21 :: "'l S21DataLink \<Rightarrow> 'l ShellCommand list" where
  "sub_s21 dl =
     [SHELL_CMD_ARG ''get_operation'' (query_handler (CmdS21GetOperation dl)) 1 0,
      SHELL_CMD_ARG ''set_operation'' (set_handler dl) 5 0,
      SHELL_CMD_ARG ''get_room_temp'' (query_handler (CmdS21GetRoomTemperature dl)) 1 0,
      SHELL_CMD_ARG ''get_outdoor_temp'' (query_handler (CmdS21GetOutdoorTemperature dl)) 1 0,
      SHELL_CMD_ARG ''get_humidity'' (query_handler (CmdS21GetHumidity dl)) 1 0,
      SHELL_CMD_ARG ''get_coarse'' (query_handler (CmdS21GetCoarse dl)) 1 0,
      SHELL_CMD_ARG ''get_fan_mode'' (query_handler (CmdS21GetFanMode dl)) 1 0,
      SHELL_CMD_ARG ''get_protocol_version'' (query_handler (CmdS21GetProtocolVersion dl)) 1 0,
      SHELL_CMD_ARG ''get_extended_protocol_version'' (query_handler (CmdS21GetExtendedProtocolVersion dl)) 1 0]"

datatype 'l ShellResult = CommandNotFound | WrongParameterCount | Ran int "ShellLine list" 'l | Undefined

definition shell_execute :: "'l ShellCommand list \<Rightarrow> string list \<Rightarrow> 'l \<Rightarrow> 'l ShellResult" where
  "shell_execute table argv l =
     (case argv of
        [] \<Rightarrow> CommandNotFound
      | name # _ \<Rightarrow>
          (case find (\<lambda>c. sc_name c = name) table of
             None \<Rightarrow> CommandNotFound
           | Some c \<Rightarrow>
               if sc_mandatory c \<le> length argv \<and> length argv \<le> sc_mandatory c + sc_optional c
               then (case sc_handler c argv l of Some (rc, ls, l') \<Rightarrow> Ran rc ls l' | None \<Rightarrow> Undefined)
               else WrongParameterCount))"

section \<open>The shared shell pointer\<close>

record ShellSession =
  s_shell :: "nat option"
  in_flight :: bool
  printed :: "(nat option \<times> ShellLine) list"

definition session_request :: "nat \<Rightarrow> string \<Rightarrow> ShellSession \<Rightarrow> ShellSession" where
  "session_request sh name s =
     (let s = s\<lparr>s_shell := Some sh\<rparr> in
      if in_flight s then s\<lparr>printed := printed s @ [(s_shell s, ErrorLine name (LinkError Busy))]\<rparr>
      else s\<lparr>in_flight := True\<rparr>)"

definition session_answer :: "ShellLine list \<Rightarrow> ShellSession \<Rightarrow> ShellSession" where
  "session_answer lines s =
     (if in_flight s
      then s\<lparr>in_flight := False, printed := printed s @ map (Pair (s_shell s)) lines\<rparr> else s)"

section \<open>Properties\<close>

lemma parseMode_table: "parseMode s = Inr m \<Longrightarrow> named_OperatingMode m"
  by (auto simp: parseMode_def modeTable_def named_OperatingMode_def OperatingMode_cast_def
      split: option.splits if_splits)

lemma parseFanMode_table: "parseFanMode s = Inr f \<Longrightarrow> named_FanMode f"
  by (auto simp: parseFanMode_def fanTable_def named_FanMode_def FanMode_cast_def
      split: option.splits if_splits)

lemma parseSetpoint_range:
  assumes "parseSetpoint s = Inr sp"
  shows "setPoint_ok sp" and "\<exists>v. 10 \<le> v \<and> v \<le> 32 \<and> sint sp = 100 * v"
proof -
  obtain v e where st: "strtol s = (v, e)" by (cases "strtol s")
  then have v: "10 \<le> v" "v \<le> 32" "sp = to_i16 (v * 100)"
    using assms by (auto simp: parseSetpoint_def split: if_splits)
  moreover from v(1,2) have "sint (to_i16 (v * 100)) = v * 100" by (intro sint_to_i16) simp_all
  ultimately show "setPoint_ok sp" "\<exists>v. 10 \<le> v \<and> v \<le> 32 \<and> sint sp = 100 * v" by simp_all
qed

lemma parseSetpoint_show:
  assumes "- 32768 \<le> v" "v \<le> 32767"
  shows "parseSetpoint (show_int v) =
     (if 10 \<le> v \<and> v \<le> 32 then Inr (to_i16 (v * 100)) else Inl ''setpoint out of range (10-32 degC)'')"
  using strtol_show_int [of v "[]"] assms by (simp add: parseSetpoint_def LONG_MAX_def)

text \<open>
  The checks on the four arguments, in order: whether the argument fails, which argument it is, and what is reported.
\<close>

definition powerNames :: "string set" where
  "powerNames = {''on'', ''off''}"

definition modeNames :: "string set" where
  "modeNames = {''auto_cool'', ''auto'', ''dry'', ''cool'', ''heat'', ''fan'', ''auto_heat''}"

definition fanNames :: "string set" where
  "fanNames = {''low'', ''midlow'', ''medium'', ''midhigh'', ''high'', ''auto'', ''quiet''}"

definition argumentChecks :: "string \<Rightarrow> string \<Rightarrow> string \<Rightarrow> string \<Rightarrow> (bool \<times> string \<times> string) list" where
  "argumentChecks a1 a2 a3 a4 =
     [(a1 \<notin> powerNames, ''on|off'', ''expected '' @ quoted ''on'' @ '' or '' @ quoted ''off''),
      (a2 \<notin> modeNames,
       ''mode'', ''unknown mode (auto_cool|auto|dry|cool|heat|fan|auto_heat)''),
      (snd (strtol a3) \<noteq> [], ''setpoint'', ''setpoint must be an integer''),
      (fst (strtol a3) \<notin> {10..32}, ''setpoint'', ''setpoint out of range (10-32 degC)''),
      (a4 \<notin> fanNames,
       ''fanmode'', ''unknown fan mode (low|midlow|medium|midhigh|high|auto|quiet)'')]"

lemma parseOnOff_cases:
  "parseOnOff a = (if a \<in> powerNames then Inr (a = ''on'')
     else Inl (''expected '' @ quoted ''on'' @ '' or '' @ quoted ''off''))"
  by (simp add: parseOnOff_def powerNames_def)

lemma parseMode_cases:
  "a \<in> modeNames \<Longrightarrow>
     \<exists>m. parseMode a = Inr m \<and> operatingModeStr m = a"
  "a \<notin> modeNames \<Longrightarrow>
     parseMode a = Inl ''unknown mode (auto_cool|auto|dry|cool|heat|fan|auto_heat)''"
  by (auto simp: parseMode_def modeTable_def modeNames_def)

lemma parseFanMode_cases:
  "a \<in> fanNames \<Longrightarrow>
     \<exists>f. parseFanMode a = Inr f \<and> fanModeStr f = a"
  "a \<notin> fanNames \<Longrightarrow>
     parseFanMode a = Inl ''unknown fan mode (low|midlow|medium|midhigh|high|auto|quiet)''"
  by (auto simp: parseFanMode_def fanTable_def fanNames_def)

lemma parseSetpoint_cases:
  "parseSetpoint a = (if snd (strtol a) \<noteq> [] then Inl ''setpoint must be an integer''
     else if fst (strtol a) \<notin> {10..32} then Inl ''setpoint out of range (10-32 degC)''
     else Inr (to_i16 (fst (strtol a) * 100)))"
  by (auto simp: parseSetpoint_def case_prod_beta)

abbreviation failing :: "bool \<times> string \<times> string \<Rightarrow> bool" where
  "failing \<equiv> fst"

lemma first_check_error:
  assumes "dropWhile (\<lambda>x. \<not> failing x) (argumentChecks a1 a2 a3 a4) = (b, arg, msg) # rest"
  shows "CmdS21SetOperation dl (a1, a2, a3, a4) l = (- 22, [ErrorText (''arg '' @ quoted arg @ '': '') msg], l)"
proof (cases "a1 \<in> powerNames")
  case False
  then show ?thesis
    using assms by (simp add: argumentChecks_def CmdS21SetOperation_def EINVAL_def parseOnOff_cases)
next
  case power: True
  then have p: "parseOnOff a1 = Inr (a1 = ''on'')" by (simp add: parseOnOff_cases)
  show ?thesis
  proof (cases "a2 \<in> modeNames")
    case False
    then have "parseMode a2 = Inl ''unknown mode (auto_cool|auto|dry|cool|heat|fan|auto_heat)''"
      by (rule parseMode_cases(2))
    then show ?thesis
      using assms power False by (simp add: argumentChecks_def CmdS21SetOperation_def EINVAL_def p)
  next
    case mode: True
    then obtain md where m: "parseMode a2 = Inr md" using parseMode_cases(1) [of a2] by blast
    show ?thesis
    proof (cases "snd (strtol a3) = [] \<and> fst (strtol a3) \<in> {10..32}")
      case False
      then show ?thesis
        using assms power mode
        by (simp add: argumentChecks_def CmdS21SetOperation_def EINVAL_def p m parseSetpoint_cases split: if_splits)
    next
      case setpoint: True
      then obtain sp where s: "parseSetpoint a3 = Inr sp" by (simp add: parseSetpoint_cases)
      have bad: "a4 \<notin> fanNames"
        using assms power mode setpoint by (simp add: argumentChecks_def split: if_splits)
      then have "parseFanMode a4 = Inl ''unknown fan mode (low|midlow|medium|midhigh|high|auto|quiet)''"
        by (rule parseFanMode_cases(2))
      then show ?thesis
        using assms power mode setpoint bad by (simp add: argumentChecks_def CmdS21SetOperation_def EINVAL_def p m s)
    qed
  qed
qed

definition accepted ::
  "string \<Rightarrow> string \<Rightarrow> string \<Rightarrow> string \<Rightarrow> bool \<Rightarrow> OperatingMode \<Rightarrow> i16 \<Rightarrow> FanMode \<Rightarrow> bool" where
  "accepted a1 a2 a3 a4 on md sp f =
     (a1 = (if on then ''on'' else ''off'') \<and> a2 = operatingModeStr md \<and> operatingModeStr md \<noteq> ''unknown''
      \<and> strtol a3 = (sint sp div 100, []) \<and> sint sp mod 100 = 0 \<and> setPoint_ok sp
      \<and> a4 = fanModeStr f \<and> fanModeStr f \<noteq> ''unknown'')"

lemma checks_pass:
  assumes "dropWhile (\<lambda>x. \<not> failing x) (argumentChecks a1 a2 a3 a4) = []"
  shows "\<exists>on md sp f. accepted a1 a2 a3 a4 on md sp f
    \<and> parseOnOff a1 = Inr on \<and> parseMode a2 = Inr md \<and> parseSetpoint a3 = Inr sp \<and> parseFanMode a4 = Inr f"
proof -
  have ok: "a1 \<in> powerNames" "snd (strtol a3) = []" "fst (strtol a3) \<in> {10..32}"
    and names: "a2 \<in> modeNames"
      "a4 \<in> fanNames"
    using assms by (simp_all add: argumentChecks_def split: if_splits)
  obtain md where md: "parseMode a2 = Inr md" "operatingModeStr md = a2"
    using names(1) parseMode_cases(1) [of a2] by blast
  obtain f where f: "parseFanMode a4 = Inr f" "fanModeStr f = a4"
    using names(2) parseFanMode_cases(1) [of a4] by blast
  define sp where "sp = to_i16 (fst (strtol a3) * 100)"
  have sp: "parseSetpoint a3 = Inr sp" using ok by (simp add: parseSetpoint_cases sp_def)
  have "sint sp = fst (strtol a3) * 100"
    unfolding sp_def using ok(3) by (subst sint_to_i16) simp_all
  then have "strtol a3 = (sint sp div 100, [])" "sint sp mod 100 = 0"
    using ok(2) by (simp_all add: prod_eq_iff)
  moreover have "operatingModeStr md \<noteq> ''unknown''" "fanModeStr f \<noteq> ''unknown''" 
    using names md(2) f(2) by (auto simp: modeNames_def fanNames_def)
  ultimately have "accepted a1 a2 a3 a4 (a1 = ''on'') md sp f"
    using ok(1) md(2) f(2) parseSetpoint_range(1) [OF sp] by (auto simp: accepted_def powerNames_def)
  then show ?thesis using ok(1) md(1) sp f(1) by (auto simp: parseOnOff_cases)
qed

text \<open>
  C36. The set command checks its four arguments in order before it touches the link. The first check that fails decides
  the answer: -EINVAL with one error line naming that argument and its own complaint, and the link is untouched. When none
  fails, \<open>on\<close> means power on and \<open>off\<close> power off, the mode and the fan speed are those the shell
  prints under that name, the setpoint is the written number of degrees, between 10 and 32 and so never refused as out of range, and the link is handed
  exactly the state command of these values, once, its result being what is printed. What the shell prints for a mode or
  a fan speed it knows, and for a whole number of degrees, is what it parses back.
\<close>

theorem shell_set_operation_checked:
  "(case dropWhile (\<lambda>x. \<not> failing x) (argumentChecks a1 a2 a3 a4) of
      (_, arg, msg) # _ \<Rightarrow>
        CmdS21SetOperation dl (a1, a2, a3, a4) l = (- 22, [ErrorText (''arg '' @ quoted arg @ '': '') msg], l)
    | [] \<Rightarrow>
        (\<exists>on md sp f. accepted a1 a2 a3 a4 on md sp f
           \<and> CmdS21SetOperation dl (a1, a2, a3, a4) l =
               (case dl_send dl (operationPayload on md sp f) l of (res, l') \<Rightarrow>
                  (0, [case res of Inl e \<Rightarrow> ErrorLine ''s21 set_operation error: '' (LinkError e)
                       | Inr _ \<Rightarrow> Print ''s21 set_operation: OK''], l'))))
   \<and> (operatingModeStr m \<noteq> ''unknown'' \<longrightarrow> parseMode (operatingModeStr m) = Inr m)
   \<and> (fanModeStr g \<noteq> ''unknown'' \<longrightarrow> parseFanMode (fanModeStr g) = Inr g)
   \<and> (\<forall>v. 10 \<le> v \<and> v \<le> 32 \<longrightarrow> parseSetpoint (show_int v) = Inr (to_i16 (v * 100)))"
    (is "?A \<and> ?B \<and> ?C \<and> ?D")
proof -
  have ?A
  proof (cases "dropWhile (\<lambda>x. \<not> failing x) (argumentChecks a1 a2 a3 a4)")
    case Nil
    obtain on md sp f where "accepted a1 a2 a3 a4 on md sp f" "parseOnOff a1 = Inr on" "parseMode a2 = Inr md"
      "parseSetpoint a3 = Inr sp" "parseFanMode a4 = Inr f"
      using checks_pass [OF Nil] by blast
    moreover from this have "setPoint_ok sp" by (simp add: accepted_def)
    ultimately have "accepted a1 a2 a3 a4 on md sp f \<and> CmdS21SetOperation dl (a1, a2, a3, a4) l =
        (case dl_send dl (operationPayload on md sp f) l of (res, l') \<Rightarrow>
           (0, [case res of Inl e \<Rightarrow> ErrorLine ''s21 set_operation error: '' (LinkError e)
                | Inr _ \<Rightarrow> Print ''s21 set_operation: OK''], l'))"
      by (simp add: CmdS21SetOperation_def pres_setOperation_def case_prod_beta Let_def)
    then show ?thesis unfolding Nil list.case by blast
  next
    case (Cons x rest)
    then show ?thesis using first_check_error by (cases x) simp
  qed
  moreover have ?B by (cases m) (simp_all add: parseMode_def modeTable_def)
  moreover have ?C by (cases g) (simp_all add: parseFanMode_def fanTable_def)
  moreover have ?D by (simp add: parseSetpoint_show)
  ultimately show ?thesis by blast
qed

theorem shell_set_operation_checked_witness:
  "parseSetpoint (show_int 21) = Inr 2100
   \<and> CmdS21SetOperation \<lparr>dl_send = (\<lambda>p l. (Inr (), p # l)), dl_transact = (\<lambda>p l. (Inl Timeout, l))\<rparr>
       (''on'', ''warm'', ''21'', ''loud'') []
     = (- 22, [ErrorText (''arg '' @ quoted ''mode'' @ '': '') ''unknown mode (auto_cool|auto|dry|cool|heat|fan|auto_heat)''], [])"
  using shell_set_operation_checked [where ?a1.0 = "''on''" and ?a2.0 = "''warm''" and ?a3.0 = "''21''" and ?a4.0 = "''loud''"
      and dl = "\<lparr>dl_send = (\<lambda>p l. (Inr (), p # l)), dl_transact = (\<lambda>p l. (Inl Timeout, l))\<rparr>" and l = "[]"]
  by (simp add: argumentChecks_def powerNames_def modeNames_def)

text \<open>
  The set command is reached with four arguments and only then, so it never reads past its argument vector.
\<close>

lemma set_operation_reached:
  "shell_execute (sub_s21 dl) (''set_operation'' # args) l =
     (case args of
        [a1, a2, a3, a4] \<Rightarrow> (case CmdS21SetOperation dl (a1, a2, a3, a4) l of (rc, ls, l') \<Rightarrow> Ran rc ls l')
      | _ \<Rightarrow> WrongParameterCount)"
proof -
  have f: "find (\<lambda>c. sc_name c = ''set_operation'') (sub_s21 dl) = Some (SHELL_CMD_ARG ''set_operation'' (set_handler dl) 5 0)"
    by (simp add: sub_s21_def SHELL_CMD_ARG_def)
  show ?thesis
    by (auto simp: shell_execute_def f SHELL_CMD_ARG_def set_handler_def split: list.split prod.split)
qed

lemma sub_s21_names_distinct: "distinct (map sc_name (sub_s21 dl))"
  by (simp add: sub_s21_def SHELL_CMD_ARG_def)

lemma setpointLine_same:
  assumes "0 \<le> sint t \<or> sint t smod 100 = 0"
  shows "setpointLine t = printTemp ''setpoint: '' t"
proof (cases "0 \<le> sint t")
  case True
  then have "0 \<le> sint t sdiv 100" "0 \<le> sint t smod 100"
    by (simp_all add: sdiv_nonneg pos_imp_zdiv_nonneg_iff signed_modulo_int_def sgn_if)
  then show ?thesis using True by (simp add: setpointLine_def printTemp_def Let_def)
next
  case False
  moreover from this have "sint t smod 100 = 0" using assms by simp
  moreover from this False have "sint t sdiv 100 < 0" using smod_100(1) [of "sint t"]
    by (simp add: sdiv_neg)
  ultimately show ?thesis by (simp add: setpointLine_def printTemp_def Let_def show_int_def)
qed

lemma setpointLine_negative_fraction:
  assumes "sint t < 0" and "sint t smod 100 \<noteq> 0"
  shows "setpointLine t \<noteq> printTemp ''setpoint: '' t"
proof -
  have "sint t smod 100 = - ((- sint t) mod 100)" using assms(1) by (simp add: signed_modulo_int_def sgn_if)
  then have m: "sint t smod 100 < 0" using assms(2) pos_mod_sign [of 100 "- sint t"] by linarith
  obtain c cs where f: "show_02d \<bar>sint t smod 100\<bar> = c # cs" "is_digit c"
    using show_02d_digits [of "\<bar>sint t smod 100\<bar>"] by (cases "show_02d \<bar>sint t smod 100\<bar>") auto
  have c: "c \<noteq> CHR ''-''" using f(2) digit_not_sign by blast
  obtain q where q: "sint t sdiv 100 = - int q" using assms(1)
    by (metis abs_of_nonpos nonneg_int_cases abs_ge_zero sdiv_neg add.inverse_inverse zero_less_numeral
        neg_0_le_iff_le pos_imp_zdiv_nonneg_iff less_imp_le)
  show ?thesis
  proof (cases "q = 0")
    case True
    then have "show_int (sint t sdiv 100) = [digit_char 0]" by (simp add: q show_int_def show_nat.simps)
    then show ?thesis using assms(1) digit_not_sign [of "digit_char 0"] by (simp add: setpointLine_def printTemp_def Let_def)
  next
    case False
    then show ?thesis
      using assms(1) m f(1) c by (auto simp: setpointLine_def printTemp_def Let_def show_int_def show_02d_def q)
  qed
qed

text \<open>
  A printed temperature reads back, except the setpoint below zero. For every 16-bit value
  the temperature line is its label followed by text that reads back as that value. The
  setpoint line of the status command, which formats by itself, is that same text exactly for
  values that are not negative or are whole degrees; for any other it differs.
\<close>

theorem printed_temperature_reads_back:
  fixes t :: i16
  shows "(\<exists>s. printTemp label t = Print (label @ s) \<and> readTemp s = (sint t, '' degC''))
    \<and> (setpointLine t = printTemp ''setpoint: '' t \<longleftrightarrow> 0 \<le> sint t \<or> sint t smod 100 = 0)"
proof -
  have "\<bar>sint t\<bar> \<le> LONG_MAX" using sint_i16_bounds [of t] by (simp add: LONG_MAX_def abs_le_iff)
  from readTemp_tempText [OF this, of "'' degC''"] have "\<exists>s. printTemp label t = Print (label @ s) \<and> readTemp s = (sint t, '' degC'')"
    by (intro exI [of _ "tempText (sint t) '' degC''"]) (simp add: printTemp_def tempText_def Let_def is_digit_def)
  then show ?thesis
    using setpointLine_same [of t] setpointLine_negative_fraction [of t] by (cases "0 \<le> sint t") auto
qed

text \<open>
  An answer goes to the shell that asked last. When a second shell issues a command while
  the first one's is in flight, its own is refused as busy, and then the first one's answer is
  printed on the second shell too; the first shell gets nothing.
\<close>

theorem shell_answer_goes_to_last_caller:
  "let s = session_answer lines (session_request sh2 name (session_request sh1 name'
             \<lparr>s_shell = sh0, in_flight = False, printed = []\<rparr>))
   in printed s = (Some sh2, ErrorLine name (LinkError Busy)) # map (Pair (Some sh2)) lines
    \<and> (sh1 \<noteq> sh2 \<longrightarrow> filter (\<lambda>p. fst p = Some sh1) (printed s) = [])"
  by (auto simp: session_answer_def session_request_def Let_def filter_empty_conv)

theorem shell_answer_goes_to_last_caller_witness:
  "printed (session_answer [Print ''fan:      low''] (session_request 2 ''s21 get_humidity error: ''
     (session_request 1 ''s21 get_fan_mode error: '' \<lparr>s_shell = None, in_flight = False, printed = []\<rparr>)))
   = [(Some 2, ErrorLine ''s21 get_humidity error: '' (LinkError Busy)), (Some 2, Print ''fan:      low'')]"
  using shell_answer_goes_to_last_caller [where lines = "[Print ''fan:      low'']" and ?sh2.0 = 2
      and name = "''s21 get_humidity error: ''" and ?sh1.0 = 1 and name' = "''s21 get_fan_mode error: ''" and ?sh0.0 = None]
  by (simp add: Let_def)

end
