(* ===== verification/Reconciler_Policy.thy ===== *)
theory Reconciler_Policy
  imports Reconciler
begin

text \<open>
  What the reconciler's policies amount to: the Auto band written edge by edge or as a
  bundle, the running mode fused from the device's signals, and the routing of a setpoint
  write by the observed operating mode.
\<close>

section \<open>Shared lemmas\<close>

abbreviation window_elapsed :: "millis \<Rightarrow> Reconciler \<Rightarrow> millis \<Rightarrow> bool" where
  "window_elapsed now r t \<equiv> t = 0 \<or> deviceWinsWindowMs (mConfig r) \<le> now - t"

lemma guard_passes [simp]: "window_elapsed now r t \<Longrightarrow> intentPassesGuard now r t b"
  by (auto simp: intentPassesGuard_def)

lemma centre_of_band:
  fixes h c w :: i16
  assumes "0 \<le> sint w" and "sint c = sint h + 2 * sint w"
  shows "sint (to_i16 ((sint h + sint c) sdiv 2)) = sint h + sint w"
proof -
  have "(sint h + sint c) sdiv 2 = sint h + sint w"
    using sdiv_two_double [of "sint h + sint w"] assms(2) by (simp add: algebra_simps)
  then show ?thesis
    using sint_i16_bounds [of h] sint_i16_bounds [of c] assms by (simp only:) (rule sint_to_i16, simp_all)
qed

lemma edges_of_centre:
  fixes h c w a :: i16
  assumes "sint a = sint h + sint w" and "sint c = sint h + 2 * sint w"
  shows "to_i16 (sint a - sint w) = h" "to_i16 (sint a + sint w) = c"
  by (metis add_diff_cancel_right' assms(1) to_i16_sint)
     (metis add.assoc assms mult_2 to_i16_sint)

section \<open>Properties\<close>

text \<open>
  Auto band round trip of a bundle, the operation reserved for atomic writes. In Auto mode the device has one target, and controllers see it
  as a band. A bundle that writes both edges of a band of the configured width, outside
  the guard window and with no setpoint awaited, reads back exactly as written, in either
  order of the two writes, and it moves no twin but the Auto setpoint.
\<close>

theorem auto_band_bundle_roundtrip:
  fixes r :: Reconciler and h c :: i16 and now :: millis
  defines "w \<equiv> autoBandHalfWidthCentiC (projectorConfig (mConfig r))"
    and "r' \<equiv> snd (applyIntentBundle now
          [SetOccupiedHeatingSetpointIntent h, SetOccupiedCoolingSetpointIntent c] r)"
  assumes "mObserved (mode (mState r)) = OperationalMode.Auto"
    and "mDesired (mode (mState r)) = OperationalMode.Auto"
    and "mInFlight (autoSetpoint (mState r)) = None"
    and "window_elapsed now r (at_autoSetpoint (mLastDeviceObserved r))"
    and "0 \<le> sint w" and "sint c = sint h + 2 * sint w"
  shows "projectedOccupiedHeatingSetpoint (projectorConfig (mConfig r)) (mState r') = h
    \<and> projectedOccupiedCoolingSetpoint (projectorConfig (mConfig r)) (mState r') = c
    \<and> snd (applyIntentBundle now
          [SetOccupiedCoolingSetpointIntent c, SetOccupiedHeatingSetpointIntent h] r) = r'
    \<and> mState r' = autoSetpoint_update
          (setDesired (to_i16 ((sint h + sint c) sdiv 2))) (mState r)"
proof -
  let ?a = "to_i16 ((sint h + sint c) sdiv 2)"
  have r': "r' = mState_update (autoSetpoint_update (setDesired ?a)) r"
    using assms(3,6) by (simp add: r'_def applyIntentBundle_def Let_def)
  have a: "sint ?a = sint h + sint w" by (rule centre_of_band [OF assms(7,8)])
  note e = edges_of_centre [OF a assms(8)]
  have "projectedOccupiedHeatingSetpoint (projectorConfig (mConfig r)) (mState r') = h"
    using e(1) assms(3-5) unfolding r' projectedOccupiedHeatingSetpoint_def projectedValue_def w_def
    by simp
  moreover have "projectedOccupiedCoolingSetpoint (projectorConfig (mConfig r)) (mState r') = c"
    using e(2) assms(3-5) unfolding r' projectedOccupiedCoolingSetpoint_def projectedValue_def w_def
    by simp
  moreover have "snd (applyIntentBundle now
      [SetOccupiedCoolingSetpointIntent c, SetOccupiedHeatingSetpointIntent h] r) = r'"
    using assms(3,6) by (simp add: r' applyIntentBundle_def Let_def)
  ultimately show ?thesis using r' by simp
qed

theorem auto_band_bundle_roundtrip_witness:
  "projectedOccupiedHeatingSetpoint ProjectorConfig_default
      (mState (snd (applyIntentBundle 7
         [SetOccupiedHeatingSetpointIntent 2350, SetOccupiedCoolingSetpointIntent 2450] booted))) = 2350
   \<and> projectedOccupiedCoolingSetpoint ProjectorConfig_default
      (mState (snd (applyIntentBundle 7
         [SetOccupiedHeatingSetpointIntent 2350, SetOccupiedCoolingSetpointIntent 2450] booted))) = 2450"
  using conjunct1 [OF auto_band_bundle_roundtrip [of booted 7 2450 2350]]
    conjunct1 [OF conjunct2 [OF auto_band_bundle_roundtrip [of booted 7 2450 2350]]]
  by (simp add: ReconcilerConfig_default_def ProjectorConfig_default_def)

lemma fuse_direction:
  "fuseRunningMode r on m valve = Cooling \<longrightarrow>
     on \<and> m \<notin> {OperatingMode.Heat, OperatingMode.Dry, OperatingMode.FanOnly, Auto_Heating}"
  "fuseRunningMode r on m valve = Heating \<longrightarrow>
     on \<and> m \<notin> {OperatingMode.Cool, OperatingMode.Dry, OperatingMode.FanOnly, Auto_Cooling}"
  by (cases m; auto simp: fuseRunningMode_def s21OperatingModeDirectionHint_def Let_def
        s21OperatingModeToOperationalMode_def split: if_splits option.splits bool.splits)+

lemma fuse_off: "\<not> on \<longrightarrow> fuseRunningMode r on m valve = RunningMode.Off"
  by (simp add: fuseRunningMode_def Let_def)

lemma fuse_hint:
  "on \<and> m = Auto_Cooling \<longrightarrow> fuseRunningMode r on m valve = Cooling"
  "on \<and> m = Auto_Heating \<longrightarrow> fuseRunningMode r on m valve = Heating"
  by (simp_all add: fuseRunningMode_def s21OperatingModeDirectionHint_def Let_def)

lemma fuse_valve_closed:
  "valve = Some False \<and> m \<notin> {Auto_Cooling, Auto_Heating} \<longrightarrow>
     fuseRunningMode r on m valve = RunningMode.Off"
  by (cases m) (simp_all add: fuseRunningMode_def s21OperatingModeDirectionHint_def Let_def)

lemma fuse_hysteresis:
  "valve = None \<and> m \<notin> {Auto_Cooling, Auto_Heating}
     \<and> mValue (indoorTemp (mState r)) = Some indoor
     \<and> \<bar>sint indoor - sint (mObserved (activeSetpoint (mState r)
           (s21OperatingModeToOperationalMode m)))\<bar>
         \<le> sint (runningModeHysteresisCentiC (mConfig r))
     \<longrightarrow> fuseRunningMode r on m valve = RunningMode.Off"
  by (cases m) (auto simp: fuseRunningMode_def s21OperatingModeDirectionHint_def Let_def
        activeSetpoint_def s21OperatingModeToOperationalMode_def)

text \<open>
  The fused running mode never contradicts the device. It is Off when the unit is off,
  it never reports heating in a cooling-only mode nor cooling in a heating-only one and
  nothing in Dry or FanOnly, a direction the mode byte carries is taken as it is, a closed
  refrigerant valve otherwise means Off, and without a valve reading a room within the
  hysteresis of the active setpoint means Off.
\<close>

theorem running_mode_sound:
  "(\<not> on \<longrightarrow> fuseRunningMode r on m valve = RunningMode.Off)
   \<and> (fuseRunningMode r on m valve = Cooling \<longrightarrow>
        on \<and> m \<notin> {OperatingMode.Heat, OperatingMode.Dry, OperatingMode.FanOnly, Auto_Heating})
   \<and> (fuseRunningMode r on m valve = Heating \<longrightarrow>
        on \<and> m \<notin> {OperatingMode.Cool, OperatingMode.Dry, OperatingMode.FanOnly, Auto_Cooling})
   \<and> (on \<and> m = Auto_Cooling \<longrightarrow> fuseRunningMode r on m valve = Cooling)
   \<and> (on \<and> m = Auto_Heating \<longrightarrow> fuseRunningMode r on m valve = Heating)
   \<and> (valve = Some False \<and> m \<notin> {Auto_Cooling, Auto_Heating} \<longrightarrow>
        fuseRunningMode r on m valve = RunningMode.Off)
   \<and> (valve = None \<and> m \<notin> {Auto_Cooling, Auto_Heating}
        \<and> mValue (indoorTemp (mState r)) = Some indoor
        \<and> \<bar>sint indoor - sint (mObserved (activeSetpoint (mState r)
              (s21OperatingModeToOperationalMode m)))\<bar>
            \<le> sint (runningModeHysteresisCentiC (mConfig r))
        \<longrightarrow> fuseRunningMode r on m valve = RunningMode.Off)"
  by (intro conjI fuse_off fuse_direction fuse_hint fuse_valve_closed fuse_hysteresis)

theorem running_mode_sound_witness:
  "fuseRunningMode booted True Auto_Heating (Some True) = Heating
   \<and> fuseRunningMode booted True OperatingMode.Cool (Some False) = RunningMode.Off"
  using running_mode_sound [of True booted Auto_Heating "Some True"]
    running_mode_sound [of True booted OperatingMode.Cool "Some False"] by simp

text \<open>
  A setpoint write is routed by the mode the device last reported, not by the mode the
  controller just selected. With the device in Auto, selecting Cool and then writing a
  cooling setpoint moves the Auto setpoint: the Cool setpoint keeps its old value, and the
  command that switches the device to Cool carries that old value, not the written one.
\<close>

theorem setpoint_after_mode_switch_uses_old_mode:
  fixes r :: Reconciler and now :: millis and v :: i16
  defines "r1 \<equiv> snd (applyIntent now (SetSystemModeIntent True OperationalMode.Cool) r)"
  defines "r2 \<equiv> snd (applyIntent now (SetOccupiedCoolingSetpointIntent v) r1)"
  assumes "mObserved (mode (mState r)) = OperationalMode.Auto"
    and "window_elapsed now r (at_onOff (mLastDeviceObserved r))"
    and "window_elapsed now r (at_mode (mLastDeviceObserved r))"
  shows "coolSetpoint (mState r2) = coolSetpoint (mState r)
    \<and> cmd_operatingMode (desiredCommand (mState r2)) = OperatingMode.Cool
    \<and> cmd_setpointCelsius (desiredCommand (mState r2)) = mDesired (coolSetpoint (mState r))"
proof -
  have r1: "mState r1 = (mState r)
      \<lparr>onOff := setDesired True (onOff (mState r)),
       mode := setDesired OperationalMode.Cool (mode (mState r))\<rparr>"
    using assms(3-5) by (simp add: r1_def applyIntent_eq apply_SetSystemModeIntent_def Let_def)
  have "coolSetpoint (mState r2) = coolSetpoint (mState r1)"
    "mode (mState r2) = mode (mState r1)"
    using assms(3) by (simp_all add: r2_def applyIntent_eq r1 Let_def
        apply_SetOccupiedCoolingSetpointIntent_def)
  then show ?thesis
    by (simp add: r1 operationalModeToS21OperatingMode_def activeSetpoint_def)
qed

theorem setpoint_after_mode_switch_uses_old_mode_witness:
  "cmd_setpointCelsius (desiredCommand (mState (snd (applyIntent 9
      (SetOccupiedCoolingSetpointIntent 2100)
      (snd (applyIntent 9 (SetSystemModeIntent True OperationalMode.Cool) booted)))))) = 2500"
  using setpoint_after_mode_switch_uses_old_mode [of booted 9 2100] by simp

text \<open>
  A shadow write repeats the device's own state. With the device settled in Cool, writing
  the heating setpoint (which the device does not have in this mode) proposes a command
  that is exactly what the device already does, and after that command has been sent and
  echoed the heating twin is still unsent.
\<close>

theorem inactive_setpoint_write_resends_state:
  fixes r :: Reconciler and now :: millis and v :: i16
  defines "r' \<equiv> snd (applyIntent now (SetOccupiedHeatingSetpointIntent v) r)"
  assumes settled: "twin_phase (onOff (mState r)) = Settled p"
      "twin_phase (mode (mState r)) = Settled OperationalMode.Cool"
      "twin_phase (coolSetpoint (mState r)) = Settled c"
      "twin_phase (fan (mState r)) = Settled f"
      "twin_phase (heatSetpoint (mState r)) = Settled h"
    and "v \<noteq> h" and "mLastSentCommand r \<noteq> Some (desiredCommand (mState r))"
    and echo: "echoesCommand obs (desiredCommand (mState r))"
  shows "pendingCommand r' = Some (desiredCommand (mState r))
    \<and> dirty (heatSetpoint (mState (snd (applyOperationalObservation t obs
          (onCommandSent (desiredCommand (mState r)) r')))))"
proof -
  have settled_iff: "mDesired x = y \<and> mObserved x = y \<and> mInFlight x = None"
    if "twin_phase x = Settled y" for x :: "'x TwinField" and y
    using that by (auto simp: twin_phase_def split: option.splits if_splits)
  note s = settled [THEN settled_iff]
  have r': "r' = mState_update (heatSetpoint_update (setDesired v)) r"
    using s by (simp add: r'_def applyIntent_eq apply_SetOccupiedHeatingSetpointIntent_def)
  have same: "desiredCommand (mState r') = desiredCommand (mState r)"
    using s by (simp add: r' desiredCommand_def)
  have heat: "dirty (heatSetpoint (mState r'))"
    using s \<open>v \<noteq> h\<close> by (simp add: r')
  have mode: "s21OperatingModeToOperationalMode (obs_operatingMode obs) = OperationalMode.Cool"
    using echo s by (simp add: echoesCommand_def)
  have "pendingCommand r' = Some (desiredCommand (mState r))"
    using heat same assms(8) by (simp add: pendingCommand_Some_iff anyDirty_def r')
  moreover have "heatSetpoint (mState (snd (applyOperationalObservation t obs
      (onCommandSent (desiredCommand (mState r)) r')))) = heatSetpoint (mState r')"
    using s by (simp add: applyOperationalObservation_eq mode onCommandSent_setpoints r')
  ultimately show ?thesis using heat by simp
qed

definition coolingSettled :: Reconciler where
  "coolingSettled = booted\<lparr>mState := (mState booted)\<lparr>mode := TwinField_new OperationalMode.Cool\<rparr>\<rparr>"

theorem inactive_setpoint_write_resends_state_witness:
  "pendingCommand (snd (applyIntent 9 (SetOccupiedHeatingSetpointIntent 1900) coolingSettled))
     = Some (desiredCommand (mState coolingSettled))"
proof -
  let ?o = "\<lparr>obs_onOff = False, obs_operatingMode = OperatingMode.Cool, obs_setpointCelsius = 2500,
            obs_fanMode = FanMode.Auto, obs_refrigerantValveOpen = None\<rparr>"
  have "echoesCommand ?o (desiredCommand (mState coolingSettled))"
    by (simp add: echoesCommand_def coolingSettled_def operationalModeToS21OperatingMode_def
        activeSetpoint_def fanSpeedToS21FanMode_def)
  then show ?thesis
    using inactive_setpoint_write_resends_state [of coolingSettled False 2500 None 2000 1900 ?o 9 20]
    by (simp add: coolingSettled_def twin_phase_def)
qed

text \<open>
  A fan write does not undo a power-off that has not reached the unit. While the unit still
  reports on, a controller that wrote Off reads the fan attributes as off; a fan level written
  then is recorded, and the bridge still wants the unit off and still reads off.
\<close>

theorem fan_write_keeps_unsent_off:
  assumes "mObserved (onOff (mState r)) = True" and "mDesired (onOff (mState r)) = False"
    and "mInFlight (onOff (mState r)) = None"
    and "window_elapsed now r (at_fan (mLastDeviceObserved r))"
  shows "projectedSpeedSetting (mState r) = Some 0
    \<and> mDesired (fan (mState (snd (applyIntent now (SetSpeedSettingIntent (Some l)) r)))) = Some l
    \<and> \<not> mDesired (onOff (mState (snd (applyIntent now (SetSpeedSettingIntent (Some l)) r))))
    \<and> projectedSpeedSetting (mState (snd (applyIntent now (SetSpeedSettingIntent (Some l)) r))) = Some 0"
  using assms by (simp add: applyIntent_eq apply_SetSpeedSettingIntent_def powerOnForFanWrite_def
      projectedSpeedSetting_def projectedOnOff_def projectedValue_def)

section \<open>A command that is withheld\<close>

text \<open>Power, mode, fan and the three setpoints settled, after a command that was delivered and echoed.\<close>

definition still :: "'a TwinField \<Rightarrow> bool" where
  "still t = (mInFlight t = None \<and> mDesired t = mObserved t)"

definition rests :: "Reconciler \<Rightarrow> bool" where
  "rests r = (let s = mState r in still (onOff s) \<and> still (mode s) \<and> still (heatSetpoint s) \<and> still (coolSetpoint s)
     \<and> still (autoSetpoint s) \<and> still (fan s))"

text \<open>The unit's report when someone flips its power at the remote control and nothing else.\<close>

definition flippedAtRemote :: "Reconciler \<Rightarrow> S21OperationalObservation \<Rightarrow> bool" where
  "flippedAtRemote r obs =
     (obs_onOff obs = (\<not> mObserved (onOff (mState r)))
      \<and> s21OperatingModeToOperationalMode (obs_operatingMode obs) = mObserved (mode (mState r))
      \<and> obs_setpointCelsius obs = mObserved (activeSetpoint (mState r) (mObserved (mode (mState r))))
      \<and> s21FanModeToSpeedSetting (obs_fanMode obs) = mObserved (fan (mState r)))"

lemma flipped_poll:
  assumes "rests r" and "flippedAtRemote r obs"
  shows "mDesired (onOff (mState (observed t obs r))) = (\<not> mObserved (onOff (mState r)))"
    "mObserved (onOff (mState (observed t obs r))) = (\<not> mObserved (onOff (mState r)))"
    "mInFlight (onOff (mState (observed t obs r))) = None"
    "desiredCommand (onOff_update (setDesired (mObserved (onOff (mState r)))) (mState (observed t obs r))) = desiredCommand (mState r)"
proof -
  show "mDesired (onOff (mState (observed t obs r))) = (\<not> mObserved (onOff (mState r)))"
    "mObserved (onOff (mState (observed t obs r))) = (\<not> mObserved (onOff (mState r)))"
    "mInFlight (onOff (mState (observed t obs r))) = None"
    using assms by (simp_all add: rests_def still_def flippedAtRemote_def twin_observe Let_def)
  show "desiredCommand (onOff_update (setDesired (mObserved (onOff (mState r)))) (mState (observed t obs r))) = desiredCommand (mState r)"
    using assms by (intro desiredCommand_cong; cases "mObserved (mode (mState r))")
      (simp_all add: rests_def still_def flippedAtRemote_def activeSetpoint_def twin_observe Let_def)
qed

lemma withheld_polls:
  assumes "\<forall>(t, o') \<in> set polls. repeatsObserved o' r" and "mInFlight (onOff (mState r)) = None"
    and "mLastSentCommand r = Some (desiredCommand (mState r))"
  shows "pendingCommand (pollAll polls r) = None
    \<and> mObserved (onOff (mState (pollAll polls r))) = mObserved (onOff (mState r))
    \<and> projectedOnOff (mState (pollAll polls r)) = mDesired (onOff (mState r))"
  using assms
proof (induction polls arbitrary: r)
  case Nil
  then show ?case by (simp add: pollAll_def pendingCommand_None_iff projectedOnOff_def projectedValue_def)
next
  case (Cons p polls)
  obtain t o' where p: "p = (t, o')" by fastforce
  let ?r = "observed t o' r"
  have stale: "repeatsObserved o' r" using Cons.prems(1) by (simp add: p)
  then have "mObserved (onOff (mState ?r)) = mObserved (onOff (mState r))" "mDesired (onOff (mState ?r)) = mDesired (onOff (mState r))"
      "mInFlight (onOff (mState ?r)) = None" "mLastSentCommand ?r = Some (desiredCommand (mState ?r))"
    using Cons.prems(2,3) by (simp_all add: repeatsObserved_def twin_observe stale_poll_desired)
  then show ?case
    using Cons.IH [of ?r] Cons.prems(1) stale_poll_observed [OF stale]
    by (simp add: pollAll_def p applyOperationalObservation_eq)
qed

text \<open>
  C27. A power change at the remote control cannot be undone from a controller. Let the bridge rest after a delivered command. Someone flips
  the unit's power at its remote control and a poll reports it; after the guard window a controller writes the power back to what it
  was. The write is accepted and the attribute reads the wanted power, but the command it calls for equals the last one sent, so
  none is proposed, now or after any number of polls that report the unit unchanged: the unit never follows.
\<close>

theorem remote_power_change_cannot_be_undone:
  fixes r :: Reconciler
  defines "p \<equiv> mObserved (onOff (mState r))"
  assumes rest: "rests r" "mLastSentCommand r = Some (desiredCommand (mState r))" and flip: "flippedAtRemote r obs"
    and window: "deviceWinsWindowMs (mConfig r) \<le> now - t"
    and polls: "\<forall>(t', o') \<in> set polls. repeatsObserved o' (snd (applyOperationalObservation t obs r))"
  shows "let r2 = snd (applyIntent now (SetOnOffIntent p) (snd (applyOperationalObservation t obs r)))
    in sendCommand (fst (applyIntent now (SetOnOffIntent p) (snd (applyOperationalObservation t obs r)))) = None
     \<and> mDesired (onOff (mState r2)) = p
     \<and> pendingCommand (pollAll polls r2) = None
     \<and> mObserved (onOff (mState (pollAll polls r2))) = (\<not> p) \<and> projectedOnOff (mState (pollAll polls r2)) = p"
proof -
  let ?r1 = "observed t obs r"
  let ?r2 = "mState_update (onOff_update (setDesired p)) ?r1"
  note f = flipped_poll [OF rest(1) flip, of t, folded p_def]
  have r2: "applyOne now (SetOnOffIntent p) ?r1 = ?r2"
    using window by (simp add: apply_SetOnOffIntent_def)
  have "\<forall>(t', o') \<in> set polls. repeatsObserved o' ?r2"
    using polls by (auto simp: applyOperationalObservation_eq repeatsObserved_def activeSetpoint_def split: OperationalMode.splits)
  moreover have last: "mLastSentCommand ?r2 = Some (desiredCommand (mState ?r2))" using rest(2) f(4) by simp
  ultimately show ?thesis
    using withheld_polls [of polls ?r2] f(2,3)
    by (simp add: applyOperationalObservation_eq applyIntent_eq r2 pendingCommand_None_iff Let_def del: applyOne.simps)
qed

definition delivered :: Reconciler where
  "delivered = observed 9 \<lparr>obs_onOff = True, obs_operatingMode = OperatingMode.Auto, obs_setpointCelsius = 2200,
      obs_fanMode = FanMode.Auto, obs_refrigerantValveOpen = None\<rparr>
    (onCommandSent (desiredCommand (mState poweredOnByIntent)) poweredOnByIntent)"

theorem remote_power_change_cannot_be_undone_witness:
  "sendCommand (fst (applyIntent 5000 (SetOnOffIntent True) (snd (applyOperationalObservation 2000
      \<lparr>obs_onOff = False, obs_operatingMode = OperatingMode.Auto, obs_setpointCelsius = 2200,
       obs_fanMode = FanMode.Auto, obs_refrigerantValveOpen = None\<rparr> delivered)))) = None"
proof -
  let ?obs = "\<lparr>obs_onOff = False, obs_operatingMode = OperatingMode.Auto, obs_setpointCelsius = 2200,
       obs_fanMode = FanMode.Auto, obs_refrigerantValveOpen = None\<rparr>"
  have st: "onOff (mState poweredOnByIntent) = setDesired True (TwinField_new False)"
    "mode (mState poweredOnByIntent) = TwinField_new OperationalMode.Auto" "fan (mState poweredOnByIntent) = TwinField_new None"
    "autoSetpoint (mState poweredOnByIntent) = TwinField_new 2200" "heatSetpoint (mState poweredOnByIntent) = TwinField_new 2000"
    "coolSetpoint (mState poweredOnByIntent) = TwinField_new 2500" "mConfig poweredOnByIntent = ReconcilerConfig_default"
    by (simp_all add: poweredOnByIntent_def apply_SetOnOffIntent_def)
  have d: "mObserved (onOff (mState delivered)) = True" "rests delivered" "flippedAtRemote delivered ?obs"
      "deviceWinsWindowMs (mConfig delivered) \<le> 5000 - 2000"
    by (simp_all add: delivered_def st rests_def still_def flippedAtRemote_def activeSetpoint_def onCommandSent_setpoints
        s21OperatingModeToOperationalMode_def s21FanModeToSpeedSetting_def twin_observe ReconcilerConfig_default_def Let_def)
  have "desiredCommand (mState delivered) = desiredCommand (mState poweredOnByIntent)"
    by (rule desiredCommand_cong) (simp_all add: delivered_def st onCommandSent_setpoints s21OperatingModeToOperationalMode_def
        s21FanModeToSpeedSetting_def twin_observe)
  then have "mLastSentCommand delivered = Some (desiredCommand (mState delivered))" by (simp add: delivered_def)
  from remote_power_change_cannot_be_undone [OF d(2) this d(3,4), of "[]"] show ?thesis by (simp add: d(1) Let_def)
qed

end
