(* ===== verification/Bridge_Kernel.thy ===== *)
theory Bridge_Kernel
  imports Reconciler_Policy
begin

text \<open>
  The data-ownership root (\<open>sync/bridge_kernel.h\<close>): the canonical state with its reconciler,
  the mutations it forwards, the per-attribute reads, and the transition system of every
  order in which controller writes, polls and command completions may arrive. The kernel
  is the reconciler record, which holds the state.
\<close>

type_synonym BridgeKernel = Reconciler

definition BridgeKernel_new :: "ReconcilerConfig \<Rightarrow> BridgeKernel" where
  "BridgeKernel_new cfg =
     Reconciler_new (LogicalACState_new LogicalACStateDefaults_default) cfg"

definition notifyLinkDown :: "BridgeKernel \<Rightarrow> BridgeKernel" where
  "notifyLinkDown k = mState_update (reachable_update (sensorApplyObservation False)) k"

definition projectionSnapshot :: "BridgeKernel \<Rightarrow> ProjectedClusterState" where
  "projectionSnapshot k = project (projectorConfig (mConfig k)) (mState k)"

definition readOnOff :: "BridgeKernel \<Rightarrow> bool" where
  "readOnOff k = projectedOnOff (mState k)"

definition readMode :: "BridgeKernel \<Rightarrow> OperationalMode" where
  "readMode k = projectedMode (mState k)"

definition readOccupiedHeatingSetpoint :: "BridgeKernel \<Rightarrow> i16" where
  "readOccupiedHeatingSetpoint k =
     projectedOccupiedHeatingSetpoint (projectorConfig (mConfig k)) (mState k)"

definition readOccupiedCoolingSetpoint :: "BridgeKernel \<Rightarrow> i16" where
  "readOccupiedCoolingSetpoint k =
     projectedOccupiedCoolingSetpoint (projectorConfig (mConfig k)) (mState k)"

definition readRunningMode :: "BridgeKernel \<Rightarrow> RunningMode" where
  "readRunningMode k = projectedRunningMode (mState k)"

definition readLocalTemperature :: "BridgeKernel \<Rightarrow> i16 option" where
  "readLocalTemperature k = projectedLocalTemperature (mState k)"

definition readOutdoorTemperature :: "BridgeKernel \<Rightarrow> i16 option" where
  "readOutdoorTemperature k = projectedOutdoorTemperature (mState k)"

definition readSetpointSource :: "BridgeKernel \<Rightarrow> ObservationSource" where
  "readSetpointSource k = projectedSetpointSource (mState k)"

definition readSpeedSetting :: "BridgeKernel \<Rightarrow> u8 option" where
  "readSpeedSetting k = projectedSpeedSetting (mState k)"

definition readFanMode :: "BridgeKernel \<Rightarrow> FanModeCategory" where
  "readFanMode k = projectedFanMode (mState k)"

definition readSpeedCurrent :: "BridgeKernel \<Rightarrow> u8" where
  "readSpeedCurrent k = projectedSpeedCurrent (mState k)"

definition readPercentSetting :: "BridgeKernel \<Rightarrow> u8 option" where
  "readPercentSetting k = projectedPercentSetting (mState k)"

definition readPercentCurrent :: "BridgeKernel \<Rightarrow> u8" where
  "readPercentCurrent k = projectedPercentCurrent (mState k)"

definition readHumidityCentiPercent :: "BridgeKernel \<Rightarrow> u16 option" where
  "readHumidityCentiPercent k = projectedHumidityCentiPercent (mState k)"

definition readReachable :: "BridgeKernel \<Rightarrow> bool" where
  "readReachable k = projectedReachable (mState k)"

section \<open>Every order of events\<close>

text \<open>
  The intents the attribute-access layer can issue: a fan level is one of the six named
  ones, a percentage lies in 1..100.
\<close>

fun intent_ok :: "WriteIntent \<Rightarrow> bool" where
  "intent_ok (SetSpeedSettingIntent v) = pred_option named_FanLevel v"
| "intent_ok (SetPercentSettingIntent (Some p)) = (1 \<le> p \<and> p \<le> 100)"
| "intent_ok _ = True"

inductive kernel_step :: "BridgeKernel \<Rightarrow> BridgeKernel \<Rightarrow> bool" where
  step_intent: "intent_ok i \<Longrightarrow> kernel_step k (snd (applyIntent now i k))"
| step_operational: "kernel_step k (snd (applyOperationalObservation now obs k))"
| step_environmental: "kernel_step k (snd (applyEnvironmentalObservation env k))"
| step_sent: "kernel_step k (onCommandSent cmd k)"
| step_failed: "kernel_step k (onCommandFailed k)"
| step_link_down: "kernel_step k (notifyLinkDown k)"

inductive_cases kernel_stepE: "kernel_step k k'"

definition kernel_start :: "BridgeKernel \<Rightarrow> bool" where
  "kernel_start k = (\<exists>cfg. k = BridgeKernel_new cfg)"

abbreviation kernel_reach :: "BridgeKernel \<Rightarrow> bool" where
  "kernel_reach \<equiv> reach kernel_start kernel_step"

section \<open>The fan twin and its percentage\<close>

definition percent_matches :: "u8 option \<Rightarrow> FanSpeed \<Rightarrow> bool" where
  "percent_matches pct f =
     (case f of
        None \<Rightarrow> pct = None
      | Some l \<Rightarrow> (case pct of None \<Rightarrow> False | Some p \<Rightarrow> percentToSpeedLevel p = l))"

definition percent_in_range :: "u8 option \<Rightarrow> bool" where
  "percent_in_range pct = (case pct of None \<Rightarrow> True | Some p \<Rightarrow> 1 \<le> p \<and> p \<le> 100)"

definition fan_inv :: "FanSpeed TwinField \<Rightarrow> u8 option \<Rightarrow> bool" where
  "fan_inv t pct =
     (pred_option named_FanLevel (mObserved t) \<and> pred_option named_FanLevel (mDesired t)
      \<and> pred_option (pred_option named_FanLevel) (mInFlight t)
      \<and> percent_in_range pct
      \<and> (percent_matches pct (mDesired t)
         \<or> mAttribution t = Device \<and> percent_matches pct (mObserved t)))"

definition kernel_inv :: "BridgeKernel \<Rightarrow> bool" where
  "kernel_inv k = fan_inv (fan (mState k)) (fanPercentSetting (mState k))"

lemma percent_matches_level [simp]:
  "pred_option named_FanLevel f \<Longrightarrow> percent_matches (map_option speedLevelToPercent f) f"
  by (cases f) (simp_all add: percent_matches_def)

lemma percent_in_range_level [simp]:
  "pred_option named_FanLevel f \<Longrightarrow> percent_in_range (map_option speedLevelToPercent f)"
proof (cases f)
  case (Some l)
  moreover assume "pred_option named_FanLevel f"
  ultimately show ?thesis by (cases l) (simp_all add: percent_in_range_def)
qed (simp add: percent_in_range_def)

lemma fan_inv_desired:
  "fan_inv t pct \<Longrightarrow> pred_option named_FanLevel v \<Longrightarrow> percent_in_range q \<Longrightarrow> percent_matches q v
     \<Longrightarrow> fan_inv (setDesired v t) q"
  by (simp add: fan_inv_def)

lemma fan_inv_promote: "fan_inv t pct \<Longrightarrow> fan_inv (promoteDesiredToInFlight t) pct"
  by (simp add: fan_inv_def)

lemma fan_inv_observe:
  assumes "fan_inv t pct" and "pred_option named_FanLevel f"
  shows "fan_inv (applyObservation f Device t)
    (if f \<noteq> mObserved t \<and> mAttribution (applyObservation f Device t) = Device
     then map_option speedLevelToPercent f else pct)"
  using assms by (auto simp: fan_inv_def twin_observe)

lemma kernel_inv_observed: "kernel_inv k \<Longrightarrow> kernel_inv (observed now obs k)"
  using fan_inv_observe [of "fan (mState k)" "fanPercentSetting (mState k)"
      "s21FanModeToSpeedSetting (obs_fanMode obs)"]
  by (simp add: kernel_inv_def observed_percent Let_def)

lemma powerOnForFanWrite_frame [simp]:
  "fan (mState (powerOnForFanWrite now k)) = fan (mState k)"
  by (simp add: powerOnForFanWrite_def)

lemma kernel_inv_applyOne:
  assumes "kernel_inv k" and "intent_ok i"
  shows "kernel_inv (applyOne now i k)"
proof (cases i)
  case (SetSpeedSettingIntent v)
  then show ?thesis
    using assms by (simp add: kernel_inv_def apply_SetSpeedSettingIntent_def fan_inv_desired)
next
  case (SetPercentSettingIntent v)
  then show ?thesis
    using assms by (cases v) (simp_all add: kernel_inv_def apply_SetPercentSettingIntent_def
        Let_def fan_inv_desired percent_in_range_def percent_matches_def)
qed (use assms in \<open>simp_all add: kernel_inv_def apply_defs Let_def split: OperationalMode.splits\<close>)

lemma BridgeKernel_new_fields [simp]:
  "fan (mState (BridgeKernel_new cfg)) = TwinField_new None"
  "fanPercentSetting (mState (BridgeKernel_new cfg)) = None"
  by (simp_all add: BridgeKernel_new_def Reconciler_new_def LogicalACState_new_def
      LogicalACStateDefaults_default_def)

interpretation kernel: inductive_invariant kernel_start kernel_step kernel_inv
proof unfold_locales
  show "kernel_start k \<Longrightarrow> kernel_inv k" for k
    by (auto simp: kernel_start_def kernel_inv_def fan_inv_def percent_in_range_def
        percent_matches_def)
  show "kernel_inv k \<Longrightarrow> kernel_step k k' \<Longrightarrow> kernel_inv k'" for k k'
    by (erule kernel_stepE)
       (simp_all add: applyIntent_eq kernel_inv_applyOne applyOperationalObservation_eq
          kernel_inv_observed,
        simp_all add: kernel_inv_def applyEnvironmentalObservation_def Let_def fan_inv_promote
          onCommandFailed_def notifyLinkDown_def)
qed

section \<open>Properties\<close>

text \<open>
  C26. Whatever order controller writes, polls, command completions and link losses come in,
  the bridge only ever holds and sends one of the six fan levels or Auto, keeps the
  remembered percentage within 1..100, and, once the fan twin is settled and the unit is
  on, reports a SpeedSetting and a PercentSetting that name the same level.
\<close>

theorem fan_attributes_agree_when_settled:
  assumes "kernel_reach k"
  shows "pred_option named_FanLevel (mDesired (fan (mState k)))
    \<and> s21FanModeToSpeedSetting (cmd_fanMode (desiredCommand (mState k))) = mDesired (fan (mState k))
    \<and> percent_in_range (fanPercentSetting (mState k))
    \<and> (twin_phase (fan (mState k)) = Settled f \<and> readOnOff k \<longrightarrow>
         readSpeedSetting k = map_option FanLevel_byte f
         \<and> percent_matches (readPercentSetting k) f)"
proof -
  have inv: "kernel_inv k" using assms by (rule kernel.reach_inv)
  have "readSpeedSetting k = map_option FanLevel_byte f \<and> percent_matches (readPercentSetting k) f"
    if "twin_phase (fan (mState k)) = Settled f" "readOnOff k"
  proof -
    have "mDesired (fan (mState k)) = f \<and> mObserved (fan (mState k)) = f \<and> mInFlight (fan (mState k)) = None"
      using that(1) by (auto simp: twin_phase_def split: option.splits if_splits)
    then show ?thesis
      using inv that(2) by (auto simp: kernel_inv_def fan_inv_def readSpeedSetting_def readOnOff_def
          readPercentSetting_def projectedSpeedSetting_def projectedPercentSetting_def
          projectedValue_def split: option.splits)
  qed
  then show ?thesis using inv by (simp add: kernel_inv_def fan_inv_def)
qed

theorem fan_attributes_agree_when_settled_witness:
  "pred_option named_FanLevel
     (mDesired (fan (mState (snd (applyIntent 3 (SetPercentSettingIntent (Some 40))
        (BridgeKernel_new ReconcilerConfig_default))))))"
proof -
  have "kernel_start (BridgeKernel_new ReconcilerConfig_default)"
    by (auto simp: kernel_start_def)
  then have "kernel_reach (snd (applyIntent 3 (SetPercentSettingIntent (Some 40))
        (BridgeKernel_new ReconcilerConfig_default)))"
    by (rule reach_step [OF reach_start]) (rule step_intent, simp)
  then show ?thesis using fan_attributes_agree_when_settled by blast
qed

definition awaitingLost :: "S21OperationCommand \<Rightarrow> i16 \<Rightarrow> i16 \<Rightarrow> BridgeKernel \<Rightarrow> bool" where
  "awaitingLost cmd c v k =
     (let s = mState k in
      \<not> dirty (onOff s) \<and> mDesired (onOff s) = cmd_onOff cmd
      \<and> \<not> dirty (mode s) \<and> mDesired (mode s) = OperationalMode.Cool
      \<and> \<not> dirty (fan s) \<and> mDesired (fan s) = s21FanModeToSpeedSetting (cmd_fanMode cmd)
      \<and> \<not> dirty (heatSetpoint s) \<and> \<not> dirty (autoSetpoint s)
      \<and> mObserved (coolSetpoint s) = c \<and> mDesired (coolSetpoint s) = v
      \<and> mInFlight (coolSetpoint s) = Some v)"

lemma awaitingLost_poll:
  assumes "awaitingLost cmd c v k" and "v \<noteq> c"
    and "echoesCommand obs cmd" and "cmd_operatingMode cmd = OperatingMode.Cool"
    and "cmd_setpointCelsius cmd = c"
  shows "awaitingLost cmd c v (observed now obs k)"
proof -
  have settle: "\<not> dirty (applyObservation x Device t) \<and> mDesired (applyObservation x Device t) = x"
    if "\<not> dirty t" "mDesired t = x" for t :: "'x TwinField" and x
    using that by (auto simp: dirty_iff twin_observe split: option.splits)
  have lost: "mDesired (applyObservation c Device t) = v \<and> mInFlight (applyObservation c Device t) = Some v"
    if "mObserved t = c" "mDesired t = v" "mInFlight t = Some v" for t
    using that \<open>v \<noteq> c\<close> by (simp add: twin_observe)
  have om: "s21OperatingModeToOperationalMode OperatingMode.Cool = OperationalMode.Cool"
    by (simp add: s21OperatingModeToOperationalMode_def)
  show ?thesis
    using assms by (simp add: awaitingLost_def Let_def om echoesCommand_def settle lost)
qed

lemma awaitingLost_polls:
  "awaitingLost cmd c v k \<Longrightarrow> v \<noteq> c \<Longrightarrow> \<forall>(t, o') \<in> set polls. echoesCommand o' cmd \<Longrightarrow>
     cmd_operatingMode cmd = OperatingMode.Cool \<Longrightarrow> cmd_setpointCelsius cmd = c \<Longrightarrow>
     awaitingLost cmd c v (pollAll polls k)"
  by (induction polls arbitrary: k)
     (auto simp: pollAll_def applyOperationalObservation_eq awaitingLost_poll)

text \<open>
  C40. A cooling setpoint that arrives while a command is being transmitted is left unsent while the unit answers as
  commanded. With the device settled in Cool at setpoint \<open>c\<close> and nothing unsent for the other setpoints, a command
  is taken for transmission; before its completion is recorded a controller writes the cooling setpoint \<open>v\<close>.
  Recording the completion marks \<open>v\<close> as in flight although the transmitted command carried \<open>c\<close>. However many
  polls then echo the transmitted command, no command is proposed: the device stays at \<open>c\<close> while the bridge still
  wants \<open>v\<close>. Only when something else makes a command necessary does that one carry \<open>v\<close>.
\<close>

theorem write_during_transmission_is_lost:
  fixes k :: BridgeKernel and now :: millis and v c :: i16 and cmd :: S21OperationCommand
  defines "k2 \<equiv> onCommandSent cmd (snd (applyIntent now (SetOccupiedCoolingSetpointIntent v) k))"
  assumes "pendingCommand k = Some cmd"
    and cool: "mObserved (mode (mState k)) = OperationalMode.Cool"
      "mDesired (mode (mState k)) = OperationalMode.Cool"
      "twin_phase (coolSetpoint (mState k)) = Settled c"
    and quiet: "\<not> dirty (heatSetpoint (mState k))" "\<not> dirty (autoSetpoint (mState k))"
    and fan: "pred_option named_FanLevel (mDesired (fan (mState k)))"
    and "v \<noteq> c" and "window_elapsed now k (at_coolSetpoint (mLastDeviceObserved k))"
    and polls: "\<forall>(t, o') \<in> set polls. echoesCommand o' cmd"
  shows "pendingCommand (pollAll polls k2) = None
    \<and> mObserved (coolSetpoint (mState (pollAll polls k2))) = c
    \<and> mDesired (coolSetpoint (mState (pollAll polls k2))) = v
    \<and> cmd_setpointCelsius (desiredCommand (mState (pollAll polls k2))) = v"
proof -
  have cmd: "cmd = desiredCommand (mState k)"
    using assms(2) by (simp add: pendingCommand_Some_iff)
  have c: "mDesired (coolSetpoint (mState k)) = c \<and> mObserved (coolSetpoint (mState k)) = c"
    using cool(3) by (auto simp: twin_phase_def split: option.splits if_splits)
  have cmd_cool: "cmd_operatingMode cmd = OperatingMode.Cool" "cmd_setpointCelsius cmd = c"
    using cool(2) c by (simp_all add: cmd operationalModeToS21OperatingMode_def activeSetpoint_def)
  have k1: "snd (applyIntent now (SetOccupiedCoolingSetpointIntent v) k)
      = mState_update (coolSetpoint_update (setDesired v)) k"
    using cool(1) assms(10)
    by (simp add: applyIntent_eq apply_SetOccupiedCoolingSetpointIntent_def)
  have "awaitingLost cmd c v k2"
    using cool(2) quiet fan c
    by (simp add: k2_def k1 awaitingLost_def Let_def onCommandSent_setpoints, simp add: cmd)
  then have lost: "awaitingLost cmd c v (pollAll polls k2)" (is "awaitingLost _ _ _ ?k3")
    using assms(9) polls cmd_cool by (rule awaitingLost_polls)
  then have "mDesired (mode (mState ?k3)) = OperationalMode.Cool"
    "mDesired (coolSetpoint (mState ?k3)) = v"
    by (simp_all add: awaitingLost_def Let_def)
  then have "cmd_setpointCelsius (desiredCommand (mState ?k3)) = v"
    by (simp add: activeSetpoint_def)
  then show ?thesis
    using lost
    by (simp add: awaitingLost_def Let_def pendingCommand_None_iff anyDirty_def dirty_iff)
qed

theorem write_during_transmission_is_lost_witness:
  "let k = applyOne 5 (SetOnOffIntent True) coolingSettled;
       cmd = desiredCommand (mState k);
       echo = \<lparr>obs_onOff = True, obs_operatingMode = OperatingMode.Cool, obs_setpointCelsius = 2500,
               obs_fanMode = FanMode.Auto, obs_refrigerantValveOpen = None\<rparr>;
       k' = pollAll [(20, echo), (30, echo)]
              (onCommandSent cmd (snd (applyIntent 6 (SetOccupiedCoolingSetpointIntent 2300) k)))
   in pendingCommand k' = None \<and> mObserved (coolSetpoint (mState k')) = 2500
      \<and> mDesired (coolSetpoint (mState k')) = 2300
      \<and> cmd_setpointCelsius (desiredCommand (mState k')) = 2300"
proof -
  let ?k = "applyOne 5 (SetOnOffIntent True) coolingSettled"
  let ?cmd = "desiredCommand (mState ?k)"
  let ?echo = "\<lparr>obs_onOff = True, obs_operatingMode = OperatingMode.Cool, obs_setpointCelsius = 2500,
               obs_fanMode = FanMode.Auto, obs_refrigerantValveOpen = None\<rparr>"
  have k: "onOff (mState ?k) = setDesired True (TwinField_new False)"
    "mode (mState ?k) = TwinField_new OperationalMode.Cool"
    "coolSetpoint (mState ?k) = TwinField_new 2500" "heatSetpoint (mState ?k) = TwinField_new 2000"
    "autoSetpoint (mState ?k) = TwinField_new 2200" "fan (mState ?k) = TwinField_new None"
    "at_coolSetpoint (mLastDeviceObserved ?k) = 0" "mLastSentCommand ?k = None"
    by (simp_all add: coolingSettled_def apply_SetOnOffIntent_def intentPassesGuard_def)
  have "pendingCommand ?k = Some ?cmd"
    using k by (simp add: pendingCommand_Some_iff anyDirty_def del: applyOne.simps)
  moreover have "echoesCommand ?echo ?cmd"
    using k by (simp add: echoesCommand_def operationalModeToS21OperatingMode_def
        activeSetpoint_def fanSpeedToS21FanMode_def del: applyOne.simps)
  ultimately show ?thesis
    using write_during_transmission_is_lost
      [of ?k ?cmd 2500 2300 6 "[(20, ?echo), (30, ?echo)]"] k
    by (simp add: twin_phase_def Let_def del: applyOne.simps)
qed

end
