(* ===== verification/Change_Publisher.thy ===== *)
theory Change_Publisher
  imports Domain_State
begin

text \<open>
  The listener registry and dispatch helper (\<open>sync/change_publisher.h\<close>,
  \<open>sync/change_publisher.cpp\<close>). A listener is known by its address, a pump handler by the
  address of the function; a null pointer is \<open>None\<close>. Dispatching produces the list of calls
  made, in order.
\<close>

type_synonym listener = nat
type_synonym handler = nat

datatype Status = Ok | AlreadyRegistered | Full | InvalidArgument

datatype DispatchCall =
  OnChangedAttributes listener "LogicalAttribute list"
  | CommandPump handler

record ChangePublisher =
  mListeners :: "listener list"
  mPump :: "handler option"

record Snapshot =
  slots :: "listener list"
  snap_count :: nat

definition kMaxListeners :: nat where
  "kMaxListeners = 4"

definition ChangePublisher_new :: ChangePublisher where
  "ChangePublisher_new = \<lparr>mListeners = [], mPump = None\<rparr>"

definition publisherSetCommandPumpHandler :: "handler option \<Rightarrow> ChangePublisher \<Rightarrow> ChangePublisher" where
  "publisherSetCommandPumpHandler h p = p\<lparr>mPump := h\<rparr>"

definition Add :: "listener option \<Rightarrow> ChangePublisher \<Rightarrow> Status \<times> ChangePublisher" where
  "Add lst p =
     (case lst of
        None \<Rightarrow> (InvalidArgument, p)
      | Some l \<Rightarrow>
          if l \<in> set (mListeners p) then (AlreadyRegistered, p)
          else if length (mListeners p) \<ge> kMaxListeners then (Full, p)
          else (Ok, p\<lparr>mListeners := mListeners p @ [l]\<rparr>))"

definition Remove :: "listener option \<Rightarrow> ChangePublisher \<Rightarrow> ChangePublisher" where
  "Remove lst p =
     (case lst of
        None \<Rightarrow> p
      | Some l \<Rightarrow> p\<lparr>mListeners := filter (\<lambda>x. x \<noteq> l) (mListeners p)\<rparr>)"

definition listenerCount :: "ChangePublisher \<Rightarrow> nat" where
  "listenerCount p = length (mListeners p)"

definition snapshot :: "ChangePublisher \<Rightarrow> Snapshot" where
  "snapshot p = \<lparr>slots = mListeners p, snap_count = length (mListeners p)\<rparr>"

definition notify :: "LogicalAttribute list \<Rightarrow> Snapshot \<Rightarrow> DispatchCall list" where
  "notify attributes snap =
     map (\<lambda>i. OnChangedAttributes (slots snap ! i) attributes) [0..<snap_count snap]"

definition firePump :: "ChangePublisher \<Rightarrow> DispatchCall list" where
  "firePump p = (case mPump p of None \<Rightarrow> [] | Some h \<Rightarrow> [CommandPump h])"

definition publisherReset :: "ChangePublisher \<Rightarrow> ChangePublisher" where
  "publisherReset p = p\<lparr>mListeners := [], mPump := None\<rparr>"

section \<open>The registry as a transition system\<close>

inductive publisher_step :: "ChangePublisher \<Rightarrow> ChangePublisher \<Rightarrow> bool" where
  step_add: "publisher_step p (snd (Add l p))"
| step_remove: "publisher_step p (Remove l p)"
| step_pump: "publisher_step p (publisherSetCommandPumpHandler h p)"
| step_reset: "publisher_step p (publisherReset p)"

inductive_cases publisher_stepE: "publisher_step p q"

definition publisher_inv :: "ChangePublisher \<Rightarrow> bool" where
  "publisher_inv p = (distinct (mListeners p) \<and> length (mListeners p) \<le> kMaxListeners)"

lemma publisher_inv_Add: "publisher_inv p \<Longrightarrow> publisher_inv (snd (Add l p))"
  by (cases l) (auto simp: publisher_inv_def Add_def)

lemma publisher_inv_Remove: "publisher_inv p \<Longrightarrow> publisher_inv (Remove l p)"
  by (cases l) (auto simp: publisher_inv_def Remove_def intro: le_trans [OF length_filter_le])

lemma notify_snapshot: "notify as (snapshot p) = map (\<lambda>l. OnChangedAttributes l as) (mListeners p)"
  by (rule nth_equalityI) (simp_all add: notify_def snapshot_def)

interpretation publisher: inductive_invariant
  "\<lambda>p. p = ChangePublisher_new" publisher_step publisher_inv
proof unfold_locales
  show "p = ChangePublisher_new \<Longrightarrow> publisher_inv p" for p
    by (simp add: publisher_inv_def ChangePublisher_new_def)
  show "publisher_inv p \<Longrightarrow> publisher_step p q \<Longrightarrow> publisher_inv q" for p q
    by (erule publisher_stepE) (simp_all add: publisher_inv_Add publisher_inv_Remove,
        simp_all add: publisher_inv_def publisherSetCommandPumpHandler_def publisherReset_def)
qed

section \<open>Properties\<close>

text \<open>
  The listener registry. However registrations and removals are interleaved, no listener
  is held twice and the fixed array of the snapshot is never overrun, so a dispatch calls
  each registered listener exactly once. Registering answers Ok exactly when the listener
  is new and there is room, and then, and only then, the listener is added.
\<close>

theorem publisher_registry_correct:
  assumes "reach (\<lambda>p. p = ChangePublisher_new) publisher_step p"
  shows "snap_count (snapshot p) \<le> kMaxListeners
    \<and> distinct (notify as (snapshot p))
    \<and> set (notify as (snapshot p)) = (\<lambda>l. OnChangedAttributes l as) ` set (mListeners p)
    \<and> (fst (Add (Some l) p) = Ok) = (l \<notin> set (mListeners p) \<and> listenerCount p < kMaxListeners)
    \<and> set (mListeners (snd (Add (Some l) p)))
        = (if fst (Add (Some l) p) = Ok then insert l (set (mListeners p)) else set (mListeners p))
    \<and> set (mListeners (Remove (Some l) p)) = set (mListeners p) - {l}"
proof -
  have "publisher_inv p" using assms by (rule publisher.reach_inv)
  moreover have "snap_count (snapshot p) = length (mListeners p)" by (simp add: snapshot_def)
  ultimately show ?thesis
    by (auto simp: publisher_inv_def notify_snapshot distinct_map inj_on_def Add_def Remove_def
        listenerCount_def)
qed

theorem publisher_registry_correct_witness:
  "fst (Add (Some 3) (snd (Add (Some 2) ChangePublisher_new))) = Ok
   \<and> fst (Add (Some 2) (snd (Add (Some 2) ChangePublisher_new))) \<noteq> Ok"
proof -
  have "reach (\<lambda>p. p = ChangePublisher_new) publisher_step (snd (Add (Some 2) ChangePublisher_new))"
    by (rule reach_step [OF reach_start]) (simp, rule step_add)
  note this [THEN publisher_registry_correct, where l = 3] this [THEN publisher_registry_correct, where l = 2]
  then show ?thesis
    by (auto simp: Add_def ChangePublisher_new_def listenerCount_def kMaxListeners_def)
qed

end
