(* ===== verification/AAI_Installer.thy ===== *)
theory AAI_Installer
  imports Prelude
begin

text \<open>
  Registration of the bridge's attribute-access and command handlers with the Matter SDK
  (\<open>sync/aai_installer.h\<close>, \<open>sync/aai_installer.cpp\<close>). The SDK's two registries are not part
  of this repository: they are a record of operations over an abstract state \<open>'w\<close>, and
  \<open>registry_contract\<close> states the documented behaviour the installer relies on.
\<close>

datatype ChipError = CHIP_NO_ERROR | CHIP_ERROR_INTERNAL | CHIP_ERROR_NO_MEMORY
  | CHIP_ERROR_INVALID_ARGUMENT | CHIP_ERROR_INCORRECT_STATE | CHIP_ERROR_SDK nat
  | IM_ConstraintError | IM_UnsupportedWrite

datatype Aai = ThermostatAai | OnOffAai | FanControlAai | HumidityAai | SdkAai nat
datatype CommandHandlerId = OnOffCmd | ThermostatCmd

record 'w Registry =
  reg_GetThermostat :: "u16 \<Rightarrow> 'w \<Rightarrow> Aai option"
  reg_Register :: "Aai \<Rightarrow> 'w \<Rightarrow> bool \<times> 'w"
  reg_Unregister :: "Aai \<Rightarrow> 'w \<Rightarrow> 'w"
  reg_RegisterCommandHandler :: "CommandHandlerId \<Rightarrow> 'w \<Rightarrow> ChipError \<times> 'w"
  reg_UnregisterCommandHandler :: "CommandHandlerId \<Rightarrow> 'w \<Rightarrow> 'w"

record AAIInstaller =
  mInstalled :: bool
  mBound :: bool

definition AAIInstaller_new :: AAIInstaller where
  "AAIInstaller_new = \<lparr>mInstalled = False, mBound = False\<rparr>"

definition Uninstall :: "'w Registry \<Rightarrow> AAIInstaller \<Rightarrow> 'w \<Rightarrow> AAIInstaller \<times> 'w" where
  "Uninstall R ins w =
     (let w = reg_Unregister R ThermostatAai w;
          w = reg_Unregister R OnOffAai w;
          w = reg_Unregister R FanControlAai w;
          w = reg_Unregister R HumidityAai w;
          w = reg_UnregisterCommandHandler R OnOffCmd w;
          w = reg_UnregisterCommandHandler R ThermostatCmd w
      in (ins\<lparr>mInstalled := False\<rparr>, w))"

definition Install ::
  "'w Registry \<Rightarrow> u16 \<Rightarrow> AAIInstaller \<Rightarrow> 'w \<Rightarrow> ChipError \<times> AAIInstaller \<times> 'w" where
  "Install R endpoint ins w =
     (if mInstalled ins then (CHIP_NO_ERROR, ins, w)
      else
        let ins = ins\<lparr>mBound := True\<rparr>;
            w = (case reg_GetThermostat R endpoint w of
                   Some a \<Rightarrow> if a \<noteq> ThermostatAai then reg_Unregister R a w else w
                 | None \<Rightarrow> w);
            (ok1, w) = reg_Register R ThermostatAai w;
            (ok2, w) = reg_Register R OnOffAai w;
            (ok3, w) = reg_Register R FanControlAai w;
            (ok4, w) = reg_Register R HumidityAai w;
            (e5, w) = reg_RegisterCommandHandler R OnOffCmd w;
            (e6, w) = reg_RegisterCommandHandler R ThermostatCmd w
        in if \<not> (ok1 \<and> ok2 \<and> ok3 \<and> ok4 \<and> e5 = CHIP_NO_ERROR \<and> e6 = CHIP_NO_ERROR)
           then (let (ins, w) = Uninstall R ins w in (CHIP_ERROR_INTERNAL, ins, w))
           else (CHIP_NO_ERROR, ins\<lparr>mInstalled := True\<rparr>, w))"

section \<open>What the installer relies on\<close>

text \<open>
  The documented behaviour of the SDK registries, seen through the sets of registered
  handlers: a successful registration adds the handler, a refused one changes nothing,
  removal removes, and an endpoint lookup for the Thermostat cluster only finds a
  registered handler.
\<close>

definition registry_contract ::
  "'w Registry \<Rightarrow> ('w \<Rightarrow> Aai set) \<Rightarrow> ('w \<Rightarrow> CommandHandlerId set) \<Rightarrow> bool" where
  "registry_contract R aais cmds =
     (\<forall>w e a c.
        aais (snd (reg_Register R a w))
          = (if fst (reg_Register R a w) then insert a (aais w) else aais w)
      \<and> cmds (snd (reg_Register R a w)) = cmds w
      \<and> aais (reg_Unregister R a w) = aais w - {a} \<and> cmds (reg_Unregister R a w) = cmds w
      \<and> cmds (snd (reg_RegisterCommandHandler R c w))
          = (if fst (reg_RegisterCommandHandler R c w) = CHIP_NO_ERROR then insert c (cmds w)
             else cmds w)
      \<and> aais (snd (reg_RegisterCommandHandler R c w)) = aais w
      \<and> cmds (reg_UnregisterCommandHandler R c w) = cmds w - {c}
      \<and> aais (reg_UnregisterCommandHandler R c w) = aais w
      \<and> (reg_GetThermostat R e w = Some a \<longrightarrow> a \<in> aais w))"

abbreviation bridge_aais :: "Aai set" where
  "bridge_aais \<equiv> {ThermostatAai, OnOffAai, FanControlAai, HumidityAai}"

lemma command_handlers: "UNIV = {OnOffCmd, ThermostatCmd}"
proof -
  have "c \<in> {OnOffCmd, ThermostatCmd}" for c by (cases c) simp_all
  then show ?thesis by blast
qed

lemma uninstall_clears:
  assumes "registry_contract R aais cmds" and "Uninstall R ins w = (ins', w')"
  shows "bridge_aais \<inter> aais w' = {} \<and> cmds w' = {} \<and> \<not> mInstalled ins' \<and> mBound ins' = mBound ins"
proof -
  have "cmds w' = cmds w - UNIV" "aais w' = aais w - bridge_aais"
    using assms unfolding registry_contract_def command_handlers
    by (auto simp: Uninstall_def Let_def)
  then show ?thesis using assms(2) by (auto simp: Uninstall_def Let_def)
qed

section \<open>Properties\<close>

text \<open>
  C30. Installation is all or nothing. Given registries that behave as documented, installing
  either registers all four attribute-access interfaces and both command handlers and
  reports success, or reports an internal error with none of them left registered; it
  succeeds exactly when it ends up installed, and repeating it once installed does nothing.
\<close>

theorem install_all_or_nothing:
  assumes contract: "registry_contract R aais cmds"
    and "Install R e ins w = (err, ins', w')" and "\<not> mInstalled ins"
  shows "((err = CHIP_NO_ERROR \<and> bridge_aais \<subseteq> aais w' \<and> cmds w' = UNIV)
          \<or> (err = CHIP_ERROR_INTERNAL \<and> bridge_aais \<inter> aais w' = {} \<and> cmds w' = {}))
    \<and> mInstalled ins' = (err = CHIP_NO_ERROR) \<and> mBound ins'
    \<and> (err = CHIP_NO_ERROR \<longrightarrow> Install R e ins' w' = (CHIP_NO_ERROR, ins', w'))"
proof -
  define w0 where "w0 = (case reg_GetThermostat R e w of
      Some a \<Rightarrow> if a \<noteq> ThermostatAai then reg_Unregister R a w else w | None \<Rightarrow> w)"
  obtain ok1 w1 where 1: "reg_Register R ThermostatAai w0 = (ok1, w1)" by fastforce
  obtain ok2 w2 where 2: "reg_Register R OnOffAai w1 = (ok2, w2)" by fastforce
  obtain ok3 w3 where 3: "reg_Register R FanControlAai w2 = (ok3, w3)" by fastforce
  obtain ok4 w4 where 4: "reg_Register R HumidityAai w3 = (ok4, w4)" by fastforce
  obtain e5 w5 where 5: "reg_RegisterCommandHandler R OnOffCmd w4 = (e5, w5)" by fastforce
  obtain e6 w6 where 6: "reg_RegisterCommandHandler R ThermostatCmd w5 = (e6, w6)" by fastforce
  note calls = 1 2 3 4 5 6
  let ?ok = "ok1 \<and> ok2 \<and> ok3 \<and> ok4 \<and> e5 = CHIP_NO_ERROR \<and> e6 = CHIP_NO_ERROR"
  show ?thesis
  proof (cases ?ok)
    case True
    have reg: "a \<in> aais v' \<and> aais v \<subseteq> aais v'" if "reg_Register R a v = (True, v')" for a v v'
      using contract that unfolding registry_contract_def by (metis fst_conv insertI1 snd_conv subset_insertI)
    have cmd: "aais v' = aais v \<and> cmds v' = insert c (cmds v)"
      if "reg_RegisterCommandHandler R c v = (CHIP_NO_ERROR, v')" for c v v'
      using contract that unfolding registry_contract_def by (metis fst_conv snd_conv)
    have "bridge_aais \<subseteq> aais w6" "cmds w6 = UNIV"
      using True reg [of ThermostatAai w0 w1] reg [of OnOffAai w1 w2] reg [of FanControlAai w2 w3]
        reg [of HumidityAai w3 w4] cmd [of OnOffCmd w4 w5] cmd [of ThermostatCmd w5 w6] calls
      using CommandHandlerId.nchotomy by auto
    moreover have "err = CHIP_NO_ERROR \<and> ins' = ins\<lparr>mBound := True, mInstalled := True\<rparr> \<and> w' = w6"
      using True assms(2,3) unfolding Install_def w0_def [symmetric] by (auto simp: Let_def calls)
    ultimately show ?thesis by (simp add: Install_def)
  next
    case False
    then have "Uninstall R (ins\<lparr>mBound := True\<rparr>) w6 = (ins', w')" "err = CHIP_ERROR_INTERNAL"
      using assms(2,3) unfolding Install_def w0_def [symmetric]
      by (auto simp: Let_def calls split: prod.splits)
    then show ?thesis using uninstall_clears [OF contract] by simp
  qed
qed

definition list_registry :: "nat \<Rightarrow> (Aai list \<times> CommandHandlerId list) Registry" where
  "list_registry cap =
     \<lparr>reg_GetThermostat = (\<lambda>e (as, cs).
        find (\<lambda>a. case a of SdkAai _ \<Rightarrow> True | x \<Rightarrow> x = ThermostatAai) as),
      reg_Register = (\<lambda>a (as, cs).
        if a \<in> set as \<or> length as \<ge> cap then (False, (as, cs)) else (True, (a # as, cs))),
      reg_Unregister = (\<lambda>a (as, cs). (filter (\<lambda>x. x \<noteq> a) as, cs)),
      reg_RegisterCommandHandler = (\<lambda>c (as, cs).
        if c \<in> set cs then (CHIP_ERROR_SDK 1, (as, cs)) else (CHIP_NO_ERROR, (as, c # cs))),
      reg_UnregisterCommandHandler = (\<lambda>c (as, cs). (as, filter (\<lambda>x. x \<noteq> c) cs))\<rparr>"

lemma list_registry_contract: "registry_contract (list_registry cap) (set \<circ> fst) (set \<circ> snd)"
  by (auto simp: registry_contract_def list_registry_def find_Some_iff)

theorem install_all_or_nothing_witness:
  "let (err, ins, w) = Install (list_registry 5) 1 AAIInstaller_new ([SdkAai 7], [])
   in err = CHIP_NO_ERROR \<and> mInstalled ins \<and> (set \<circ> snd) w = UNIV"
proof -
  obtain err ins w where i: "Install (list_registry 5) 1 AAIInstaller_new ([SdkAai 7], []) = (err, ins, w)"
    by (metis prod_cases3)
  have "err = CHIP_NO_ERROR"
    using i by (simp add: Install_def list_registry_def AAIInstaller_new_def Let_def)
  moreover have "\<not> mInstalled AAIInstaller_new" by (simp add: AAIInstaller_new_def)
  ultimately show ?thesis
    using install_all_or_nothing [OF list_registry_contract i] i by simp
qed

end
