(* ===== verification/Sync_Coordinator.thy ===== *)
theory Sync_Coordinator
  imports Bridge_Kernel Change_Publisher AAI_Installer
begin

text \<open>
  The production singleton that wraps the kernel and the publisher
  (\<open>sync/sync_coordinator.h\<close>, \<open>sync/sync_coordinator.cpp\<close>). Each entry point runs its kernel
  call and takes the listener snapshot under one mutex, so it is one atomic function here;
  the calls it makes after releasing the mutex are the returned list. The kernel is
  optional: reaching through it before initialisation or after shutdown is undefined
  behaviour, and the result is then \<open>None\<close>.
\<close>

record SyncCoordinator =
  mEndpoint :: u16
  mInitialised :: bool
  mPublisher :: ChangePublisher
  mKernel :: "BridgeKernel option"
  mInstaller :: AAIInstaller

definition SyncCoordinator_new :: SyncCoordinator where
  "SyncCoordinator_new =
     \<lparr>mEndpoint = 1, mInitialised = False, mPublisher = ChangePublisher_new, mKernel = None,
      mInstaller = AAIInstaller_new\<rparr>"

definition Init ::
  "'w Registry \<Rightarrow> u16 \<Rightarrow> SyncCoordinator \<Rightarrow> 'w \<Rightarrow> ChipError \<times> SyncCoordinator \<times> 'w" where
  "Init R endpoint c w =
     (if mInitialised c then (CHIP_NO_ERROR, c, w)
      else
        let c = c\<lparr>mEndpoint := endpoint, mKernel := Some (BridgeKernel_new ReconcilerConfig_default)\<rparr>;
            (err, ins, w) = Install R endpoint (mInstaller c) w;
            c = c\<lparr>mInstaller := ins\<rparr>
        in if err \<noteq> CHIP_NO_ERROR then (CHIP_ERROR_INTERNAL, c\<lparr>mKernel := None\<rparr>, w)
           else (CHIP_NO_ERROR, c\<lparr>mInitialised := True\<rparr>, w))"

definition Shutdown :: "'w Registry \<Rightarrow> SyncCoordinator \<Rightarrow> 'w \<Rightarrow> SyncCoordinator \<times> 'w" where
  "Shutdown R c w =
     (if \<not> mInitialised c then (c, w)
      else let (ins, w) = Uninstall R (mInstaller c) w
           in (c\<lparr>mInstaller := ins, mKernel := None, mPublisher := publisherReset (mPublisher c),
                 mInitialised := False\<rparr>, w))"

definition SetCommandPumpHandler :: "handler option \<Rightarrow> SyncCoordinator \<Rightarrow> SyncCoordinator" where
  "SetCommandPumpHandler h c = c\<lparr>mPublisher := publisherSetCommandPumpHandler h (mPublisher c)\<rparr>"

definition AddChangedAttributesListener ::
  "listener option \<Rightarrow> SyncCoordinator \<Rightarrow> ChipError \<times> SyncCoordinator" where
  "AddChangedAttributesListener l c =
     (let (status, p) = Add l (mPublisher c) in
      (case status of
         Ok \<Rightarrow> CHIP_NO_ERROR
       | AlreadyRegistered \<Rightarrow> CHIP_NO_ERROR
       | Full \<Rightarrow> CHIP_ERROR_NO_MEMORY
       | InvalidArgument \<Rightarrow> CHIP_ERROR_INVALID_ARGUMENT,
       c\<lparr>mPublisher := p\<rparr>))"

definition RemoveChangedAttributesListener :: "listener option \<Rightarrow> SyncCoordinator \<Rightarrow> SyncCoordinator" where
  "RemoveChangedAttributesListener l c = c\<lparr>mPublisher := Remove l (mPublisher c)\<rparr>"

definition ApplyIntent ::
  "millis \<Rightarrow> WriteIntent \<Rightarrow> SyncCoordinator
    \<Rightarrow> (OperationalChange \<times> DispatchCall list \<times> SyncCoordinator) option" where
  "ApplyIntent now intent c =
     (case mKernel c of
        None \<Rightarrow> None
      | Some k \<Rightarrow>
          (let (change, k') = applyIntent now intent k;
               snap = snapshot (mPublisher c);
               calls = (if dirtyAttributes change \<noteq> [] then notify (dirtyAttributes change) snap else []);
               calls = calls @ (if has_value (sendCommand change) then firePump (mPublisher c) else [])
           in Some (change, calls, c\<lparr>mKernel := Some k'\<rparr>)))"

definition ApplyOperationalObservation ::
  "millis \<Rightarrow> S21OperationalObservation \<Rightarrow> SyncCoordinator
    \<Rightarrow> (OperationalChange \<times> DispatchCall list \<times> SyncCoordinator) option" where
  "ApplyOperationalObservation now obs c =
     (case mKernel c of
        None \<Rightarrow> None
      | Some k \<Rightarrow>
          (let (change, k') = applyOperationalObservation now obs k;
               snap = snapshot (mPublisher c);
               calls = (if dirtyAttributes change \<noteq> [] then notify (dirtyAttributes change) snap else []);
               calls = calls @ (if has_value (sendCommand change) then firePump (mPublisher c) else [])
           in Some (change, calls, c\<lparr>mKernel := Some k'\<rparr>)))"

definition ApplyEnvironmentalObservation ::
  "S21EnvironmentalObservation \<Rightarrow> SyncCoordinator
    \<Rightarrow> (EnvironmentalChange \<times> DispatchCall list \<times> SyncCoordinator) option" where
  "ApplyEnvironmentalObservation obs c =
     (case mKernel c of
        None \<Rightarrow> None
      | Some k \<Rightarrow>
          (let (change, k') = applyEnvironmentalObservation obs k;
               snap = snapshot (mPublisher c);
               calls = (if envDirtyAttributes change \<noteq> []
                        then notify (envDirtyAttributes change) snap else [])
           in Some (change, calls, c\<lparr>mKernel := Some k'\<rparr>)))"

definition OnCommandSent ::
  "S21OperationCommand \<Rightarrow> SyncCoordinator \<Rightarrow> (DispatchCall list \<times> SyncCoordinator) option" where
  "OnCommandSent cmd c =
     map_option (\<lambda>k. ([], c\<lparr>mKernel := Some (onCommandSent cmd k)\<rparr>)) (mKernel c)"

definition OnCommandFailed ::
  "SyncCoordinator \<Rightarrow> (DispatchCall list \<times> SyncCoordinator) option" where
  "OnCommandFailed c = map_option (\<lambda>k. ([], c\<lparr>mKernel := Some (onCommandFailed k)\<rparr>)) (mKernel c)"

definition NotifyLinkDown ::
  "SyncCoordinator \<Rightarrow> (DispatchCall list \<times> SyncCoordinator) option" where
  "NotifyLinkDown c = map_option (\<lambda>k. ([], c\<lparr>mKernel := Some (notifyLinkDown k)\<rparr>)) (mKernel c)"

definition PendingCommand :: "SyncCoordinator \<Rightarrow> S21OperationCommand option option" where
  "PendingCommand c = map_option pendingCommand (mKernel c)"

definition ReadOnOff :: "SyncCoordinator \<Rightarrow> bool option" where
  "ReadOnOff c = map_option readOnOff (mKernel c)"

definition ReadMode :: "SyncCoordinator \<Rightarrow> OperationalMode option" where
  "ReadMode c = map_option readMode (mKernel c)"

definition ReadOccupiedHeatingSetpoint :: "SyncCoordinator \<Rightarrow> i16 option" where
  "ReadOccupiedHeatingSetpoint c = map_option readOccupiedHeatingSetpoint (mKernel c)"

definition ReadOccupiedCoolingSetpoint :: "SyncCoordinator \<Rightarrow> i16 option" where
  "ReadOccupiedCoolingSetpoint c = map_option readOccupiedCoolingSetpoint (mKernel c)"

definition ReadRunningMode :: "SyncCoordinator \<Rightarrow> RunningMode option" where
  "ReadRunningMode c = map_option readRunningMode (mKernel c)"

definition ReadLocalTemperature :: "SyncCoordinator \<Rightarrow> i16 option option" where
  "ReadLocalTemperature c = map_option readLocalTemperature (mKernel c)"

definition ReadOutdoorTemperature :: "SyncCoordinator \<Rightarrow> i16 option option" where
  "ReadOutdoorTemperature c = map_option readOutdoorTemperature (mKernel c)"

definition ReadSetpointSource :: "SyncCoordinator \<Rightarrow> ObservationSource option" where
  "ReadSetpointSource c = map_option readSetpointSource (mKernel c)"

definition ReadSpeedSetting :: "SyncCoordinator \<Rightarrow> u8 option option" where
  "ReadSpeedSetting c = map_option readSpeedSetting (mKernel c)"

definition ReadFanMode :: "SyncCoordinator \<Rightarrow> FanModeCategory option" where
  "ReadFanMode c = map_option readFanMode (mKernel c)"

definition ReadSpeedCurrent :: "SyncCoordinator \<Rightarrow> u8 option" where
  "ReadSpeedCurrent c = map_option readSpeedCurrent (mKernel c)"

definition ReadPercentSetting :: "SyncCoordinator \<Rightarrow> u8 option option" where
  "ReadPercentSetting c = map_option readPercentSetting (mKernel c)"

definition ReadPercentCurrent :: "SyncCoordinator \<Rightarrow> u8 option" where
  "ReadPercentCurrent c = map_option readPercentCurrent (mKernel c)"

definition ReadHumidityCentiPercent :: "SyncCoordinator \<Rightarrow> u16 option option" where
  "ReadHumidityCentiPercent c = map_option readHumidityCentiPercent (mKernel c)"

definition ReadReachable :: "SyncCoordinator \<Rightarrow> bool option" where
  "ReadReachable c = map_option readReachable (mKernel c)"

definition ProjectionSnapshot :: "SyncCoordinator \<Rightarrow> ProjectedClusterState option" where
  "ProjectionSnapshot c = map_option projectionSnapshot (mKernel c)"

definition StateSnapshot :: "SyncCoordinator \<Rightarrow> LogicalACState option" where
  "StateSnapshot c = map_option mState (mKernel c)"

section \<open>Life cycle\<close>

text \<open>
  One call of a public method, by any thread, on a coordinator and the SDK registries. The
  intents are those the attribute-access layer issues.
\<close>

inductive coordinator_step ::
  "'w Registry \<Rightarrow> SyncCoordinator \<times> 'w \<Rightarrow> SyncCoordinator \<times> 'w \<Rightarrow> bool"
  for R :: "'w Registry" where
  "Init R e c w = (err, c', w') \<Longrightarrow> coordinator_step R (c, w) (c', w')"
| "Shutdown R c w = (c', w') \<Longrightarrow> coordinator_step R (c, w) (c', w')"
| "coordinator_step R (c, w) (SetCommandPumpHandler h c, w)"
| "coordinator_step R (c, w) (snd (AddChangedAttributesListener l c), w)"
| "coordinator_step R (c, w) (RemoveChangedAttributesListener l c, w)"
| "intent_ok i \<Longrightarrow> ApplyIntent now i c = Some (ch, calls, c') \<Longrightarrow> coordinator_step R (c, w) (c', w)"
| "ApplyOperationalObservation now obs c = Some (ch, calls, c') \<Longrightarrow>
     coordinator_step R (c, w) (c', w)"
| "ApplyEnvironmentalObservation env c = Some (ech, calls, c') \<Longrightarrow>
     coordinator_step R (c, w) (c', w)"
| "OnCommandSent cmd c = Some (calls, c') \<Longrightarrow> coordinator_step R (c, w) (c', w)"
| "OnCommandFailed c = Some (calls, c') \<Longrightarrow> coordinator_step R (c, w) (c', w)"
| "NotifyLinkDown c = Some (calls, c') \<Longrightarrow> coordinator_step R (c, w) (c', w)"

definition coordinator_inv :: "SyncCoordinator \<times> 'w \<Rightarrow> bool" where
  "coordinator_inv cw =
     (let c = fst cw in
      mInitialised c = has_value (mKernel c) \<and> mInstalled (mInstaller c) = mInitialised c
      \<and> publisher_inv (mPublisher c) \<and> pred_option kernel_reach (mKernel c))"

lemma kernel_reach_step: "kernel_reach k \<Longrightarrow> kernel_step k k' \<Longrightarrow> kernel_reach k'"
  by (rule reach_step)

lemma kernel_reach_new: "kernel_reach (BridgeKernel_new cfg)"
  by (rule reach_start) (auto simp: kernel_start_def)

lemma coordinator_inv_kernel:
  "coordinator_inv (c, w) \<Longrightarrow> mKernel c = Some k \<Longrightarrow> kernel_step k k' \<Longrightarrow>
     coordinator_inv (c\<lparr>mKernel := Some k'\<rparr>, w')"
  using kernel_reach_step by (auto simp: coordinator_inv_def)

lemma coordinator_inv_publisher:
  "coordinator_inv (c, w) \<Longrightarrow> publisher_inv p \<Longrightarrow> coordinator_inv (c\<lparr>mPublisher := p\<rparr>, w')"
  by (simp add: coordinator_inv_def)

lemma Uninstall_mInstalled: "Uninstall R ins w = (ins', w') \<Longrightarrow> \<not> mInstalled ins'"
  by (auto simp: Uninstall_def Let_def)

lemma Install_mInstalled:
  "Install R e ins w = (err, ins', w') \<Longrightarrow> mInstalled ins' = (err = CHIP_NO_ERROR)"
  by (auto simp: Install_def Let_def dest: Uninstall_mInstalled split: prod.splits if_splits)

lemma coordinator_inv_Init:
  assumes "coordinator_inv (c, w)" and "Init R e c w = (err, c', w')"
  shows "coordinator_inv (c', w') \<and> (err = CHIP_NO_ERROR) = mInitialised c'"
proof (cases "mInitialised c")
  case True
  then show ?thesis using assms by (simp add: Init_def coordinator_inv_def)
next
  case False
  obtain err' ins' w'' where i: "Install R e (mInstaller c) w = (err', ins', w'')"
    by (metis prod_cases3)
  then have "mInstalled ins' = (err' = CHIP_NO_ERROR)" by (rule Install_mInstalled)
  then show ?thesis
    using assms False i by (auto simp: Init_def Let_def coordinator_inv_def kernel_reach_new
        split: if_splits)
qed

lemma coordinator_inv_Shutdown:
  assumes "coordinator_inv (c, w)" and "Shutdown R c w = (c', w')"
  shows "coordinator_inv (c', w')"
  using assms by (auto simp: Shutdown_def coordinator_inv_def Let_def publisher_inv_def
      publisherReset_def dest: Uninstall_mInstalled split: prod.splits if_splits)

lemma publisher_inv_pump: "publisher_inv p \<Longrightarrow> publisher_inv (publisherSetCommandPumpHandler h p)"
  by (simp add: publisher_inv_def publisherSetCommandPumpHandler_def)

lemma kernel_step_pairs:
  "intent_ok i \<Longrightarrow> applyIntent now i k = (ch, k') \<Longrightarrow> kernel_step k k'"
  "applyOperationalObservation now obs k = (ch, k') \<Longrightarrow> kernel_step k k'"
  "applyEnvironmentalObservation env k = (ech, k') \<Longrightarrow> kernel_step k k'"
  by (metis snd_conv step_intent, metis snd_conv step_operational, metis snd_conv step_environmental)

definition kernel_call :: "SyncCoordinator \<Rightarrow> SyncCoordinator \<Rightarrow> bool" where
  "kernel_call c c' =
     (\<exists>k k'. mKernel c = Some k \<and> kernel_step k k' \<and> c' = c\<lparr>mKernel := Some k'\<rparr>)"

lemma kernel_calls:
  "intent_ok i \<Longrightarrow> ApplyIntent now i c = Some (ch, calls, c') \<Longrightarrow> kernel_call c c'"
  "ApplyOperationalObservation now obs c = Some (ch, calls, c') \<Longrightarrow> kernel_call c c'"
  "ApplyEnvironmentalObservation env c = Some (ech, calls, c') \<Longrightarrow> kernel_call c c'"
  "OnCommandSent cmd c = Some (calls, c') \<Longrightarrow> kernel_call c c'"
  "OnCommandFailed c = Some (calls, c') \<Longrightarrow> kernel_call c c'"
  "NotifyLinkDown c = Some (calls, c') \<Longrightarrow> kernel_call c c'"
  by (auto simp: kernel_call_def ApplyIntent_def ApplyOperationalObservation_def
        ApplyEnvironmentalObservation_def OnCommandSent_def OnCommandFailed_def NotifyLinkDown_def
        Let_def intro: kernel_step_pairs kernel_step.intros split: option.splits prod.splits)

lemma coordinator_inv_kernel_call:
  "coordinator_inv (c, w) \<Longrightarrow> kernel_call c c' \<Longrightarrow> coordinator_inv (c', w)"
  by (auto simp: kernel_call_def intro: coordinator_inv_kernel)

lemma coordinator_inv_Add:
  "coordinator_inv (c, w) \<Longrightarrow> coordinator_inv (snd (AddChangedAttributesListener l c), w)"
  using publisher_inv_Add [of "mPublisher c" l]
  by (auto simp: AddChangedAttributesListener_def Let_def coordinator_inv_def split: prod.splits)

lemma coordinator_inv_step:
  assumes "coordinator_inv cw" and "coordinator_step R cw cw'"
  shows "coordinator_inv cw'"
  using assms(2,1)
proof cases
  case 3
  then show ?thesis
    using assms(1) by (simp add: SetCommandPumpHandler_def coordinator_inv_def publisher_inv_pump)
next
  case 5
  then show ?thesis
    using assms(1) by (simp add: RemoveChangedAttributesListener_def coordinator_inv_def publisher_inv_Remove)
qed (use assms(1) in \<open>auto simp: coordinator_inv_Add dest: coordinator_inv_Init
      intro: coordinator_inv_Shutdown coordinator_inv_kernel_call kernel_calls\<close>)

interpretation coordinator: inductive_invariant
  "\<lambda>cw. fst cw = SyncCoordinator_new" "coordinator_step R" coordinator_inv
proof unfold_locales
  show "fst cw = SyncCoordinator_new \<Longrightarrow> coordinator_inv cw" for cw :: "SyncCoordinator \<times> 'a"
    by (simp add: coordinator_inv_def SyncCoordinator_new_def AAIInstaller_new_def
        publisher_inv_def ChangePublisher_new_def)
qed (rule coordinator_inv_step)

section \<open>Properties\<close>

abbreviation coordinator_reach :: "'w Registry \<Rightarrow> SyncCoordinator \<times> 'w \<Rightarrow> bool" where
  "coordinator_reach R \<equiv> reach (\<lambda>cw. fst cw = SyncCoordinator_new) (coordinator_step R)"

text \<open>
  C24. An initialised coordinator never reaches through an absent kernel. In every reachable
  state in which it is initialised, all entry points and reads are defined, the bridge's
  handlers are installed, the kernel is in one of its own reachable states, and the
  listener registry is within bounds; and a further initialisation reports success exactly
  when it leaves the coordinator initialised.
\<close>

theorem initialised_coordinator_is_defined:
  assumes "coordinator_reach R (c, w)" and "mInitialised c"
  shows "ApplyIntent now i c \<noteq> None \<and> ApplyOperationalObservation now obs c \<noteq> None
    \<and> ApplyEnvironmentalObservation env c \<noteq> None \<and> OnCommandSent cmd c \<noteq> None
    \<and> OnCommandFailed c \<noteq> None \<and> NotifyLinkDown c \<noteq> None
    \<and> PendingCommand c \<noteq> None \<and> ReadOnOff c \<noteq> None \<and> ProjectionSnapshot c \<noteq> None
    \<and> mInstalled (mInstaller c) \<and> publisher_inv (mPublisher c)
    \<and> (\<exists>k. mKernel c = Some k \<and> kernel_reach k)
    \<and> (\<forall>e err c' w'. Init R e c w = (err, c', w') \<longrightarrow> (err = CHIP_NO_ERROR) = mInitialised c')"
proof -
  have inv: "coordinator_inv (c, w)" using assms(1) by (rule coordinator.reach_inv)
  then obtain k where "mKernel c = Some k" "kernel_reach k"
    using assms(2) by (auto simp: coordinator_inv_def)
  with inv assms(2) coordinator_inv_Init [OF inv] show ?thesis
    by (simp add: coordinator_inv_def ApplyIntent_def ApplyOperationalObservation_def
        ApplyEnvironmentalObservation_def OnCommandSent_def OnCommandFailed_def NotifyLinkDown_def
        PendingCommand_def ReadOnOff_def ProjectionSnapshot_def Let_def split: prod.split)
qed

definition initialisedCoordinator :: SyncCoordinator where
  "initialisedCoordinator =
     fst (snd (Init (list_registry 5) 1 SyncCoordinator_new ([SdkAai 7], [])))"

lemma initialisedCoordinator_eval:
  "\<exists>w. Init (list_registry 5) 1 SyncCoordinator_new ([SdkAai 7], [])
         = (CHIP_NO_ERROR, initialisedCoordinator, w)"
  by (simp add: initialisedCoordinator_def Init_def SyncCoordinator_new_def Install_def
      list_registry_def AAIInstaller_new_def Let_def)

lemma initialisedCoordinator_fields [simp]:
  "mInitialised initialisedCoordinator" "mPublisher initialisedCoordinator = ChangePublisher_new"
  "mKernel initialisedCoordinator = Some (BridgeKernel_new ReconcilerConfig_default)"
  by (simp_all add: initialisedCoordinator_def Init_def SyncCoordinator_new_def Install_def
      list_registry_def AAIInstaller_new_def Let_def)

lemma initialisedCoordinator_reach: "\<exists>w. coordinator_reach (list_registry 5) (initialisedCoordinator, w)"
proof -
  obtain w where i: "Init (list_registry 5) 1 SyncCoordinator_new ([SdkAai 7], [])
         = (CHIP_NO_ERROR, initialisedCoordinator, w)"
    using initialisedCoordinator_eval by blast
  have "coordinator_reach (list_registry 5) (SyncCoordinator_new, ([SdkAai 7], []))"
    by (rule reach_start) simp
  then have "coordinator_reach (list_registry 5) (initialisedCoordinator, w)"
    by (rule reach_step) (rule coordinator_step.intros(1) [OF i])
  then show ?thesis by blast
qed

theorem initialised_coordinator_is_defined_witness:
  "ReadOnOff initialisedCoordinator \<noteq> None \<and> mInstalled (mInstaller initialisedCoordinator)"
proof -
  obtain w where "coordinator_reach (list_registry 5) (initialisedCoordinator, w)"
    using initialisedCoordinator_reach by blast
  then show ?thesis
    using initialised_coordinator_is_defined [OF _ initialisedCoordinator_fields(1)] by metis
qed

definition operationalCalls ::
  "ChangePublisher \<Rightarrow> BridgeKernel \<Rightarrow> BridgeKernel \<Rightarrow> DispatchCall list" where
  "operationalCalls p k k' =
     (if projectionSnapshot k = projectionSnapshot k' then []
      else map (\<lambda>l. OnChangedAttributes l
             (filter (attributeChanged (projectionSnapshot k) (projectionSnapshot k')) reportOrder))
             (mListeners p))
     @ (case mPump p of
          Some h \<Rightarrow> (if pendingCommand k' = None then [] else [CommandPump h])
        | None \<Rightarrow> [])"

lemma applyOne_projectorConfig [simp]:
  "projectorConfig (mConfig (applyOne now i k)) = projectorConfig (mConfig k)"
  by simp

lemma notify_diff:
  "(if diffProjections b a \<noteq> [] then notify (diffProjections b a) (snapshot p) else [])
     = (if b = a then [] else map (\<lambda>l. OnChangedAttributes l (filter (attributeChanged b a) reportOrder))
          (mListeners p))"
  by (simp add: diffProjections_Nil notify_snapshot) (simp add: diffProjections_filter)

lemma operational_dispatch:
  assumes "dirtyAttributes ch = diffProjections (projectionSnapshot k) (projectionSnapshot k')"
    and "sendCommand ch = pendingCommand k'"
  shows "(if dirtyAttributes ch \<noteq> [] then notify (dirtyAttributes ch) (snapshot p) else [])
      @ (if has_value (sendCommand ch) then firePump p else []) = operationalCalls p k k'"
  unfolding assms notify_diff operationalCalls_def by (simp add: firePump_def split: option.split)

lemma mutation_calls:
  assumes "mKernel c = Some k"
  shows "ApplyIntent now i c =
      Some (fst (applyIntent now i k), operationalCalls (mPublisher c) k (snd (applyIntent now i k)),
            c\<lparr>mKernel := Some (snd (applyIntent now i k))\<rparr>)" (is ?A)
    and "ApplyOperationalObservation now obs c =
      Some (fst (applyOperationalObservation now obs k),
            operationalCalls (mPublisher c) k (snd (applyOperationalObservation now obs k)),
            c\<lparr>mKernel := Some (snd (applyOperationalObservation now obs k))\<rparr>)" (is ?B)
    and "ApplyEnvironmentalObservation env c =
      Some (fst (applyEnvironmentalObservation env k),
            operationalCalls ((mPublisher c)\<lparr>mPump := None\<rparr>) k (snd (applyEnvironmentalObservation env k)),
            c\<lparr>mKernel := Some (snd (applyEnvironmentalObservation env k))\<rparr>)" (is ?C)
proof -
  have i: "dirtyAttributes (fst (applyIntent now i k))
      = diffProjections (projectionSnapshot k) (projectionSnapshot (snd (applyIntent now i k)))"
    by (simp add: applyIntent_def Let_def projectionSnapshot_def)
  have o: "dirtyAttributes (fst (applyOperationalObservation now obs k))
      = diffProjections (projectionSnapshot k)
          (projectionSnapshot (snd (applyOperationalObservation now obs k)))"
    by (simp add: applyOperationalObservation_def Let_def projectionSnapshot_def)
  have e: "envDirtyAttributes (fst (applyEnvironmentalObservation env k))
      = diffProjections (projectionSnapshot k)
          (projectionSnapshot (snd (applyEnvironmentalObservation env k)))"
    by (simp add: applyEnvironmentalObservation_def Let_def projectionSnapshot_def)
  note disp = operational_dispatch [OF i applyIntent_eq(2) [unfolded applyIntent_eq(1) [symmetric]]]
    operational_dispatch [OF o
      applyOperationalObservation_eq(2) [unfolded applyOperationalObservation_eq(1) [symmetric]]]
  show ?A ?B
    unfolding ApplyIntent_def ApplyOperationalObservation_def
    by (simp_all only: assms option.case case_prod_beta Let_def disp)
  show ?C
    unfolding ApplyEnvironmentalObservation_def
    by (simp only: assms option.case case_prod_beta Let_def e notify_diff)
       (simp add: operationalCalls_def)
qed

text \<open>
  C21. Which mutations are published, and what exactly is published. After a controller write or an
  operational poll every registered listener is called once if and only if the projected view changed, with
  the changed attributes and no others, and then the command pump fires if and only if a
  command is pending. An environmental poll notifies listeners in the same way and never fires the
  pump, even with a command pending. Recording a sent or a failed command and losing the link make no call at all, whatever
  they change.
\<close>

theorem mutations_publish_exact_changes:
  assumes "mKernel c = Some k"
  shows "ApplyIntent now i c =
      (let k' = snd (applyIntent now i k)
       in Some (fst (applyIntent now i k), operationalCalls (mPublisher c) k k', c\<lparr>mKernel := Some k'\<rparr>))
    \<and> ApplyOperationalObservation now obs c =
      (let k' = snd (applyOperationalObservation now obs k)
       in Some (fst (applyOperationalObservation now obs k), operationalCalls (mPublisher c) k k',
                c\<lparr>mKernel := Some k'\<rparr>))
    \<and> ApplyEnvironmentalObservation env c =
      (let k' = snd (applyEnvironmentalObservation env k)
       in Some (fst (applyEnvironmentalObservation env k),
                operationalCalls ((mPublisher c)\<lparr>mPump := None\<rparr>) k k', c\<lparr>mKernel := Some k'\<rparr>))
    \<and> OnCommandSent cmd c = Some ([], c\<lparr>mKernel := Some (onCommandSent cmd k)\<rparr>)
    \<and> OnCommandFailed c = Some ([], c\<lparr>mKernel := Some (onCommandFailed k)\<rparr>)
    \<and> NotifyLinkDown c = Some ([], c\<lparr>mKernel := Some (notifyLinkDown k)\<rparr>)"
  unfolding Let_def
  by (intro conjI mutation_calls assms)
     (simp_all add: assms OnCommandSent_def OnCommandFailed_def NotifyLinkDown_def)

definition publishingCoordinator :: SyncCoordinator where
  "publishingCoordinator =
     initialisedCoordinator\<lparr>mKernel := Some booted, mPublisher := \<lparr>mListeners = [7, 9], mPump = Some 3\<rparr>\<rparr>"

lemma powered_booted_view:
  "attributeChanged (projectionSnapshot booted) (projectionSnapshot (applyOne 5 (SetOnOffIntent True) booted))
     LogicalAttribute.OnOff"
  "pendingCommand (applyOne 5 (SetOnOffIntent True) booted) \<noteq> None"
  by (simp_all add: projectionSnapshot_def project_def projectedOnOff_def projectedValue_def pendingCommand_def
      anyDirty_def dirty_def apply_SetOnOffIntent_def intentPassesGuard_def)

theorem mutations_publish_exact_changes_witness:
  "\<exists>ch attrs c'. ApplyIntent 5 (SetOnOffIntent True) publishingCoordinator
       = Some (ch, [OnChangedAttributes 7 attrs, OnChangedAttributes 9 attrs, CommandPump 3], c')
     \<and> LogicalAttribute.OnOff \<in> set attrs"
proof -
  have k: "mKernel publishingCoordinator = Some booted"
    "mPublisher publishingCoordinator = \<lparr>mListeners = [7, 9], mPump = Some 3\<rparr>"
    by (simp_all add: publishingCoordinator_def)
  have "projectionSnapshot booted \<noteq> projectionSnapshot (applyOne 5 (SetOnOffIntent True) booted)"
    using powered_booted_view(1) unfolding projection_eq_iff by blast
  moreover have "LogicalAttribute.OnOff \<in> set reportOrder" by (simp add: reportOrder_def)
  ultimately show ?thesis
    using mutations_publish_exact_changes [OF k(1), of 5 "SetOnOffIntent True"] powered_booted_view
    by (simp add: Let_def operationalCalls_def k(2) applyIntent_eq del: applyOne.simps)
qed

text \<open>
  Two mutations change what controllers read without telling any listener. Recording that
  a command was sent flips the power attribute from the requested value back to the last
  observed one, and a lost link flips Reachable to false; both make no call at all.
\<close>

theorem silent_projection_changes:
  assumes "mKernel c = Some k" and "twin_phase (onOff (mState k)) = Queued o' d"
    and "mValue (reachable (mState k))"
  shows "ReadOnOff c = Some d
    \<and> (\<exists>c'. OnCommandSent cmd c = Some ([], c') \<and> ReadOnOff c' = Some o' \<and> o' \<noteq> d)
    \<and> ReadReachable c = Some True
    \<and> (\<exists>c'. NotifyLinkDown c = Some ([], c') \<and> ReadReachable c' = Some False)"
proof -
  have "mObserved (onOff (mState k)) = o' \<and> mDesired (onOff (mState k)) = d
      \<and> mInFlight (onOff (mState k)) = None \<and> o' \<noteq> d"
    using assms(2) by (auto simp: twin_phase_def split: option.splits if_splits)
  then show ?thesis
    using assms(1,3) by (simp add: ReadOnOff_def readOnOff_def projectedOnOff_def projectedValue_def
        OnCommandSent_def ReadReachable_def readReachable_def projectedReachable_def
        NotifyLinkDown_def notifyLinkDown_def)
qed

theorem silent_projection_changes_witness:
  "ReadReachable (initialisedCoordinator\<lparr>mKernel := Some (observed 3
       \<lparr>obs_onOff = False, obs_operatingMode = OperatingMode.Auto, obs_setpointCelsius = 2200,
        obs_fanMode = FanMode.Auto, obs_refrigerantValveOpen = None\<rparr> poweredOnByIntent)\<rparr>) = Some True"
proof -
  let ?k = "observed 3 \<lparr>obs_onOff = False, obs_operatingMode = OperatingMode.Auto,
    obs_setpointCelsius = 2200, obs_fanMode = FanMode.Auto, obs_refrigerantValveOpen = None\<rparr>
    poweredOnByIntent"
  have "twin_phase (onOff (mState ?k)) = Queued False True"
    by (simp add: poweredOnByIntent_def apply_SetOnOffIntent_def intentPassesGuard_def
        twin_phase_def twin_observe)
  then show ?thesis
    using silent_projection_changes [of "initialisedCoordinator\<lparr>mKernel := Some ?k\<rparr>" ?k False True]
    by simp
qed

end
