(* ===== verification/Airconditioner_Shell.thy ===== *)
theory Airconditioner_Shell
  imports S21_Shell Sync_Coordinator
begin

text \<open>
  The bridge's debug shell (\<open>airconditioner_shell.cpp\<close>): the value formatters, each of which
  writes into a buffer of \<open>n\<close> bytes, the per-field printers, the status command and its registration. A printed
  line is a string.
\<close>

section \<open>Value formatters\<close>

definition fmtBool :: "nat \<Rightarrow> bool \<Rightarrow> string" where
  "fmtBool n v = snprintf n (if v then ''true'' else ''false'')"

definition fmtOpenClosedOpt :: "nat \<Rightarrow> bool option \<Rightarrow> string" where
  "fmtOpenClosedOpt n v =
     (case v of Some b \<Rightarrow> snprintf n (if b then ''open'' else ''closed'') | None \<Rightarrow> snprintf n ''n/a'')"

definition fmtOnOff :: "nat \<Rightarrow> bool \<Rightarrow> string" where
  "fmtOnOff n v = snprintf n (if v then ''on'' else ''off'')"

definition fmtTemperature :: "nat \<Rightarrow> i16 \<Rightarrow> string" where
  "fmtTemperature n v =
     (let sign = (if sint v < 0 then - 1 else 1 :: int);
          whole = \<bar>sint v sdiv 100\<bar>;
          frac = \<bar>sint v smod 100\<bar>
      in snprintf n ((if sign < 0 then ''-'' else []) @ show_int whole @ ''.'' @ show_02d frac @ ''C''))"

definition fmtTemperatureOpt :: "nat \<Rightarrow> i16 option \<Rightarrow> string" where
  "fmtTemperatureOpt n v = (case v of Some t \<Rightarrow> fmtTemperature n t | None \<Rightarrow> snprintf n ''n/a'')"

definition fmtHumidity :: "nat \<Rightarrow> u8 \<Rightarrow> string" where
  "fmtHumidity n v = snprintf n (show_int (uint v) @ ''%'')"

definition fmtHumidityOpt :: "nat \<Rightarrow> u8 option \<Rightarrow> string" where
  "fmtHumidityOpt n v = (case v of Some h \<Rightarrow> fmtHumidity n h | None \<Rightarrow> snprintf n ''n/a'')"

primrec operationalModeStr :: "OperationalMode \<Rightarrow> string" where
  "operationalModeStr OperationalMode.Auto = ''Auto''"
| "operationalModeStr OperationalMode.Cool = ''Cool''"
| "operationalModeStr OperationalMode.Heat = ''Heat''"
| "operationalModeStr OperationalMode.FanOnly = ''FanOnly''"
| "operationalModeStr OperationalMode.Dry = ''Dry''"

definition fmtOperationalMode :: "nat \<Rightarrow> OperationalMode \<Rightarrow> string" where
  "fmtOperationalMode n v = snprintf n (operationalModeStr v)"

primrec runningModeStr :: "RunningMode \<Rightarrow> string" where
  "runningModeStr RunningMode.Off = ''Off''"
| "runningModeStr RunningMode.Cooling = ''Cooling''"
| "runningModeStr RunningMode.Heating = ''Heating''"

definition fmtRunningMode :: "nat \<Rightarrow> RunningMode \<Rightarrow> string" where
  "fmtRunningMode n v = snprintf n (runningModeStr v)"

primrec fanLevelStr :: "FanLevel \<Rightarrow> string" where
  "fanLevelStr FanLevel.Quiet = ''Quiet''"
| "fanLevelStr FanLevel.Low = ''Low''"
| "fanLevelStr FanLevel.MidLow = ''MidLow''"
| "fanLevelStr FanLevel.Medium = ''Medium''"
| "fanLevelStr FanLevel.MidHigh = ''MidHigh''"
| "fanLevelStr FanLevel.High = ''High''"
| "fanLevelStr (FanLevel_raw b) = ''Unknown''"

definition fmtFanSpeed :: "nat \<Rightarrow> FanSpeed \<Rightarrow> string" where
  "fmtFanSpeed n v = snprintf n (case v of Some l \<Rightarrow> fanLevelStr l | None \<Rightarrow> ''Auto'')"

primrec sourceStr :: "ObservationSource \<Rightarrow> string" where
  "sourceStr Boot = ''Boot''"
| "sourceStr Device = ''Device''"
| "sourceStr Matter = ''Matter''"

section \<open>Printers and the status command\<close>

definition printTwin :: "string \<Rightarrow> 'a TwinField \<Rightarrow> (nat \<Rightarrow> 'a \<Rightarrow> string) \<Rightarrow> string" where
  "printTwin name t fmt =
     (let obs = fmt 16 (mObserved t);
          des = fmt 16 (mDesired t);
          inf = (case mInFlight t of Some v \<Rightarrow> fmt 16 v | None \<Rightarrow> ''-'')
      in ''  '' @ left_justify 18 name @ '' observed='' @ left_justify 10 obs @ '' desired='' @ left_justify 10 des
           @ '' inFlight='' @ left_justify 10 inf @ '' lastSrc='' @ left_justify 6 (sourceStr (mLastSource t))
           @ '' attr='' @ sourceStr (mAttribution t))"

definition printSensor :: "string \<Rightarrow> 'a SensorField \<Rightarrow> (nat \<Rightarrow> 'a \<Rightarrow> string) \<Rightarrow> string" where
  "printSensor name s fmt = ''  '' @ left_justify 18 name @ '' observed='' @ fmt 16 (mValue s)"

definition statusLines :: "LogicalACState \<Rightarrow> string list" where
  "statusLines s =
     [''LogicalACState:'',
      printTwin ''onOff'' (onOff s) fmtOnOff,
      printTwin ''mode'' (mode s) fmtOperationalMode,
      printTwin ''heatSetpoint'' (heatSetpoint s) fmtTemperature,
      printTwin ''coolSetpoint'' (coolSetpoint s) fmtTemperature,
      printTwin ''autoSetpoint'' (autoSetpoint s) fmtTemperature,
      printTwin ''fan'' (fan s) fmtFanSpeed,
      printSensor ''runningMode'' (runningMode s) fmtRunningMode,
      printSensor ''indoorTemp'' (indoorTemp s) fmtTemperatureOpt,
      printSensor ''outdoorTemp'' (outdoorTemp s) fmtTemperatureOpt,
      printSensor ''humidity'' (humidity s) fmtHumidityOpt,
      printSensor ''reachable'' (reachable s) fmtBool,
      printSensor ''refrigerantValve'' (refrigerantValveOpen s) fmtOpenClosedOpt]"

definition CmdStatus :: "SyncCoordinator \<Rightarrow> string list option" where
  "CmdStatus c = map_option statusLines (StateSnapshot c)"

definition sub_airconditioner :: "SyncCoordinator ShellCommand list" where
  "sub_airconditioner =
     [SHELL_CMD_ARG ''status'' (\<lambda>argv c. map_option (\<lambda>ls. (0, map Print ls, c)) (CmdStatus c)) 1 0]"

lemma status_command:
  "shell_execute sub_airconditioner argv c =
     (if argv = [''status'']
      then (case CmdStatus c of Some ls \<Rightarrow> Ran 0 (map Print ls) c | None \<Rightarrow> Undefined)
      else if argv \<noteq> [] \<and> hd argv = ''status'' then WrongParameterCount else CommandNotFound)"
  by (cases argv) (auto simp: shell_execute_def sub_airconditioner_def SHELL_CMD_ARG_def split: option.split)

section \<open>Properties\<close>

definition fits :: "nat \<Rightarrow> (nat \<Rightarrow> 'a \<Rightarrow> string) \<Rightarrow> bool" where
  "fits w fmt = (\<forall>v. length (fmt 16 v) \<le> w \<and> (\<forall>n \<ge> 16. fmt n v = fmt 16 v))"

lemma snprintf_fits: "length s \<le> 15 \<Longrightarrow> 16 \<le> n \<Longrightarrow> snprintf n s = s"
  by (simp add: snprintf_def)

lemma length_show_int: "0 \<le> i \<Longrightarrow> i < 10 ^ Suc k \<Longrightarrow> length (show_int i) \<le> Suc k"
  using length_show_nat [of "nat i" k] by (simp add: show_int_def nat_less_iff)

lemma length_show_02d:
  assumes "0 \<le> i" "i < 100"
  shows "length (show_02d i) = 2"
  using length_show_nat [of "nat i" 1] assms by (auto simp: show_02d_def zero_pad_def nat_less_iff)

lemma fmtTemperature_text: "16 \<le> n \<Longrightarrow> fmtTemperature n v = tempText (sint v) ''C''"
  and fmtTemperature_length: "length (tempText (sint v) ''C'') \<le> 8"
proof -
  have "\<bar>sint v\<bar> \<le> 32768" using sint_i16_bounds [of v] by (simp add: abs_le_iff)
  then have "\<bar>sint v sdiv 100\<bar> < 10 ^ Suc 2" using smod_100(1) [of "sint v"] by simp
  then have "length (show_int \<bar>sint v sdiv 100\<bar>) \<le> 3" using length_show_int [of _ 2] by simp
  moreover have "length (show_02d \<bar>sint v smod 100\<bar>) = 2" using smod_100(2) by (intro length_show_02d) simp_all
  ultimately show len: "length (tempText (sint v) ''C'') \<le> 8" by (simp add: tempText_def)
  have "fmtTemperature n v = snprintf n (tempText (sint v) ''C'')"
    by (simp add: fmtTemperature_def tempText_def Let_def)
  then show "16 \<le> n \<Longrightarrow> fmtTemperature n v = tempText (sint v) ''C''"
    using snprintf_fits [of "tempText (sint v) ''C''" n] len by simp
qed

lemma fits_text:
  assumes "\<And>v n. fmt n v = snprintf n (text v)" and "\<And>v. length (text v) \<le> 10"
  shows "fits 10 fmt"
proof -
  have "fmt n v = text v" if "16 \<le> n" for n v
    using snprintf_fits [of "text v" n] assms(2) [of v] that by (simp add: assms(1))
  then show ?thesis using assms(2) by (simp add: fits_def)
qed

lemma fits_formatters:
  "fits 10 fmtOnOff" "fits 10 fmtOperationalMode" "fits 10 fmtTemperature" "fits 10 fmtFanSpeed"
  "fits 10 fmtRunningMode" "fits 10 fmtTemperatureOpt" "fits 10 fmtHumidityOpt" "fits 10 fmtBool"
  "fits 10 fmtOpenClosedOpt"
proof -
  have om: "length (operationalModeStr m) \<le> 10" for m by (cases m) simp_all
  then show "fits 10 fmtOperationalMode" by (intro fits_text) (auto simp: fmtOperationalMode_def)
  have rm: "length (runningModeStr m) \<le> 10" for m by (cases m) simp_all
  then show "fits 10 fmtRunningMode" by (intro fits_text) (auto simp: fmtRunningMode_def)
  have "length (fanLevelStr l) \<le> 10" for l by (cases l) simp_all
  then show "fits 10 fmtFanSpeed"
    by (intro fits_text [of _ "\<lambda>v. case v of Some l \<Rightarrow> fanLevelStr l | None \<Rightarrow> ''Auto''"])
       (auto simp: fmtFanSpeed_def split: option.splits)
  have t: "length (tempText (sint v) ''C'') \<le> 10" for v :: i16 using fmtTemperature_length [of v] by simp
  show "fits 10 fmtTemperature" using t by (simp add: fits_def fmtTemperature_text)
  show "fits 10 fmtTemperatureOpt"
    using t by (auto simp: fits_def fmtTemperatureOpt_def fmtTemperature_text snprintf_def split: option.splits)
  have h: "length (show_int (uint h) @ ''%'') \<le> 4" for h :: u8
    using length_show_int [of "uint h" 2] uint_u8_bounds [of h] by simp
  have "fmtHumidity n h = show_int (uint h) @ ''%''" if "16 \<le> n" for n h
    using snprintf_fits [of "show_int (uint h) @ ''%''" n] h [of h] that by (simp add: fmtHumidity_def)
  moreover have "length (show_int (uint h)) \<le> 9" for h :: u8 using h [of h] by simp
  ultimately show "fits 10 fmtHumidityOpt"
    by (auto simp: fits_def fmtHumidityOpt_def snprintf_def split: option.splits)
qed (auto simp: fits_def fmtBool_def fmtOpenClosedOpt_def fmtOnOff_def snprintf_def split: option.splits)

lemma length_left_justify: "length s \<le> w \<Longrightarrow> length (left_justify w s) = w"
  by (simp add: left_justify_def)

lemma source_column: "length (left_justify 6 (sourceStr x)) = 6"
  by (cases x) (simp_all add: left_justify_def)

lemma dash_column: "length (left_justify 10 ''-'') = 10"
  by (simp add: left_justify_def)

lemma fits_width: "fits w fmt \<Longrightarrow> length (fmt 16 v) \<le> w"
  unfolding fits_def by blast

lemma printTwin_columns:
  assumes "fits 10 fmt" and "length name \<le> 18"
  shows "length (printTwin name t fmt) = 100 + length (sourceStr (mAttribution t))"
proof -
  have f: "length (left_justify 10 (fmt 16 v)) = 10" for v
    by (rule length_left_justify [OF fits_width [OF assms(1)]])
  have n: "length (left_justify 18 name) = 18" using assms(2) by (rule length_left_justify)
  show ?thesis
    unfolding printTwin_def Let_def
    by (cases "mInFlight t")
       (simp_all only: option.case length_append f n source_column dash_column, simp_all)
qed

lemma statusLines_columns:
  "map length (take 6 (tl (statusLines s)))
      = map (\<lambda>a. 100 + length (sourceStr a))
          [mAttribution (onOff s), mAttribution (mode s), mAttribution (heatSetpoint s),
           mAttribution (coolSetpoint s), mAttribution (autoSetpoint s), mAttribution (fan s)]"
proof -
  have names: "length ''onOff'' \<le> 18" "length ''mode'' \<le> 18" "length ''heatSetpoint'' \<le> 18"
      "length ''coolSetpoint'' \<le> 18" "length ''autoSetpoint'' \<le> 18" "length ''fan'' \<le> 18"
    by simp_all
  have "take 6 (tl (statusLines s)) =
     [printTwin ''onOff'' (onOff s) fmtOnOff, printTwin ''mode'' (mode s) fmtOperationalMode,
      printTwin ''heatSetpoint'' (heatSetpoint s) fmtTemperature, printTwin ''coolSetpoint'' (coolSetpoint s) fmtTemperature,
      printTwin ''autoSetpoint'' (autoSetpoint s) fmtTemperature, printTwin ''fan'' (fan s) fmtFanSpeed]"
    unfolding statusLines_def by (simp add: numeral_eq_Suc)
  then show ?thesis
    by (simp only: list.map printTwin_columns [OF fits_formatters(1) names(1)]
        printTwin_columns [OF fits_formatters(2) names(2)] printTwin_columns [OF fits_formatters(3) names(3)]
        printTwin_columns [OF fits_formatters(3) names(4)] printTwin_columns [OF fits_formatters(3) names(5)]
        printTwin_columns [OF fits_formatters(4) names(6)])
qed

lemma fmtTemperature_inj: "inj (fmtTemperature 16)"
proof (rule injI)
  fix v w :: i16
  assume eq: "fmtTemperature 16 v = fmtTemperature 16 w"
  have b: "\<bar>sint x\<bar> \<le> LONG_MAX" for x :: i16
    using sint_i16_bounds [of x] by (simp add: LONG_MAX_def abs_le_iff)
  have u: "case ''C'' of [] \<Rightarrow> True | c # cs \<Rightarrow> \<not> is_digit c" by (simp add: is_digit_def)
  have "tempText (sint v) ''C'' = tempText (sint w) ''C''" using eq by (simp add: fmtTemperature_text)
  then have "(sint v, ''C'') = (sint w, ''C'')"
    using readTemp_tempText [OF b u, of v] readTemp_tempText [OF b u, of w] by metis
  then show "v = w" by (simp add: i16_eq_iff_sint)
qed

text \<open>
  C35. The status table never truncates or misaligns. Every value a formatter can be given fits
  its 16-byte buffer, so a larger buffer would print the same, and fits its ten-character
  column, so in every state the six rows of the twins have the same width up to the
  attribution; different temperatures print differently.
\<close>

theorem status_cells_fit:
  "fits 10 fmtOnOff \<and> fits 10 fmtOperationalMode \<and> fits 10 fmtTemperature \<and> fits 10 fmtFanSpeed
   \<and> fits 10 fmtRunningMode \<and> fits 10 fmtTemperatureOpt \<and> fits 10 fmtHumidityOpt \<and> fits 10 fmtBool
   \<and> fits 10 fmtOpenClosedOpt
   \<and> map length (take 6 (tl (statusLines s)))
      = map (\<lambda>a. 100 + length (sourceStr a))
          [mAttribution (onOff s), mAttribution (mode s), mAttribution (heatSetpoint s),
           mAttribution (coolSetpoint s), mAttribution (autoSetpoint s), mAttribution (fan s)]
   \<and> inj (fmtTemperature 16)"
  by (simp only: fits_formatters statusLines_columns fmtTemperature_inj simp_thms)

end
