(* ===== verification/AAI_Translation.thy ===== *)
theory AAI_Translation
  imports Fan_Mapping
begin

text \<open>
  The tables between the domain types and the Matter cluster types
  (\<open>sync/aai_translation.h\<close>). The cluster enumerations and identifiers are the ones the
  repository's data model declares (\<open>default_zap/room-airconditioner.matter\<close>), from which the SDK's
  accessors are generated. A byte outside an enumeration is held by its raw constructor.
\<close>

type_synonym ClusterId = u32
type_synonym AttributeId = u32

datatype SystemModeEnum =
  kOff | kAuto | kCool | kHeat | kEmergencyHeat | kPrecooling | kFanOnly | kDry | kSleep
  | SystemModeEnum_raw u8

datatype ThermostatRunningModeEnum = kOff | kCool | kHeat

datatype SetpointChangeSourceEnum = kManual | kSchedule | kExternal

datatype FanModeEnum = kOff | kLow | kMedium | kHigh | kOn | kAuto | kSmart | FanModeEnum_raw u8

datatype 'a Nullable = Null | NonNull 'a

abbreviation (input) OnOff_ClusterId :: ClusterId where "OnOff_ClusterId \<equiv> 0x0006"
abbreviation (input) Thermostat_ClusterId :: ClusterId where "Thermostat_ClusterId \<equiv> 0x0201"
abbreviation (input) FanControl_ClusterId :: ClusterId where "FanControl_ClusterId \<equiv> 0x0202"
abbreviation (input) Humidity_ClusterId :: ClusterId where "Humidity_ClusterId \<equiv> 0x0405"

abbreviation (input) OnOff_Id :: AttributeId where "OnOff_Id \<equiv> 0x0000"
abbreviation (input) LocalTemperature_Id :: AttributeId where "LocalTemperature_Id \<equiv> 0x0000"
abbreviation (input) OutdoorTemperature_Id :: AttributeId where "OutdoorTemperature_Id \<equiv> 0x0001"
abbreviation (input) OccupiedCoolingSetpoint_Id :: AttributeId where "OccupiedCoolingSetpoint_Id \<equiv> 0x0011"
abbreviation (input) OccupiedHeatingSetpoint_Id :: AttributeId where "OccupiedHeatingSetpoint_Id \<equiv> 0x0012"
abbreviation (input) SystemMode_Id :: AttributeId where "SystemMode_Id \<equiv> 0x001C"
abbreviation (input) ThermostatRunningMode_Id :: AttributeId where "ThermostatRunningMode_Id \<equiv> 0x001E"
abbreviation (input) SetpointChangeSource_Id :: AttributeId where "SetpointChangeSource_Id \<equiv> 0x0030"
abbreviation (input) SetpointChangeSourceTimestamp_Id :: AttributeId where
  "SetpointChangeSourceTimestamp_Id \<equiv> 0x0032"
abbreviation (input) FanMode_Id :: AttributeId where "FanMode_Id \<equiv> 0x0000"
abbreviation (input) PercentSetting_Id :: AttributeId where "PercentSetting_Id \<equiv> 0x0002"
abbreviation (input) PercentCurrent_Id :: AttributeId where "PercentCurrent_Id \<equiv> 0x0003"
abbreviation (input) SpeedSetting_Id :: AttributeId where "SpeedSetting_Id \<equiv> 0x0005"
abbreviation (input) SpeedCurrent_Id :: AttributeId where "SpeedCurrent_Id \<equiv> 0x0006"
abbreviation (input) MeasuredValue_Id :: AttributeId where "MeasuredValue_Id \<equiv> 0x0000"

definition toMatterSystemMode :: "bool \<Rightarrow> OperationalMode \<Rightarrow> SystemModeEnum" where
  "toMatterSystemMode on m =
     (if \<not> on then SystemModeEnum.kOff
      else case m of
        OperationalMode.Auto \<Rightarrow> SystemModeEnum.kAuto
      | OperationalMode.Cool \<Rightarrow> SystemModeEnum.kCool
      | OperationalMode.Heat \<Rightarrow> SystemModeEnum.kHeat
      | OperationalMode.Dry \<Rightarrow> SystemModeEnum.kDry
      | OperationalMode.FanOnly \<Rightarrow> SystemModeEnum.kFanOnly)"

definition fromMatterSystemMode :: "SystemModeEnum \<Rightarrow> (bool \<times> OperationalMode) option" where
  "fromMatterSystemMode v =
     (case v of
        SystemModeEnum.kOff \<Rightarrow> Some (False, OperationalMode.Auto)
      | SystemModeEnum.kAuto \<Rightarrow> Some (True, OperationalMode.Auto)
      | SystemModeEnum.kCool \<Rightarrow> Some (True, OperationalMode.Cool)
      | SystemModeEnum.kHeat \<Rightarrow> Some (True, OperationalMode.Heat)
      | kEmergencyHeat \<Rightarrow> Some (True, OperationalMode.Heat)
      | kPrecooling \<Rightarrow> Some (True, OperationalMode.Cool)
      | kDry \<Rightarrow> Some (True, OperationalMode.Dry)
      | kFanOnly \<Rightarrow> Some (True, OperationalMode.FanOnly)
      | kSleep \<Rightarrow> None
      | SystemModeEnum_raw _ \<Rightarrow> None)"

definition toMatterRunningMode :: "RunningMode \<Rightarrow> ThermostatRunningModeEnum" where
  "toMatterRunningMode r =
     (case r of
        RunningMode.Off \<Rightarrow> ThermostatRunningModeEnum.kOff
      | Cooling \<Rightarrow> ThermostatRunningModeEnum.kCool
      | Heating \<Rightarrow> ThermostatRunningModeEnum.kHeat)"

definition toMatterSetpointSource :: "ObservationSource \<Rightarrow> SetpointChangeSourceEnum" where
  "toMatterSetpointSource s =
     (case s of Matter \<Rightarrow> kExternal | Device \<Rightarrow> kManual | Boot \<Rightarrow> kManual)"

definition toMatterFanMode :: "FanModeCategory \<Rightarrow> FanModeEnum" where
  "toMatterFanMode c =
     (case c of
        FanModeCategory.Off \<Rightarrow> FanModeEnum.kOff
      | FanModeCategory.Low \<Rightarrow> kLow
      | FanModeCategory.Medium \<Rightarrow> kMedium
      | FanModeCategory.High \<Rightarrow> kHigh
      | FanModeCategory.Auto \<Rightarrow> FanModeEnum.kAuto)"

datatype FanModeWriteKind = PowerOff | SetSpeed | Reject

record FanModeWrite =
  fmw_kind :: FanModeWriteKind
  fmw_speed :: FanSpeed

definition fromMatterFanMode :: "FanModeEnum \<Rightarrow> FanModeWrite" where
  "fromMatterFanMode v =
     (case v of
        FanModeEnum.kOff \<Rightarrow> \<lparr>fmw_kind = PowerOff, fmw_speed = None\<rparr>
      | kLow \<Rightarrow>
          \<lparr>fmw_kind = SetSpeed, fmw_speed = Some (representativeSpeed FanModeCategory.Low)\<rparr>
      | kMedium \<Rightarrow>
          \<lparr>fmw_kind = SetSpeed, fmw_speed = Some (representativeSpeed FanModeCategory.Medium)\<rparr>
      | kHigh \<Rightarrow>
          \<lparr>fmw_kind = SetSpeed, fmw_speed = Some (representativeSpeed FanModeCategory.High)\<rparr>
      | kOn \<Rightarrow>
          \<lparr>fmw_kind = SetSpeed, fmw_speed = Some (representativeSpeed FanModeCategory.High)\<rparr>
      | FanModeEnum.kAuto \<Rightarrow> \<lparr>fmw_kind = SetSpeed, fmw_speed = None\<rparr>
      | kSmart \<Rightarrow> \<lparr>fmw_kind = SetSpeed, fmw_speed = None\<rparr>
      | FanModeEnum_raw _ \<Rightarrow> \<lparr>fmw_kind = Reject, fmw_speed = None\<rparr>)"

primrec toMatterAddress :: "LogicalAttribute \<Rightarrow> ClusterId \<times> AttributeId" where
  "toMatterAddress LogicalAttribute.OnOff = (OnOff_ClusterId, OnOff_Id)"
| "toMatterAddress LogicalAttribute.SystemMode = (Thermostat_ClusterId, SystemMode_Id)"
| "toMatterAddress OccupiedHeatingSetpoint = (Thermostat_ClusterId, OccupiedHeatingSetpoint_Id)"
| "toMatterAddress OccupiedCoolingSetpoint = (Thermostat_ClusterId, OccupiedCoolingSetpoint_Id)"
| "toMatterAddress LogicalAttribute.RunningMode = (Thermostat_ClusterId, ThermostatRunningMode_Id)"
| "toMatterAddress LocalTemperature = (Thermostat_ClusterId, LocalTemperature_Id)"
| "toMatterAddress OutdoorTemperature = (Thermostat_ClusterId, OutdoorTemperature_Id)"
| "toMatterAddress SetpointSource = (Thermostat_ClusterId, SetpointChangeSource_Id)"
| "toMatterAddress SpeedSetting = (FanControl_ClusterId, SpeedSetting_Id)"
| "toMatterAddress LogicalAttribute.FanMode = (FanControl_ClusterId, FanMode_Id)"
| "toMatterAddress SpeedCurrent = (FanControl_ClusterId, SpeedCurrent_Id)"
| "toMatterAddress PercentSetting = (FanControl_ClusterId, PercentSetting_Id)"
| "toMatterAddress PercentCurrent = (FanControl_ClusterId, PercentCurrent_Id)"
| "toMatterAddress Humidity = (Humidity_ClusterId, MeasuredValue_Id)"
| "toMatterAddress Reachable = (0, 0)"

definition wrap :: "'a option \<Rightarrow> 'a Nullable" where
  "wrap v = (case v of Some x \<Rightarrow> NonNull x | None \<Rightarrow> Null)"

section \<open>Properties\<close>

text \<open>
  The Matter tables are coherent. Reading back a mode the tables accept gives the
  controller its own value for the six modes the unit has and the nearest one for the two
  aliases; a fan mode the tables turn into a speed reads back as that fan mode (On reads
  High, Smart reads Auto); distinct attributes have distinct addresses, and only Reachable
  has the null address.
\<close>

theorem matter_tables_coherent:
  "(\<forall>on m. fromMatterSystemMode (toMatterSystemMode on m) = Some (if on then (True, m) else (False, OperationalMode.Auto)))
   \<and> (\<forall>v. map_option (\<lambda>(on, m). toMatterSystemMode on m) (fromMatterSystemMode v)
        = (case v of kEmergencyHeat \<Rightarrow> Some SystemModeEnum.kHeat | kPrecooling \<Rightarrow> Some SystemModeEnum.kCool
           | kSleep \<Rightarrow> None | SystemModeEnum_raw _ \<Rightarrow> None | _ \<Rightarrow> Some v))
   \<and> (\<forall>v. (if fmw_kind (fromMatterFanMode v) = SetSpeed
            then Some (toMatterFanMode (fanModeOf (fmw_speed (fromMatterFanMode v)))) else None)
        = (case v of FanModeEnum.kOff \<Rightarrow> None | FanModeEnum_raw _ \<Rightarrow> None | kOn \<Rightarrow> Some kHigh
           | kSmart \<Rightarrow> Some FanModeEnum.kAuto | _ \<Rightarrow> Some v))
   \<and> inj toMatterAddress
   \<and> (\<forall>a. toMatterAddress a = (0, 0) \<longleftrightarrow> a = Reachable)"
proof -
  have "toMatterAddress a = toMatterAddress b \<Longrightarrow> a = b" for a b
    by (cases a; cases b) simp_all
  then have "inj toMatterAddress" by (rule injI)
  moreover have "toMatterAddress a = (0, 0) \<longleftrightarrow> a = Reachable" for a
    by (cases a) simp_all
  moreover have "fromMatterSystemMode (toMatterSystemMode on m)
      = Some (if on then (True, m) else (False, OperationalMode.Auto))" for on m
    by (cases m) (simp_all add: fromMatterSystemMode_def toMatterSystemMode_def)
  moreover have "map_option (\<lambda>(on, m). toMatterSystemMode on m) (fromMatterSystemMode v)
      = (case v of kEmergencyHeat \<Rightarrow> Some SystemModeEnum.kHeat | kPrecooling \<Rightarrow> Some SystemModeEnum.kCool
         | kSleep \<Rightarrow> None | SystemModeEnum_raw _ \<Rightarrow> None | _ \<Rightarrow> Some v)" for v
    by (cases v) (simp_all add: fromMatterSystemMode_def toMatterSystemMode_def)
  moreover have "(if fmw_kind (fromMatterFanMode v) = SetSpeed
        then Some (toMatterFanMode (fanModeOf (fmw_speed (fromMatterFanMode v)))) else None)
      = (case v of FanModeEnum.kOff \<Rightarrow> None | FanModeEnum_raw _ \<Rightarrow> None | kOn \<Rightarrow> Some kHigh
         | kSmart \<Rightarrow> Some FanModeEnum.kAuto | _ \<Rightarrow> Some v)" for v
    by (cases v) (simp_all add: fromMatterFanMode_def toMatterFanMode_def fanModeOf_def representativeSpeed_def)
  ultimately show ?thesis by blast
qed

end
