(* ===== verification/S21_Manager.thy ===== *)
theory S21_Manager
  imports S21_Presentation
begin

text \<open>
  The orchestration layer above the presentation layer (\<open>s21/s21_manager.h\<close>,
  \<open>s21/s21_manager.cpp\<close>): protocol detection, per-command capability tracking, read-through
  caches and the accessors built on them. The blocking presentation interface
  (\<open>s21/s21_presentation_sync.h\<close>) is a record of operations over a state \<open>'p\<close> that stands
  for everything below it, the clock included.
\<close>

record 'p S21PresentationSync =
  ps_setOperation :: "bool \<Rightarrow> OperatingMode \<Rightarrow> i16 \<Rightarrow> FanMode \<Rightarrow> 'p \<Rightarrow> (unit, S21DataLinkError) expected \<times> 'p"
  ps_getOperation :: "'p \<Rightarrow> (GetOperationResult, S21PresentationError) expected \<times> 'p"
  ps_getRoomTemperature :: "'p \<Rightarrow> (i16, S21PresentationError) expected \<times> 'p"
  ps_getOutdoorTemperature :: "'p \<Rightarrow> (i16, S21PresentationError) expected \<times> 'p"
  ps_getHumidity :: "'p \<Rightarrow> (u8, S21PresentationError) expected \<times> 'p"
  ps_getCoarseTemperatureAndHumidity :: "'p \<Rightarrow> (i16 \<times> i16 \<times> u8, S21PresentationError) expected \<times> 'p"
  ps_getFanMode :: "'p \<Rightarrow> (FanMode, S21PresentationError) expected \<times> 'p"
  ps_getProtocolVersion :: "'p \<Rightarrow> (u8 \<times> u8, S21PresentationError) expected \<times> 'p"
  ps_getExtendedProtocolVersion :: "'p \<Rightarrow> (u8 \<times> u8, S21PresentationError) expected \<times> 'p"
  ps_getUnitState :: "'p \<Rightarrow> (UnitState, S21PresentationError) expected \<times> 'p"
  ps_now :: "'p \<Rightarrow> millis"

datatype ManagerError = NotReady | PresentationFailure S21PresentationError | DataLinkFailure S21DataLinkError

datatype CapabilityStatus = Unknown | Supported | NotSupported

record CommandCapability =
  cap_status :: CapabilityStatus
  failureCount :: int

record 'a ReadThroughCache =
  cache_value :: "'a option"
  cache_timestamp :: millis

record S21Manager =
  mCacheMaxAge :: millis
  mIsReady :: bool
  mProtocolMajor :: u8
  mRoomTemperatureCapability :: CommandCapability
  mOutdoorTemperatureCapability :: CommandCapability
  mHumidityCapability :: CommandCapability
  mCoarseTemperatureAndHumidityCapability :: CommandCapability
  mFanModeCapability :: CommandCapability
  mUnitStateCapability :: CommandCapability
  mOperationCache :: "GetOperationResult ReadThroughCache"
  mCoarseTemperatureAndHumidityCache :: "(i16 \<times> i16 \<times> u8) ReadThroughCache"
  mFanModeCache :: "FanMode ReadThroughCache"

type_synonym ('a, 'p) manager_result = "('a, ManagerError) expected \<times> S21Manager \<times> 'p"

definition kThreshold :: int where "kThreshold = 3"

definition CommandCapability_new :: CommandCapability where
  "CommandCapability_new = \<lparr>cap_status = Unknown, failureCount = 0\<rparr>"

definition isUnsupported :: "CommandCapability \<Rightarrow> bool" where
  "isUnsupported cap = (cap_status cap = NotSupported)"

definition recordSuccess :: "CommandCapability \<Rightarrow> CommandCapability" where
  "recordSuccess cap = cap\<lparr>cap_status := Supported, failureCount := 0\<rparr>"

definition recordFailure :: "CommandCapability \<Rightarrow> CommandCapability" where
  "recordFailure cap =
     (if cap_status cap = Supported then cap
      else let cap = cap\<lparr>failureCount := failureCount cap + 1\<rparr>
           in if failureCount cap > kThreshold then cap\<lparr>cap_status := NotSupported\<rparr> else cap)"

definition record_result :: "('a, 'e) expected \<Rightarrow> CommandCapability \<Rightarrow> CommandCapability" where
  "record_result res cap = (if ok res then recordSuccess cap else recordFailure cap)"

definition callWithTracking ::
  "('p \<Rightarrow> ('a, S21PresentationError) expected \<times> 'p) \<Rightarrow> CommandCapability \<times> 'p
    \<Rightarrow> ('a, S21PresentationError) expected \<times> CommandCapability \<times> 'p" where
  "callWithTracking fetch cp =
     (case cp of (cap, p) \<Rightarrow>
        if isUnsupported cap then (Inl Unsupported, cap, p)
        else let (res, p) = fetch p in (res, record_result res cap, p))"

definition cache_get ::
  "millis \<Rightarrow> millis \<Rightarrow> ('s \<Rightarrow> ('a, S21PresentationError) expected \<times> 's) \<Rightarrow> 'a ReadThroughCache \<Rightarrow> 's
    \<Rightarrow> ('a, S21PresentationError) expected \<times> 'a ReadThroughCache \<times> 's" where
  "cache_get maxAge now fetch c s =
     (if has_value (cache_value c) \<and> now - cache_timestamp c \<le> maxAge
      then (Inr (the (cache_value c)), c, s)
      else let (res, s) = fetch s in
           (res,
            (case res of Inr v \<Rightarrow> c\<lparr>cache_value := Some v, cache_timestamp := now\<rparr> | Inl _ \<Rightarrow> c),
            s))"

definition cache_update :: "millis \<Rightarrow> 'a \<Rightarrow> 'a ReadThroughCache \<Rightarrow> 'a ReadThroughCache" where
  "cache_update now v c = c\<lparr>cache_value := Some v, cache_timestamp := now\<rparr>"

definition cache_invalidate :: "'a ReadThroughCache \<Rightarrow> 'a ReadThroughCache" where
  "cache_invalidate c = c\<lparr>cache_value := None\<rparr>"

definition S21Manager_new :: "millis \<Rightarrow> S21Manager" where
  "S21Manager_new maxAge =
     \<lparr>mCacheMaxAge = maxAge, mIsReady = False, mProtocolMajor = 0,
      mRoomTemperatureCapability = CommandCapability_new,
      mOutdoorTemperatureCapability = CommandCapability_new,
      mHumidityCapability = CommandCapability_new,
      mCoarseTemperatureAndHumidityCapability = CommandCapability_new,
      mFanModeCapability = CommandCapability_new,
      mUnitStateCapability = CommandCapability_new,
      mOperationCache = \<lparr>cache_value = None, cache_timestamp = 0\<rparr>,
      mCoarseTemperatureAndHumidityCache = \<lparr>cache_value = None, cache_timestamp = 0\<rparr>,
      mFanModeCache = \<lparr>cache_value = None, cache_timestamp = 0\<rparr>\<rparr>"

definition operationCacheGet ::
  "'p S21PresentationSync \<Rightarrow> S21Manager \<Rightarrow> 'p
    \<Rightarrow> (GetOperationResult, S21PresentationError) expected \<times> S21Manager \<times> 'p" where
  "operationCacheGet P m p =
     (let (res, c, p') = cache_get (mCacheMaxAge m) (ps_now P p) (ps_getOperation P) (mOperationCache m) p
      in (res, m\<lparr>mOperationCache := c\<rparr>, p'))"

definition coarseFetch ::
  "'p S21PresentationSync \<Rightarrow> CommandCapability \<times> 'p
    \<Rightarrow> (i16 \<times> i16 \<times> u8, S21PresentationError) expected \<times> CommandCapability \<times> 'p" where
  "coarseFetch P cp =
     (case cp of (cap, p) \<Rightarrow>
        if isUnsupported cap then (Inl Unsupported, cap, p)
        else let (res, p) = ps_getCoarseTemperatureAndHumidity P p in (res, record_result res cap, p))"

definition coarseCacheGet ::
  "'p S21PresentationSync \<Rightarrow> S21Manager \<Rightarrow> 'p
    \<Rightarrow> (i16 \<times> i16 \<times> u8, S21PresentationError) expected \<times> S21Manager \<times> 'p" where
  "coarseCacheGet P m p =
     (let (res, c, cap, p') = cache_get (mCacheMaxAge m) (ps_now P p) (coarseFetch P)
            (mCoarseTemperatureAndHumidityCache m) (mCoarseTemperatureAndHumidityCapability m, p)
      in (res, m\<lparr>mCoarseTemperatureAndHumidityCache := c,
                mCoarseTemperatureAndHumidityCapability := cap\<rparr>, p'))"

definition fanModeCacheGet ::
  "'p S21PresentationSync \<Rightarrow> S21Manager \<Rightarrow> 'p
    \<Rightarrow> (FanMode, S21PresentationError) expected \<times> S21Manager \<times> 'p" where
  "fanModeCacheGet P m p =
     (let (res, c, cap, p') = cache_get (mCacheMaxAge m) (ps_now P p)
            (callWithTracking (ps_getFanMode P)) (mFanModeCache m) (mFanModeCapability m, p)
      in (res, m\<lparr>mFanModeCache := c, mFanModeCapability := cap\<rparr>, p'))"

definition ENODEV :: int where "ENODEV = 19"

definition manager_Init :: "'p S21PresentationSync \<Rightarrow> S21Manager \<Rightarrow> 'p \<Rightarrow> int \<times> S21Manager \<times> 'p" where
  "manager_Init P m p =
     (if mIsReady m then (0, m, p)
      else let (version, p) = ps_getProtocolVersion P p in
           case version of
             Inl _ \<Rightarrow> (- ENODEV, m, p)
           | Inr (major, minor) \<Rightarrow>
               (let m = m\<lparr>mProtocolMajor := major\<rparr>;
                    (m, p) = (if major \<ge> 2
                              then (let (ext, p) = ps_getExtendedProtocolVersion P p in
                                    case ext of
                                      Inr (major', minor') \<Rightarrow> (m\<lparr>mProtocolMajor := major'\<rparr>, p)
                                    | Inl _ \<Rightarrow> (m, p))
                              else (m, p))
                in (0, m\<lparr>mIsReady := True\<rparr>, p)))"

definition mgr_getOperation ::
  "'p S21PresentationSync \<Rightarrow> S21Manager \<Rightarrow> 'p \<Rightarrow> (GetOperationResult, 'p) manager_result" where
  "mgr_getOperation P m p =
     (if \<not> mIsReady m then (Inl NotReady, m, p)
      else let (op, m, p) = operationCacheGet P m p in
           case op of
             Inl e \<Rightarrow> (Inl (PresentationFailure e), m, p)
           | Inr (on, md, sp, f) \<Rightarrow>
               if on \<and> f = FanMode.Auto
               then (let (fm, m, p) = fanModeCacheGet P m p in
                     case fm of
                       Inr f' \<Rightarrow> (Inr (on, md, sp, f'), m, p)
                     | Inl _ \<Rightarrow> (Inr (on, md, sp, f), m, p))
               else (Inr (on, md, sp, f), m, p))"

definition fromOperation ::
  "(GetOperationResult \<Rightarrow> 'a) \<Rightarrow> 'p S21PresentationSync \<Rightarrow> S21Manager \<Rightarrow> 'p \<Rightarrow> ('a, 'p) manager_result" where
  "fromOperation pick P m p =
     (if \<not> mIsReady m then (Inl NotReady, m, p)
      else let (op, m, p) = operationCacheGet P m p in
           case op of Inl e \<Rightarrow> (Inl (PresentationFailure e), m, p) | Inr x \<Rightarrow> (Inr (pick x), m, p))"

definition mgr_getOnOff :: "'p S21PresentationSync \<Rightarrow> S21Manager \<Rightarrow> 'p \<Rightarrow> (bool, 'p) manager_result" where
  "mgr_getOnOff = fromOperation (\<lambda>(on, md, sp, f). on)"

definition mgr_getOperatingMode ::
  "'p S21PresentationSync \<Rightarrow> S21Manager \<Rightarrow> 'p \<Rightarrow> (OperatingMode, 'p) manager_result" where
  "mgr_getOperatingMode = fromOperation (\<lambda>(on, md, sp, f). md)"

definition mgr_getSetpoint :: "'p S21PresentationSync \<Rightarrow> S21Manager \<Rightarrow> 'p \<Rightarrow> (i16, 'p) manager_result" where
  "mgr_getSetpoint = fromOperation (\<lambda>(on, md, sp, f). sp)"

definition mgr_getFanMode :: "'p S21PresentationSync \<Rightarrow> S21Manager \<Rightarrow> 'p \<Rightarrow> (FanMode, 'p) manager_result" where
  "mgr_getFanMode P m p =
     (if \<not> mIsReady m then (Inl NotReady, m, p)
      else let (res, m, p) = fanModeCacheGet P m p in
           case res of
             Inr f \<Rightarrow> (Inr f, m, p)
           | Inl _ \<Rightarrow>
               (let (op, m, p) = operationCacheGet P m p in
                case op of
                  Inl e \<Rightarrow> (Inl (PresentationFailure e), m, p)
                | Inr (on, md, sp, f) \<Rightarrow> (Inr f, m, p)))"

definition fallBackToCoarse ::
  "(i16 \<times> i16 \<times> u8 \<Rightarrow> 'a) \<Rightarrow> 'p S21PresentationSync
    \<Rightarrow> ('a, S21PresentationError) expected \<times> S21Manager \<times> 'p \<Rightarrow> ('a, 'p) manager_result" where
  "fallBackToCoarse pick P rmp =
     (case rmp of (res, m, p) \<Rightarrow>
        case res of
          Inr v \<Rightarrow> (Inr v, m, p)
        | Inl _ \<Rightarrow>
            (let (coarse, m, p) = coarseCacheGet P m p in
             case coarse of
               Inl e \<Rightarrow> (Inl (PresentationFailure e), m, p)
             | Inr c \<Rightarrow> (Inr (pick c), m, p)))"

definition mgr_getRoomTemperature ::
  "'p S21PresentationSync \<Rightarrow> S21Manager \<Rightarrow> 'p \<Rightarrow> (i16, 'p) manager_result" where
  "mgr_getRoomTemperature P m p =
     (if \<not> mIsReady m then (Inl NotReady, m, p)
      else let (res, cap, p) = callWithTracking (ps_getRoomTemperature P) (mRoomTemperatureCapability m, p)
           in fallBackToCoarse (\<lambda>(i, od, h). i) P (res, m\<lparr>mRoomTemperatureCapability := cap\<rparr>, p))"

definition mgr_getOutdoorTemperature ::
  "'p S21PresentationSync \<Rightarrow> S21Manager \<Rightarrow> 'p \<Rightarrow> (i16, 'p) manager_result" where
  "mgr_getOutdoorTemperature P m p =
     (if \<not> mIsReady m then (Inl NotReady, m, p)
      else let (res, cap, p) = callWithTracking (ps_getOutdoorTemperature P) (mOutdoorTemperatureCapability m, p)
           in fallBackToCoarse (\<lambda>(i, od, h). od) P (res, m\<lparr>mOutdoorTemperatureCapability := cap\<rparr>, p))"

definition mgr_getHumidity :: "'p S21PresentationSync \<Rightarrow> S21Manager \<Rightarrow> 'p \<Rightarrow> (u8, 'p) manager_result" where
  "mgr_getHumidity P m p =
     (if \<not> mIsReady m then (Inl NotReady, m, p)
      else let (res, cap, p) = callWithTracking (ps_getHumidity P) (mHumidityCapability m, p)
           in fallBackToCoarse (\<lambda>(i, od, h). h) P (res, m\<lparr>mHumidityCapability := cap\<rparr>, p))"

definition mgr_setOperation ::
  "'p S21PresentationSync \<Rightarrow> bool \<Rightarrow> OperatingMode \<Rightarrow> i16 \<Rightarrow> FanMode \<Rightarrow> S21Manager \<Rightarrow> 'p
    \<Rightarrow> (unit, 'p) manager_result" where
  "mgr_setOperation P on md sp f m p =
     (if \<not> mIsReady m then (Inl NotReady, m, p)
      else let (res, p) = ps_setOperation P on md sp f p in
           case res of
             Inl e \<Rightarrow> (Inl (DataLinkFailure e), m, p)
           | Inr _ \<Rightarrow>
               (Inr (), m\<lparr>mOperationCache := cache_update (ps_now P p) (on, md, sp, f) (mOperationCache m)\<rparr>, p))"

definition setFromOperation ::
  "(GetOperationResult \<Rightarrow> GetOperationResult) \<Rightarrow> 'p S21PresentationSync \<Rightarrow> S21Manager \<Rightarrow> 'p
    \<Rightarrow> (unit, 'p) manager_result" where
  "setFromOperation change P m p =
     (if \<not> mIsReady m then (Inl NotReady, m, p)
      else let (op, m, p) = operationCacheGet P m p in
           case op of
             Inl e \<Rightarrow> (Inl (PresentationFailure e), m, p)
           | Inr x \<Rightarrow> (case change x of (on, md, sp, f) \<Rightarrow> mgr_setOperation P on md sp f m p))"

definition mgr_setOnOff ::
  "'p S21PresentationSync \<Rightarrow> bool \<Rightarrow> S21Manager \<Rightarrow> 'p \<Rightarrow> (unit, 'p) manager_result" where
  "mgr_setOnOff P on' = setFromOperation (\<lambda>(on, md, sp, f). (on', md, sp, f)) P"

definition mgr_setSetpoint ::
  "'p S21PresentationSync \<Rightarrow> i16 \<Rightarrow> S21Manager \<Rightarrow> 'p \<Rightarrow> (unit, 'p) manager_result" where
  "mgr_setSetpoint P sp' = setFromOperation (\<lambda>(on, md, sp, f). (on, md, sp', f)) P"

definition mgr_setFanMode ::
  "'p S21PresentationSync \<Rightarrow> FanMode \<Rightarrow> S21Manager \<Rightarrow> 'p \<Rightarrow> (unit, 'p) manager_result" where
  "mgr_setFanMode P f' = setFromOperation (\<lambda>(on, md, sp, f). (on, md, sp, f')) P"

definition mgr_getUnitState ::
  "'p S21PresentationSync \<Rightarrow> S21Manager \<Rightarrow> 'p \<Rightarrow> (UnitState, 'p) manager_result" where
  "mgr_getUnitState P m p =
     (if \<not> mIsReady m then (Inl NotReady, m, p)
      else let (res, cap, p) = callWithTracking (ps_getUnitState P) (mUnitStateCapability m, p);
               m = m\<lparr>mUnitStateCapability := cap\<rparr>
           in case res of Inl e \<Rightarrow> (Inl (PresentationFailure e), m, p) | Inr v \<Rightarrow> (Inr v, m, p))"

section \<open>What the accessors rely on: the cache\<close>

text \<open>
  A read-through cache over any representation: what it answers while fresh, what it does
  otherwise, and what a store makes fresh.
\<close>

locale cached_source =
  fixes maxAge :: millis
    and fetch :: "'s \<Rightarrow> ('a, 'e) expected \<times> 's"
    and lookup :: "millis \<Rightarrow> 'c \<Rightarrow> 'a option"
    and get :: "millis \<Rightarrow> 'c \<Rightarrow> 's \<Rightarrow> ('a, 'e) expected \<times> 'c \<times> 's"
    and store :: "millis \<Rightarrow> 'a \<Rightarrow> 'c \<Rightarrow> 'c"
  assumes hit: "lookup now c = Some v \<Longrightarrow> get now c s = (Inr v, c, s)"
    and miss_ok: "lookup now c = None \<Longrightarrow> fetch s = (Inr v, s') \<Longrightarrow> get now c s = (Inr v, store now v c, s')"
    and miss_error: "lookup now c = None \<Longrightarrow> fetch s = (Inl e, s') \<Longrightarrow> get now c s = (Inl e, c, s')"
    and stored: "lookup t' (store t v c) = (if t' - t \<le> maxAge then Some v else None)"
begin

lemma get_after_store: "t' - t \<le> maxAge \<Longrightarrow> get t' (store t v c) s = (Inr v, store t v c, s)"
  by (rule hit) (simp add: stored)

lemma get_repeats:
  assumes "get t c s = (Inr v, c', s')" and "lookup t c = None" and "t' - t \<le> maxAge"
  shows "get t' c' s'' = (Inr v, c', s'')"
proof (cases "fetch s")
  case (Pair r s1)
  then show ?thesis
    using assms miss_ok [OF assms(2), of s] miss_error [OF assms(2), of s] get_after_store
    by (cases r) auto
qed

lemma get_expired:
  "maxAge < t' - t \<Longrightarrow> fst (get t' (store t v c) s) = fst (fetch s)"
  by (cases "fetch s"; cases "fst (fetch s)")
     (simp_all add: miss_ok miss_error stored)

end

definition cache_lookup :: "millis \<Rightarrow> millis \<Rightarrow> 'a ReadThroughCache \<Rightarrow> 'a option" where
  "cache_lookup maxAge now c = (if now - cache_timestamp c \<le> maxAge then cache_value c else None)"

interpretation cache: cached_source maxAge fetch "cache_lookup maxAge"
    "\<lambda>now. cache_get maxAge now fetch" cache_update
  for maxAge fetch
  by unfold_locales
     (auto simp: cache_lookup_def cache_get_def cache_update_def Let_def split: if_splits)

lemmas setters = mgr_setOnOff_def mgr_setSetpoint_def mgr_setFanMode_def setFromOperation_def
lemmas getters = mgr_getOperation_def mgr_getOnOff_def mgr_getOperatingMode_def mgr_getSetpoint_def
  mgr_getFanMode_def mgr_getRoomTemperature_def mgr_getOutdoorTemperature_def mgr_getHumidity_def
  mgr_getUnitState_def fromOperation_def

lemma operationCacheGet_fresh:
  assumes "mOperationCache m = cache_update t v c" and "ps_now P p - t \<le> mCacheMaxAge m"
  shows "operationCacheGet P m p = (Inr v, m, p)"
  using cache.get_after_store [of "ps_now P p" t "mCacheMaxAge m" "ps_getOperation P" v c p] assms
  by (simp add: operationCacheGet_def)

section \<open>Capability tracking\<close>

definition tracked :: "('a, S21PresentationError) expected list \<Rightarrow> CommandCapability" where
  "tracked results =
     foldl (\<lambda>cap res. if isUnsupported cap then cap else record_result res cap) CommandCapability_new results"

lemma tracked_snoc:
  "tracked (rs @ [r]) = (if isUnsupported (tracked rs) then tracked rs else record_result r (tracked rs))"
  by (simp add: tracked_def)

lemma tracked_invariant:
  "(if \<forall>r \<in> set (take 4 rs). \<not> ok r
    then failureCount (tracked rs) = int (min 4 (length rs))
         \<and> cap_status (tracked rs) = (if 4 \<le> length rs then NotSupported else Unknown)
    else cap_status (tracked rs) = Supported)"
proof (induction rs rule: rev_induct)
  case Nil
  then show ?case by (simp add: tracked_def CommandCapability_new_def)
next
  case (snoc r rs)
  show ?case
  proof (cases "4 \<le> length rs")
    case True
    then show ?thesis
      using snoc by (auto simp: tracked_snoc isUnsupported_def record_result_def recordSuccess_def
          recordFailure_def split: if_splits)
  next
    case False
    then show ?thesis
      using snoc by (auto simp: tracked_snoc isUnsupported_def record_result_def recordSuccess_def
          recordFailure_def kThreshold_def Let_def min_def split: if_splits)
  qed
qed

section \<open>Properties\<close>

text \<open>
  A command is given up after exactly four failures in a row from the start, and never once
  it has worked. Over any sequence of results, the tracker marks the command unsupported if
  and only if the first four attempts all failed; from then on the command is not sent
  any more: the attempt answers unsupported and nothing below is touched.
\<close>

theorem capability_given_up_after_four_failures:
  fixes results :: "('a, S21PresentationError) expected list"
  shows "(isUnsupported (tracked results) \<longleftrightarrow> 4 \<le> length results \<and> list_all isl (take 4 results))
    \<and> (isUnsupported (tracked results) \<longrightarrow>
         callWithTracking fetch (tracked results, p) = (Inl Unsupported, tracked results, p))"
  using tracked_invariant [of results]
  by (auto simp: isUnsupported_def callWithTracking_def list_all_iff split: if_splits)

theorem capability_given_up_after_four_failures_witness:
  "isUnsupported (tracked (replicate 4 (Inl Unsupported :: (u8, S21PresentationError) expected)))"
  using capability_given_up_after_four_failures
    [of "replicate 4 (Inl Unsupported :: (u8, S21PresentationError) expected)"
      "\<lambda>p :: unit. (Inl Unsupported :: (u8, S21PresentationError) expected, p)" "()"]
  by (simp add: list_all_iff)

text \<open>
  A poll shortly after a command confirms the bridge's own write. When a command has
  succeeded, every status read whose clock is no more than the cache age later answers with
  the written power, mode, setpoint and fan without contacting the unit, unless the unit is
  on with the fan in Auto; a read that finds the cache expired asks the unit.
\<close>

theorem status_after_write_is_the_write:
  fixes P :: "'p S21PresentationSync"
  assumes "mgr_setOperation P on md sp f m p = (Inr (), m', p')"
  shows "(ps_now P q - ps_now P p' \<le> mCacheMaxAge m \<and> \<not> (on \<and> f = FanMode.Auto) \<longrightarrow>
          mgr_getOperation P m' q = (Inr (on, md, sp, f), m', q))
    \<and> (mCacheMaxAge m < ps_now P q - ps_now P p' \<longrightarrow>
          fst (operationCacheGet P m' q) = fst (ps_getOperation P q))"
proof -
  have m': "mIsReady m'" "mCacheMaxAge m' = mCacheMaxAge m"
      "mOperationCache m' = cache_update (ps_now P p') (on, md, sp, f) (mOperationCache m)"
    using assms by (auto simp: mgr_setOperation_def Let_def split: if_splits prod.splits sum.splits)
  have "mgr_getOperation P m' q = (Inr (on, md, sp, f), m', q)"
    if "ps_now P q - ps_now P p' \<le> mCacheMaxAge m" "\<not> (on \<and> f = FanMode.Auto)"
    using operationCacheGet_fresh [OF m'(3), of P q] that m' by (auto simp: mgr_getOperation_def)
  moreover have "fst (operationCacheGet P m' q) = fst (ps_getOperation P q)"
    if "mCacheMaxAge m < ps_now P q - ps_now P p'"
    using cache.get_expired [of "mCacheMaxAge m" "ps_now P q" "ps_now P p'" "ps_getOperation P"
        "(on, md, sp, f)" "mOperationCache m" q] that
    by (simp add: operationCacheGet_def m'(2,3) case_prod_beta)
  ultimately show ?thesis by blast
qed

definition echoPresentation :: "(GetOperationResult \<times> millis) S21PresentationSync" where
  "echoPresentation =
     \<lparr>ps_setOperation = (\<lambda>on md sp f (d, t). (Inr (), ((on, md, sp, f), t))),
      ps_getOperation = (\<lambda>(d, t). (Inr d, (d, t))),
      ps_getRoomTemperature = (\<lambda>p. (Inr 2150, p)), ps_getOutdoorTemperature = (\<lambda>p. (Inr 900, p)),
      ps_getHumidity = (\<lambda>p. (Inl UnexpectedResponseCode, p)),
      ps_getCoarseTemperatureAndHumidity = (\<lambda>p. (Inr (2150, 900, 45), p)),
      ps_getFanMode = (\<lambda>(d, t). (Inr (snd (snd (snd d))), (d, t))),
      ps_getProtocolVersion = (\<lambda>p. (Inr (2, 0), p)),
      ps_getExtendedProtocolVersion = (\<lambda>p. (Inl UnexpectedResponseCode, p)),
      ps_getUnitState = (\<lambda>p. (Inr \<lparr>us_powerful = False, us_defrost = False,
         us_refrigerantValveOpen = True, us_online = True\<rparr>, p)),
      ps_now = snd\<rparr>"

theorem status_after_write_is_the_write_witness:
  "let m = (S21Manager_new 5000)\<lparr>mIsReady := True\<rparr>;
       r = mgr_setOperation echoPresentation True OperatingMode.Cool 2300 FanMode.Low m
             ((False, OperatingMode.Auto, 2000, FanMode.Quiet), 1000)
   in fst (mgr_getOperation echoPresentation (fst (snd r))
             ((False, OperatingMode.Heat, 1900, FanMode.High), 4000))
      = Inr (True, OperatingMode.Cool, 2300, FanMode.Low)"
proof -
  let ?m = "(S21Manager_new 5000)\<lparr>mIsReady := True\<rparr>"
  let ?d = "(True, OperatingMode.Cool, 2300 :: i16, FanMode.Low)"
  let ?m' = "?m\<lparr>mOperationCache := cache_update 1000 ?d (mOperationCache ?m)\<rparr>"
  have w: "mgr_setOperation echoPresentation True OperatingMode.Cool 2300 FanMode.Low ?m
      ((False, OperatingMode.Auto, 2000, FanMode.Quiet), 1000) = (Inr (), ?m', (?d, 1000))"
    by (simp add: mgr_setOperation_def echoPresentation_def S21Manager_new_def)
  have "ps_now echoPresentation = snd" "mCacheMaxAge ?m = 5000"
    by (simp_all add: echoPresentation_def S21Manager_new_def)
  with status_after_write_is_the_write [OF w, of "((False, OperatingMode.Heat, 1900, FanMode.High), 4000)"]
  show ?thesis by (simp add: w Let_def)
qed

text \<open>
  Nothing is sent before the protocol has been detected. Until initialisation has succeeded
  every accessor answers not ready and leaves the manager and everything below it as they
  were; initialisation succeeds exactly when the version query is answered, makes the
  manager ready exactly then, and once ready does nothing more.
\<close>

theorem manager_not_ready:
  "(\<not> mIsReady m \<longrightarrow>
      mgr_getOperation P m p = (Inl NotReady, m, p) \<and> mgr_getFanMode P m p = (Inl NotReady, m, p)
      \<and> mgr_getRoomTemperature P m p = (Inl NotReady, m, p)
      \<and> mgr_getOutdoorTemperature P m p = (Inl NotReady, m, p)
      \<and> mgr_getHumidity P m p = (Inl NotReady, m, p) \<and> mgr_getUnitState P m p = (Inl NotReady, m, p)
      \<and> mgr_setOperation P on md sp f m p = (Inl NotReady, m, p)
      \<and> mgr_setOnOff P on m p = (Inl NotReady, m, p) \<and> mgr_setSetpoint P sp m p = (Inl NotReady, m, p)
      \<and> mgr_setFanMode P f m p = (Inl NotReady, m, p))
   \<and> (case manager_Init P m p of (rc, m', p') \<Rightarrow>
        mIsReady m' = (mIsReady m \<or> ok (fst (ps_getProtocolVersion P p))) \<and> (rc = 0) = mIsReady m')
   \<and> (mIsReady m \<longrightarrow> manager_Init P m p = (0, m, p))"
proof -
  have "case manager_Init P m p of (rc, m', p') \<Rightarrow>
        mIsReady m' = (mIsReady m \<or> ok (fst (ps_getProtocolVersion P p))) \<and> (rc = 0) = mIsReady m'"
    by (auto simp: manager_Init_def ENODEV_def Let_def split: prod.splits sum.splits if_splits)
  then show ?thesis
    by (simp add: getters setters mgr_setOperation_def manager_Init_def)
qed

theorem manager_not_ready_witness:
  "fst (mgr_getHumidity echoPresentation (S21Manager_new 5000) ((True, OperatingMode.Cool, 2300, FanMode.Low), 0))
     = Inl NotReady"
  using manager_not_ready [of "S21Manager_new 5000" echoPresentation
      "((True, OperatingMode.Cool, 2300, FanMode.Low), 0)"]
  by (simp add: S21Manager_new_def)

text \<open>
  A sensor reading never mixes sources. The room temperature is the unit's own reading when
  that command works, and otherwise the coarse reading, taken from the cache or from the
  unit; it fails only when the coarse reading fails too, with that error.
\<close>

theorem room_temperature_source:
  assumes "mIsReady m" and "mgr_getRoomTemperature P m p = (res, m', p')"
    and "callWithTracking (ps_getRoomTemperature P) (mRoomTemperatureCapability m, p) = (direct, cap, p1)"
    and "coarseCacheGet P (m\<lparr>mRoomTemperatureCapability := cap\<rparr>) p1 = (coarse, m2, p2)"
  shows "res = (case direct of
       Inr v \<Rightarrow> Inr v
     | Inl _ \<Rightarrow> (case coarse of Inr (i, od, h) \<Rightarrow> Inr i | Inl e \<Rightarrow> Inl (PresentationFailure e)))
    \<and> (m', p') = (if ok direct then (m\<lparr>mRoomTemperatureCapability := cap\<rparr>, p1) else (m2, p2))"
  using assms by (auto simp: mgr_getRoomTemperature_def fallBackToCoarse_def split: sum.splits prod.splits)

theorem room_temperature_source_witness:
  "\<exists>m' p'. mgr_getRoomTemperature echoPresentation ((S21Manager_new 5000)\<lparr>mIsReady := True\<rparr>)
     ((True, OperatingMode.Cool, 2300, FanMode.Low), 0) = (Inr 2150, m', p')"
proof -
  let ?m = "(S21Manager_new 5000)\<lparr>mIsReady := True\<rparr>"
  let ?p = "((True, OperatingMode.Cool, 2300 :: i16, FanMode.Low), 0 :: int)"
  obtain res m' p' where r: "mgr_getRoomTemperature echoPresentation ?m ?p = (res, m', p')"
    by (metis prod_cases3)
  obtain direct cap p1 where d: "callWithTracking (ps_getRoomTemperature echoPresentation)
      (mRoomTemperatureCapability ?m, ?p) = (direct, cap, p1)" by (metis prod_cases3)
  obtain coarse m2 p2 where c: "coarseCacheGet echoPresentation
      (?m\<lparr>mRoomTemperatureCapability := cap\<rparr>) p1 = (coarse, m2, p2)" by (metis prod_cases3)
  have "direct = Inr 2150"
    using d by (simp add: callWithTracking_def echoPresentation_def S21Manager_new_def
        CommandCapability_new_def isUnsupported_def)
  then show ?thesis using room_temperature_source [OF _ r d c] r by simp
qed

end
