(* ===== verification/AirConditioner_Manager.thy ===== *)
theory AirConditioner_Manager
  imports Sync_Coordinator AAI_Translation S21_Manager "HOL-Library.Monad_Syntax"
begin

text \<open>
  The choreographer that joins the S21 stack to the coordinator
  (\<open>airconditioner_manager.h\<close>, \<open>airconditioner_manager.cpp\<close>): the poll loop, the command
  pump, the initialisation retries, the two listeners (attribute reporter, power indicator)
  and the status read-out.

  The record holds the manager's members and what they act on: the S21 manager and the
  coordinator it points to, the state \<open>link\<close> of everything below the S21 manager, the level
  of the LED0 pin (\<open>None\<close> until configured), for each delayable work item the delay it
  was last scheduled with (\<open>None\<close> when idle; rescheduling replaces it), the number of drain tasks posted and
  not yet run, and the reports made. A listener's code runs where the coordinator's dispatch
  calls it. Reaching through an absent kernel is undefined and gives \<open>None\<close>. Log lines are
  not modelled.
\<close>

record 'p AirConditionerManager =
  mConsecutivePollFailures :: int
  mEnvironmentalReadCountdown :: int
  mInitRetryIntervalMs :: int
  mS21Manager :: S21Manager
  mSyncCoordinator :: SyncCoordinator
  link :: 'p
  mPollWork :: "millis option"
  mInitRetryWork :: "millis option"
  mCommandWork :: "millis option"
  mQueue :: "LogicalAttribute list"
  postedDrains :: nat
  reports :: "(u16 \<times> ClusterId \<times> AttributeId) list"
  led0 :: "bool option"

definition kThermostatEndpoint :: u16 where "kThermostatEndpoint = 1"
definition kS21PollIntervalSec :: int where "kS21PollIntervalSec = 10"
definition kS21InitRetryInitialIntervalMilliSec :: int where "kS21InitRetryInitialIntervalMilliSec = 500"
definition kS21InitRetryMaximumIntervalMilliSec :: int where "kS21InitRetryMaximumIntervalMilliSec = 60000"
definition kCommandDebounceMs :: int where "kCommandDebounceMs = 50"
definition kS21EnvironmentalSensorReadTicks :: int where "kS21EnvironmentalSensorReadTicks = 6"
definition kReachableFailureThreshold :: int where "kReachableFailureThreshold = 3"

text \<open>The addresses of the two listeners and of the pump handler.\<close>

abbreviation (input) mMatterAttributeChangeReporter :: listener where "mMatterAttributeChangeReporter \<equiv> 0"
abbreviation (input) mPowerIndicator :: listener where "mPowerIndicator \<equiv> 1"
abbreviation (input) ScheduleS21CommandHandlerFn :: handler where "ScheduleS21CommandHandlerFn \<equiv> 0"

definition AirConditionerManager_new :: "S21Manager \<Rightarrow> SyncCoordinator \<Rightarrow> 'p \<Rightarrow> 'p AirConditionerManager" where
  "AirConditionerManager_new m c p =
     \<lparr>mConsecutivePollFailures = 0, mEnvironmentalReadCountdown = 0,
      mInitRetryIntervalMs = kS21InitRetryInitialIntervalMilliSec,
      mS21Manager = m, mSyncCoordinator = c, link = p,
      mPollWork = None, mInitRetryWork = None, mCommandWork = None,
      mQueue = [], postedDrains = 0, reports = [], led0 = None\<rparr>"

definition ReturnCompleteValue :: "i16 \<Rightarrow> u8" where
  "ReturnCompleteValue v = to_u8 (sint v sdiv 100)"

definition ReturnRemainderValue :: "i16 \<Rightarrow> u8" where
  "ReturnRemainderValue v = to_u8 ((sint v smod 100 + 5) sdiv 10)"

text \<open>
  The pin driver is not part of this repository: \<open>ready\<close> and \<open>rc\<close> are what it answers to
  the readiness query and to the configuration of LED0.
\<close>

definition PowerIndicator_Init ::
  "bool \<Rightarrow> int \<Rightarrow> bool \<Rightarrow> 'p AirConditionerManager \<Rightarrow> int \<times> 'p AirConditionerManager" where
  "PowerIndicator_Init ready rc initialOnOff a =
     (if \<not> ready then (- ENODEV, a)
      else if rc < 0 then (rc, a)
      else (0, a\<lparr>led0 := Some initialOnOff\<rparr>))"

definition PowerIndicator_Set :: "bool \<Rightarrow> 'p AirConditionerManager \<Rightarrow> 'p AirConditionerManager" where
  "PowerIndicator_Set on a = a\<lparr>led0 := Some on\<rparr>"

definition PowerIndicator_OnChangedAttributes ::
  "LogicalAttribute list \<Rightarrow> 'p AirConditionerManager \<Rightarrow> 'p AirConditionerManager option" where
  "PowerIndicator_OnChangedAttributes attributes a =
     (if LogicalAttribute.OnOff \<in> set attributes
      then map_option (\<lambda>on. PowerIndicator_Set on a) (ReadOnOff (mSyncCoordinator a))
      else Some a)"

definition Reporter_OnChangedAttributes ::
  "LogicalAttribute list \<Rightarrow> 'p AirConditionerManager \<Rightarrow> 'p AirConditionerManager" where
  "Reporter_OnChangedAttributes attributes a =
     a\<lparr>mQueue := mQueue a @ attributes, postedDrains := postedDrains a + 1\<rparr>"

definition DrainOnMatterEventLoop :: "'p AirConditionerManager \<Rightarrow> 'p AirConditionerManager" where
  "DrainOnMatterEventLoop a =
     a\<lparr>mQueue := [],
       reports := reports a
         @ [(kThermostatEndpoint, cluster, attribute).
              (cluster, attribute) \<leftarrow> map toMatterAddress (mQueue a),
              \<not> (cluster = 0 \<and> attribute = 0)]\<rparr>"

definition ScheduleS21CommandHandler :: "'p AirConditionerManager \<Rightarrow> 'p AirConditionerManager" where
  "ScheduleS21CommandHandler a = a\<lparr>mCommandWork := Some kCommandDebounceMs\<rparr>"

definition runCall ::
  "DispatchCall \<Rightarrow> 'p AirConditionerManager \<Rightarrow> 'p AirConditionerManager option" where
  "runCall call a =
     (case call of
        OnChangedAttributes l attributes \<Rightarrow>
          if l = mMatterAttributeChangeReporter then Some (Reporter_OnChangedAttributes attributes a)
          else if l = mPowerIndicator then PowerIndicator_OnChangedAttributes attributes a
          else Some a
      | CommandPump h \<Rightarrow> Some (if h = ScheduleS21CommandHandlerFn then ScheduleS21CommandHandler a else a))"

fun runCalls ::
  "DispatchCall list \<Rightarrow> 'p AirConditionerManager \<Rightarrow> 'p AirConditionerManager option" where
  "runCalls [] a = Some a"
| "runCalls (c # cs) a = Option.bind (runCall c a) (runCalls cs)"

definition dispatchIntent ::
  "millis \<Rightarrow> WriteIntent \<Rightarrow> 'p AirConditionerManager \<Rightarrow> 'p AirConditionerManager option" where
  "dispatchIntent now i a =
     (case ApplyIntent now i (mSyncCoordinator a) of
        None \<Rightarrow> None
      | Some (ch, calls, c) \<Rightarrow> runCalls calls (a\<lparr>mSyncCoordinator := c\<rparr>))"

definition dispatchOperational ::
  "millis \<Rightarrow> S21OperationalObservation \<Rightarrow> 'p AirConditionerManager \<Rightarrow> 'p AirConditionerManager option" where
  "dispatchOperational now obs a =
     (case ApplyOperationalObservation now obs (mSyncCoordinator a) of
        None \<Rightarrow> None
      | Some (ch, calls, c) \<Rightarrow> runCalls calls (a\<lparr>mSyncCoordinator := c\<rparr>))"

definition dispatchEnvironmental ::
  "S21EnvironmentalObservation \<Rightarrow> 'p AirConditionerManager \<Rightarrow> 'p AirConditionerManager option" where
  "dispatchEnvironmental obs a =
     (case ApplyEnvironmentalObservation obs (mSyncCoordinator a) of
        None \<Rightarrow> None
      | Some (ch, calls, c) \<Rightarrow> runCalls calls (a\<lparr>mSyncCoordinator := c\<rparr>))"

definition setS21 :: "S21Manager \<times> 'p \<Rightarrow> 'p AirConditionerManager \<Rightarrow> 'p AirConditionerManager" where
  "setS21 mp a = a\<lparr>mS21Manager := fst mp, link := snd mp\<rparr>"

definition acm_Init ::
  "'p S21PresentationSync \<Rightarrow> bool \<Rightarrow> int \<Rightarrow> S21Manager \<Rightarrow> SyncCoordinator \<Rightarrow> 'p AirConditionerManager
    \<Rightarrow> (ChipError \<times> 'p AirConditionerManager) option" where
  "acm_Init P ready rc s21 syncStack a =
     (let a = a\<lparr>mS21Manager := s21, mSyncCoordinator := syncStack\<rparr> in
      case ReadOnOff (mSyncCoordinator a) of
        None \<Rightarrow> None
      | Some on \<Rightarrow>
          (let (led, a) = PowerIndicator_Init ready rc on a in
           if led \<noteq> 0 then Some (CHIP_ERROR_INTERNAL, a)
           else
             let a = a\<lparr>mPollWork := None, mInitRetryWork := None, mCommandWork := None\<rparr>;
                 c = SetCommandPumpHandler (Some ScheduleS21CommandHandlerFn) (mSyncCoordinator a);
                 (err, c) = AddChangedAttributesListener (Some mMatterAttributeChangeReporter) c
             in if err \<noteq> CHIP_NO_ERROR then Some (err, a\<lparr>mSyncCoordinator := c\<rparr>)
                else
                  let (err, c) = AddChangedAttributesListener (Some mPowerIndicator) c;
                      a = a\<lparr>mSyncCoordinator := c\<rparr>
                  in if err \<noteq> CHIP_NO_ERROR then Some (err, a)
                     else
                       let (r, mp) = manager_Init P (mS21Manager a) (link a);
                           a = setS21 mp a
                       in Some (CHIP_NO_ERROR,
                            if r = 0 then a\<lparr>mPollWork := Some 0\<rparr>
                            else a\<lparr>mInitRetryWork := Some (mInitRetryIntervalMs a)\<rparr>)))"

definition readSensors ::
  "'p S21PresentationSync \<Rightarrow> S21Manager \<Rightarrow> 'p
    \<Rightarrow> S21EnvironmentalObservation option \<times> S21Manager \<times> 'p" where
  "readSensors P m p =
     (let (indoor, m, p) = mgr_getRoomTemperature P m p;
          (outdoor, m, p) = mgr_getOutdoorTemperature P m p;
          (hum, m, p) = mgr_getHumidity P m p
      in (case (indoor, outdoor, hum) of
            (Inr i, Inr t, Inr h) \<Rightarrow>
              Some \<lparr>env_indoorTemperatureCelsius = i, env_outdoorTemperatureCelsius = t,
                    env_indoorRelativeHumidityPercent = h\<rparr>
          | _ \<Rightarrow> None, m, p))"

definition PollEnvironmentalPhase ::
  "'p S21PresentationSync \<Rightarrow> 'p AirConditionerManager \<Rightarrow> 'p AirConditionerManager option" where
  "PollEnvironmentalPhase P a =
     (let envTick = (mEnvironmentalReadCountdown a = 0);
          a = a\<lparr>mEnvironmentalReadCountdown :=
                 if envTick then kS21EnvironmentalSensorReadTicks - 1
                 else mEnvironmentalReadCountdown a - 1\<rparr>
      in if \<not> envTick then Some a
         else let (obs, mp) = readSensors P (mS21Manager a) (link a);
                  a = setS21 mp a
              in case obs of
                   None \<Rightarrow> Some a
                 | Some env \<Rightarrow> dispatchEnvironmental env a)"

definition PollOperationalPhase ::
  "'p S21PresentationSync \<Rightarrow> millis \<Rightarrow> 'p AirConditionerManager \<Rightarrow> 'p AirConditionerManager option" where
  "PollOperationalPhase P now a =
     (let (op, m, p) = mgr_getOperation P (mS21Manager a) (link a); a = setS21 (m, p) a in
      case op of
        Inl _ \<Rightarrow>
          (let a = a\<lparr>mConsecutivePollFailures := mConsecutivePollFailures a + 1\<rparr> in
           if mConsecutivePollFailures a \<ge> kReachableFailureThreshold
           then (case NotifyLinkDown (mSyncCoordinator a) of
                   None \<Rightarrow> None
                 | Some (calls, c) \<Rightarrow> runCalls calls (a\<lparr>mSyncCoordinator := c\<rparr>))
           else Some a)
      | Inr (on, md, sp, f) \<Rightarrow>
          (let a = a\<lparr>mConsecutivePollFailures := 0\<rparr>;
               (valve, a) =
                 (if on
                  then (let (us, mp) = mgr_getUnitState P (mS21Manager a) (link a)
                        in (case us of Inr u \<Rightarrow> Some (us_refrigerantValveOpen u) | Inl _ \<Rightarrow> None, setS21 mp a))
                  else (None, a))
           in dispatchOperational now
                \<lparr>obs_onOff = on, obs_operatingMode = md, obs_setpointCelsius = sp, obs_fanMode = f,
                 obs_refrigerantValveOpen = valve\<rparr> a))"

definition Poll ::
  "'p S21PresentationSync \<Rightarrow> millis \<Rightarrow> 'p AirConditionerManager \<Rightarrow> 'p AirConditionerManager option" where
  "Poll P now a = Option.bind (PollEnvironmentalPhase P a) (PollOperationalPhase P now)"

definition PollWorkHandler ::
  "'p S21PresentationSync \<Rightarrow> millis \<Rightarrow> 'p AirConditionerManager \<Rightarrow> 'p AirConditionerManager option" where
  "PollWorkHandler P now a =
     map_option (\<lambda>a. a\<lparr>mPollWork := Some (1000 * kS21PollIntervalSec)\<rparr>)
       (Poll P now (a\<lparr>mPollWork := None\<rparr>))"

definition InitRetryWorkHandler ::
  "'p S21PresentationSync \<Rightarrow> 'p AirConditionerManager \<Rightarrow> 'p AirConditionerManager" where
  "InitRetryWorkHandler P a =
     (let a = a\<lparr>mInitRetryWork := None\<rparr>;
          (err, mp) = manager_Init P (mS21Manager a) (link a);
          a = setS21 mp a
      in if err = 0 then a\<lparr>mPollWork := Some 0\<rparr>
         else a\<lparr>mInitRetryWork := Some (mInitRetryIntervalMs a),
                mInitRetryIntervalMs := min (mInitRetryIntervalMs a * 2) kS21InitRetryMaximumIntervalMilliSec\<rparr>)"

definition CommandWorkHandler ::
  "'p S21PresentationSync \<Rightarrow> 'p AirConditionerManager \<Rightarrow> 'p AirConditionerManager option" where
  "CommandWorkHandler P a =
     (let a = a\<lparr>mCommandWork := None\<rparr> in
      case PendingCommand (mSyncCoordinator a) of
        None \<Rightarrow> None
      | Some None \<Rightarrow> Some a
      | Some (Some cmd) \<Rightarrow>
          (let (res, mp) = mgr_setOperation P (cmd_onOff cmd) (cmd_operatingMode cmd)
                 (cmd_setpointCelsius cmd) (cmd_fanMode cmd) (mS21Manager a) (link a);
               a = setS21 mp a
           in case (if ok res then OnCommandSent cmd (mSyncCoordinator a)
                    else OnCommandFailed (mSyncCoordinator a)) of
                None \<Rightarrow> None
              | Some (calls, c) \<Rightarrow> runCalls calls (a\<lparr>mSyncCoordinator := c\<rparr>)))"

definition GetLocalTemp :: "'p AirConditionerManager \<Rightarrow> i16 option option" where
  "GetLocalTemp a = ReadLocalTemperature (mSyncCoordinator a)"

definition GetOutdoorTemp :: "'p AirConditionerManager \<Rightarrow> i16 option option" where
  "GetOutdoorTemp a = ReadOutdoorTemperature (mSyncCoordinator a)"

primrec GetOperationalModeStr :: "OperationalMode \<Rightarrow> string" where
  "GetOperationalModeStr OperationalMode.Auto = ''Auto''"
| "GetOperationalModeStr OperationalMode.Cool = ''Cool''"
| "GetOperationalModeStr OperationalMode.Heat = ''Heat''"
| "GetOperationalModeStr OperationalMode.FanOnly = ''Fan Only''"
| "GetOperationalModeStr OperationalMode.Dry = ''Dry''"

primrec GetRunningModeStr :: "RunningMode \<Rightarrow> string" where
  "GetRunningModeStr RunningMode.Off = ''Off''"
| "GetRunningModeStr RunningMode.Cooling = ''Cooling''"
| "GetRunningModeStr RunningMode.Heating = ''Heating''"


datatype LogLine = LogText string string | LogTemperature string "(u8 \<times> u8) option"

definition splitTemp :: "i16 \<Rightarrow> u8 \<times> u8" where
  "splitTemp v = (ReturnCompleteValue v, ReturnRemainderValue v)"

definition LogThermostatStatus :: "'p AirConditionerManager \<Rightarrow> LogLine list option" where
  "LogThermostatStatus a =
     (let r = mSyncCoordinator a in do {
        power \<leftarrow> ReadOnOff r;
        md \<leftarrow> ReadMode r;
        run \<leftarrow> ReadRunningMode r;
        local \<leftarrow> ReadLocalTemperature r;
        outdoor \<leftarrow> ReadOutdoorTemperature r;
        heat \<leftarrow> ReadOccupiedHeatingSetpoint r;
        cool \<leftarrow> ReadOccupiedCoolingSetpoint r;
        Some [LogText ''Power'' (if power then ''On'' else ''Off''),
              LogText ''Mode'' (GetOperationalModeStr md),
              LogText ''Run'' (GetRunningModeStr run),
              LogTemperature ''LocalTemperature'' (map_option splitTemp local),
              LogTemperature ''OutdoorTemperature'' (map_option splitTemp outdoor),
              LogTemperature ''HeatingSetpoint'' (Some (splitTemp heat)),
              LogTemperature ''CoolingSetpoint'' (Some (splitTemp cool))]
      })"

section \<open>What a dispatch does\<close>

lemma runCall_effect:
  assumes "mKernel (mSyncCoordinator a) = Some k" and "runCall call a = Some a'"
  shows "mSyncCoordinator a' = mSyncCoordinator a" "mS21Manager a' = mS21Manager a" "link a' = link a"
    "mConsecutivePollFailures a' = mConsecutivePollFailures a"
    "mEnvironmentalReadCountdown a' = mEnvironmentalReadCountdown a"
    "mPollWork a' = mPollWork a" "mInitRetryWork a' = mInitRetryWork a" "reports a' = reports a"
    "mInitRetryIntervalMs a' = mInitRetryIntervalMs a"
    "mCommandWork a' = (if call = CommandPump ScheduleS21CommandHandlerFn then Some kCommandDebounceMs else mCommandWork a)"
    "mQueue a' = mQueue a @ (case call of OnChangedAttributes l as \<Rightarrow> if l = mMatterAttributeChangeReporter then as else [] | _ \<Rightarrow> [])"
    "led0 a' = (case call of OnChangedAttributes l as \<Rightarrow>
        if l = mPowerIndicator \<and> LogicalAttribute.OnOff \<in> set as then Some (readOnOff k) else led0 a | _ \<Rightarrow> led0 a)"
  using assms by (auto simp: runCall_def Reporter_OnChangedAttributes_def PowerIndicator_OnChangedAttributes_def
      PowerIndicator_Set_def ReadOnOff_def ScheduleS21CommandHandler_def
      split: DispatchCall.splits if_splits)

lemma runCall_defined: "has_value (mKernel (mSyncCoordinator a)) \<Longrightarrow> has_value (runCall call a)"
  by (auto simp: runCall_def PowerIndicator_OnChangedAttributes_def ReadOnOff_def split: DispatchCall.splits)

fun queuedBy :: "DispatchCall list \<Rightarrow> LogicalAttribute list" where
  "queuedBy [] = []"
| "queuedBy (OnChangedAttributes l as # cs) = (if l = mMatterAttributeChangeReporter then as else []) @ queuedBy cs"
| "queuedBy (CommandPump h # cs) = queuedBy cs"

definition setsLed :: "DispatchCall list \<Rightarrow> bool" where
  "setsLed cs = (\<exists>as. OnChangedAttributes mPowerIndicator as \<in> set cs \<and> LogicalAttribute.OnOff \<in> set as)"

lemma setsLed_simps [simp]:
  "\<not> setsLed []"
  "setsLed (OnChangedAttributes l as # cs) = (l = mPowerIndicator \<and> LogicalAttribute.OnOff \<in> set as \<or> setsLed cs)"
  "setsLed (CommandPump h # cs) = setsLed cs"
  by (auto simp: setsLed_def)

definition drainPosted :: "'p AirConditionerManager \<Rightarrow> bool" where
  "drainPosted a = (mQueue a \<noteq> [] \<longrightarrow> 0 < postedDrains a)"

lemma runCall_drainPosted: "drainPosted a \<Longrightarrow> runCall call a = Some a' \<Longrightarrow> drainPosted a'"
  by (auto simp: drainPosted_def runCall_def Reporter_OnChangedAttributes_def
      PowerIndicator_OnChangedAttributes_def PowerIndicator_Set_def ScheduleS21CommandHandler_def
      split: DispatchCall.splits if_splits)

lemma runCalls_effect:
  assumes "mKernel (mSyncCoordinator a) = Some k"
  shows "\<exists>a'. runCalls calls a = Some a' \<and> mSyncCoordinator a' = mSyncCoordinator a
    \<and> mS21Manager a' = mS21Manager a \<and> link a' = link a
    \<and> mConsecutivePollFailures a' = mConsecutivePollFailures a
    \<and> mEnvironmentalReadCountdown a' = mEnvironmentalReadCountdown a
    \<and> mPollWork a' = mPollWork a \<and> mInitRetryWork a' = mInitRetryWork a \<and> reports a' = reports a
    \<and> mCommandWork a' = (if CommandPump ScheduleS21CommandHandlerFn \<in> set calls
                         then Some kCommandDebounceMs else mCommandWork a)
    \<and> mInitRetryIntervalMs a' = mInitRetryIntervalMs a \<and> (drainPosted a \<longrightarrow> drainPosted a')
    \<and> mQueue a' = mQueue a @ queuedBy calls
    \<and> led0 a' = (if setsLed calls then Some (readOnOff k) else led0 a)"
  using assms
proof (induction calls arbitrary: a)
  case (Cons call calls)
  obtain b where b: "runCall call a = Some b" using runCall_defined Cons.prems by blast
  note eff = runCall_effect [OF Cons.prems b]
  have "mKernel (mSyncCoordinator b) = Some k" using Cons.prems eff by simp
  from Cons.IH [OF this] show ?case using b eff runCall_drainPosted [OF _ b] by (cases call) auto
qed simp

lemma setsLed_notify:
  "setsLed (map (\<lambda>l. OnChangedAttributes l as) ls @ cs)
     = (mPowerIndicator \<in> set ls \<and> LogicalAttribute.OnOff \<in> set as \<or> setsLed cs)"
  by (induction ls) auto

lemma setsLed_operationalCalls:
  assumes "projectorConfig (mConfig k') = projectorConfig (mConfig k)"
  shows "setsLed (operationalCalls p k k')
     = (mPowerIndicator \<in> set (mListeners p) \<and> readOnOff k \<noteq> readOnOff k')"
proof -
  have "readOnOff k \<noteq> readOnOff k' \<Longrightarrow> projectionSnapshot k \<noteq> projectionSnapshot k'"
    by (auto simp: projectionSnapshot_def readOnOff_def project_def)
  moreover have "LogicalAttribute.OnOff \<in> set (filter (attributeChanged (projectionSnapshot k) (projectionSnapshot k')) reportOrder)
      \<longleftrightarrow> readOnOff k \<noteq> readOnOff k'"
    by (simp add: reportOrder_complete projectionSnapshot_def readOnOff_def project_def)
  ultimately show ?thesis
    by (auto simp: operationalCalls_def setsLed_notify split: option.splits)
qed

lemma pump_in_operationalCalls:
  "CommandPump h \<in> set (operationalCalls p k k') \<longleftrightarrow> mPump p = Some h \<and> has_value (pendingCommand k')"
  by (auto simp: operationalCalls_def split: option.splits if_splits)

text \<open>
  \<open>dispatched pump k k' a a'\<close>: the manager \<open>a'\<close> is \<open>a\<close> after its coordinator's kernel went from
  \<open>k\<close> to \<open>k'\<close> and the listeners (and the pump, if \<open>pump\<close>) were called for it.
\<close>

definition dispatched ::
  "bool \<Rightarrow> BridgeKernel \<Rightarrow> BridgeKernel \<Rightarrow> 'p AirConditionerManager \<Rightarrow> 'p AirConditionerManager \<Rightarrow> bool" where
  "dispatched pump k k' a a' =
     (mSyncCoordinator a' = (mSyncCoordinator a)\<lparr>mKernel := Some k'\<rparr>
      \<and> mS21Manager a' = mS21Manager a \<and> link a' = link a
      \<and> mConsecutivePollFailures a' = mConsecutivePollFailures a
      \<and> mEnvironmentalReadCountdown a' = mEnvironmentalReadCountdown a
      \<and> mPollWork a' = mPollWork a \<and> mInitRetryWork a' = mInitRetryWork a \<and> reports a' = reports a
      \<and> mInitRetryIntervalMs a' = mInitRetryIntervalMs a \<and> (drainPosted a \<longrightarrow> drainPosted a')
      \<and> mCommandWork a' =
          (if pump \<and> mPump (mPublisher (mSyncCoordinator a)) = Some ScheduleS21CommandHandlerFn
              \<and> has_value (pendingCommand k')
           then Some kCommandDebounceMs else mCommandWork a)
      \<and> led0 a' =
          (if mPowerIndicator \<in> set (mListeners (mPublisher (mSyncCoordinator a)))
              \<and> readOnOff k \<noteq> readOnOff k'
           then Some (readOnOff k') else led0 a))"

lemma kernel_mutations_config [simp]:
  "mConfig (snd (applyIntent now i k)) = mConfig k"
  "mConfig (snd (applyOperationalObservation now obs k)) = mConfig k"
  "mConfig (snd (applyEnvironmentalObservation env k)) = mConfig k"
  by (simp_all add: applyIntent_eq applyOperationalObservation_eq applyEnvironmentalObservation_def Let_def)

lemma runCalls_dispatched:
  assumes "projectorConfig (mConfig k') = projectorConfig (mConfig k)"
  shows "\<exists>a'. runCalls (operationalCalls (mPublisher (mSyncCoordinator a)) k k')
      (a\<lparr>mSyncCoordinator := (mSyncCoordinator a)\<lparr>mKernel := Some k'\<rparr>\<rparr>) = Some a' \<and> dispatched True k k' a a'"
    and "\<exists>a'. runCalls (operationalCalls ((mPublisher (mSyncCoordinator a))\<lparr>mPump := None\<rparr>) k k')
      (a\<lparr>mSyncCoordinator := (mSyncCoordinator a)\<lparr>mKernel := Some k'\<rparr>\<rparr>) = Some a' \<and> dispatched False k k' a a'"
proof -
  let ?a = "a\<lparr>mSyncCoordinator := (mSyncCoordinator a)\<lparr>mKernel := Some k'\<rparr>\<rparr>"
  have k: "mKernel (mSyncCoordinator ?a) = Some k'" by simp
  show "\<exists>a'. runCalls (operationalCalls (mPublisher (mSyncCoordinator a)) k k') ?a = Some a'
      \<and> dispatched True k k' a a'"
    using runCalls_effect [OF k, of "operationalCalls (mPublisher (mSyncCoordinator a)) k k'"]
    by (auto simp: dispatched_def drainPosted_def setsLed_operationalCalls [OF assms] pump_in_operationalCalls)
  show "\<exists>a'. runCalls (operationalCalls ((mPublisher (mSyncCoordinator a))\<lparr>mPump := None\<rparr>) k k') ?a = Some a'
      \<and> dispatched False k k' a a'"
    using runCalls_effect [OF k, of "operationalCalls ((mPublisher (mSyncCoordinator a))\<lparr>mPump := None\<rparr>) k k'"]
    by (auto simp: dispatched_def drainPosted_def setsLed_operationalCalls [OF assms] pump_in_operationalCalls)
qed

lemma dispatch_effect:
  assumes "mKernel (mSyncCoordinator a) = Some k"
  shows "\<exists>a'. dispatchIntent now i a = Some a' \<and> dispatched True k (snd (applyIntent now i k)) a a'"
    and "\<exists>a'. dispatchOperational now obs a = Some a'
      \<and> dispatched True k (snd (applyOperationalObservation now obs k)) a a'"
    and "\<exists>a'. dispatchEnvironmental env a = Some a'
      \<and> dispatched False k (snd (applyEnvironmentalObservation env k)) a a'"
  unfolding dispatchIntent_def dispatchOperational_def dispatchEnvironmental_def mutation_calls [OF assms]
  by (simp_all add: runCalls_dispatched)

section \<open>The phases of a poll\<close>

lemma setS21_fields [simp]:
  "mSyncCoordinator (setS21 mp a) = mSyncCoordinator a" "mS21Manager (setS21 mp a) = fst mp"
  "link (setS21 mp a) = snd mp" "mConsecutivePollFailures (setS21 mp a) = mConsecutivePollFailures a"
  "mEnvironmentalReadCountdown (setS21 mp a) = mEnvironmentalReadCountdown a"
  "mPollWork (setS21 mp a) = mPollWork a" "mInitRetryWork (setS21 mp a) = mInitRetryWork a"
  "mCommandWork (setS21 mp a) = mCommandWork a" "mQueue (setS21 mp a) = mQueue a"
  "reports (setS21 mp a) = reports a" "led0 (setS21 mp a) = led0 a"
  "mInitRetryIntervalMs (setS21 mp a) = mInitRetryIntervalMs a"
  by (simp_all add: setS21_def)

lemma PollOperationalPhase_ok:
  assumes op: "mgr_getOperation P (mS21Manager a) (link a) = (Inr (on, md, sp, f), m, p)"
    and k: "mKernel (mSyncCoordinator a) = Some k"
  shows "\<exists>a' b valve. PollOperationalPhase P now a = Some a'
    \<and> mSyncCoordinator b = mSyncCoordinator a \<and> mConsecutivePollFailures b = 0 \<and> led0 b = led0 a
    \<and> mCommandWork b = mCommandWork a
    \<and> dispatched True k (observed now \<lparr>obs_onOff = on, obs_operatingMode = md, obs_setpointCelsius = sp,
           obs_fanMode = f, obs_refrigerantValveOpen = valve\<rparr> k) b a'"
proof -
  let ?a = "(setS21 (m, p) a)\<lparr>mConsecutivePollFailures := 0\<rparr>"
  obtain us mp where us: "mgr_getUnitState P m p = (us, mp)" by (cases "mgr_getUnitState P m p")
  define b where "b = (if on then setS21 mp ?a else ?a)"
  define valve where "valve = (if on then (case us of Inr u \<Rightarrow> Some (us_refrigerantValveOpen u) | Inl _ \<Rightarrow> None) else None)"
  let ?obs = "\<lparr>obs_onOff = on, obs_operatingMode = md, obs_setpointCelsius = sp,
           obs_fanMode = f, obs_refrigerantValveOpen = valve\<rparr>"
  have b: "mSyncCoordinator b = mSyncCoordinator a" "mConsecutivePollFailures b = 0" "led0 b = led0 a"
      "mCommandWork b = mCommandWork a"
    by (simp_all add: b_def)
  have "PollOperationalPhase P now a = dispatchOperational now ?obs b"
    using us by (simp add: PollOperationalPhase_def op b_def valve_def)
  then show ?thesis
    using dispatch_effect(2) [of b k now ?obs] b k unfolding applyOperationalObservation_eq by auto
qed

lemma dispatchOperational_s21: "dispatchOperational now obs a = Some a' \<Longrightarrow> mS21Manager a' = mS21Manager a"
proof (cases "mKernel (mSyncCoordinator a)")
  case (Some k)
  assume "dispatchOperational now obs a = Some a'"
  then show ?thesis using dispatch_effect(2) [OF Some, of now obs] by (auto simp: dispatched_def)
qed (simp add: dispatchOperational_def ApplyOperationalObservation_def)

lemma PollOperationalPhase_s21:
  "mgr_getOperation P (mS21Manager a) (link a) = (Inr (False, md, sp, f), m, p) \<Longrightarrow>
     PollOperationalPhase P now a = Some a' \<Longrightarrow> mS21Manager a' = m"
  by (auto simp: PollOperationalPhase_def dest: dispatchOperational_s21)

lemma PollOperationalPhase_failed:
  assumes op: "mgr_getOperation P (mS21Manager a) (link a) = (Inl e, m, p)"
    and k: "mKernel (mSyncCoordinator a) = Some k"
  shows "PollOperationalPhase P now a = Some (setS21 (m, p) a
     \<lparr>mConsecutivePollFailures := mConsecutivePollFailures a + 1,
      mSyncCoordinator := if mConsecutivePollFailures a + 1 \<ge> kReachableFailureThreshold
        then (mSyncCoordinator a)\<lparr>mKernel := Some (notifyLinkDown k)\<rparr> else mSyncCoordinator a\<rparr>)"
  by (simp add: PollOperationalPhase_def op NotifyLinkDown_def k setS21_def)

fun operationalPolls ::
  "'p S21PresentationSync \<Rightarrow> millis list \<Rightarrow> 'p AirConditionerManager \<Rightarrow> 'p AirConditionerManager option" where
  "operationalPolls P [] a = Some a"
| "operationalPolls P (t # ts) a = Option.bind (PollOperationalPhase P t a) (operationalPolls P ts)"

lemma mgr_getOperation_dead:
  assumes "isl (fst (ps_getOperation P p))"
    and "cache_lookup (mCacheMaxAge m) (ps_now P p) (mOperationCache m) = None"
  shows "\<exists>e p'. mgr_getOperation P m p = (Inl e, m, p')"
proof (cases "mIsReady m")
  case True
  obtain e p' where f: "ps_getOperation P p = (Inl e, p')"
    using assms(1) by (cases "ps_getOperation P p") (auto simp: isl_def)
  have "operationCacheGet P m p = (Inl e, m, p')"
    unfolding operationCacheGet_def using cache.miss_error [OF assms(2), of "ps_getOperation P", OF f] by simp
  then show ?thesis using True by (simp add: mgr_getOperation_def)
qed (simp add: mgr_getOperation_def)

lemma notifyLinkDown_reads [simp]:
  "readReachable (notifyLinkDown k) = False"
  "notifyLinkDown (notifyLinkDown k) = notifyLinkDown k"
  "pendingCommand (notifyLinkDown k) = pendingCommand k"
  by (simp_all add: readReachable_def projectedReachable_def notifyLinkDown_def sensorApplyObservation_def
      pendingCommand_def anyDirty_def desiredCommand_def Let_def activeSetpoint_def split: OperationalMode.splits)

lemma observed_reachable: "readReachable (observed now obs k)"
  by (simp add: readReachable_def projectedReachable_def observed_def observeSensors_def Let_def)

lemma dead_polls:
  assumes "\<forall>p. isl (fst (ps_getOperation P p))"
    and "\<forall>p. cache_lookup (mCacheMaxAge (mS21Manager a)) (ps_now P p) (mOperationCache (mS21Manager a)) = None"
    and "mKernel (mSyncCoordinator a) = Some k"
  shows "\<exists>p. operationalPolls P ts a = Some (a
     \<lparr>link := p, mConsecutivePollFailures := mConsecutivePollFailures a + int (length ts),
      mSyncCoordinator := if ts \<noteq> [] \<and> mConsecutivePollFailures a + int (length ts) \<ge> kReachableFailureThreshold
        then (mSyncCoordinator a)\<lparr>mKernel := Some (notifyLinkDown k)\<rparr> else mSyncCoordinator a\<rparr>)"
  using assms
proof (induction ts arbitrary: a k)
  case Nil
  show ?case by (rule exI [of _ "link a"]) simp
next
  case (Cons t ts)
  let ?n = "mConsecutivePollFailures a"
  obtain e p where "mgr_getOperation P (mS21Manager a) (link a) = (Inl e, mS21Manager a, p)"
    using mgr_getOperation_dead Cons.prems by metis
  note step = PollOperationalPhase_failed [OF this Cons.prems(3), of t]
  define b where "b = setS21 (mS21Manager a, p) a
     \<lparr>mConsecutivePollFailures := ?n + 1,
      mSyncCoordinator := if ?n + 1 \<ge> kReachableFailureThreshold
        then (mSyncCoordinator a)\<lparr>mKernel := Some (notifyLinkDown k)\<rparr> else mSyncCoordinator a\<rparr>"
  define kb where "kb = (if ?n + 1 \<ge> kReachableFailureThreshold then notifyLinkDown k else k)"
  have b: "mS21Manager b = mS21Manager a" "mKernel (mSyncCoordinator b) = Some kb"
    using Cons.prems(3) by (simp_all add: b_def kb_def)
  obtain q where "operationalPolls P ts b = Some (b
     \<lparr>link := q, mConsecutivePollFailures := mConsecutivePollFailures b + int (length ts),
      mSyncCoordinator := if ts \<noteq> [] \<and> mConsecutivePollFailures b + int (length ts) \<ge> kReachableFailureThreshold
        then (mSyncCoordinator b)\<lparr>mKernel := Some (notifyLinkDown kb)\<rparr> else mSyncCoordinator b\<rparr>)"
    using Cons.IH [of b kb] Cons.prems b by auto
  then have "operationalPolls P (t # ts) a = Some (b
     \<lparr>link := q, mConsecutivePollFailures := mConsecutivePollFailures b + int (length ts),
      mSyncCoordinator := if ts \<noteq> [] \<and> mConsecutivePollFailures b + int (length ts) \<ge> kReachableFailureThreshold
        then (mSyncCoordinator b)\<lparr>mKernel := Some (notifyLinkDown kb)\<rparr> else mSyncCoordinator b\<rparr>)"
    using step by (simp add: b_def)
  then show ?case
    by (intro exI [of _ q]) (cases ts, simp_all add: b_def kb_def setS21_def)
qed

section \<open>Properties\<close>

definition deadLink :: "'p S21PresentationSync \<Rightarrow> 'p AirConditionerManager \<Rightarrow> bool" where
  "deadLink P a =
     ((\<forall>p. isl (fst (ps_getOperation P p)))
      \<and> (\<forall>p. cache_lookup (mCacheMaxAge (mS21Manager a)) (ps_now P p) (mOperationCache (mS21Manager a)) = None))"

lemma dead_polls_outcome:
  assumes "deadLink P a" and k: "mKernel (mSyncCoordinator a) = Some k" and "0 \<le> mConsecutivePollFailures a"
  shows "\<exists>a'. operationalPolls P ts a = Some a'
    \<and> mConsecutivePollFailures a' = mConsecutivePollFailures a + int (length ts)
    \<and> ReadReachable (mSyncCoordinator a') = Some (readReachable k \<and> (ts = [] \<or> mConsecutivePollFailures a + int (length ts) < 3))
    \<and> PendingCommand (mSyncCoordinator a') = Some (pendingCommand k)
    \<and> led0 a' = led0 a \<and> mQueue a' = mQueue a"
  using dead_polls [OF _ _ k, of P ts] assms(1,3)
  by (auto simp: deadLink_def ReadReachable_def PendingCommand_def k kReachableFailureThreshold_def)

text \<open>
  C34. Three failed polls in a row mark the unit unreachable, one answered poll marks it
  reachable. A poll the unit answers, whatever the count of failures before it, sets that count to zero and turns the unit reachable. If
  after it the link does not answer and nothing fresh is in the cache, each poll of any sequence counts one failure; the unit is
  reachable through the second and unreachable exactly from the third on, the
  pending command and the LED are left alone, and no attribute is queued for report. From any other count of failures a silent link goes on
  counting from there.
\<close>

theorem link_down_after_three_failures:
  assumes k: "mKernel (mSyncCoordinator a) = Some k"
    and answered: "mgr_getOperation Q (mS21Manager a) (link a) = (Inr op, m, p)"
  shows "(\<exists>b kb. PollOperationalPhase Q now a = Some b \<and> mKernel (mSyncCoordinator b) = Some kb
      \<and> mConsecutivePollFailures b = 0 \<and> ReadReachable (mSyncCoordinator b) = Some True
      \<and> (\<forall>P ts. deadLink P b \<longrightarrow>
          (\<exists>a'. operationalPolls P ts b = Some a' \<and> mConsecutivePollFailures a' = int (length ts)
            \<and> ReadReachable (mSyncCoordinator a') = Some (length ts < 3)
            \<and> PendingCommand (mSyncCoordinator a') = Some (pendingCommand kb)
            \<and> led0 a' = led0 b \<and> mQueue a' = mQueue b)))
    \<and> (\<forall>P ts. deadLink P a \<and> 0 \<le> mConsecutivePollFailures a \<and> ts \<noteq> [] \<longrightarrow>
        (\<exists>a'. operationalPolls P ts a = Some a'
          \<and> mConsecutivePollFailures a' = mConsecutivePollFailures a + int (length ts)
          \<and> ReadReachable (mSyncCoordinator a')
              = Some (readReachable k \<and> mConsecutivePollFailures a + int (length ts) < 3)))"
proof -
  obtain on md sp f where "mgr_getOperation Q (mS21Manager a) (link a) = (Inr (on, md, sp, f), m, p)"
    using answered by (cases op) auto
  from PollOperationalPhase_ok [OF this k, of now]
  obtain b kb where b: "PollOperationalPhase Q now a = Some b" "mKernel (mSyncCoordinator b) = Some kb"
      "mConsecutivePollFailures b = 0" "readReachable kb"
    by (auto simp: dispatched_def observed_reachable)
  have small: "(ts = [] \<or> length ts < 3) \<longleftrightarrow> length ts < 3" for ts :: "millis list" by (cases ts) auto
  have "\<exists>a'. operationalPolls P ts b = Some a' \<and> mConsecutivePollFailures a' = int (length ts)
      \<and> ReadReachable (mSyncCoordinator a') = Some (length ts < 3)
      \<and> PendingCommand (mSyncCoordinator a') = Some (pendingCommand kb)
      \<and> led0 a' = led0 b \<and> mQueue a' = mQueue b" if "deadLink P b" for P ts
    using dead_polls_outcome [OF that b(2), of ts] b(3,4) by (simp add: small)
  moreover have "ReadReachable (mSyncCoordinator b) = Some True" using b(2,4) by (simp add: ReadReachable_def)
  moreover have "\<exists>a'. operationalPolls P ts a = Some a'
      \<and> mConsecutivePollFailures a' = mConsecutivePollFailures a + int (length ts)
      \<and> ReadReachable (mSyncCoordinator a')
          = Some (readReachable k \<and> mConsecutivePollFailures a + int (length ts) < 3)"
    if "deadLink P a \<and> 0 \<le> mConsecutivePollFailures a \<and> ts \<noteq> []" for P ts
    using dead_polls_outcome [OF _ k, of P ts] that by auto
  ultimately show ?thesis using b(1-3) by blast
qed

definition deafPresentation :: "(GetOperationResult \<times> millis) S21PresentationSync" where
  "deafPresentation = echoPresentation\<lparr>ps_setOperation := \<lambda>on md sp f p. (Inl Timeout, p),
     ps_getOperation := \<lambda>p. (Inl (LinkError Timeout), p),
     ps_getProtocolVersion := \<lambda>p. (Inl (LinkError Timeout), p)\<rparr>"

definition runningManager :: "(GetOperationResult \<times> millis) AirConditionerManager" where
  "runningManager = AirConditionerManager_new ((S21Manager_new 5000)\<lparr>mIsReady := True\<rparr>)
     (initialisedCoordinator\<lparr>mPublisher := \<lparr>mListeners = [0, 1], mPump = Some 0\<rparr>\<rparr>)
     ((False, OperatingMode.Auto, 2200, FanMode.Low), 1000)"

lemma runningManager_fields [simp]:
  "mKernel (mSyncCoordinator runningManager) = Some (BridgeKernel_new ReconcilerConfig_default)"
  "mPublisher (mSyncCoordinator runningManager) = \<lparr>mListeners = [0, 1], mPump = Some 0\<rparr>"
  "mConsecutivePollFailures runningManager = 0" "mEnvironmentalReadCountdown runningManager = 0"
  "mS21Manager runningManager = (S21Manager_new 5000)\<lparr>mIsReady := True\<rparr>"
  "link runningManager = ((False, OperatingMode.Auto, 2200, FanMode.Low), 1000)"
  by (simp_all add: runningManager_def AirConditionerManager_new_def)

theorem link_down_after_three_failures_witness:
  "\<exists>b a'. PollOperationalPhase echoPresentation 5 (runningManager\<lparr>mConsecutivePollFailures := 2\<rparr>) = Some b
     \<and> ReadReachable (mSyncCoordinator b) = Some True
     \<and> operationalPolls (deafPresentation\<lparr>ps_now := \<lambda>p. 99000\<rparr>) [10, 20] b = Some a'
     \<and> ReadReachable (mSyncCoordinator a') = Some True"
proof -
  let ?a = "runningManager\<lparr>mConsecutivePollFailures := 2\<rparr>"
  let ?v = "(False, OperatingMode.Auto, 2200, FanMode.Low)"
  let ?m = "(S21Manager_new 5000)\<lparr>mIsReady := True, mOperationCache := \<lparr>cache_value = Some ?v, cache_timestamp = 1000\<rparr>\<rparr>"
  have op: "mgr_getOperation echoPresentation (mS21Manager ?a) (link ?a) = (Inr ?v, ?m, (?v, 1000))"
    by (simp add: mgr_getOperation_def operationCacheGet_def cache_get_def S21Manager_new_def echoPresentation_def)
  have k: "mKernel (mSyncCoordinator ?a) = Some (BridgeKernel_new ReconcilerConfig_default)" by simp
  from link_down_after_three_failures [OF k op, of 5]
  obtain b where b: "PollOperationalPhase echoPresentation 5 ?a = Some b" "ReadReachable (mSyncCoordinator b) = Some True"
    and dead: "\<And>P ts. deadLink P b \<Longrightarrow> \<exists>a'. operationalPolls P ts b = Some a'
        \<and> ReadReachable (mSyncCoordinator a') = Some (length ts < 3)" by blast
  have "mS21Manager b = ?m"
    using PollOperationalPhase_s21 [OF op b(1)] by simp
  then have "deadLink (deafPresentation\<lparr>ps_now := \<lambda>p. 99000\<rparr>) b"
    by (simp add: deadLink_def deafPresentation_def cache_lookup_def S21Manager_new_def)
  from dead [OF this, of "[10, 20]"] b show ?thesis by (auto simp del: operationalPolls.simps)
qed

text \<open>
  The command pump sends what is pending and loses nothing. When its work item runs with
  nothing pending, nothing is sent. With a command pending it calls the link once, with
  exactly that command; on success the command is no longer pending and the status cache
  holds it; on failure it is pending still, nothing the controllers read has changed, and the
  S21 manager is as it was. In every case the work item is idle afterwards.
\<close>

theorem command_pump_sends_pending:
  assumes k: "mKernel (mSyncCoordinator a) = Some k" and ready: "mIsReady (mS21Manager a)"
  shows "case pendingCommand k of
      None \<Rightarrow> CommandWorkHandler P a = Some (a\<lparr>mCommandWork := None\<rparr>)
    | Some cmd \<Rightarrow>
        (case ps_setOperation P (cmd_onOff cmd) (cmd_operatingMode cmd) (cmd_setpointCelsius cmd)
                (cmd_fanMode cmd) (link a) of
           (Inr _, p) \<Rightarrow>
             (\<exists>a'. CommandWorkHandler P a = Some a' \<and> mCommandWork a' = None \<and> link a' = p
               \<and> mKernel (mSyncCoordinator a') = Some (onCommandSent cmd k)
               \<and> PendingCommand (mSyncCoordinator a') = Some None
               \<and> cache_value (mOperationCache (mS21Manager a')) =
                   Some (cmd_onOff cmd, cmd_operatingMode cmd, cmd_setpointCelsius cmd, cmd_fanMode cmd))
         | (Inl e, p) \<Rightarrow>
             (\<exists>a'. CommandWorkHandler P a = Some a' \<and> mCommandWork a' = None \<and> link a' = p
               \<and> PendingCommand (mSyncCoordinator a') = Some (Some cmd)
               \<and> ProjectionSnapshot (mSyncCoordinator a') = ProjectionSnapshot (mSyncCoordinator a)
               \<and> mS21Manager a' = mS21Manager a))"
proof (cases "pendingCommand k")
  case None
  then show ?thesis by (simp add: CommandWorkHandler_def PendingCommand_def k)
next
  case (Some cmd)
  then have d: "desiredCommand (mState k) = cmd" and dirty: "anyDirty (mState k)"
    by (simp_all add: pendingCommand_Some_iff)
  have failed: "pendingCommand (onCommandFailed k) = Some cmd"
    using d dirty by (simp add: pendingCommand_Some_iff onCommandFailed_def)
  obtain res p where "ps_setOperation P (cmd_onOff cmd) (cmd_operatingMode cmd) (cmd_setpointCelsius cmd)
      (cmd_fanMode cmd) (link a) = (res, p)" by (metis surj_pair)
  then show ?thesis
    using Some failed pendingCommand_after_sent [OF d] ready
    by (cases res) (simp_all add: CommandWorkHandler_def PendingCommand_def k mgr_setOperation_def
        OnCommandSent_def OnCommandFailed_def ProjectionSnapshot_def projectionSnapshot_def
        onCommandFailed_def cache_update_def)
qed

theorem command_pump_sends_pending_witness:
  "\<exists>a'. CommandWorkHandler echoPresentation (runningManager\<lparr>mSyncCoordinator :=
       (mSyncCoordinator runningManager)\<lparr>mKernel := Some poweredOnByIntent\<rparr>\<rparr>) = Some a'
     \<and> PendingCommand (mSyncCoordinator a') = Some None"
  using command_pump_sends_pending [of "runningManager\<lparr>mSyncCoordinator :=
       (mSyncCoordinator runningManager)\<lparr>mKernel := Some poweredOnByIntent\<rparr>\<rparr>" poweredOnByIntent echoPresentation]
  by (auto simp: poweredOnByIntent_pending echoPresentation_def)

text \<open>
  The four attributes of a command, settled on it with nothing pending; a poll that reads a
  transmitted command back settles on it.
\<close>

definition settledOn :: "S21OperationCommand \<Rightarrow> BridgeKernel \<Rightarrow> bool" where
  "settledOn cmd k =
     (twin_phase (onOff (mState k)) = Settled (cmd_onOff cmd)
      \<and> twin_phase (mode (mState k)) = Settled (s21OperatingModeToOperationalMode (cmd_operatingMode cmd))
      \<and> twin_phase (fan (mState k)) = Settled (s21FanModeToSpeedSetting (cmd_fanMode cmd))
      \<and> (let m = s21OperatingModeToOperationalMode (cmd_operatingMode cmd)
         in m \<in> {OperationalMode.Cool, OperationalMode.Heat, OperationalMode.Auto} \<longrightarrow>
              twin_phase (activeSetpoint (mState k) m) = Settled (cmd_setpointCelsius cmd))
      \<and> pendingCommand k = None)"

lemma poll_after_command:
  assumes d: "desiredCommand (mState k1) = cmd" and n: "pred_option named_FanLevel (mDesired (fan (mState k1)))"
    and k2: "mKernel (mSyncCoordinator a2) = Some (onCommandSent cmd k1)"
    and op: "mgr_getOperation P (mS21Manager a2) (link a2)
               = (Inr (cmd_onOff cmd, md, cmd_setpointCelsius cmd, cmd_fanMode cmd), m, q)"
    and md: "s21OperatingModeToOperationalMode md = s21OperatingModeToOperationalMode (cmd_operatingMode cmd)"
  shows "\<exists>a3 k3. PollOperationalPhase P t a2 = Some a3 \<and> mKernel (mSyncCoordinator a3) = Some k3 \<and> settledOn cmd k3
    \<and> keepsDesired (mState k1) (mState k3)"
proof -
  let ?k2 = "onCommandSent cmd k1"
  obtain a3 valve b where a3: "PollOperationalPhase P t a2 = Some a3"
      "dispatched True ?k2 (observed t \<lparr>obs_onOff = cmd_onOff cmd, obs_operatingMode = md,
         obs_setpointCelsius = cmd_setpointCelsius cmd, obs_fanMode = cmd_fanMode cmd,
         obs_refrigerantValveOpen = valve\<rparr> ?k2) b a3"
    using PollOperationalPhase_ok [OF op k2, of t] by auto
  let ?obs = "\<lparr>obs_onOff = cmd_onOff cmd, obs_operatingMode = md,
         obs_setpointCelsius = cmd_setpointCelsius cmd, obs_fanMode = cmd_fanMode cmd,
         obs_refrigerantValveOpen = valve\<rparr>"
  have d2: "desiredCommand (mState ?k2) = cmd" by (simp add: desiredCommand_after_sent d)
  have n2: "pred_option named_FanLevel (mDesired (fan (mState ?k2)))" using n by simp
  have echo: "echoesCommand ?obs cmd" using md by (simp add: echoesCommand_def)
  note settled = echo_settles [OF allSent_after_sent d2 n2 echo, of t]
  have wire: "s21OperatingModeToOperationalMode (cmd_operatingMode cmd) = mDesired (mode (mState ?k2))"
      "s21FanModeToSpeedSetting (cmd_fanMode cmd) = mDesired (fan (mState ?k2))"
    using n2 by (simp_all add: d [symmetric])
  have "pendingCommand (observed t ?obs ?k2) = None" using settled(2) by (simp add: pendingCommand_None_iff)
  then have "settledOn cmd (observed t ?obs ?k2)"
    using settled(1) unfolding settledOn_def wire Let_def by blast
  moreover have "keepsDesired (mState k1) (mState (observed t ?obs ?k2))"
    using echo_keeps_desired [OF allSent_after_sent d2 n2 echo, of t] by (simp add: keepsDesired_def)
  ultimately show ?thesis using a3 by (auto simp: dispatched_def)
qed

text \<open>
  What a write asks for, seen in the state before it and the state after it was carried out. A setpoint the commanded mode does not use
  is only wanted: no command carries it. A setpoint written in Auto moves the middle of the band.
\<close>

definition guardsOpen :: "millis \<Rightarrow> BridgeKernel \<Rightarrow> bool" where
  "guardsOpen now k =
     (let seen = mLastDeviceObserved k in
      list_all (window_elapsed now k) [at_onOff seen, at_mode seen, at_heatSetpoint seen, at_coolSetpoint seen,
        at_autoSetpoint seen, at_fan seen])"

definition powersOn :: "BridgeKernel \<Rightarrow> BridgeKernel \<Rightarrow> bool" where
  "powersOn k k' =
     (mDesired (onOff (mState k)) \<or> \<not> mObserved (onOff (mState k)) \<longrightarrow> twin_phase (onOff (mState k')) = Settled True)"

fun writeSettled :: "WriteIntent \<Rightarrow> BridgeKernel \<Rightarrow> BridgeKernel \<Rightarrow> bool" where
  "writeSettled (SetOnOffIntent v) k k' = (twin_phase (onOff (mState k')) = Settled v)"
| "writeSettled (SetSystemModeIntent on m) k k' =
     (twin_phase (onOff (mState k')) = Settled on \<and> (on \<longrightarrow> twin_phase (mode (mState k')) = Settled m))"
| "writeSettled (SetOccupiedHeatingSetpointIntent v) k k' =
     (if mObserved (mode (mState k)) = OperationalMode.Auto
      then mDesired (autoSetpoint (mState k')) = centreForHeatingEdge v k
           \<and> (mDesired (mode (mState k)) = OperationalMode.Auto \<longrightarrow>
                twin_phase (autoSetpoint (mState k')) = Settled (centreForHeatingEdge v k))
      else mDesired (heatSetpoint (mState k')) = v
           \<and> (mDesired (mode (mState k)) = OperationalMode.Heat \<longrightarrow> twin_phase (heatSetpoint (mState k')) = Settled v))"
| "writeSettled (SetOccupiedCoolingSetpointIntent v) k k' =
     (if mObserved (mode (mState k)) = OperationalMode.Auto
      then mDesired (autoSetpoint (mState k')) = centreForCoolingEdge v k
           \<and> (mDesired (mode (mState k)) = OperationalMode.Auto \<longrightarrow>
                twin_phase (autoSetpoint (mState k')) = Settled (centreForCoolingEdge v k))
      else mDesired (coolSetpoint (mState k')) = v
           \<and> (mDesired (mode (mState k)) = OperationalMode.Cool \<longrightarrow> twin_phase (coolSetpoint (mState k')) = Settled v))"
| "writeSettled (SetSpeedSettingIntent v) k k' = (twin_phase (fan (mState k')) = Settled v \<and> powersOn k k')"
| "writeSettled (SetPercentSettingIntent None) k k' = True"
| "writeSettled (SetPercentSettingIntent (Some p)) k k' =
     (twin_phase (fan (mState k')) = Settled (Some (percentToSpeedLevel p)) \<and> powersOn k k')"

lemma settled_on_desired:
  assumes "settledOn (desiredCommand (mState k1)) k'" and "pred_option named_FanLevel (mDesired (fan (mState k1)))"
  shows "twin_phase (onOff (mState k')) = Settled (mDesired (onOff (mState k1)))"
    and "twin_phase (mode (mState k')) = Settled (mDesired (mode (mState k1)))"
    and "twin_phase (fan (mState k')) = Settled (mDesired (fan (mState k1)))"
    and "mDesired (mode (mState k1)) = OperationalMode.Heat \<Longrightarrow>
      twin_phase (heatSetpoint (mState k')) = Settled (mDesired (heatSetpoint (mState k1)))"
    and "mDesired (mode (mState k1)) = OperationalMode.Cool \<Longrightarrow>
      twin_phase (coolSetpoint (mState k')) = Settled (mDesired (coolSetpoint (mState k1)))"
    and "mDesired (mode (mState k1)) = OperationalMode.Auto \<Longrightarrow>
      twin_phase (autoSetpoint (mState k')) = Settled (mDesired (autoSetpoint (mState k1)))"
  using assms by (simp_all add: settledOn_def Let_def activeSetpoint_def)

lemma guardsOpen_passes:
  assumes "guardsOpen now k"
  shows "intentPassesGuard now k (at_onOff (mLastDeviceObserved k)) b" "intentPassesGuard now k (at_mode (mLastDeviceObserved k)) b"
    "intentPassesGuard now k (at_heatSetpoint (mLastDeviceObserved k)) b"
    "intentPassesGuard now k (at_coolSetpoint (mLastDeviceObserved k)) b"
    "intentPassesGuard now k (at_autoSetpoint (mLastDeviceObserved k)) b"
    "intentPassesGuard now k (at_fan (mLastDeviceObserved k)) b"
  using assms by (simp_all add: guardsOpen_def Let_def)

lemma settled_write:
  assumes "guardsOpen now k" and on: "settledOn (desiredCommand (mState (applyOne now i k))) k'"
    and "keepsDesired (mState (applyOne now i k)) (mState k')"
    and n: "pred_option named_FanLevel (mDesired (fan (mState (applyOne now i k))))"
  shows "writeSettled i k k'"
proof -
  note pass = guardsOpen_passes [OF assms(1)]
  note s = settled_on_desired [OF on n]
  note d = assms(3) [unfolded keepsDesired_def]
  show ?thesis
  proof (cases i)
    case (SetOnOffIntent v)
    then show ?thesis using s(1) by (simp add: apply_SetOnOffIntent_def pass)
  next
    case (SetSystemModeIntent v m)
    then show ?thesis using s(1,2) by (simp add: apply_SetSystemModeIntent_def pass Let_def split: if_splits)
  next
    case (SetOccupiedHeatingSetpointIntent v)
    then show ?thesis
      using d s(4,6) by (cases "mObserved (mode (mState k))")
        (simp_all add: apply_SetOccupiedHeatingSetpointIntent_def pass centreForHeatingEdge_def Let_def)
  next
    case (SetOccupiedCoolingSetpointIntent v)
    then show ?thesis
      using d s(5,6) by (cases "mObserved (mode (mState k))")
        (simp_all add: apply_SetOccupiedCoolingSetpointIntent_def pass centreForCoolingEdge_def Let_def)
  next
    case (SetSpeedSettingIntent v)
    then show ?thesis
      using s(1,3) by (auto simp: apply_SetSpeedSettingIntent_def pass powerOnForFanWrite_def powersOn_def split: if_splits)
  next
    case (SetPercentSettingIntent v)
    then show ?thesis
      using s(1,3) by (cases v) (auto simp: apply_SetPercentSettingIntent_def pass powerOnForFanWrite_def powersOn_def Let_def
          split: if_splits)
  qed
qed

lemma pump_effect:
  assumes k: "mKernel (mSyncCoordinator a) = Some k" and cmd: "pendingCommand k = Some cmd"
    and sent: "mgr_setOperation P (cmd_onOff cmd) (cmd_operatingMode cmd) (cmd_setpointCelsius cmd)
                 (cmd_fanMode cmd) (mS21Manager a) (link a) = (Inr (), mp)"
  shows "CommandWorkHandler P a = Some (setS21 mp (a\<lparr>mCommandWork := None,
      mSyncCoordinator := (mSyncCoordinator a)\<lparr>mKernel := Some (onCommandSent cmd k)\<rparr>\<rparr>))"
  using assms by (cases mp) (simp add: CommandWorkHandler_def PendingCommand_def OnCommandSent_def setS21_def)



text \<open>
  A Quiet fan is forgotten while the unit is off. The status read does not ask for the fan of a unit that is off, so a report of Auto is taken
  at its word: a poll then replaces the settled Quiet by Auto, and the command that switches the unit on again asks for Auto.
\<close>

theorem quiet_fan_forgotten_while_off:
  assumes k: "mKernel (mSyncCoordinator a) = Some k" and ready: "mIsReady (mS21Manager a)"
    and stale: "cache_lookup (mCacheMaxAge (mS21Manager a)) (ps_now P (link a)) (mOperationCache (mS21Manager a)) = None"
    and report: "ps_getOperation P (link a) = (Inr (False, md, sp, FanMode.Auto), p)"
    and quiet: "twin_phase (fan (mState k)) = Settled (Some FanLevel.Quiet)"
  shows "\<exists>a' k'. PollOperationalPhase P now a = Some a' \<and> mKernel (mSyncCoordinator a') = Some k'
    \<and> mDesired (fan (mState k')) = None
    \<and> cmd_fanMode (desiredCommand (mState (applyOne t (SetOnOffIntent True) k'))) = FanMode.Auto"
proof -
  have "\<exists>m. operationCacheGet P (mS21Manager a) (link a) = (Inr (False, md, sp, FanMode.Auto), m, p)"
    using cache.miss_ok [OF stale, of "ps_getOperation P", OF report] by (simp add: operationCacheGet_def)
  then obtain m where op: "mgr_getOperation P (mS21Manager a) (link a) = (Inr (False, md, sp, FanMode.Auto), m, p)"
    using ready by (auto simp: mgr_getOperation_def)
  have f: "mObserved (fan (mState k)) = Some FanLevel.Quiet" "mInFlight (fan (mState k)) = None"
      "mDesired (fan (mState k)) = Some FanLevel.Quiet"
    using quiet by (auto simp: twin_phase_def split: option.splits if_splits)
  then have d: "mDesired (fan (mState (observed now \<lparr>obs_onOff = False, obs_operatingMode = md, obs_setpointCelsius = sp,
      obs_fanMode = FanMode.Auto, obs_refrigerantValveOpen = valve\<rparr> k))) = None" for valve
    by (simp add: s21FanModeToSpeedSetting_def twin_observe)
  have "fanSpeedToS21FanMode None = FanMode.Auto" by (simp add: fanSpeedToS21FanMode_def)
  then show ?thesis
    using PollOperationalPhase_ok [OF op k, of now] d by (fastforce simp: dispatched_def apply_SetOnOffIntent_def)
qed

theorem quiet_fan_forgotten_while_off_witness:
  "\<exists>a' k'. PollOperationalPhase echoPresentation 9 (runningManager\<lparr>link := ((False, OperatingMode.Auto, 2200, FanMode.Auto), 1000),
       mSyncCoordinator := (mSyncCoordinator runningManager)\<lparr>mKernel := Some (booted\<lparr>mState := (mState booted)
         \<lparr>fan := TwinField_new (Some FanLevel.Quiet)\<rparr>\<rparr>)\<rparr>\<rparr>) = Some a'
     \<and> mKernel (mSyncCoordinator a') = Some k' \<and> mDesired (fan (mState k')) = None"
proof -
  let ?k = "booted\<lparr>mState := (mState booted)\<lparr>fan := TwinField_new (Some FanLevel.Quiet)\<rparr>\<rparr>"
  let ?a = "runningManager\<lparr>link := ((False, OperatingMode.Auto, 2200, FanMode.Auto), 1000),
       mSyncCoordinator := (mSyncCoordinator runningManager)\<lparr>mKernel := Some ?k\<rparr>\<rparr>"
  have "mKernel (mSyncCoordinator ?a) = Some ?k" "mIsReady (mS21Manager ?a)"
      "cache_lookup (mCacheMaxAge (mS21Manager ?a)) (ps_now echoPresentation (link ?a)) (mOperationCache (mS21Manager ?a)) = None"
      "ps_getOperation echoPresentation (link ?a) = (Inr (False, OperatingMode.Auto, 2200, FanMode.Auto), link ?a)"
      "twin_phase (fan (mState ?k)) = Settled (Some FanLevel.Quiet)"
    by (simp_all add: S21Manager_new_def cache_lookup_def echoPresentation_def twin_phase_def)
  from quiet_fan_forgotten_while_off [OF this, of 9 10] show ?thesis by blast
qed

fun environmentalPolls ::
  "'p S21PresentationSync \<Rightarrow> nat \<Rightarrow> 'p AirConditionerManager \<Rightarrow> 'p AirConditionerManager option" where
  "environmentalPolls P 0 a = Some a"
| "environmentalPolls P (Suc n) a = Option.bind (environmentalPolls P n a) (PollEnvironmentalPhase P)"

lemma PollEnvironmentalPhase_skip:
  "mEnvironmentalReadCountdown a \<noteq> 0 \<Longrightarrow>
     PollEnvironmentalPhase P a = Some (a\<lparr>mEnvironmentalReadCountdown := mEnvironmentalReadCountdown a - 1\<rparr>)"
  by (simp add: PollEnvironmentalPhase_def)

lemma PollEnvironmentalPhase_missing:
  assumes "mEnvironmentalReadCountdown a = 0" and "readSensors P (mS21Manager a) (link a) = (None, m, p)"
  shows "PollEnvironmentalPhase P a = Some (setS21 (m, p) (a\<lparr>mEnvironmentalReadCountdown := 5\<rparr>))"
  using assms by (simp add: PollEnvironmentalPhase_def kS21EnvironmentalSensorReadTicks_def setS21_def)

lemma PollEnvironmentalPhase_read:
  assumes "mEnvironmentalReadCountdown a = 0" and "readSensors P (mS21Manager a) (link a) = (Some env, m, p)"
    and k: "mKernel (mSyncCoordinator a) = Some k"
  shows "\<exists>a'. PollEnvironmentalPhase P a = Some a'
    \<and> dispatched False k (snd (applyEnvironmentalObservation env k))
        (setS21 (m, p) (a\<lparr>mEnvironmentalReadCountdown := 5\<rparr>)) a'"
proof -
  let ?b = "setS21 (m, p) (a\<lparr>mEnvironmentalReadCountdown := 5\<rparr>)"
  have "PollEnvironmentalPhase P a = dispatchEnvironmental env ?b"
    using assms by (simp add: PollEnvironmentalPhase_def kS21EnvironmentalSensorReadTicks_def setS21_def)
  then show ?thesis using dispatch_effect(3) [of ?b k env] k by simp
qed

lemma environmental_reads [simp]:
  "readOnOff (snd (applyEnvironmentalObservation env k)) = readOnOff k"
  "readLocalTemperature (snd (applyEnvironmentalObservation env k)) = Some (env_indoorTemperatureCelsius env)"
  "readOutdoorTemperature (snd (applyEnvironmentalObservation env k)) = Some (env_outdoorTemperatureCelsius env)"
  "readHumidityCentiPercent (snd (applyEnvironmentalObservation env k)) = Some (ucast (env_indoorRelativeHumidityPercent env) * 100)"
  by (simp_all add: applyEnvironmentalObservation_def readOnOff_def projectedOnOff_def readLocalTemperature_def
      projectedLocalTemperature_def readOutdoorTemperature_def projectedOutdoorTemperature_def
      readHumidityCentiPercent_def projectedHumidityCentiPercent_def Let_def)

lemma PollEnvironmentalPhase_countdown:
  assumes "has_value (mKernel (mSyncCoordinator a))"
  shows "\<exists>a'. PollEnvironmentalPhase P a = Some a' \<and> has_value (mKernel (mSyncCoordinator a'))
    \<and> mEnvironmentalReadCountdown a'
        = (if mEnvironmentalReadCountdown a = 0 then 5 else mEnvironmentalReadCountdown a - 1)"
proof (cases "mEnvironmentalReadCountdown a = 0")
  case True
  obtain k where k: "mKernel (mSyncCoordinator a) = Some k" using assms by auto
  obtain obs m p where r: "readSensors P (mS21Manager a) (link a) = (obs, m, p)" by (metis prod_cases3)
  show ?thesis
  proof (cases obs)
    case None
    then show ?thesis using PollEnvironmentalPhase_missing [OF True] r assms True by auto
  next
    case (Some env)
    with r have "readSensors P (mS21Manager a) (link a) = (Some env, m, p)" by simp
    from PollEnvironmentalPhase_read [OF True this k] show ?thesis using True by (auto simp: dispatched_def)
  qed
qed (use assms in \<open>auto simp: PollEnvironmentalPhase_skip\<close>)

lemma environmentalPolls_countdown:
  assumes "has_value (mKernel (mSyncCoordinator a))" and "mEnvironmentalReadCountdown a = 0"
  shows "\<exists>a'. environmentalPolls P n a = Some a' \<and> has_value (mKernel (mSyncCoordinator a'))
    \<and> mEnvironmentalReadCountdown a' = (- int n) mod 6"
proof (induction n)
  case (Suc n)
  then obtain a' where a': "environmentalPolls P n a = Some a'" "has_value (mKernel (mSyncCoordinator a'))"
      "mEnvironmentalReadCountdown a' = (- int n) mod 6" by blast
  have "(- int (Suc n)) mod 6 = (if (- int n) mod 6 = 0 then 5 else (- int n) mod 6 - 1)"
    by (simp add: mod_if [of _ 6] zmod_zminus1_eq_if) presburger
  then show ?case using PollEnvironmentalPhase_countdown [OF a'(2), of P] a' by auto
qed (use assms in simp)

text \<open>
  Sensors are read on every sixth poll, all or nothing. Over any run of polls from start
  the countdown stays within 0..5 and the sensors are read exactly on the polls whose number
  is a multiple of six; on the others nothing but the countdown changes. When they are read
  and one reading fails, the bridge's state, its reports and the LED are untouched; when all succeed, controllers read
  exactly the three readings and no command is scheduled.
\<close>

theorem environmental_poll_cadence:
  assumes k: "mKernel (mSyncCoordinator a) = Some k" and start: "mEnvironmentalReadCountdown a = 0"
  shows "(\<exists>a'. environmentalPolls P n a = Some a' \<and> 0 \<le> mEnvironmentalReadCountdown a'
        \<and> mEnvironmentalReadCountdown a' \<le> 5 \<and> (mEnvironmentalReadCountdown a' = 0 \<longleftrightarrow> 6 dvd n)
        \<and> (\<not> 6 dvd n \<longrightarrow> environmentalPolls P (Suc n) a
             = Some (a'\<lparr>mEnvironmentalReadCountdown := mEnvironmentalReadCountdown a' - 1\<rparr>)))
    \<and> (case readSensors P (mS21Manager a) (link a) of
         (None, m, p) \<Rightarrow> PollEnvironmentalPhase P a
           = Some (a\<lparr>mEnvironmentalReadCountdown := 5, mS21Manager := m, link := p\<rparr>)
       | (Some env, m, p) \<Rightarrow>
           (\<exists>a'. PollEnvironmentalPhase P a = Some a'
              \<and> GetLocalTemp a' = Some (Some (env_indoorTemperatureCelsius env))
              \<and> GetOutdoorTemp a' = Some (Some (env_outdoorTemperatureCelsius env))
              \<and> mCommandWork a' = mCommandWork a \<and> led0 a' = led0 a))"
proof (intro conjI)
  obtain a' where a': "environmentalPolls P n a = Some a'" "mEnvironmentalReadCountdown a' = (- int n) mod 6"
    using environmentalPolls_countdown [of a P n] assms by auto
  moreover have "(- int n) mod 6 = 0 \<longleftrightarrow> 6 dvd n"
    by (metis dvd_eq_mod_eq_0 dvd_minus_iff int_dvd_int_iff of_nat_numeral)
  moreover have "0 \<le> (- int n) mod 6" "(- int n) mod 6 \<le> 5"
    using pos_mod_bound [of 6 "- int n"] by simp_all
  ultimately show "\<exists>a'. environmentalPolls P n a = Some a' \<and> 0 \<le> mEnvironmentalReadCountdown a'
        \<and> mEnvironmentalReadCountdown a' \<le> 5 \<and> (mEnvironmentalReadCountdown a' = 0 \<longleftrightarrow> 6 dvd n)
        \<and> (\<not> 6 dvd n \<longrightarrow> environmentalPolls P (Suc n) a
             = Some (a'\<lparr>mEnvironmentalReadCountdown := mEnvironmentalReadCountdown a' - 1\<rparr>))"
    using PollEnvironmentalPhase_skip [of a' P] by auto
next
  obtain obs m p where r: "readSensors P (mS21Manager a) (link a) = (obs, m, p)" by (metis prod_cases3)
  show "case readSensors P (mS21Manager a) (link a) of
         (None, m, p) \<Rightarrow> PollEnvironmentalPhase P a
           = Some (a\<lparr>mEnvironmentalReadCountdown := 5, mS21Manager := m, link := p\<rparr>)
       | (Some env, m, p) \<Rightarrow>
           (\<exists>a'. PollEnvironmentalPhase P a = Some a'
              \<and> GetLocalTemp a' = Some (Some (env_indoorTemperatureCelsius env))
              \<and> GetOutdoorTemp a' = Some (Some (env_outdoorTemperatureCelsius env))
              \<and> mCommandWork a' = mCommandWork a \<and> led0 a' = led0 a)"
  proof (cases obs)
    case None
    then show ?thesis using PollEnvironmentalPhase_missing [OF start] r by (simp add: setS21_def)
  next
    case (Some env)
    then have e: "readSensors P (mS21Manager a) (link a) = (Some env, m, p)" using r by simp
    then show ?thesis
      using PollEnvironmentalPhase_read [OF start e k]
      by (auto simp: e dispatched_def GetLocalTemp_def GetOutdoorTemp_def ReadLocalTemperature_def
          ReadOutdoorTemperature_def)
  qed
qed

theorem environmental_poll_cadence_witness:
  "\<exists>a'. environmentalPolls echoPresentation 6 runningManager = Some a' \<and> mEnvironmentalReadCountdown a' = 0"
  using environmental_poll_cadence [OF runningManager_fields(1,4), of echoPresentation 6, THEN conjunct1]
  by (auto simp del: environmentalPolls.simps)

section \<open>Initialisation retries\<close>

fun initRetries ::
  "'p S21PresentationSync \<Rightarrow> nat \<Rightarrow> 'p AirConditionerManager \<Rightarrow> 'p AirConditionerManager" where
  "initRetries P 0 a = a"
| "initRetries P (Suc n) a = InitRetryWorkHandler P (initRetries P n a)"

lemma manager_Init_deaf:
  assumes "isl (fst (ps_getProtocolVersion P p))" and "\<not> mIsReady m"
  shows "\<exists>p'. manager_Init P m p = (- ENODEV, m, p')"
  using assms by (cases "ps_getProtocolVersion P p") (auto simp: manager_Init_def isl_def)

lemma InitRetryWorkHandler_deaf:
  assumes "\<forall>p. isl (fst (ps_getProtocolVersion P p))" and "\<not> mIsReady (mS21Manager a)"
  shows "\<exists>p'. InitRetryWorkHandler P a = a\<lparr>link := p', mInitRetryWork := Some (mInitRetryIntervalMs a),
      mInitRetryIntervalMs := min (mInitRetryIntervalMs a * 2) kS21InitRetryMaximumIntervalMilliSec\<rparr>"
proof -
  obtain p' where "manager_Init P (mS21Manager a) (link a) = (- ENODEV, mS21Manager a, p')"
    using manager_Init_deaf assms by metis
  then show ?thesis
    by (intro exI [of _ p']) (simp add: InitRetryWorkHandler_def setS21_def ENODEV_def Let_def)
qed

definition backoff :: "nat \<Rightarrow> int" where
  "backoff n = min (500 * 2 ^ n) kS21InitRetryMaximumIntervalMilliSec"

lemma backoff_Suc: "backoff (Suc n) = min (backoff n * 2) kS21InitRetryMaximumIntervalMilliSec"
  by (auto simp: backoff_def min_def kS21InitRetryMaximumIntervalMilliSec_def)

lemma initRetries_deaf:
  assumes deaf: "\<forall>p. isl (fst (ps_getProtocolVersion P p))" and "\<not> mIsReady (mS21Manager a)"
    and "mInitRetryIntervalMs a = 500"
  shows "\<exists>p'. initRetries P n a = a\<lparr>link := p',
     mInitRetryWork := if n = 0 then mInitRetryWork a else Some (backoff (n - 1)),
     mInitRetryIntervalMs := backoff n\<rparr>"
proof (induction n)
  case 0
  show ?case using assms(3)
    by (intro exI [of _ "link a"]) (simp add: backoff_def kS21InitRetryMaximumIntervalMilliSec_def)
next
  case (Suc n)
  then obtain q where q: "initRetries P n a = a\<lparr>link := q,
     mInitRetryWork := if n = 0 then mInitRetryWork a else Some (backoff (n - 1)),
     mInitRetryIntervalMs := backoff n\<rparr>" by blast
  have "\<not> mIsReady (mS21Manager (initRetries P n a))" using assms(2) by (simp add: q)
  from InitRetryWorkHandler_deaf [OF deaf this] show ?case by (auto simp: q backoff_Suc)
qed

text \<open>
  C37. Initialisation is retried for ever with a bounded delay. Against a unit that does not
  answer the version query, the n-th retry (from 0) schedules the next one after
  min(500 * 2^n, 60000) ms, so a retry is always scheduled, never later than a minute, and
  polling does not start. The first retry that is answered makes the manager ready, starts
  polling at once and schedules no further retry.
\<close>

theorem init_retry_backoff:
  assumes deaf: "\<forall>p. isl (fst (ps_getProtocolVersion P p))" and "\<not> mIsReady (mS21Manager a)"
    and "mInitRetryIntervalMs a = kS21InitRetryInitialIntervalMilliSec"
  shows "mInitRetryWork (initRetries P (Suc n) a) = Some (min (500 * 2 ^ n) 60000)
    \<and> mPollWork (initRetries P (Suc n) a) = mPollWork a
    \<and> mSyncCoordinator (initRetries P (Suc n) a) = mSyncCoordinator a
    \<and> (ok (fst (ps_getProtocolVersion Q (link (initRetries P (Suc n) a)))) \<longrightarrow>
        (let b = InitRetryWorkHandler Q (initRetries P (Suc n) a)
         in mIsReady (mS21Manager b) \<and> mPollWork b = Some 0 \<and> mInitRetryWork b = None))"
proof -
  let ?r = "initRetries P (Suc n) a"
  have "mInitRetryIntervalMs a = 500" using assms(3) by (simp add: kS21InitRetryInitialIntervalMilliSec_def)
  from initRetries_deaf [OF deaf assms(2) this, of "Suc n"] obtain q where
    q: "?r = a\<lparr>link := q, mInitRetryWork := Some (backoff n), mInitRetryIntervalMs := backoff (Suc n)\<rparr>"
    by auto
  have "ok (fst (ps_getProtocolVersion Q (link ?r))) \<Longrightarrow>
      \<exists>m p. manager_Init Q (mS21Manager ?r) (link ?r) = (0, m, p) \<and> mIsReady m"
    using assms(2) by (cases "ps_getProtocolVersion Q (link ?r)"; cases "fst (ps_getProtocolVersion Q (link ?r))")
      (auto simp: manager_Init_def q Let_def split: prod.splits sum.splits)
  then show ?thesis
    by (auto simp: q backoff_def kS21InitRetryMaximumIntervalMilliSec_def InitRetryWorkHandler_def
        Let_def simp del: initRetries.simps)
qed

theorem init_retry_backoff_witness:
  "mInitRetryWork (initRetries deafPresentation (Suc 3)
     (runningManager\<lparr>mS21Manager := S21Manager_new 5000\<rparr>)) = Some 4000"
proof -
  have "\<forall>p. isl (fst (ps_getProtocolVersion deafPresentation p))" by (simp add: deafPresentation_def)
  from init_retry_backoff [OF this, of "runningManager\<lparr>mS21Manager := S21Manager_new 5000\<rparr>" 3, THEN conjunct1]
  show ?thesis by (simp add: S21Manager_new_def runningManager_def AirConditionerManager_new_def
      del: initRetries.simps)
qed

section \<open>Reports and the power indicator\<close>

datatype ReporterEvent = Changed "LogicalAttribute list" | Drain

primrec reporterEvent :: "ReporterEvent \<Rightarrow> 'p AirConditionerManager \<Rightarrow> 'p AirConditionerManager" where
  "reporterEvent (Changed attributes) a = Reporter_OnChangedAttributes attributes a"
| "reporterEvent Drain a = DrainOnMatterEventLoop (a\<lparr>postedDrains := postedDrains a - 1\<rparr>)"

definition changedIn :: "ReporterEvent list \<Rightarrow> LogicalAttribute list" where
  "changedIn es = concat (map (\<lambda>e. case e of Changed as \<Rightarrow> as | Drain \<Rightarrow> []) es)"

definition reportsFor :: "LogicalAttribute list \<Rightarrow> (u16 \<times> ClusterId \<times> AttributeId) list" where
  "reportsFor as = map (\<lambda>x. (kThermostatEndpoint, toMatterAddress x)) (filter (\<lambda>x. x \<noteq> Reachable) as)"

lemma toMatterAddress_null: "toMatterAddress x = (0, 0) \<longleftrightarrow> x = Reachable"
  by (cases x) simp_all

lemma DrainOnMatterEventLoop_reports:
  "DrainOnMatterEventLoop a = a\<lparr>mQueue := [], reports := reports a @ reportsFor (mQueue a)\<rparr>"
proof -
  have "[(kThermostatEndpoint, cluster, attribute). (cluster, attribute) \<leftarrow> map toMatterAddress as,
           \<not> (cluster = 0 \<and> attribute = 0)] = reportsFor as" for as
  proof (induction as)
    case (Cons x xs)
    then show ?case using toMatterAddress_null [of x]
      by (cases "toMatterAddress x") (auto simp: reportsFor_def)
  qed (simp add: reportsFor_def)
  then show ?thesis by (simp only: DrainOnMatterEventLoop_def)
qed

text \<open>
  C38. Every reportable change is reported once and in order. Over any interleaving of
  listener calls and drain tasks, what has been reported, followed by what is still queued,
  is exactly what was reported or queued before followed by the attributes changed since, at
  their Matter addresses and without Reachable, which has none; and right after a drain
  nothing is left queued.
\<close>

theorem every_change_is_reported_once:
  "(let a' = fold reporterEvent es a
    in reports a' @ reportsFor (mQueue a') = reports a @ reportsFor (mQueue a @ changedIn es))
   \<and> mQueue (fold reporterEvent (es @ [Drain]) a) = []"
proof -
  have "reports (fold reporterEvent es a) @ reportsFor (mQueue (fold reporterEvent es a))
      = reports a @ reportsFor (mQueue a @ changedIn es)"
  proof (induction es arbitrary: a)
    case (Cons e es)
    then show ?case
      by (cases e) (simp_all add: changedIn_def Reporter_OnChangedAttributes_def
          DrainOnMatterEventLoop_reports reportsFor_def)
  qed (simp add: changedIn_def)
  then show ?thesis by (simp add: DrainOnMatterEventLoop_reports)
qed

text \<open>
  C39. The power indicator shows what controllers read, up to a command's completion. With the
  indicator registered and LED0 equal to the power attribute, they stay equal through every
  controller write, operational poll and environmental poll. Completing a command that
  switches the power breaks it: LED0 keeps the requested level while the attribute goes back to
  the last observed one.
\<close>

theorem power_indicator_follows_reads:
  assumes k: "mKernel (mSyncCoordinator a) = Some k"
    and listening: "mPowerIndicator \<in> set (mListeners (mPublisher (mSyncCoordinator a)))"
    and led: "led0 a = ReadOnOff (mSyncCoordinator a)"
  shows "(\<exists>a'. dispatchIntent now i a = Some a' \<and> led0 a' = ReadOnOff (mSyncCoordinator a'))
    \<and> (\<exists>a'. dispatchOperational now obs a = Some a' \<and> led0 a' = ReadOnOff (mSyncCoordinator a'))
    \<and> (\<exists>a'. dispatchEnvironmental env a = Some a' \<and> led0 a' = ReadOnOff (mSyncCoordinator a'))
    \<and> (twin_phase (onOff (mState k)) = Queued o' d \<and> pendingCommand k = Some cmd
         \<and> mgr_setOperation P (cmd_onOff cmd) (cmd_operatingMode cmd) (cmd_setpointCelsius cmd)
             (cmd_fanMode cmd) (mS21Manager a) (link a) = (Inr u, m, p) \<longrightarrow>
       (\<exists>a'. CommandWorkHandler P a = Some a' \<and> led0 a' = Some d
         \<and> ReadOnOff (mSyncCoordinator a') = Some o' \<and> o' \<noteq> d))"
proof (intro conjI impI)
  have led': "led0 a = Some (readOnOff k)" using led k by (simp add: ReadOnOff_def)
  show "\<exists>a'. dispatchIntent now i a = Some a' \<and> led0 a' = ReadOnOff (mSyncCoordinator a')"
    "\<exists>a'. dispatchOperational now obs a = Some a' \<and> led0 a' = ReadOnOff (mSyncCoordinator a')"
    "\<exists>a'. dispatchEnvironmental env a = Some a' \<and> led0 a' = ReadOnOff (mSyncCoordinator a')"
    using dispatch_effect(1) [OF k, of now i] dispatch_effect(2) [OF k, of now obs]
      dispatch_effect(3) [OF k, of env] listening
    by (fastforce simp: dispatched_def ReadOnOff_def led')+
next
  assume h: "twin_phase (onOff (mState k)) = Queued o' d \<and> pendingCommand k = Some cmd
         \<and> mgr_setOperation P (cmd_onOff cmd) (cmd_operatingMode cmd) (cmd_setpointCelsius cmd)
             (cmd_fanMode cmd) (mS21Manager a) (link a) = (Inr u, m, p)"
  then have "mObserved (onOff (mState k)) = o'" "mDesired (onOff (mState k)) = d"
      "mInFlight (onOff (mState k)) = None" "o' \<noteq> d"
    by (auto simp: twin_phase_def split: option.splits if_splits)
  then show "\<exists>a'. CommandWorkHandler P a = Some a' \<and> led0 a' = Some d
         \<and> ReadOnOff (mSyncCoordinator a') = Some o' \<and> o' \<noteq> d"
    using h k led by (simp add: CommandWorkHandler_def PendingCommand_def OnCommandSent_def
        ReadOnOff_def readOnOff_def projectedOnOff_def projectedValue_def)
qed

theorem power_indicator_follows_reads_witness:
  "\<exists>a'. dispatchIntent 5 (SetOnOffIntent True) (runningManager\<lparr>led0 := Some False\<rparr>) = Some a'
     \<and> led0 a' = ReadOnOff (mSyncCoordinator a')"
proof -
  have "led0 (runningManager\<lparr>led0 := Some False\<rparr>)
      = ReadOnOff (mSyncCoordinator (runningManager\<lparr>led0 := Some False\<rparr>))"
    using booted_eval(1) by (simp add: ReadOnOff_def readOnOff_def projectedOnOff_def projectedValue_def
        booted_def BridgeKernel_new_def)
  then show ?thesis
    using power_indicator_follows_reads [of "runningManager\<lparr>led0 := Some False\<rparr>"
        "BridgeKernel_new ReconcilerConfig_default" 5 "SetOnOffIntent True", THEN conjunct1] by simp
qed

lemma minus_mod_256:
  fixes x :: int
  assumes "1 \<le> x" and "x \<le> 256"
  shows "(- x) mod 256 = 256 - x"
proof -
  have "(- x) mod 256 = (256 - x) mod 256" using mod_add_self1 [of 256 "- x"] by simp
  also have "\<dots> = 256 - x" using assms by (intro mod_pos_pos_trivial) simp_all
  finally show ?thesis .
qed

text \<open>
  The status read-out splits a temperature wrongly at the rounding boundary and below zero.
  For a value from 0 to 255.99 degrees the two numbers printed are the whole degrees and the
  nearest tenth, except that the last five hundredths of a degree print a tenth of 10; for
  a value of minus one degree or less the whole degrees wrap modulo 256.
\<close>

theorem status_temperature_split:
  fixes v :: i16
  shows "(0 \<le> sint v \<and> sint v \<le> 25599 \<longrightarrow>
       uint (ReturnCompleteValue v) = sint v div 100
     \<and> uint (ReturnRemainderValue v) = (sint v mod 100 + 5) div 10
     \<and> (uint (ReturnRemainderValue v) = 10 \<longleftrightarrow> 95 \<le> sint v mod 100))
    \<and> (- 25600 \<le> sint v \<and> sint v \<le> - 100 \<longrightarrow>
       uint (ReturnCompleteValue v) = 256 - (- sint v) div 100)"
proof (intro conjI impI; (elim conjE)?)
  assume v: "0 \<le> sint v" "sint v \<le> 25599"
  have c: "sint v div 100 \<le> 255" using v zdiv_mono1 [of "sint v" 25599 100] by simp
  have m: "0 \<le> sint v mod 100" "sint v mod 100 \<le> 99" using pos_mod_bound [of 100 "sint v"] by simp_all
  show "uint (ReturnCompleteValue v) = sint v div 100"
    using c v by (simp add: ReturnCompleteValue_def sdiv_nonneg uint_word_of_int pos_imp_zdiv_nonneg_iff)
  have "sint v smod 100 = sint v mod 100"
    using v by (cases "sint v = 0") (simp_all add: signed_modulo_int_def sgn_if)
  moreover have r: "(sint v mod 100 + 5) div 10 \<le> 10" "0 \<le> (sint v mod 100 + 5) div 10"
    using m zdiv_mono1 [of "sint v mod 100 + 5" 104 10] by (simp_all add: pos_imp_zdiv_nonneg_iff)
  ultimately show rem: "uint (ReturnRemainderValue v) = (sint v mod 100 + 5) div 10"
    using m by (simp add: ReturnRemainderValue_def sdiv_nonneg uint_word_of_int)
  show "uint (ReturnRemainderValue v) = 10 \<longleftrightarrow> 95 \<le> sint v mod 100"
    unfolding rem using m r by linarith
next
  assume v: "- 25600 \<le> sint v" "sint v \<le> - 100"
  have "1 \<le> (- sint v) div 100" "(- sint v) div 100 \<le> 256"
    using v zdiv_mono1 [of 100 "- sint v" 100] zdiv_mono1 [of "- sint v" 25600 100] by simp_all
  note wrap = minus_mod_256 [OF this]
  have "sint v sdiv 100 = - ((- sint v) div 100)" using v by (simp add: sdiv_neg)
  then have "uint (ReturnCompleteValue v) = (- ((- sint v) div 100)) mod 256"
    by (simp only: ReturnCompleteValue_def uint_word_of_int) simp
  then show "uint (ReturnCompleteValue v) = 256 - (- sint v) div 100" by (simp only: wrap)
qed

theorem status_temperature_split_witness:
  "uint (ReturnRemainderValue 2195) = 10 \<and> uint (ReturnCompleteValue (- 500)) = 251"
  using status_temperature_split [of 2195, THEN conjunct1] status_temperature_split [of "- 500", THEN conjunct2]
  by simp

end
