(* ===== verification/Event_Loop.thy ===== *)
theory Event_Loop
  imports AirConditioner_Manager
begin

text \<open>
  The running bridge: every order in which the work items of the S21 queue, controller writes
  and posted drain tasks may run after \<open>AirConditionerManager::Init\<close>
  (\<open>airconditioner_manager.cpp\<close>). A work item runs only when it is scheduled, a drain only
  when it is posted. The link below may answer differently from event to event: its state is
  arbitrary at the start of each.

  Controllers write from the Matter thread while the S21 queue's thread works. The handlers of that queue do not
  overlap each other. A write that strikes inside a poll acts as if it came before it, since a poll
  reads the unit without looking at the coordinator and then makes one coordinator call for each phase; the
  command handler, which takes the pending command, transmits it and then records it, is two
  steps, between which writes may strike.
\<close>

section \<open>The S21 manager's ready flag\<close>

lemma cache_gets_ready [simp]:
  "operationCacheGet P m p = (r, m', p') \<Longrightarrow> mIsReady m' = mIsReady m"
  "coarseCacheGet P m p = (r', m', p') \<Longrightarrow> mIsReady m' = mIsReady m"
  "fanModeCacheGet P m p = (r'', m', p') \<Longrightarrow> mIsReady m' = mIsReady m"
  by (auto simp: operationCacheGet_def coarseCacheGet_def fanModeCacheGet_def Let_def split: prod.splits)

lemma mgr_getOperation_ready:
  "mgr_getOperation P m p = (r, m', p') \<Longrightarrow> mIsReady m' = mIsReady m"
  by (auto simp: mgr_getOperation_def Let_def split: if_splits prod.splits sum.splits)

lemma fallBackToCoarse_ready:
  "fallBackToCoarse pick P (r0, m, p) = (r, m', p') \<Longrightarrow> mIsReady m' = mIsReady m"
  by (auto simp: fallBackToCoarse_def Let_def split: prod.splits sum.splits)

lemma mgr_sensor_ready:
  "mgr_getRoomTemperature P m p = (r, m', p') \<Longrightarrow> mIsReady m' = mIsReady m"
  "mgr_getOutdoorTemperature P m p = (r, m', p') \<Longrightarrow> mIsReady m' = mIsReady m"
  "mgr_getHumidity P m p = (h, m', p') \<Longrightarrow> mIsReady m' = mIsReady m"
  "mgr_getUnitState P m p = (u, m', p') \<Longrightarrow> mIsReady m' = mIsReady m"
  by (auto simp: mgr_getRoomTemperature_def mgr_getOutdoorTemperature_def mgr_getHumidity_def
      mgr_getUnitState_def Let_def dest!: fallBackToCoarse_ready split: if_splits prod.splits sum.splits)

lemma readSensors_ready: "readSensors P m p = (r, m', p') \<Longrightarrow> mIsReady m' = mIsReady m"
  by (auto simp: readSensors_def Let_def dest!: mgr_sensor_ready split: prod.splits)

lemma mgr_setOperation_ready:
  "mgr_setOperation P on md sp f m p = (r, m', p') \<Longrightarrow> mIsReady m' = mIsReady m"
  by (auto simp: mgr_setOperation_def Let_def split: if_splits prod.splits sum.splits)

lemma manager_Init_ready: "manager_Init P m p = (e, m', p') \<Longrightarrow> mIsReady m' \<longleftrightarrow> e = 0"
  by (auto simp: manager_Init_def Let_def ENODEV_def split: if_splits prod.splits sum.splits)

section \<open>The two halves of the command handler\<close>

definition pumpTake ::
  "'p AirConditionerManager \<Rightarrow> ('p AirConditionerManager \<times> S21OperationCommand option) option" where
  "pumpTake a = map_option (Pair (a\<lparr>mCommandWork := None\<rparr>)) (PendingCommand (mSyncCoordinator a))"

definition pumpFinish ::
  "'p S21PresentationSync \<Rightarrow> S21OperationCommand \<Rightarrow> 'p AirConditionerManager \<Rightarrow> 'p AirConditionerManager option" where
  "pumpFinish P cmd a =
     (let (res, mp) = mgr_setOperation P (cmd_onOff cmd) (cmd_operatingMode cmd)
            (cmd_setpointCelsius cmd) (cmd_fanMode cmd) (mS21Manager a) (link a);
          a = setS21 mp a
      in case (if ok res then OnCommandSent cmd (mSyncCoordinator a)
               else OnCommandFailed (mSyncCoordinator a)) of
           None \<Rightarrow> None
         | Some (calls, c) \<Rightarrow> runCalls calls (a\<lparr>mSyncCoordinator := c\<rparr>))"

lemma CommandWorkHandler_halves:
  "CommandWorkHandler P a =
     Option.bind (pumpTake a) (\<lambda>(a, taken). case taken of None \<Rightarrow> Some a | Some cmd \<Rightarrow> pumpFinish P cmd a)"
  by (simp add: CommandWorkHandler_def pumpTake_def pumpFinish_def Let_def split: option.split)

section \<open>Events and their invariant\<close>

text \<open>The manager, and the command the S21 thread has taken and not yet recorded.\<close>

type_synonym 'p bridge = "'p AirConditionerManager \<times> S21OperationCommand option"

definition acm_start :: "'p AirConditionerManager \<Rightarrow> bool" where
  "acm_start a =
     (\<exists>P ready rc s21 c p. pred_option kernel_reach (mKernel c)
        \<and> acm_Init P ready rc s21 c (AirConditionerManager_new s21 c p) = Some (CHIP_NO_ERROR, a))"

definition bridge_start :: "'p bridge \<Rightarrow> bool" where
  "bridge_start s = (acm_start (fst s) \<and> snd s = None)"

inductive bridge_step :: "'p bridge \<Rightarrow> 'p bridge \<Rightarrow> bool" where
  bridge_poll: "has_value (mPollWork a) \<Longrightarrow> PollWorkHandler P now (a\<lparr>link := p\<rparr>) = Some a'
    \<Longrightarrow> bridge_step (a, None) (a', None)"
| bridge_retry: "has_value (mInitRetryWork a)
    \<Longrightarrow> bridge_step (a, None) (InitRetryWorkHandler P (a\<lparr>link := p\<rparr>), None)"
| bridge_take: "has_value (mCommandWork a) \<Longrightarrow> pumpTake a = Some (a', taken) \<Longrightarrow> bridge_step (a, None) (a', taken)"
| bridge_finish: "pumpFinish P cmd (a\<lparr>link := p\<rparr>) = Some a' \<Longrightarrow> bridge_step (a, Some cmd) (a', None)"
| bridge_write: "intent_ok i \<Longrightarrow> dispatchIntent now i a = Some a' \<Longrightarrow> bridge_step (a, taken) (a', taken)"
| bridge_drain: "0 < postedDrains a \<Longrightarrow> bridge_step (a, taken) (reporterEvent Drain a, taken)"

text \<open>What every event keeps of a running manager.\<close>

definition acm_common :: "'p AirConditionerManager \<Rightarrow> bool" where
  "acm_common a =
     (has_value (mKernel (mSyncCoordinator a)) \<and> pred_option kernel_reach (mKernel (mSyncCoordinator a))
      \<and> has_value (led0 a)
      \<and> 0 \<le> mEnvironmentalReadCountdown a \<and> mEnvironmentalReadCountdown a \<le> 5
      \<and> 500 \<le> mInitRetryIntervalMs a \<and> mInitRetryIntervalMs a \<le> 60000
      \<and> 0 \<le> mConsecutivePollFailures a \<and> drainPosted a)"

definition acm_inv :: "'p AirConditionerManager \<Rightarrow> bool" where
  "acm_inv a =
     (acm_common a \<and> has_value (mPollWork a) = mIsReady (mS21Manager a)
      \<and> has_value (mInitRetryWork a) = (\<not> mIsReady (mS21Manager a)))"

lemma dispatched_keeps:
  assumes "dispatched pump k k' a a'"
  shows "mS21Manager a' = mS21Manager a" "mPollWork a' = mPollWork a" "mInitRetryWork a' = mInitRetryWork a"
    "mKernel (mSyncCoordinator a') = Some k'"
  using assms by (simp_all add: dispatched_def)

lemma acm_common_dispatched:
  "acm_common a \<Longrightarrow> dispatched pump k k' a a' \<Longrightarrow> kernel_reach k' \<Longrightarrow> acm_common a'"
  by (auto simp: acm_common_def dispatched_def)

lemma acm_common_kernel:
  assumes "acm_common a"
  obtains k where "mKernel (mSyncCoordinator a) = Some k" "kernel_reach k"
  using assms by (auto simp: acm_common_def)

lemma acm_common_updates [simp]:
  "acm_common (a\<lparr>link := p\<rparr>) = acm_common a" "acm_common (setS21 mp a) = acm_common a"
  "acm_common (a\<lparr>mPollWork := w\<rparr>) = acm_common a" "acm_common (a\<lparr>mCommandWork := w\<rparr>) = acm_common a"
  "acm_common (a\<lparr>mInitRetryWork := w\<rparr>) = acm_common a"
  by (simp_all add: acm_common_def drainPosted_def setS21_def)

lemma PollEnvironmentalPhase_keeps:
  assumes "acm_common a"
  shows "\<exists>b. PollEnvironmentalPhase P a = Some b \<and> acm_common b
    \<and> mIsReady (mS21Manager b) = mIsReady (mS21Manager a)
    \<and> mPollWork b = mPollWork a \<and> mInitRetryWork b = mInitRetryWork a"
proof -
  obtain k where k: "mKernel (mSyncCoordinator a) = Some k" "kernel_reach k" using assms by (rule acm_common_kernel)
  obtain obs m p where r: "readSensors P (mS21Manager a) (link a) = (obs, m, p)" by (metis prod_cases3)
  have m: "mIsReady m = mIsReady (mS21Manager a)" using r by (rule readSensors_ready)
  consider "mEnvironmentalReadCountdown a \<noteq> 0" | "mEnvironmentalReadCountdown a = 0" "obs = None"
    | env where "mEnvironmentalReadCountdown a = 0" "obs = Some env" by blast
  then show ?thesis
  proof cases
    case 1
    then show ?thesis
      using assms by (simp add: PollEnvironmentalPhase_skip acm_common_def drainPosted_def)
  next
    case 2
    then show ?thesis
      using assms m PollEnvironmentalPhase_missing [OF 2(1), of P m p] r
      by (simp add: acm_common_def drainPosted_def setS21_def)
  next
    case 3
    let ?b = "setS21 (m, p) (a\<lparr>mEnvironmentalReadCountdown := 5\<rparr>)"
    have b: "acm_common ?b" using assms by (simp add: acm_common_def drainPosted_def setS21_def)
    obtain c where c: "PollEnvironmentalPhase P a = Some c"
        "dispatched False k (snd (applyEnvironmentalObservation env k)) ?b c"
      using PollEnvironmentalPhase_read [OF 3(1) _ k(1), of P env m p] r 3(2) by auto
    then show ?thesis using acm_common_dispatched [OF b c(2) kernel_reach_step [OF k(2) step_environmental]] dispatched_keeps [OF c(2)] m by simp
  qed
qed

lemma PollOperationalPhase_keeps:
  assumes "acm_common a"
  shows "\<exists>b. PollOperationalPhase P now a = Some b \<and> acm_common b
    \<and> mIsReady (mS21Manager b) = mIsReady (mS21Manager a)
    \<and> mPollWork b = mPollWork a \<and> mInitRetryWork b = mInitRetryWork a"
proof -
  obtain k where k: "mKernel (mSyncCoordinator a) = Some k" "kernel_reach k" using assms by (rule acm_common_kernel)
  obtain op m p where r: "mgr_getOperation P (mS21Manager a) (link a) = (op, m, p)" by (metis prod_cases3)
  have m: "mIsReady m = mIsReady (mS21Manager a)" using r by (rule mgr_getOperation_ready)
  show ?thesis
  proof (cases op)
    case (Inl e)
    then show ?thesis
      using assms m k PollOperationalPhase_failed [OF r [unfolded Inl] k(1), of now]
        kernel_reach_step [OF k(2) step_link_down]
      by (simp add: acm_common_def drainPosted_def setS21_def)
  next
    case (Inr v)
    obtain on md sp f where v: "v = (on, md, sp, f)" by (cases v)
    obtain us mp where us: "mgr_getUnitState P m p = (us, mp)" by (cases "mgr_getUnitState P m p")
    let ?a = "(setS21 (m, p) a)\<lparr>mConsecutivePollFailures := 0\<rparr>"
    define b where "b = (if on then setS21 mp ?a else ?a)"
    have ready: "mIsReady (mS21Manager b) = mIsReady (mS21Manager a)"
      using m mgr_sensor_ready(4) [of P m p us "fst mp" "snd mp"] us by (simp add: b_def)
    have b: "acm_common b" "mKernel (mSyncCoordinator b) = Some k" "mPollWork b = mPollWork a"
        "mInitRetryWork b = mInitRetryWork a"
      using assms k by (auto simp: b_def acm_common_def drainPosted_def setS21_def)
    have "\<exists>obs. PollOperationalPhase P now a = dispatchOperational now obs b"
      using us by (auto simp: PollOperationalPhase_def r Inr v b_def)
    then obtain obs c where c: "PollOperationalPhase P now a = Some c"
        "dispatched True k (snd (applyOperationalObservation now obs k)) b c"
      using dispatch_effect(2) [OF b(2)] by metis
    then show ?thesis
      using acm_common_dispatched [OF b(1) c(2) kernel_reach_step [OF k(2) step_operational]] dispatched_keeps [OF c(2)] b ready
      by simp
  qed
qed

lemma PollWorkHandler_keeps:
  assumes "acm_common a"
  shows "\<exists>b. PollWorkHandler P now a = Some b \<and> acm_common b
    \<and> mIsReady (mS21Manager b) = mIsReady (mS21Manager a)
    \<and> mPollWork b = Some 10000 \<and> mInitRetryWork b = mInitRetryWork a"
proof -
  have "acm_common (a\<lparr>mPollWork := None\<rparr>)" using assms by simp
  from PollEnvironmentalPhase_keeps [OF this, of P] obtain b where
    b: "PollEnvironmentalPhase P (a\<lparr>mPollWork := None\<rparr>) = Some b" "acm_common b"
      "mIsReady (mS21Manager b) = mIsReady (mS21Manager a)" "mInitRetryWork b = mInitRetryWork a"
    by auto
  from PollOperationalPhase_keeps [OF b(2), of P now] b show ?thesis
    by (auto simp: PollWorkHandler_def Poll_def kS21PollIntervalSec_def)
qed

lemma pumpTake_keeps:
  assumes "acm_common a"
  shows "\<exists>taken. pumpTake a = Some (a\<lparr>mCommandWork := None\<rparr>, taken)"
  using assms by (auto simp: pumpTake_def PendingCommand_def acm_common_def)

lemma pumpFinish_keeps:
  assumes "acm_common a"
  shows "\<exists>b. pumpFinish P cmd a = Some b \<and> acm_common b
    \<and> mIsReady (mS21Manager b) = mIsReady (mS21Manager a)
    \<and> mPollWork b = mPollWork a \<and> mInitRetryWork b = mInitRetryWork a"
proof -
  obtain k where k: "mKernel (mSyncCoordinator a) = Some k" "kernel_reach k" using assms by (rule acm_common_kernel)
  obtain r m p where r: "mgr_setOperation P (cmd_onOff cmd) (cmd_operatingMode cmd)
      (cmd_setpointCelsius cmd) (cmd_fanMode cmd) (mS21Manager a) (link a) = (r, m, p)"
    by (metis prod_cases3)
  then have "mIsReady m = mIsReady (mS21Manager a)" by (rule mgr_setOperation_ready)
  then show ?thesis
    using assms r kernel_reach_step [OF k(2) step_sent [of k cmd]] kernel_reach_step [OF k(2) step_failed]
    by (simp add: pumpFinish_def k OnCommandSent_def OnCommandFailed_def acm_common_def drainPosted_def setS21_def Let_def)
qed

lemma CommandWorkHandler_defined:
  assumes "acm_common a"
  shows "has_value (CommandWorkHandler P a)"
proof -
  obtain taken where "pumpTake a = Some (a\<lparr>mCommandWork := None\<rparr>, taken)" using pumpTake_keeps [OF assms] by blast
  moreover have "acm_common (a\<lparr>mCommandWork := None\<rparr>)" using assms by simp
  ultimately show ?thesis
    using pumpFinish_keeps [of "a\<lparr>mCommandWork := None\<rparr>" P]
    by (cases taken) (auto simp: CommandWorkHandler_halves)
qed

lemma InitRetryWorkHandler_keeps:
  assumes "acm_common a" and "mPollWork a = None"
  shows "acm_inv (InitRetryWorkHandler P a)"
proof -
  obtain e m p where i: "manager_Init P (mS21Manager a) (link a) = (e, m, p)" by (metis prod_cases3)
  note ready = manager_Init_ready [OF i]
  have "acm_common (a\<lparr>mInitRetryIntervalMs := min (mInitRetryIntervalMs a * 2) 60000\<rparr>)"
    using assms(1) by (auto simp: acm_common_def drainPosted_def)
  then show ?thesis
    using assms i ready by (auto simp: InitRetryWorkHandler_def acm_inv_def acm_common_def drainPosted_def
        setS21_def Let_def kS21InitRetryMaximumIntervalMilliSec_def)
qed

lemma acm_start_inv:
  assumes "acm_start a"
  shows "acm_inv a"
proof -
  obtain P ready rc s21 c p where
    init: "acm_Init P ready rc s21 c (AirConditionerManager_new s21 c p) = Some (CHIP_NO_ERROR, a)"
    and k: "pred_option kernel_reach (mKernel c)"
    using assms by (auto simp: acm_start_def)
  then show ?thesis
    using init k manager_Init_ready [of P s21 p]
    by (auto simp: acm_Init_def AirConditionerManager_new_def PowerIndicator_Init_def acm_inv_def
        acm_common_def drainPosted_def setS21_def ReadOnOff_def SetCommandPumpHandler_def ENODEV_def
        AddChangedAttributesListener_def kS21InitRetryInitialIntervalMilliSec_def Let_def
        split: if_splits prod.splits option.splits)
qed

lemma bridge_inv_step:
  assumes "acm_inv (fst s)" and "bridge_step s s'"
  shows "acm_inv (fst s')"
  using assms(2,1)
proof (induction rule: bridge_step.induct)
  case (bridge_poll a P now p a')
  then show ?case using PollWorkHandler_keeps [of "a\<lparr>link := p\<rparr>" P now] by (auto simp: acm_inv_def)
next
  case (bridge_retry a P p)
  then show ?case
    unfolding fst_conv by (intro InitRetryWorkHandler_keeps) (auto simp: acm_inv_def)
next
  case (bridge_take a a' taken)
  then show ?case using pumpTake_keeps [of a] by (auto simp: acm_inv_def)
next
  case (bridge_finish P cmd p a a')
  then show ?case using pumpFinish_keeps [of "a\<lparr>link := p\<rparr>" P cmd] by (auto simp: acm_inv_def)
next
  case (bridge_write i now a a' taken)
  then have a: "acm_common a" by (simp add: acm_inv_def)
  obtain k where k: "mKernel (mSyncCoordinator a) = Some k" "kernel_reach k" using a by (rule acm_common_kernel)
  have d: "dispatched True k (snd (applyIntent now i k)) a a'"
    using dispatch_effect(1) [OF k(1), of now i] bridge_write(2) by auto
  from acm_common_dispatched [OF a d kernel_reach_step [OF k(2) step_intent [OF bridge_write(1)]]]
  show ?case using bridge_write(3) dispatched_keeps [OF d] by (simp add: acm_inv_def)
next
  case (bridge_drain a taken)
  then show ?case
    by (simp add: acm_inv_def acm_common_def drainPosted_def DrainOnMatterEventLoop_reports)
qed

interpretation event_loop: inductive_invariant bridge_start bridge_step "\<lambda>s. acm_inv (fst s)"
  by unfold_locales (auto simp: bridge_start_def intro: acm_start_inv bridge_inv_step)

abbreviation bridge_reach :: "'p bridge \<Rightarrow> bool" where
  "bridge_reach \<equiv> reach bridge_start bridge_step"

section \<open>Properties\<close>

text \<open>
  C4. The bridge never stops running. After a successful initialisation, in every state that any
  order of polls, retries, commands, controller writes and drain tasks can reach, writes
  between a command's transmission and its recording included, whatever the unit answers: exactly one of the poll and
  the initialisation retry is scheduled, the poll exactly when the S21 protocol has been
  detected, and when the scheduled one runs it is defined and leaves exactly one of the two
  scheduled again; the command handler and both its halves are defined too; the kernel is in a state of its
  own transition system; the LED is configured; attributes waiting to be reported have a drain task
  posted; and the counters stay within their bounds.
\<close>

theorem bridge_keeps_running:
  assumes "bridge_reach (a, taken)"
  shows "has_value (mPollWork a) = mIsReady (mS21Manager a)
    \<and> has_value (mInitRetryWork a) = (\<not> mIsReady (mS21Manager a))
    \<and> (has_value (mPollWork a) \<longrightarrow>
         (\<exists>b. PollWorkHandler P now a = Some b \<and> mPollWork b = Some 10000 \<and> mInitRetryWork b = None))
    \<and> (has_value (mInitRetryWork a) \<longrightarrow>
         (let b = InitRetryWorkHandler P a in has_value (mPollWork b) \<noteq> has_value (mInitRetryWork b)))
    \<and> has_value (CommandWorkHandler P a) \<and> has_value (pumpTake a) \<and> has_value (pumpFinish P cmd a)
    \<and> (\<exists>k. mKernel (mSyncCoordinator a) = Some k \<and> kernel_reach k) \<and> has_value (led0 a)
    \<and> (mQueue a \<noteq> [] \<longrightarrow> 0 < postedDrains a)
    \<and> 0 \<le> mEnvironmentalReadCountdown a \<and> mEnvironmentalReadCountdown a \<le> 5
    \<and> 500 \<le> mInitRetryIntervalMs a \<and> mInitRetryIntervalMs a \<le> 60000"
proof -
  have inv: "acm_inv a" using event_loop.reach_inv [OF assms] by simp
  then have c: "acm_common a" by (simp add: acm_inv_def)
  have "has_value (mInitRetryWork a) \<Longrightarrow> acm_inv (InitRetryWorkHandler P a)"
    using inv by (intro InitRetryWorkHandler_keeps [OF c]) (auto simp: acm_inv_def)
  then show ?thesis
    using inv PollWorkHandler_keeps [OF c, of P now] CommandWorkHandler_defined [OF c, of P]
      pumpTake_keeps [OF c] pumpFinish_keeps [OF c, of P cmd]
    by (auto simp: acm_inv_def acm_common_def drainPosted_def Let_def)
qed

definition startedManager :: "(GetOperationResult \<times> millis) AirConditionerManager" where
  "startedManager = snd (the (acm_Init echoPresentation True 0 (S21Manager_new 5000) initialisedCoordinator
     (AirConditionerManager_new (S21Manager_new 5000) initialisedCoordinator
        ((False, OperatingMode.Auto, 2200, FanMode.Low), 1000))))"

lemmas acm_Init_eval = acm_Init_def AirConditionerManager_new_def PowerIndicator_Init_def ReadOnOff_def
  SetCommandPumpHandler_def AddChangedAttributesListener_def Add_def kMaxListeners_def
  publisherSetCommandPumpHandler_def ChangePublisher_new_def

lemma startedManager_reach: "bridge_reach (startedManager, None)"
proof (rule reach_start)
  have "\<exists>a. acm_Init echoPresentation True 0 (S21Manager_new 5000) initialisedCoordinator
     (AirConditionerManager_new (S21Manager_new 5000) initialisedCoordinator
        ((False, OperatingMode.Auto, 2200, FanMode.Low), 1000)) = Some (CHIP_NO_ERROR, a)"
    by (simp add: acm_Init_eval Let_def split: prod.split)
  moreover have "pred_option kernel_reach (mKernel initialisedCoordinator)" by (simp add: kernel_reach_new)
  ultimately show "bridge_start (startedManager, None)"
    unfolding bridge_start_def acm_start_def startedManager_def by force
qed

theorem bridge_keeps_running_witness:
  "has_value (CommandWorkHandler deafPresentation startedManager) \<and> has_value (led0 startedManager)"
  using bridge_keeps_running [OF startedManager_reach] by metis

end
