(* ===== verification/S21_Datalink_Uart.thy ===== *)
theory S21_Datalink_Uart
  imports S21_Presentation
begin

text \<open>
  The S21 data link over the UARTE peripheral (\<open>s21/s21_datalink_uart.h\<close>,
  \<open>s21/s21_datalink_uart.cpp\<close>): the interrupt-driven state machine, the one-slot message
  queue and work item that carry its result to a thread, and the two client entry points.

  The peripheral is the part of the state named \<open>ev_*\<close>, \<open>m_rxBuf\<close> and \<open>compare0\<close>; it may
  change in any way between two steps of the software. A callback is known by its number;
  \<open>accepted\<close> and \<open>fired\<close> record the requests taken and the callbacks called for them, in
  order, \<open>refused\<close> the callbacks called at once because the link is busy, and \<open>assertFailed\<close>
  whether the assertion of the completion handler was ever reached.
\<close>

datatype RxStatus = RxOk | RxUartError | RxTimeout
datatype IsrState = Idle | WaitingRx | TimedOut | SendingAck
datatype OpType = OpNone | Send | Transact
datatype CbResult = Sent "(unit, S21DataLinkError) expected" | Received "(bytes, S21DataLinkError) expected"

type_synonym callback = nat

record RxResult =
  rx_data :: bytes
  rx_status :: RxStatus

record Uart =
  matchConfig :: u32
  m_txBuf :: bytes
  m_rxBuf :: bytes
  ev_FRAME_TIMEOUT :: bool
  ev_ENDRX :: bool
  ev_ERROR :: bool
  ev_ENDTX :: bool
  ev_MATCH_NAK :: bool
  compare0 :: bool
  intEndtx :: bool
  chA :: bool
  m_isrState :: IsrState
  m_opType :: OpType
  m_sendCb :: "callback option"
  m_transactCb :: "callback option"
  m_rxMsgq :: "RxResult list"
  workPending :: bool
  starting :: "(bytes \<times> bool \<times> bool) option"
  completing :: "(OpType \<times> RxResult) option"
  accepted :: "callback list"
  fired :: "(callback \<times> CbResult) list"
  refused :: "(callback \<times> CbResult) list"
  assertFailed :: bool

definition kACK :: u8 where "kACK = 0x06"
definition kNAK :: u8 where "kNAK = 0x15"
definition kBufSize :: nat where "kBufSize = 32"

definition S21DataLinkUart_new :: Uart where
  "S21DataLinkUart_new =
     \<lparr>matchConfig = 0, m_txBuf = [], m_rxBuf = [], ev_FRAME_TIMEOUT = False, ev_ENDRX = False,
      ev_ERROR = False, ev_ENDTX = False, ev_MATCH_NAK = False, compare0 = False, intEndtx = False,
      chA = True, m_isrState = Idle, m_opType = OpNone, m_sendCb = None, m_transactCb = None,
      m_rxMsgq = [], workPending = False, starting = None, completing = None, accepted = [],
      fired = [], refused = [], assertFailed = False\<rparr>"

definition configureMatch :: "bool \<Rightarrow> bool \<Rightarrow> bool \<Rightarrow> Uart \<Rightarrow> Uart" where
  "configureMatch etx ack nak u =
     (let cfg = 0;
          cfg = (if etx then cfg OR 1 else cfg);
          cfg = (if ack then cfg OR 2 else cfg);
          cfg = (if nak then cfg OR 4 else cfg)
      in u\<lparr>matchConfig := cfg\<rparr>)"

text \<open>Queue of depth one (a put on a full queue is dropped) and work submission.\<close>

definition k_msgq_put :: "RxResult \<Rightarrow> Uart \<Rightarrow> Uart" where
  "k_msgq_put r u = (if m_rxMsgq u = [] then u\<lparr>m_rxMsgq := [r]\<rparr> else u)"

definition k_work_submit :: "Uart \<Rightarrow> Uart" where
  "k_work_submit u = u\<lparr>workPending := True\<rparr>"

section \<open>Requests\<close>

text \<open>
  A request runs in two steps, between which an interrupt may strike: claiming the
  operation with its callback, and starting the transaction with the interrupt disabled.
\<close>

definition send_claim :: "bytes \<Rightarrow> callback \<Rightarrow> Uart \<Rightarrow> Uart" where
  "send_claim payload cb u =
     (if m_opType u \<noteq> OpNone then u\<lparr>refused := refused u @ [(cb, Sent (Inl Busy))]\<rparr>
      else u\<lparr>m_opType := Send, m_sendCb := Some cb, accepted := accepted u @ [cb],
             starting := Some (encode payload, False, True)\<rparr>)"

definition transact_claim :: "bytes \<Rightarrow> callback \<Rightarrow> Uart \<Rightarrow> Uart" where
  "transact_claim payload cb u =
     (if m_opType u \<noteq> OpNone then u\<lparr>refused := refused u @ [(cb, Received (Inl Busy))]\<rparr>
      else u\<lparr>m_opType := Transact, m_transactCb := Some cb, accepted := accepted u @ [cb],
             starting := Some (encode payload, True, False)\<rparr>)"

definition startTransaction :: "bytes \<Rightarrow> bool \<Rightarrow> bool \<Rightarrow> Uart \<Rightarrow> Uart" where
  "startTransaction encoded matchEtx matchAck u =
     (let u = configureMatch matchEtx matchAck True u;
          txLen = (if length encoded \<le> kBufSize then length encoded else kBufSize);
          u = u\<lparr>m_txBuf := take txLen encoded\<rparr>;
          u = u\<lparr>ev_ENDTX := False, ev_ENDRX := False, ev_ERROR := False, ev_FRAME_TIMEOUT := False,
                ev_MATCH_NAK := False, m_rxMsgq := []\<rparr>;
          u = u\<lparr>compare0 := False\<rparr>
      in u\<lparr>m_isrState := WaitingRx\<rparr>)"

section \<open>Interrupt handler\<close>

definition isr_FRAME_TIMEOUT :: "IsrState \<times> Uart \<Rightarrow> IsrState \<times> Uart" where
  "isr_FRAME_TIMEOUT su =
     (case su of (state, u) \<Rightarrow>
        if ev_FRAME_TIMEOUT u
        then (let u = u\<lparr>ev_FRAME_TIMEOUT := False\<rparr> in
              if state = WaitingRx then (TimedOut, u\<lparr>m_isrState := TimedOut\<rparr>) else (state, u))
        else (state, u))"

definition isr_ENDRX :: "IsrState \<times> Uart \<Rightarrow> IsrState \<times> Uart" where
  "isr_ENDRX su =
     (case su of (state, u) \<Rightarrow>
        if ev_ENDRX u
        then (let u = u\<lparr>ev_ENDRX := False\<rparr> in
              if state = TimedOut
              then (Idle, k_work_submit
                      ((k_msgq_put \<lparr>rx_data = m_rxBuf u, rx_status = RxTimeout\<rparr> u)\<lparr>m_isrState := Idle\<rparr>))
              else if state = WaitingRx
              then (let timeout = compare0 u;
                        u = (if timeout then u\<lparr>compare0 := False\<rparr> else u);
                        result = \<lparr>rx_data = m_rxBuf u,
                                  rx_status = (if timeout then RxTimeout else RxOk)\<rparr>;
                        needsAck = (\<not> timeout \<and> \<not> ev_MATCH_NAK u \<and> m_opType u = Transact);
                        u = k_msgq_put result u
                    in if needsAck
                       then (SendingAck, u\<lparr>chA := False, m_txBuf := [kACK], ev_ENDTX := False,
                                           intEndtx := True, m_isrState := SendingAck\<rparr>)
                       else (Idle, k_work_submit (u\<lparr>m_isrState := Idle\<rparr>)))
              else (state, u))
        else (state, u))"

definition isr_ERROR :: "IsrState \<times> Uart \<Rightarrow> IsrState \<times> Uart" where
  "isr_ERROR su =
     (case su of (state, u) \<Rightarrow>
        if ev_ERROR u
        then (let u = u\<lparr>ev_ERROR := False\<rparr> in
              if state = WaitingRx
              then (Idle, k_work_submit
                      ((k_msgq_put \<lparr>rx_data = [], rx_status = RxUartError\<rparr> u)\<lparr>m_isrState := Idle\<rparr>))
              else (state, u))
        else (state, u))"

definition isr_ENDTX :: "IsrState \<times> Uart \<Rightarrow> IsrState \<times> Uart" where
  "isr_ENDTX su =
     (case su of (state, u) \<Rightarrow>
        if ev_ENDTX u
        then (let u = u\<lparr>ev_ENDTX := False, intEndtx := False\<rparr> in
              if state = SendingAck
              then (state, k_work_submit (u\<lparr>chA := True, m_isrState := Idle\<rparr>))
              else (state, u))
        else (state, u))"

definition isrHandler :: "Uart \<Rightarrow> Uart" where
  "isrHandler u = snd (isr_ENDTX (isr_ERROR (isr_ENDRX (isr_FRAME_TIMEOUT (m_isrState u, u)))))"

section \<open>Completion\<close>

definition rxResultError :: "RxResult \<Rightarrow> S21DataLinkError option" where
  "rxResultError result =
     (if rx_status result = RxTimeout then Some Timeout
      else if rx_status result \<noteq> RxOk then Some UartError
      else if length (rx_data result) < 1 then Some NoResponse
      else if hd (rx_data result) = kNAK then Some NAK
      else None)"

definition sendResult :: "RxResult \<Rightarrow> (unit, S21DataLinkError) expected" where
  "sendResult result =
     (case rxResultError result of
        Some e \<Rightarrow> Inl e
      | None \<Rightarrow> if hd (rx_data result) \<noteq> kACK then Inl UnexpectedResponse else Inr ())"

definition transactResult :: "RxResult \<Rightarrow> (bytes, S21DataLinkError) expected" where
  "transactResult result =
     (case rxResultError result of
        Some e \<Rightarrow> Inl e
      | None \<Rightarrow>
          (let frameStart = (if hd (rx_data result) = kACK then 1 else 0) in
           case decode (drop frameStart (rx_data result)) of
             Inl e \<Rightarrow> Inl (FrameFailure e)
           | Inr payload \<Rightarrow> Inr payload))"

text \<open>
  The completion handler runs in two steps: up to the release of the operation, and from
  the move of the callback to its call.
\<close>

definition completion_begin :: "Uart \<Rightarrow> Uart" where
  "completion_begin u =
     (let u = u\<lparr>workPending := False\<rparr>;
          (result, u) = (case m_rxMsgq u of
              r # rs \<Rightarrow> (r, u\<lparr>m_rxMsgq := rs\<rparr>)
            | [] \<Rightarrow> (\<lparr>rx_data = [], rx_status = RxUartError\<rparr>, u\<lparr>assertFailed := True\<rparr>));
          u = configureMatch False False False u
      in u\<lparr>completing := Some (m_opType u, result), m_opType := OpNone\<rparr>)"

definition completion_end :: "Uart \<Rightarrow> Uart" where
  "completion_end u =
     (case completing u of
        None \<Rightarrow> u
      | Some (op, result) \<Rightarrow>
          (let u = u\<lparr>completing := None\<rparr> in
           case op of
             Send \<Rightarrow>
               (case m_sendCb u of
                  None \<Rightarrow> u
                | Some cb \<Rightarrow> u\<lparr>m_sendCb := None, fired := fired u @ [(cb, Sent (sendResult result))]\<rparr>)
           | Transact \<Rightarrow>
               (case m_transactCb u of
                  None \<Rightarrow> u
                | Some cb \<Rightarrow>
                    u\<lparr>m_transactCb := None, fired := fired u @ [(cb, Received (transactResult result))]\<rparr>)
           | OpNone \<Rightarrow> u))"

section \<open>All interleavings\<close>

text \<open>
  \<open>peripheral u u'\<close>: only the peripheral moved, in any way at all. The relation is indexed
  by whether the completion handler runs without a new request in its middle, as it does
  on the cooperative system work queue, and as the synchronous adapter ensures for its own
  callers, who wait for the previous callback.
\<close>

definition peripheral :: "Uart \<Rightarrow> Uart \<Rightarrow> bool" where
  "peripheral u u' =
     (\<exists>buf ft er ee et nk c0. u' = u\<lparr>m_rxBuf := buf, ev_FRAME_TIMEOUT := ft, ev_ENDRX := er,
        ev_ERROR := ee, ev_ENDTX := et, ev_MATCH_NAK := nk, compare0 := c0\<rparr>)"

definition outstanding :: "Uart \<Rightarrow> bool" where
  "outstanding u = (m_opType u \<noteq> OpNone \<or> completing u \<noteq> None)"

inductive uart_step :: "bool \<Rightarrow> Uart \<Rightarrow> Uart \<Rightarrow> bool" for exclusive :: bool where
  hw: "peripheral u u' \<Longrightarrow> uart_step exclusive u u'"
| isr: "uart_step exclusive u (isrHandler u)"
| send: "(exclusive \<longrightarrow> completing u = None) \<Longrightarrow> uart_step exclusive u (send_claim payload cb u)"
| transact: "(exclusive \<longrightarrow> completing u = None) \<Longrightarrow> uart_step exclusive u (transact_claim payload cb u)"
| start: "starting u = Some (enc, etx, ack) \<Longrightarrow>
    uart_step exclusive u ((startTransaction enc etx ack u)\<lparr>starting := None\<rparr>)"
| work: "workPending u \<Longrightarrow> completing u = None \<Longrightarrow> uart_step exclusive u (completion_begin u)"
| finish: "completing u \<noteq> None \<Longrightarrow> uart_step exclusive u (completion_end u)"

inductive_cases uart_stepE: "uart_step exclusive u u'"

text \<open>Where a transaction can be, and what each place guarantees.\<close>

definition cb_of :: "OpType \<Rightarrow> Uart \<Rightarrow> callback option" where
  "cb_of op u = (case op of Send \<Rightarrow> m_sendCb u | Transact \<Rightarrow> m_transactCb u | OpNone \<Rightarrow> None)"

definition free_place :: "Uart \<Rightarrow> bool" where
  "free_place u = (m_opType u = OpNone \<and> starting u = None \<and> completing u = None
     \<and> m_isrState u = Idle \<and> \<not> workPending u \<and> m_rxMsgq u = []
     \<and> map fst (fired u) = accepted u)"

definition owed :: "OpType \<Rightarrow> Uart \<Rightarrow> bool" where
  "owed op u = (op \<noteq> OpNone \<and> (\<exists>cb. cb_of op u = Some cb \<and> accepted u = map fst (fired u) @ [cb]))"

definition claimed_place :: "Uart \<Rightarrow> bool" where
  "claimed_place u = (owed (m_opType u) u \<and> starting u \<noteq> None \<and> completing u = None
     \<and> m_isrState u = Idle \<and> \<not> workPending u \<and> m_rxMsgq u = [])"

definition waiting_place :: "Uart \<Rightarrow> bool" where
  "waiting_place u = (owed (m_opType u) u \<and> starting u = None \<and> completing u = None
     \<and> (m_isrState u = WaitingRx \<or> m_isrState u = TimedOut) \<and> \<not> workPending u \<and> m_rxMsgq u = [])"

definition acking_place :: "Uart \<Rightarrow> bool" where
  "acking_place u = (owed (m_opType u) u \<and> starting u = None \<and> completing u = None
     \<and> m_isrState u = SendingAck \<and> \<not> workPending u \<and> length (m_rxMsgq u) = 1)"

definition done_place :: "Uart \<Rightarrow> bool" where
  "done_place u = (owed (m_opType u) u \<and> starting u = None \<and> completing u = None
     \<and> m_isrState u = Idle \<and> workPending u \<and> length (m_rxMsgq u) = 1)"

definition completing_place :: "Uart \<Rightarrow> bool" where
  "completing_place u = (\<exists>op r. completing u = Some (op, r) \<and> owed op u \<and> m_opType u = OpNone
     \<and> starting u = None \<and> m_isrState u = Idle \<and> \<not> workPending u \<and> m_rxMsgq u = [])"

definition uart_inv :: "Uart \<Rightarrow> bool" where
  "uart_inv u = (\<not> assertFailed u \<and> (free_place u \<or> claimed_place u \<or> waiting_place u
     \<or> acking_place u \<or> done_place u \<or> completing_place u))"

lemmas places = free_place_def claimed_place_def waiting_place_def acking_place_def done_place_def
  completing_place_def

section \<open>The handler keeps every place\<close>

lemmas isr_defs = isrHandler_def isr_FRAME_TIMEOUT_def isr_ENDRX_def isr_ERROR_def isr_ENDTX_def
  k_msgq_put_def k_work_submit_def

lemma put_submit_frame [simp]:
  "m_opType (k_msgq_put r u) = m_opType u" "starting (k_msgq_put r u) = starting u"
  "completing (k_msgq_put r u) = completing u" "accepted (k_msgq_put r u) = accepted u"
  "fired (k_msgq_put r u) = fired u" "m_sendCb (k_msgq_put r u) = m_sendCb u"
  "m_transactCb (k_msgq_put r u) = m_transactCb u" "assertFailed (k_msgq_put r u) = assertFailed u"
  "workPending (k_msgq_put r u) = workPending u" "m_isrState (k_msgq_put r u) = m_isrState u"
  "m_opType (k_work_submit u) = m_opType u" "starting (k_work_submit u) = starting u"
  "completing (k_work_submit u) = completing u" "accepted (k_work_submit u) = accepted u"
  "fired (k_work_submit u) = fired u" "m_sendCb (k_work_submit u) = m_sendCb u"
  "m_transactCb (k_work_submit u) = m_transactCb u" "assertFailed (k_work_submit u) = assertFailed u"
  "m_rxMsgq (k_work_submit u) = m_rxMsgq u" "m_isrState (k_work_submit u) = m_isrState u"
  "workPending (k_work_submit u) = True"
  by (simp_all add: k_msgq_put_def k_work_submit_def)

definition same_request :: "Uart \<Rightarrow> Uart \<Rightarrow> bool" where
  "same_request u u' =
     (m_opType u' = m_opType u \<and> starting u' = starting u \<and> completing u' = completing u
      \<and> accepted u' = accepted u \<and> fired u' = fired u \<and> m_sendCb u' = m_sendCb u
      \<and> m_transactCb u' = m_transactCb u \<and> assertFailed u' = assertFailed u)"

lemma same_request_refl: "same_request u u"
  by (simp add: same_request_def)

lemma same_request_trans: "same_request u v \<Longrightarrow> same_request v w \<Longrightarrow> same_request u w"
  by (simp add: same_request_def)

lemma isr_phase_request:
  "same_request u (snd (isr_FRAME_TIMEOUT (st, u)))" "same_request u (snd (isr_ENDRX (st, u)))"
  "same_request u (snd (isr_ERROR (st, u)))" "same_request u (snd (isr_ENDTX (st, u)))"
  by (simp_all add: same_request_def isr_FRAME_TIMEOUT_def isr_ENDRX_def isr_ERROR_def
      isr_ENDTX_def Let_def)

lemma isr_request: "same_request u (isrHandler u)"
proof -
  obtain s1 u1 where 1: "isr_FRAME_TIMEOUT (m_isrState u, u) = (s1, u1)" by fastforce
  obtain s2 u2 where 2: "isr_ENDRX (s1, u1) = (s2, u2)" by fastforce
  obtain s3 u3 where 3: "isr_ERROR (s2, u2) = (s3, u3)" by fastforce
  have "same_request u u1" "same_request u1 u2" "same_request u2 u3"
      "same_request u3 (snd (isr_ENDTX (s3, u3)))"
    using isr_phase_request(1) [of u "m_isrState u"] isr_phase_request(2) [of u1 s1]
      isr_phase_request(3) [of u2 s2] isr_phase_request(4) [of u3 s3] by (simp_all add: 1 2 3)
  then show ?thesis
    by (simp add: isrHandler_def 1 2 3) (blast intro: same_request_trans)
qed

lemma isr_idle:
  "m_isrState u = Idle \<Longrightarrow> m_isrState (isrHandler u) = Idle
     \<and> workPending (isrHandler u) = workPending u \<and> m_rxMsgq (isrHandler u) = m_rxMsgq u"
  by (simp add: isr_defs Let_def)

lemma isr_acking:
  "m_isrState u = SendingAck \<Longrightarrow>
     m_rxMsgq (isrHandler u) = m_rxMsgq u
     \<and> (if ev_ENDTX u then m_isrState (isrHandler u) = Idle \<and> workPending (isrHandler u)
        else m_isrState (isrHandler u) = SendingAck \<and> workPending (isrHandler u) = workPending u)"
  by (simp add: isr_defs Let_def)

lemma isr_waiting:
  assumes "m_isrState u = WaitingRx \<or> m_isrState u = TimedOut"
    and "m_rxMsgq u = []" and "\<not> workPending u"
  shows "(m_isrState (isrHandler u) \<in> {WaitingRx, TimedOut} \<and> m_rxMsgq (isrHandler u) = []
        \<and> \<not> workPending (isrHandler u) \<and> \<not> ev_ENDRX u)
    \<or> (m_isrState (isrHandler u) = SendingAck \<and> length (m_rxMsgq (isrHandler u)) = 1
        \<and> \<not> workPending (isrHandler u))
    \<or> (m_isrState (isrHandler u) = Idle \<and> length (m_rxMsgq (isrHandler u)) = 1
        \<and> workPending (isrHandler u))"
  using assms by (cases "ev_FRAME_TIMEOUT u"; cases "ev_ENDRX u"; cases "ev_ERROR u"; cases "ev_ENDTX u")
    (auto simp: isr_defs Let_def)

lemma owed_request: "same_request u u' \<Longrightarrow> owed op u' = owed op u"
  by (cases op) (simp_all add: same_request_def owed_def cb_of_def)

lemma same_requestD:
  assumes "same_request u u'"
  shows "m_opType u' = m_opType u" "starting u' = starting u" "completing u' = completing u"
    "assertFailed u' = assertFailed u" "accepted u' = accepted u" "fired u' = fired u"
    "owed op u' = owed op u"
  using assms by (simp_all add: owed_request) (simp_all add: same_request_def)

lemma uart_inv_isr:
  assumes "uart_inv u"
  shows "uart_inv (isrHandler u)"
proof -
  note sr = same_requestD [OF isr_request [of u]]
  consider "m_isrState u = Idle" | "waiting_place u" | "acking_place u"
    using assms by (auto simp: uart_inv_def places)
  then show ?thesis
  proof cases
    case 1
    then show ?thesis
      using assms isr_idle [OF 1] by (simp add: uart_inv_def places sr)
  next
    case 2
    then show ?thesis
      using assms isr_waiting [of u] by (auto simp: uart_inv_def places sr)
  next
    case 3
    then show ?thesis
      using assms isr_acking [of u] by (auto simp: uart_inv_def places sr split: if_splits)
  qed
qed

lemma peripheral_receives: "peripheral u (u\<lparr>m_rxBuf := buf, ev_ENDRX := True\<rparr>)"
  unfolding peripheral_def
  by (rule exI [of _ buf], rule exI [of _ "ev_FRAME_TIMEOUT u"], rule exI [of _ True],
      rule exI [of _ "ev_ERROR u"], rule exI [of _ "ev_ENDTX u"], rule exI [of _ "ev_MATCH_NAK u"],
      rule exI [of _ "compare0 u"]) simp

lemma uart_inv_peripheral: "uart_inv u \<Longrightarrow> peripheral u u' \<Longrightarrow> uart_inv u'"
  by (auto simp: uart_inv_def places peripheral_def owed_def cb_of_def split: OpType.splits)

lemma uart_inv_refused: "uart_inv u \<Longrightarrow> uart_inv (u\<lparr>refused := x\<rparr>)"
  by (simp add: uart_inv_def places owed_def cb_of_def cong: OpType.case_cong)

lemma uart_inv_claim:
  assumes "uart_inv u" and "completing u = None"
  shows "uart_inv (send_claim payload cb u) \<and> uart_inv (transact_claim payload cb u)"
proof (cases "m_opType u = OpNone")
  case True
  then have "free_place u" "\<not> assertFailed u"
    using assms by (auto simp: uart_inv_def places owed_def)
  then show ?thesis
    by (simp add: uart_inv_def places send_claim_def transact_claim_def owed_def cb_of_def)
next
  case False
  then show ?thesis
    using uart_inv_refused [OF assms(1)] by (simp add: send_claim_def transact_claim_def)
qed

lemma uart_inv_start:
  assumes "uart_inv u" and "starting u = Some (enc, etx, ack)"
  shows "uart_inv ((startTransaction enc etx ack u)\<lparr>starting := None\<rparr>)"
proof -
  have "claimed_place u" "\<not> assertFailed u" using assms by (auto simp: uart_inv_def places)
  then show ?thesis
    by (simp add: uart_inv_def places startTransaction_def configureMatch_def Let_def owed_def
        cb_of_def split: OpType.splits)
qed

lemma uart_inv_work:
  assumes "uart_inv u" and "workPending u"
  shows "uart_inv (completion_begin u)"
proof -
  have d: "done_place u" "\<not> assertFailed u" using assms by (auto simp: uart_inv_def places)
  then obtain r where "m_rxMsgq u = [r]" by (auto simp: done_place_def length_Suc_conv)
  then show ?thesis
    using d by (simp add: uart_inv_def places completion_begin_def configureMatch_def Let_def owed_def
        cb_of_def split: OpType.splits)
qed

lemma uart_inv_finish:
  assumes "uart_inv u" and "completing u \<noteq> None"
  shows "uart_inv (completion_end u)"
proof -
  obtain op r where c: "completing u = Some (op, r)" and o: "owed op u"
    and rest: "m_opType u = OpNone" "starting u = None" "m_isrState u = Idle" "\<not> workPending u"
      "m_rxMsgq u = []" "\<not> assertFailed u"
    using assms by (auto simp: uart_inv_def places)
  have "free_place (completion_end u) \<and> \<not> assertFailed (completion_end u)"
  proof (cases op)
    case Send
    then show ?thesis
      using o rest by (auto simp: free_place_def completion_end_def c owed_def cb_of_def Let_def)
  next
    case Transact
    then show ?thesis
      using o rest by (auto simp: free_place_def completion_end_def c owed_def cb_of_def Let_def)
  qed (use o in \<open>simp add: owed_def\<close>)
  then show ?thesis by (simp add: uart_inv_def)
qed

interpretation uart: inductive_invariant "\<lambda>u. u = S21DataLinkUart_new" "uart_step True" uart_inv
proof unfold_locales
  show "u = S21DataLinkUart_new \<Longrightarrow> uart_inv u" for u
    by (simp add: uart_inv_def free_place_def S21DataLinkUart_new_def)
  show "uart_inv u \<Longrightarrow> uart_step True u u' \<Longrightarrow> uart_inv u'" for u u'
    by (erule uart_stepE) (auto simp: uart_inv_claim intro: uart_inv_isr uart_inv_peripheral uart_inv_start
        uart_inv_work uart_inv_finish)
qed

section \<open>Delivery of a response\<close>

text \<open>
  The end of a transaction once the peripheral has raised ENDRX: the interrupt, for an
  acknowledged response the end of the acknowledgement and its interrupt, and the
  completion handler.
\<close>

definition deliver :: "Uart \<Rightarrow> Uart" where
  "deliver u =
     (let u1 = isrHandler u;
          u2 = (if m_isrState u1 = SendingAck then isrHandler (u1\<lparr>ev_ENDTX := True\<rparr>) else u1)
      in completion_end (completion_begin u2))"

definition received :: "Uart \<Rightarrow> RxResult" where
  "received u = \<lparr>rx_data = m_rxBuf u,
     rx_status = (if ev_FRAME_TIMEOUT u \<or> compare0 u then RxTimeout else RxOk)\<rparr>"

lemma isr_endrx:
  assumes "m_isrState u = WaitingRx" and "m_rxMsgq u = []" and "ev_ENDRX u"
  shows "m_rxMsgq (isrHandler u) = [received u]
    \<and> (m_isrState (isrHandler u) = Idle \<and> workPending (isrHandler u)
       \<or> m_isrState (isrHandler u) = SendingAck)"
  using assms by (cases "ev_FRAME_TIMEOUT u"; cases "ev_ERROR u"; cases "ev_ENDTX u"; cases "compare0 u")
    (auto simp: isr_defs received_def Let_def)

lemma deliver_before_work:
  assumes "m_isrState u = WaitingRx" and "m_rxMsgq u = []" and "ev_ENDRX u"
  defines "v \<equiv> (if m_isrState (isrHandler u) = SendingAck
      then isrHandler ((isrHandler u)\<lparr>ev_ENDTX := True\<rparr>) else isrHandler u)"
  shows "same_request u v \<and> m_rxMsgq v = [received u] \<and> workPending v \<and> m_isrState v = Idle"
proof (cases "m_isrState (isrHandler u) = SendingAck")
  case True
  let ?w = "(isrHandler u)\<lparr>ev_ENDTX := True\<rparr>"
  have "same_request u ?w" using isr_request [of u] by (simp add: same_request_def)
  then have "same_request u v" using isr_request [of ?w] True by (simp add: v_def same_request_def)
  moreover have "m_isrState ?w = SendingAck" "ev_ENDTX ?w" using True by simp_all
  ultimately show ?thesis
    using isr_acking [of ?w] isr_endrx [OF assms(1-3)] True by (simp add: v_def)
next
  case False
  then show ?thesis using isr_endrx [OF assms(1-3)] isr_request [of u] by (simp add: v_def)
qed

lemma transactResult_iff:
  "transactResult r = Inr p \<longleftrightarrow>
     rx_status r = RxOk \<and> p \<noteq> [] \<and> (rx_data r = encode p \<or> rx_data r = kACK # encode p)"
proof (cases "rx_data r")
  case Nil
  then show ?thesis by (simp add: transactResult_def rxResultError_def encode_def)
next
  case (Cons b bs)
  have h: "x # q = encode p \<Longrightarrow> x = 0x02" for x q by (simp add: encode_def)
  have "transactResult r = Inr p \<longleftrightarrow> rx_status r = RxOk \<and> b \<noteq> kNAK
      \<and> decode (if b = kACK then bs else b # bs) = Inr p"
    by (auto simp: transactResult_def rxResultError_def Cons Let_def split: sum.splits if_splits)
  also have "\<dots> \<longleftrightarrow> rx_status r = RxOk \<and> b \<noteq> kNAK
      \<and> (if b = kACK then bs else b # bs) = encode p \<and> p \<noteq> []"
    by (simp only: frame.dec_iff)
  finally show ?thesis
    using h [of b bs] by (auto simp: Cons kACK_def kNAK_def)
qed

lemma sendResult_iff:
  "sendResult r = Inr () \<longleftrightarrow> rx_status r = RxOk \<and> (\<exists>bs. rx_data r = kACK # bs)"
  by (cases "rx_data r") (auto simp: sendResult_def rxResultError_def kACK_def kNAK_def split: if_splits)

section \<open>Properties\<close>

abbreviation uart_reach :: "bool \<Rightarrow> Uart \<Rightarrow> bool" where
  "uart_reach exclusive \<equiv> reach (\<lambda>u. u = S21DataLinkUart_new) (uart_step exclusive)"

text \<open>
  C3. Exactly one callback per request. Whatever events the peripheral raises, in any order
  and at any time, and whatever requests any number of clients make, in every reachable
  state: the completion handler's assertion has never failed; every accepted request but
  possibly the last has had its callback called exactly once, in the order of the requests,
  and the last one has too when none is outstanding; whenever the completion work is
  pending there is exactly one result in the queue; and a free link is idle.
\<close>

theorem uart_callback_exactly_once:
  assumes "uart_reach True u"
  shows "\<not> assertFailed u
    \<and> (\<exists>pending. accepted u = map fst (fired u) @ pending
          \<and> length pending = (if outstanding u then 1 else 0))
    \<and> (\<not> outstanding u \<longrightarrow> m_opType u = OpNone \<and> m_isrState u = Idle \<and> \<not> workPending u)
    \<and> (workPending u \<longrightarrow> length (m_rxMsgq u) = 1)"
proof -
  have "uart_inv u" using assms by (rule uart.reach_inv)
  then show ?thesis
    by (auto simp: uart_inv_def places outstanding_def owed_def)
qed

theorem uart_callback_exactly_once_witness:
  "\<not> assertFailed (send_claim [1] 7 S21DataLinkUart_new)
   \<and> (\<exists>pending. accepted (send_claim [1] 7 S21DataLinkUart_new)
        = map fst (fired (send_claim [1] 7 S21DataLinkUart_new)) @ pending \<and> length pending = 1)"
proof -
  have "uart_step True S21DataLinkUart_new (send_claim [1] 7 S21DataLinkUart_new)"
    by (rule uart_step.send) (simp add: S21DataLinkUart_new_def)
  then have "uart_reach True (send_claim [1] 7 S21DataLinkUart_new)"
    by (intro reach_step [OF reach_start]) simp_all
  moreover have "outstanding (send_claim [1] 7 S21DataLinkUart_new)"
    by (simp add: outstanding_def send_claim_def S21DataLinkUart_new_def)
  ultimately show ?thesis using uart_callback_exactly_once by fastforce
qed

lemma deliver_fires:
  assumes "uart_reach True u" and "m_isrState u = WaitingRx" and "ev_ENDRX u"
  shows "\<exists>cb. accepted u = map fst (fired u) @ [cb] \<and> m_opType u \<noteq> OpNone
    \<and> fired (deliver u) = fired u @ [(cb, if m_opType u = Send then Sent (sendResult (received u))
         else Received (transactResult (received u)))]
    \<and> \<not> outstanding (deliver u)"
proof -
  have "uart_inv u" using assms(1) by (rule uart.reach_inv)
  then have w: "waiting_place u" using assms(2) by (auto simp: uart_inv_def places)
  then obtain cb where cb: "cb_of (m_opType u) u = Some cb" "accepted u = map fst (fired u) @ [cb]"
    and op: "m_opType u \<noteq> OpNone"
    by (auto simp: waiting_place_def owed_def)
  define v where "v = (if m_isrState (isrHandler u) = SendingAck
      then isrHandler ((isrHandler u)\<lparr>ev_ENDTX := True\<rparr>) else isrHandler u)"
  have v: "same_request u v" "m_rxMsgq v = [received u]" "workPending v"
    using deliver_before_work [OF assms(2) _ assms(3)] w by (simp_all add: v_def waiting_place_def)
  have deliver: "deliver u = completion_end (completion_begin v)"
    by (simp add: deliver_def v_def Let_def)
  have b: "completing (completion_begin v) = Some (m_opType u, received u)"
      "m_sendCb (completion_begin v) = m_sendCb u" "m_transactCb (completion_begin v) = m_transactCb u"
      "fired (completion_begin v) = fired u" "m_opType (completion_begin v) = OpNone"
    using v by (simp_all add: completion_begin_def configureMatch_def same_request_def Let_def)
  show ?thesis
    using cb b op by (cases "m_opType u") (simp_all add: deliver completion_end_def cb_of_def outstanding_def)
qed

lemma deliver_reach:
  assumes "uart_reach True u" and "m_isrState u = WaitingRx" and "ev_ENDRX u"
  shows "uart_reach True (deliver u)"
proof -
  have "uart_inv u" using assms(1) by (rule uart.reach_inv)
  then have w: "waiting_place u" using assms(2) by (auto simp: uart_inv_def places)
  define v where "v = (if m_isrState (isrHandler u) = SendingAck
      then isrHandler ((isrHandler u)\<lparr>ev_ENDTX := True\<rparr>) else isrHandler u)"
  have v: "same_request u v" "m_rxMsgq v = [received u]" "workPending v"
    using deliver_before_work [OF assms(2) _ assms(3)] w by (simp_all add: v_def waiting_place_def)
  have h: "uart_reach True (isrHandler u)" using assms(1) by (rule reach_step) (rule uart_step.isr)
  have "peripheral (isrHandler u) ((isrHandler u)\<lparr>ev_ENDTX := True\<rparr>)"
    unfolding peripheral_def by (intro exI) (rule Uart.equality; simp)
  from reach_step [OF h uart_step.hw [OF this]]
  have "uart_reach True (isrHandler ((isrHandler u)\<lparr>ev_ENDTX := True\<rparr>))"
    by (rule reach_step) (rule uart_step.isr)
  with h have "uart_reach True v" by (simp add: v_def)
  moreover have "completing v = None" using v(1) w by (simp add: same_request_def waiting_place_def)
  ultimately have "uart_reach True (completion_begin v)"
    using v(3) by (auto intro: reach_step uart_step.work)
  moreover have "completing (completion_begin v) \<noteq> None"
    using v(2) by (simp add: completion_begin_def configureMatch_def Let_def)
  ultimately have "uart_reach True (completion_end (completion_begin v))"
    by (auto intro: reach_step uart_step.finish)
  then show ?thesis by (simp add: deliver_def v_def Let_def)
qed

text \<open>
  A finished reception always reaches its callback. From every reachable state that waits
  for a response and in which ENDRX has been raised, whatever other events have been raised
  with it, the interrupt handler, the acknowledgement where one is due and the completion
  handler call the callback of the outstanding request exactly once and leave the link free.
  For a transaction the callback receives a payload exactly when there was no timeout and
  the bytes received are the frame of that payload, with or without an acknowledge byte in
  front; for a send it receives success exactly when the reception begins with the
  acknowledge byte and there was no timeout.
\<close>

theorem response_reaches_callback:
  assumes "uart_reach True u" and "m_isrState u = WaitingRx" and "ev_ENDRX u"
  shows "\<exists>cb res. accepted u = map fst (fired u) @ [cb] \<and> fired (deliver u) = fired u @ [(cb, res)]
    \<and> \<not> outstanding (deliver u)
    \<and> (m_opType u = Transact \<longrightarrow> (\<forall>p. res = Received (Inr p) \<longleftrightarrow>
          \<not> ev_FRAME_TIMEOUT u \<and> \<not> compare0 u \<and> p \<noteq> []
          \<and> (m_rxBuf u = encode p \<or> m_rxBuf u = kACK # encode p)))
    \<and> (m_opType u = Send \<longrightarrow> (res = Sent (Inr ()) \<longleftrightarrow>
          \<not> ev_FRAME_TIMEOUT u \<and> \<not> compare0 u \<and> (\<exists>bs. m_rxBuf u = kACK # bs)))"
proof -
  obtain cb where "accepted u = map fst (fired u) @ [cb]" "m_opType u \<noteq> OpNone" "\<not> outstanding (deliver u)"
      "fired (deliver u) = fired u @ [(cb, if m_opType u = Send then Sent (sendResult (received u))
         else Received (transactResult (received u)))]"
    using deliver_fires [OF assms] by blast
  then show ?thesis
    using sendResult_iff [of "received u"] transactResult_iff [of "received u"]
    by (cases "m_opType u") (simp_all add: received_def)
qed

definition waitingUart :: Uart where
  "waitingUart = (startTransaction (encode [0x46, 0x31]) True False
      (transact_claim [0x46, 0x31] 7 S21DataLinkUart_new))\<lparr>starting := None\<rparr>"

definition answeredUart :: Uart where
  "answeredUart = waitingUart\<lparr>m_rxBuf := kACK # encode [0x47, 0x31], ev_ENDRX := True\<rparr>"

lemma answeredUart_reach: "uart_reach True answeredUart"
proof -
  let ?c = "transact_claim [0x46, 0x31] 7 S21DataLinkUart_new"
  have 1: "uart_step True S21DataLinkUart_new ?c"
    by (rule uart_step.transact) (simp add: S21DataLinkUart_new_def)
  have 2: "uart_step True ?c waitingUart"
    unfolding waitingUart_def
    by (rule uart_step.start) (simp add: transact_claim_def S21DataLinkUart_new_def)
  have 3: "peripheral waitingUart answeredUart"
    unfolding answeredUart_def by (rule peripheral_receives)
  have "uart_reach True S21DataLinkUart_new" by (rule reach_start) simp
  from reach_step [OF reach_step [OF reach_step [OF this 1] 2] uart_step.hw [OF 3]] show ?thesis .
qed

theorem response_reaches_callback_witness: "fired (deliver answeredUart) = [(7, Received (Inr [0x47, 0x31]))]"
proof -
  have a: "m_isrState answeredUart = WaitingRx" "ev_ENDRX answeredUart" "m_opType answeredUart = Transact"
    "fired answeredUart = []" "accepted answeredUart = [7]" "\<not> ev_FRAME_TIMEOUT answeredUart"
    "\<not> compare0 answeredUart" "m_rxBuf answeredUart = kACK # encode [0x47, 0x31]"
    by (simp_all add: answeredUart_def waitingUart_def startTransaction_def configureMatch_def
        transact_claim_def S21DataLinkUart_new_def Let_def)
  obtain cb res where "accepted answeredUart = map fst (fired answeredUart) @ [cb]"
      "fired (deliver answeredUart) = fired answeredUart @ [(cb, res)]"
      and "m_opType answeredUart = Transact \<longrightarrow> (\<forall>p. res = Received (Inr p) \<longleftrightarrow>
          \<not> ev_FRAME_TIMEOUT answeredUart \<and> \<not> compare0 answeredUart \<and> p \<noteq> []
          \<and> (m_rxBuf answeredUart = encode p \<or> m_rxBuf answeredUart = kACK # encode p))"
    using response_reaches_callback [OF answeredUart_reach a(1,2)] by blast
  with a(3-) show ?thesis by simp
qed

text \<open>
  Why the completion handler must not be interrupted by a request. The handler releases
  the link before it takes the callback out of its slot. If a request could strike between
  the two, the new request's callback would be called with the old request's response
  before anything of the new request has been transmitted, and the old request's callback
  would be lost.
\<close>

theorem interrupted_completion_swaps_callbacks:
  "\<exists>u. uart_reach False u \<and> accepted u = [1, 2] \<and> fired u = [(2, Sent (Inr ()))]
     \<and> starting u \<noteq> None \<and> m_sendCb u = None"
proof -
  let ?u0 = S21DataLinkUart_new
  let ?u1 = "send_claim [0x44] 1 ?u0"
  let ?u2 = "(startTransaction (encode [0x44]) False True ?u1)\<lparr>starting := None\<rparr>"
  let ?u3 = "?u2\<lparr>m_rxBuf := [kACK], ev_ENDRX := True\<rparr>"
  let ?u4 = "isrHandler ?u3"
  let ?u5 = "completion_begin ?u4"
  let ?u6 = "send_claim [0x45] 2 ?u5"
  let ?u7 = "completion_end ?u6"
  note eval = send_claim_def startTransaction_def configureMatch_def isr_defs completion_begin_def
    completion_end_def sendResult_def rxResultError_def S21DataLinkUart_new_def Let_def kACK_def kNAK_def
  have 1: "uart_step False ?u0 ?u1" by (rule uart_step.send) simp
  have 2: "uart_step False ?u1 ?u2"
    by (rule uart_step.start) (simp add: send_claim_def S21DataLinkUart_new_def)
  have 3: "peripheral ?u2 ?u3" by (rule peripheral_receives)
  have 4: "uart_step False ?u3 ?u4" by (rule uart_step.isr)
  have 5: "uart_step False ?u4 ?u5" by (rule uart_step.work) (simp_all add: eval)
  have 6: "uart_step False ?u5 ?u6" by (rule uart_step.send) simp
  have 7: "uart_step False ?u6 ?u7" by (rule uart_step.finish) (simp add: eval)
  have "uart_reach False ?u0" by (rule reach_start) simp
  note reach_step [OF reach_step [OF reach_step [OF reach_step [OF this 1] 2] uart_step.hw [OF 3]] 4]
  note reach_step [OF reach_step [OF reach_step [OF this 5] 6] 7]
  moreover have "accepted ?u7 = [1, 2] \<and> fired ?u7 = [(2, Sent (Inr ()))]
      \<and> starting ?u7 \<noteq> None \<and> m_sendCb ?u7 = None"
    by (simp add: eval)
  ultimately show ?thesis by blast
qed

end
