(* ===== verification/S21_Sync_Adapter.thy ===== *)
theory S21_Sync_Adapter
  imports S21_Manager
begin

text \<open>
  The blocking adapter over the asynchronous presentation layer
  (\<open>s21/s21_presentation_sync_adapter.h\<close>, \<open>s21/s21_presentation_sync_adapter.cpp\<close>) and the
  stack that owns it (\<open>s21/s21_stack.cpp\<close>).

  First, \<open>syncCall\<close> as a transition system: any number of threads, one mutex, one binary
  semaphore, and the callbacks the presentation layer owes. A thread is a number with a
  program counter; its local variable \<open>result\<close> is written by its callback, which runs on
  another thread or inside the call. Then the ten methods, each of which passes one presentation
  operation through \<open>syncCall\<close>.
\<close>

section \<open>One blocking call among many threads\<close>

datatype SyncPc = Outside | AtLock | AtCall | AtTake | AtUnlock | AtAssert

record 'r SyncAdapter =
  mMutex :: "nat option"
  mSem :: nat
  pc :: "nat \<Rightarrow> SyncPc"
  result :: "nat \<Rightarrow> 'r option"
  owed_callbacks :: "nat list"
  answers :: "(nat \<times> 'r) list"
  returned :: "(nat \<times> 'r option) list"

definition SyncAdapter_new :: "'r SyncAdapter" where
  "SyncAdapter_new =
     \<lparr>mMutex = None, mSem = 0, pc = (\<lambda>_. Outside), result = (\<lambda>_. None), owed_callbacks = [],
      answers = [], returned = []\<rparr>"

definition k_sem_give :: "nat \<Rightarrow> nat" where
  "k_sem_give n = min 1 (n + 1)"

text \<open>
  The statements of \<open>syncCall\<close> in order. \<open>syncCall_fire\<close> is the callback handed to the
  presentation layer; the layer calls it once.
\<close>

definition syncCall_enter :: "nat \<Rightarrow> 'r SyncAdapter \<Rightarrow> 'r SyncAdapter option" where
  "syncCall_enter t s = (if pc s t = Outside then Some (s\<lparr>pc := (pc s)(t := AtLock)\<rparr>) else None)"

definition syncCall_lock :: "nat \<Rightarrow> 'r SyncAdapter \<Rightarrow> 'r SyncAdapter option" where
  "syncCall_lock t s =
     (if pc s t = AtLock \<and> mMutex s = None
      then Some (s\<lparr>mMutex := Some t, pc := (pc s)(t := AtCall), result := (result s)(t := None)\<rparr>)
      else None)"

definition syncCall_fn :: "nat \<Rightarrow> 'r SyncAdapter \<Rightarrow> 'r SyncAdapter option" where
  "syncCall_fn t s =
     (if pc s t = AtCall
      then Some (s\<lparr>pc := (pc s)(t := AtTake), owed_callbacks := owed_callbacks s @ [t]\<rparr>)
      else None)"

definition syncCall_fire :: "nat \<Rightarrow> 'r \<Rightarrow> 'r SyncAdapter \<Rightarrow> 'r SyncAdapter option" where
  "syncCall_fire t r s =
     (if t \<in> set (owed_callbacks s)
      then Some (s\<lparr>owed_callbacks := remove1 t (owed_callbacks s), result := (result s)(t := Some r),
                   mSem := k_sem_give (mSem s), answers := answers s @ [(t, r)]\<rparr>)
      else None)"

definition syncCall_take :: "nat \<Rightarrow> 'r SyncAdapter \<Rightarrow> 'r SyncAdapter option" where
  "syncCall_take t s =
     (if pc s t = AtTake \<and> 0 < mSem s
      then Some (s\<lparr>mSem := mSem s - 1, pc := (pc s)(t := AtUnlock)\<rparr>) else None)"

definition syncCall_unlock :: "nat \<Rightarrow> 'r SyncAdapter \<Rightarrow> 'r SyncAdapter option" where
  "syncCall_unlock t s =
     (if pc s t = AtUnlock then Some (s\<lparr>mMutex := None, pc := (pc s)(t := AtAssert)\<rparr>) else None)"

definition syncCall_return :: "nat \<Rightarrow> 'r SyncAdapter \<Rightarrow> 'r SyncAdapter option" where
  "syncCall_return t s =
     (if pc s t = AtAssert
      then Some (s\<lparr>pc := (pc s)(t := Outside), returned := returned s @ [(t, result s t)]\<rparr>) else None)"

inductive sync_step :: "'r SyncAdapter \<Rightarrow> 'r SyncAdapter \<Rightarrow> bool" where
  sync_enter: "syncCall_enter t s = Some s' \<Longrightarrow> sync_step s s'"
| sync_lock: "syncCall_lock t s = Some s' \<Longrightarrow> sync_step s s'"
| sync_fn: "syncCall_fn t s = Some s' \<Longrightarrow> sync_step s s'"
| sync_fire: "syncCall_fire t r s = Some s' \<Longrightarrow> sync_step s s'"
| sync_take: "syncCall_take t s = Some s' \<Longrightarrow> sync_step s s'"
| sync_unlock: "syncCall_unlock t s = Some s' \<Longrightarrow> sync_step s s'"
| sync_return: "syncCall_return t s = Some s' \<Longrightarrow> sync_step s s'"

lemmas syncCall_defs = syncCall_enter_def syncCall_lock_def syncCall_fn_def syncCall_fire_def
  syncCall_take_def syncCall_unlock_def syncCall_return_def k_sem_give_def

text \<open>
  The threads inside the critical section, and the phase the one holding the mutex is in:
  before its call, waiting for its callback, or called back.
\<close>

primrec inside :: "SyncPc \<Rightarrow> bool" where
  "inside Outside = False"
| "inside AtLock = False"
| "inside AtCall = True"
| "inside AtTake = True"
| "inside AtUnlock = True"
| "inside AtAssert = False"

definition holder_phase :: "nat \<Rightarrow> 'r SyncAdapter \<Rightarrow> bool" where
  "holder_phase t s =
     ((pc s t = AtCall \<and> mSem s = 0 \<and> owed_callbacks s = [] \<and> result s t = None)
      \<or> (pc s t = AtTake \<and> mSem s = 0 \<and> owed_callbacks s = [t] \<and> result s t = None)
      \<or> (pc s t = AtTake \<and> mSem s = 1 \<and> owed_callbacks s = [] \<and> has_value (result s t))
      \<or> (pc s t = AtUnlock \<and> mSem s = 0 \<and> owed_callbacks s = [] \<and> has_value (result s t)))"

definition mutex_inv :: "'r SyncAdapter \<Rightarrow> bool" where
  "mutex_inv s = (\<forall>t. inside (pc s t) \<longleftrightarrow> mMutex s = Some t)"

definition phase_inv :: "'r SyncAdapter \<Rightarrow> bool" where
  "phase_inv s =
     (case mMutex s of None \<Rightarrow> mSem s = 0 \<and> owed_callbacks s = [] | Some t \<Rightarrow> holder_phase t s)"

definition own_answer :: "(nat \<times> 'r) list \<Rightarrow> nat \<times> 'r option \<Rightarrow> bool" where
  "own_answer as tr = (case tr of (t, r) \<Rightarrow> case r of None \<Rightarrow> False | Some v \<Rightarrow> (t, v) \<in> set as)"

definition answer_inv :: "'r SyncAdapter \<Rightarrow> bool" where
  "answer_inv s =
     ((\<forall>t. pc s t = AtTake \<longrightarrow> result s t = None \<or> own_answer (answers s) (t, result s t))
      \<and> (\<forall>t. pc s t = AtUnlock \<or> pc s t = AtAssert \<longrightarrow> own_answer (answers s) (t, result s t))
      \<and> list_all (own_answer (answers s)) (returned s))"

lemma own_answer_append:
  "own_answer as tr \<Longrightarrow> own_answer (as @ bs) tr"
  by (auto simp: own_answer_def split: option.splits)

lemma list_own_answer_append:
  "list_all (own_answer as) rs \<Longrightarrow> list_all (own_answer (as @ bs)) rs"
  by (auto simp: list_all_iff own_answer_append)

lemma own_answer_new [simp]: "own_answer (as @ [(t, r)]) (t, Some r)"
  by (simp add: own_answer_def)

definition sync_inv :: "'r SyncAdapter \<Rightarrow> bool" where
  "sync_inv s = (mutex_inv s \<and> phase_inv s \<and> answer_inv s)"

lemma sync_inv_new: "sync_inv SyncAdapter_new"
  by (simp add: sync_inv_def mutex_inv_def phase_inv_def answer_inv_def SyncAdapter_new_def)

lemma guarded_Some [simp]: "(if P then Some x else None) = Some y \<longleftrightarrow> P \<and> y = x"
  by auto

lemma mutex_inv_holder: "mutex_inv s \<Longrightarrow> inside (pc s t) \<Longrightarrow> mMutex s = Some t"
  by (simp add: mutex_inv_def)

lemma mutex_inv_outside: "mutex_inv s \<Longrightarrow> \<not> inside (pc s t) \<Longrightarrow> mMutex s \<noteq> Some t"
  by (simp add: mutex_inv_def)

lemma mutex_inv_move:
  assumes "mutex_inv s" and "inside p = inside (pc s t)"
  shows "mutex_inv (s\<lparr>pc := (pc s)(t := p)\<rparr>)"
  using assms by (simp add: mutex_inv_def)

lemma mutex_inv_only_mutex_pc:
  "mutex_inv (s\<lparr>mSem := a\<rparr>) = mutex_inv s" "mutex_inv (s\<lparr>result := b\<rparr>) = mutex_inv s"
  "mutex_inv (s\<lparr>owed_callbacks := c\<rparr>) = mutex_inv s" "mutex_inv (s\<lparr>answers := d\<rparr>) = mutex_inv s"
  "mutex_inv (s\<lparr>returned := e\<rparr>) = mutex_inv s"
  by (simp_all add: mutex_inv_def)

lemma mutex_inv_step:
  "sync_step s s' \<Longrightarrow> mutex_inv s \<Longrightarrow> mutex_inv s'"
proof (induction rule: sync_step.induct)
  case (sync_enter t s s')
  then show ?case using mutex_inv_move [of s AtLock t] by (simp add: syncCall_enter_def)
next
  case (sync_lock t s s')
  then show ?case by (auto simp: mutex_inv_def syncCall_lock_def)
next
  case (sync_fn t s s')
  then show ?case using mutex_inv_move [of s AtTake t]
    by (simp add: syncCall_fn_def mutex_inv_def)
next
  case (sync_fire t r s s')
  then show ?case by (simp add: syncCall_fire_def mutex_inv_def)
next
  case (sync_take t s s')
  then show ?case using mutex_inv_move [of s AtUnlock t]
    by (simp add: syncCall_take_def mutex_inv_def)
next
  case (sync_unlock t s s')
  then show ?case using mutex_inv_holder [of s t] by (auto simp: mutex_inv_def syncCall_unlock_def)
next
  case (sync_return t s s')
  then show ?case using mutex_inv_move [of s Outside t]
    by (simp add: syncCall_return_def mutex_inv_def)
qed

lemma phase_owed: "phase_inv s \<Longrightarrow> t \<in> set (owed_callbacks s) \<Longrightarrow>
    mMutex s = Some t \<and> pc s t = AtTake \<and> mSem s = 0 \<and> owed_callbacks s = [t]"
  by (auto simp: phase_inv_def holder_phase_def split: option.splits)

lemma phase_inv_elsewhere:
  assumes "phase_inv s" and "mMutex s \<noteq> Some t"
  shows "phase_inv (s\<lparr>pc := (pc s)(t := p)\<rparr>)"
  using assms by (cases "mMutex s") (simp_all add: phase_inv_def holder_phase_def)

lemma phase_inv_returned [simp]: "phase_inv (s\<lparr>returned := e\<rparr>) = phase_inv s"
  by (cases "mMutex s") (simp_all add: phase_inv_def holder_phase_def)

lemma phase_inv_step:
  assumes "sync_step s s'" and "mutex_inv s" and "phase_inv s"
  shows "phase_inv s'"
  using assms
proof (induction rule: sync_step.induct)
  case (sync_enter t s s')
  then show ?case using phase_inv_elsewhere [of s t AtLock] mutex_inv_outside [of s t]
    by (simp add: syncCall_enter_def)
next
  case (sync_lock t s s')
  then show ?case by (simp add: syncCall_lock_def phase_inv_def holder_phase_def)
next
  case (sync_fn t s s')
  then have "mMutex s = Some t" "pc s t = AtCall" using mutex_inv_holder [of s t]
    by (simp_all add: syncCall_fn_def)
  with sync_fn show ?case by (auto simp: syncCall_fn_def phase_inv_def holder_phase_def)
next
  case (sync_fire t r s s')
  then have "mMutex s = Some t \<and> pc s t = AtTake \<and> mSem s = 0 \<and> owed_callbacks s = [t]"
    by (intro phase_owed) (simp_all add: syncCall_fire_def)
  with sync_fire show ?case
    by (auto simp: syncCall_fire_def phase_inv_def holder_phase_def k_sem_give_def)
next
  case (sync_take t s s')
  then have "mMutex s = Some t" "pc s t = AtTake" using mutex_inv_holder [of s t]
    by (simp_all add: syncCall_take_def)
  with sync_take show ?case by (auto simp: syncCall_take_def phase_inv_def holder_phase_def)
next
  case (sync_unlock t s s')
  then have "mMutex s = Some t" "pc s t = AtUnlock" using mutex_inv_holder [of s t]
    by (simp_all add: syncCall_unlock_def)
  with sync_unlock show ?case by (auto simp: syncCall_unlock_def phase_inv_def holder_phase_def)
next
  case (sync_return t s s')
  then show ?case using phase_inv_elsewhere [of s t Outside] mutex_inv_outside [of s t]
    by (simp add: syncCall_return_def)
qed

lemma phase_result:
  assumes "mutex_inv s" and "phase_inv s"
  shows "pc s t = AtCall \<Longrightarrow> result s t = None"
    and "pc s t = AtTake \<Longrightarrow> 0 < mSem s \<Longrightarrow> has_value (result s t)"
  using assms mutex_inv_holder [of s t] by (fastforce simp: phase_inv_def holder_phase_def)+

lemma answer_inv_step:
  assumes "sync_step s s'" and "mutex_inv s" and "phase_inv s" and "answer_inv s"
  shows "answer_inv s'"
  using assms
proof (induction rule: sync_step.induct)
  case (sync_fn t s s')
  then show ?case using phase_result(1) [of s t]
    by (auto simp: syncCall_fn_def answer_inv_def split: if_splits)
next
  case (sync_fire t r s s')
  then have "mMutex s = Some t \<and> pc s t = AtTake"
    using phase_owed [of s t] by (auto simp: syncCall_fire_def split: if_splits)
  with sync_fire show ?case
    by (auto simp: syncCall_fire_def answer_inv_def list_own_answer_append own_answer_append split: if_splits)
next
  case (sync_take t s s')
  then show ?case using phase_result(2) [of s t]
    by (auto simp: syncCall_take_def answer_inv_def split: if_splits)
qed (auto simp: answer_inv_def syncCall_enter_def syncCall_lock_def syncCall_unlock_def
      syncCall_return_def split: if_splits)

interpretation sync_adapter: inductive_invariant "\<lambda>s. s = SyncAdapter_new" sync_step sync_inv
proof unfold_locales
  show "s = SyncAdapter_new \<Longrightarrow> sync_inv s" for s :: "'a SyncAdapter" using sync_inv_new by simp
  show "sync_inv s \<Longrightarrow> sync_step s t \<Longrightarrow> sync_inv t" for s t :: "'a SyncAdapter"
    using mutex_inv_step phase_inv_step answer_inv_step by (auto simp: sync_inv_def)
qed

abbreviation sync_reach :: "'r SyncAdapter \<Rightarrow> bool" where
  "sync_reach \<equiv> reach (\<lambda>s. s = SyncAdapter_new) sync_step"

section \<open>The ten blocking methods\<close>

text \<open>
  The state below the adapter: the data link, the uptime clock, and whether a decoder has
  read past the end of a response, after which the program has no defined behaviour.
\<close>

record 'l SyncWorld =
  sw_link :: 'l
  sw_uptime :: millis
  sw_undefined :: bool

definition syncCall ::
  "('l \<Rightarrow> 'a outcome \<times> 'l) \<Rightarrow> 'l SyncWorld \<Rightarrow> ('a, S21PresentationError) expected \<times> 'l SyncWorld" where
  "syncCall fn w =
     (let (res, l) = fn (sw_link w) in
      case res of
        Some r \<Rightarrow> (r, w\<lparr>sw_link := l\<rparr>)
      | None \<Rightarrow> (Inl UnexpectedResponseCode, w\<lparr>sw_link := l, sw_undefined := True\<rparr>))"

definition sync_setOperation ::
  "'l S21DataLink \<Rightarrow> bool \<Rightarrow> OperatingMode \<Rightarrow> i16 \<Rightarrow> FanMode \<Rightarrow> 'l SyncWorld
    \<Rightarrow> (unit, S21DataLinkError) expected \<times> 'l SyncWorld" where
  "sync_setOperation dl on md sp f w =
     (let (res, l) = pres_setOperation dl on md sp f (sw_link w) in (res, w\<lparr>sw_link := l\<rparr>))"

definition S21PresentationSyncAdapter :: "'l S21DataLink \<Rightarrow> 'l SyncWorld S21PresentationSync" where
  "S21PresentationSyncAdapter dl =
     \<lparr>ps_setOperation = sync_setOperation dl,
      ps_getOperation = syncCall (pres_getOperation dl),
      ps_getRoomTemperature = syncCall (pres_getRoomTemperature dl),
      ps_getOutdoorTemperature = syncCall (pres_getOutdoorTemperature dl),
      ps_getHumidity = syncCall (pres_getHumidity dl),
      ps_getCoarseTemperatureAndHumidity = syncCall (pres_getCoarseTemperatureAndHumidity dl),
      ps_getFanMode = syncCall (pres_getFanMode dl),
      ps_getProtocolVersion = syncCall (pres_getProtocolVersion dl),
      ps_getExtendedProtocolVersion = syncCall (pres_getExtendedProtocolVersion dl),
      ps_getUnitState = syncCall (pres_getUnitState dl),
      ps_now = sw_uptime\<rparr>"

definition kS21CacheMaxAge :: millis where
  "kS21CacheMaxAge = 5000"

definition S21Stack_manager :: S21Manager where
  "S21Stack_manager = S21Manager_new kS21CacheMaxAge"

section \<open>Properties\<close>

text \<open>
  C9. Blocking calls exclude each other and each gets its own answer. In every state any number
  of threads can reach: at most one is between taking and releasing the mutex; at most one
  callback is owed, to that thread, and when it fires the semaphore is empty, so no
  completion is lost; the assertion after the wait holds; and every value a call has
  returned was delivered by the callback of the thread that returned it. Nothing is stuck:
  while a call is in progress some thread can go on or a callback is owed.
\<close>

theorem sync_calls_exclusive:
  assumes "sync_reach s"
  shows "(\<forall>t u. inside (pc s t) \<and> inside (pc s u) \<longrightarrow> t = u)
    \<and> (\<forall>t \<in> set (owed_callbacks s). owed_callbacks s = [t] \<and> pc s t = AtTake \<and> mSem s = 0)
    \<and> (\<forall>t. pc s t = AtAssert \<longrightarrow> has_value (result s t))
    \<and> (\<forall>(t, r) \<in> set (returned s). \<exists>v. r = Some v \<and> (t, v) \<in> set (answers s))
    \<and> ((\<exists>t. pc s t \<noteq> Outside) \<longrightarrow>
        owed_callbacks s \<noteq> [] \<or> (\<exists>t. has_value (syncCall_lock t s) \<or> has_value (syncCall_fn t s)
          \<or> has_value (syncCall_take t s) \<or> has_value (syncCall_unlock t s) \<or> has_value (syncCall_return t s)))"
proof -
  have inv: "mutex_inv s" "phase_inv s" "answer_inv s"
    using sync_adapter.reach_inv [OF assms] by (simp_all add: sync_inv_def)
  have progress: "owed_callbacks s \<noteq> [] \<or> (\<exists>t. has_value (syncCall_lock t s) \<or> has_value (syncCall_fn t s)
          \<or> has_value (syncCall_take t s) \<or> has_value (syncCall_unlock t s) \<or> has_value (syncCall_return t s))"
    if t: "pc s t \<noteq> Outside" for t
  proof (cases "mMutex s")
    case None
    then have "\<not> inside (pc s t)" using inv(1) by (simp add: mutex_inv_def)
    then show ?thesis
      using t None by (cases "pc s t") (auto simp: syncCall_defs)
  next
    case (Some u)
    then have "holder_phase u s" using inv(2) by (simp add: phase_inv_def)
    then show ?thesis by (auto simp: holder_phase_def syncCall_defs)
  qed
  have "\<exists>v. r = Some v \<and> (t, v) \<in> set (answers s)" if "(t, r) \<in> set (returned s)" for t r
    using inv(3) that by (auto simp: answer_inv_def list_all_iff own_answer_def split: option.splits)
  moreover have "has_value (result s t)" if "pc s t = AtAssert" for t
    using inv(3) that by (auto simp: answer_inv_def own_answer_def split: option.splits)
  ultimately show ?thesis
    using inv(1) phase_owed [OF inv(2)] progress by (auto simp: mutex_inv_def)
qed

theorem sync_calls_exclusive_witness:
  "owed_callbacks (the (syncCall_fn 3 (the (syncCall_lock 3 (the (syncCall_enter 3
      (SyncAdapter_new :: u8 SyncAdapter))))))) = [3]"
proof -
  let ?s1 = "the (syncCall_enter 3 (SyncAdapter_new :: u8 SyncAdapter))"
  let ?s2 = "the (syncCall_lock 3 ?s1)"
  let ?s3 = "the (syncCall_fn 3 ?s2)"
  have s: "syncCall_enter 3 SyncAdapter_new = Some ?s1" "syncCall_lock 3 ?s1 = Some ?s2" "syncCall_fn 3 ?s2 = Some ?s3"
    by (simp_all add: syncCall_defs SyncAdapter_new_def)
  have "sync_reach (SyncAdapter_new :: u8 SyncAdapter)" by (rule reach_start) simp
  then have "sync_reach ?s1" by (rule reach_step) (rule sync_enter [OF s(1)])
  then have "sync_reach ?s2" by (rule reach_step) (rule sync_lock [OF s(2)])
  then have "sync_reach ?s3" by (rule reach_step) (rule sync_fn [OF s(3)])
  from sync_calls_exclusive [OF this] have "\<forall>t \<in> set (owed_callbacks ?s3). owed_callbacks ?s3 = [t]" by blast
  moreover have "3 \<in> set (owed_callbacks ?s3)" by (simp add: syncCall_defs SyncAdapter_new_def)
  ultimately show ?thesis by blast
qed

text \<open>
  A unit on the link, by what the S21 protocol documents. In a good state of the link it
  acknowledges a state command of four bytes, none of them a control byte, and holds them. It answers a status request
  with a report of the bytes it holds: the power and the temperature are those bytes; a unit in Auto may name instead the side it is
  working on; and a fan in Quiet may be reported as Auto. The fan request is answered with the fan byte it holds. Asking changes nothing
  it holds, and the link stays good.
\<close>

definition wire_safe :: "bytes \<Rightarrow> bool" where
  "wire_safe body = list_all (\<lambda>b. 0x20 \<le> b) body"

definition reportedMode :: "OperatingMode \<Rightarrow> OperatingMode set" where
  "reportedMode md = (if md = OperatingMode.Auto then {OperatingMode.Auto, Auto_Cooling, Auto_Heating} else {md})"

definition reportedFan :: "FanMode \<Rightarrow> FanMode set" where
  "reportedFan f = (if f = FanMode.Quiet then {FanMode.Quiet, FanMode.Auto} else {f})"

definition reportedAs :: "bytes \<Rightarrow> bytes \<Rightarrow> bool" where
  "reportedAs h r =
     (length r = 4 \<and> r ! 0 = h ! 0 \<and> r ! 2 = h ! 2
      \<and> OperatingMode_cast (r ! 1) \<in> reportedMode (OperatingMode_cast (h ! 1))
      \<and> FanMode_cast (r ! 3) \<in> reportedFan (FanMode_cast (h ! 3)))"

definition unit_contract :: "'l S21DataLink \<Rightarrow> ('l \<Rightarrow> bool) \<Rightarrow> ('l \<Rightarrow> bytes) \<Rightarrow> bool" where
  "unit_contract dl good held =
     ((\<forall>body l. good l \<and> length body = 4 \<and> wire_safe body \<longrightarrow>
         (\<exists>l'. dl_send dl ([byte_of_char CHR ''D'', byte_of_char CHR ''1''] @ body) l = (Inr (), l')
           \<and> held l' = body \<and> good l'))
      \<and> (\<forall>l. good l \<longrightarrow>
         (\<exists>r l'. dl_transact dl [byte_of_char CHR ''F'', byte_of_char CHR ''1''] l
             = (Inr ([byte_of_char CHR ''G'', byte_of_char CHR ''1''] @ r), l')
           \<and> reportedAs (held l) r \<and> held l' = held l \<and> good l'))
      \<and> (\<forall>l. good l \<longrightarrow>
         (\<exists>l'. dl_transact dl [byte_of_char CHR ''R'', byte_of_char CHR ''G''] l
             = (Inr [byte_of_char CHR ''S'', byte_of_char CHR ''G'', held l ! 3], l')
           \<and> held l' = held l \<and> good l')))"

lemma unit_contractD:
  assumes "unit_contract dl good held" and "good l"
  shows "length body = 4 \<Longrightarrow> wire_safe body \<Longrightarrow>
      \<exists>l'. dl_send dl ([byte_of_char CHR ''D'', byte_of_char CHR ''1''] @ body) l = (Inr (), l') \<and> held l' = body \<and> good l'"
    and "\<exists>r l'. dl_transact dl [byte_of_char CHR ''F'', byte_of_char CHR ''1''] l
        = (Inr ([byte_of_char CHR ''G'', byte_of_char CHR ''1''] @ r), l') \<and> reportedAs (held l) r \<and> held l' = held l \<and> good l'"
    and "\<exists>l'. dl_transact dl [byte_of_char CHR ''R'', byte_of_char CHR ''G''] l
        = (Inr [byte_of_char CHR ''S'', byte_of_char CHR ''G'', held l ! 3], l') \<and> held l' = held l \<and> good l'"
  using assms unfolding unit_contract_def by blast+

lemma list4_nth: "length r = 4 \<Longrightarrow> r = [r ! 0, r ! 1, r ! 2, r ! 3]"
  by (auto simp: list_eq_iff_nth_eq nth_Cons less_Suc_eq numeral_eq_Suc split: nat.split)

lemma reported_bytes:
  assumes "reportedAs h r"
  shows "r ! 1 \<in> {h ! 1, 0x30, 0x31, 0x37}" and "r ! 3 \<in> {h ! 3, 0x41, 0x42}"
proof -
  have "OperatingMode_byte (OperatingMode_cast (r ! 1)) \<in> OperatingMode_byte ` reportedMode (OperatingMode_cast (h ! 1))"
    "FanMode_byte (FanMode_cast (r ! 3)) \<in> FanMode_byte ` reportedFan (FanMode_cast (h ! 3))"
    using assms unfolding reportedAs_def by blast+
  then show "r ! 1 \<in> {h ! 1, 0x30, 0x31, 0x37}" "r ! 3 \<in> {h ! 3, 0x41, 0x42}"
    by (auto simp: reportedMode_def reportedFan_def split: if_splits)
qed

lemma reported_safe: "reportedAs h r \<Longrightarrow> length h = 4 \<Longrightarrow> wire_safe h \<Longrightarrow> wire_safe r"
proof -
  assume r: "reportedAs h r" and h: "length h = 4" "wire_safe h"
  have "0x20 \<le> h ! i" if "i < 4" for i using h that by (simp add: wire_safe_def list_all_length)
  then have "0x20 \<le> h ! 0" "0x20 \<le> h ! 1" "0x20 \<le> h ! 2" "0x20 \<le> h ! 3" by simp_all
  moreover have "r ! 0 = h ! 0" "r ! 2 = h ! 2" "length r = 4" using r by (simp_all add: reportedAs_def)
  moreover have "0x20 \<le> r ! 1" "0x20 \<le> r ! 3"
    using calculation(2,4) reported_bytes [OF r] by auto
  ultimately show ?thesis by (subst list4_nth) (simp_all add: wire_safe_def)
qed

lemma decodeOperation_bytes:
  "decodeOperation (Inr ([byte_of_char CHR ''G'', byte_of_char CHR ''1'']
       @ [if on then byte_of_char CHR ''1'' else byte_of_char CHR ''0'', md, t, f]))
     = Some (Inr (on, OperatingMode_cast md, tempByteToSetPoint t, FanMode_cast f))"
  by (auto simp: decodeOperation_def validateResponseCode_def)

text \<open>What a report of a command's bytes decodes to.\<close>

lemma decodeOperation_reported:
  assumes named: "named_OperatingMode md" "named_FanMode f" and r: "reportedAs (drop 2 (operationPayload on md sp f)) r"
  shows "\<exists>md' f'. md' \<in> reportedMode md \<and> f' \<in> reportedFan f
    \<and> decodeOperation (Inr ([byte_of_char CHR ''G'', byte_of_char CHR ''1''] @ r))
        = Some (Inr (on, md', tempByteToSetPoint (setPointToTempByte sp), f'))"
proof -
  have n: "OperatingMode_cast (OperatingMode_byte md) = md" "FanMode_cast (FanMode_byte f) = f"
    using named by (simp_all add: named_OperatingMode_def named_FanMode_def)
  have "r = [if on then byte_of_char CHR ''1'' else byte_of_char CHR ''0'', r ! 1, setPointToTempByte sp, r ! 3]"
    using r by (subst list4_nth) (simp_all add: reportedAs_def operationPayload_def)
  then have "decodeOperation (Inr ([byte_of_char CHR ''G'', byte_of_char CHR ''1''] @ r))
      = Some (Inr (on, OperatingMode_cast (r ! 1), tempByteToSetPoint (setPointToTempByte sp), FanMode_cast (r ! 3)))"
    by (metis (no_types, lifting) decodeOperation_bytes)
  moreover have "OperatingMode_cast (r ! 1) \<in> reportedMode md" "FanMode_cast (r ! 3) \<in> reportedFan f"
    using r n by (simp_all add: reportedAs_def operationPayload_def)
  ultimately show ?thesis by blast
qed

text \<open>
  When the manager's fan answer comes from the unit: no fresh value in its cache and the request not given up. And when the
  status read through the manager must name the fan held: a Quiet or Auto fan of a running unit is asked for
  by the fan request, and a Quiet fan of a unit that is off may be taken for Auto.
\<close>

definition fanAsked :: "S21Manager \<Rightarrow> millis \<Rightarrow> bool" where
  "fanAsked m t = (cache_lookup (mCacheMaxAge m) t (mFanModeCache m) = None \<and> \<not> isUnsupported (mFanModeCapability m))"

definition fanReadable :: "S21Manager \<Rightarrow> millis \<Rightarrow> bool \<Rightarrow> FanMode \<Rightarrow> bool" where
  "fanReadable m t on f =
     (case f of FanMode.Quiet \<Rightarrow> on \<and> fanAsked m t | FanMode.Auto \<Rightarrow> on \<longrightarrow> fanAsked m t | _ \<Rightarrow> True)"

lemma operationPayload_safe:
  assumes "setPoint_ok sp" and "0x20 \<le> OperatingMode_byte md" and "0x20 \<le> FanMode_byte f"
  shows "wire_safe (drop 2 (operationPayload on md sp f))"
proof -
  have "32 \<le> uint (setPointToTempByte sp)"
    using tempByte_value [OF assms(1)] steps_range [of "sint sp"] assms(1) by linarith
  then show ?thesis
    using assms(2,3) by (simp add: wire_safe_def operationPayload_def word_le_def)
qed

lemma fan_asked_over_link:
  assumes unit: "unit_contract dl good held" and good: "good (sw_link w)" and fan: "held (sw_link w) ! 3 = FanMode_byte f"
    and named: "named_FanMode f" and asked: "fanAsked m (sw_uptime w)" and ok: "\<not> sw_undefined w"
  shows "\<exists>m' w'. fanModeCacheGet (S21PresentationSyncAdapter dl) m w = (Inr f, m', w') \<and> \<not> sw_undefined w'"
proof -
  obtain l' where "dl_transact dl [byte_of_char CHR ''R'', byte_of_char CHR ''G''] (sw_link w)
      = (Inr [byte_of_char CHR ''S'', byte_of_char CHR ''G'', FanMode_byte f], l')"
    using unit_contractD(3) [OF unit good] fan by auto
  then have "pres_getFanMode dl (sw_link w) = (Some (Inr f), l')"
    using named by (simp add: pres_getFanMode_def validateResponseCode_def named_FanMode_def)
  then show ?thesis
    using asked ok by (auto simp: fanAsked_def fanModeCacheGet_def cache_get_def cache_lookup_def callWithTracking_def
        S21PresentationSyncAdapter_def syncCall_def split: if_splits)
qed

text \<open>
  Through manager, adapter and presentation layer, over any link with such a unit: a command
  with a valid setpoint succeeds and the unit holds its bytes; once the cache has expired
  the manager's status accessors, asking the unit again, answer what was set, and no decoder
  reads past a response.
\<close>

lemma stack_sets:
  assumes unit: "unit_contract dl good held" and good: "good (sw_link w)" and ready: "mIsReady m"
    and sp: "setPoint_ok sp" and safe: "0x20 \<le> OperatingMode_byte md" "0x20 \<le> FanMode_byte f"
  shows "\<exists>l'. mgr_setOperation (S21PresentationSyncAdapter dl) on md sp f m w
      = (Inr (), m\<lparr>mOperationCache := cache_update (sw_uptime w) (on, md, sp, f) (mOperationCache m)\<rparr>, w\<lparr>sw_link := l'\<rparr>)
    \<and> good l' \<and> held l' = drop 2 (operationPayload on md sp f)"
proof -
  let ?body = "drop 2 (operationPayload on md sp f)"
  have "operationPayload on md sp f = [byte_of_char CHR ''D'', byte_of_char CHR ''1''] @ ?body" "length ?body = 4"
    by (simp_all add: operationPayload_def)
  then obtain l' where "dl_send dl (operationPayload on md sp f) (sw_link w) = (Inr (), l')" "held l' = ?body" "good l'"
    using unit_contractD(1) [OF unit good _ operationPayload_safe [OF sp safe]] by metis
  then show ?thesis
    using ready sp by (auto simp: mgr_setOperation_def S21PresentationSyncAdapter_def sync_setOperation_def
        pres_setOperation_def)
qed

lemma stack_reads:
  assumes unit: "unit_contract dl good held" and good: "good (sw_link w)" and ready: "mIsReady m"
    and held: "held (sw_link w) = drop 2 (operationPayload on md sp f)"
    and named: "named_OperatingMode md" "named_FanMode f" and ok: "\<not> sw_undefined w"
    and stale: "cache_lookup (mCacheMaxAge m) (sw_uptime w) (mOperationCache m) = None"
  shows "\<exists>md' f' c' l2. md' \<in> reportedMode md \<and> f' \<in> reportedFan f \<and> good l2 \<and> held l2 = held (sw_link w)
    \<and> operationCacheGet (S21PresentationSyncAdapter dl) m w
        = (Inr (on, md', tempByteToSetPoint (setPointToTempByte sp), f'), m\<lparr>mOperationCache := c'\<rparr>, w\<lparr>sw_link := l2\<rparr>)"
proof -
  obtain r l2 where r: "dl_transact dl [byte_of_char CHR ''F'', byte_of_char CHR ''1''] (sw_link w)
        = (Inr ([byte_of_char CHR ''G'', byte_of_char CHR ''1''] @ r), l2)"
      "reportedAs (drop 2 (operationPayload on md sp f)) r" "good l2" "held l2 = held (sw_link w)"
    using unit_contractD(2) [OF unit good] unfolding held by blast
  obtain md' f' where d: "md' \<in> reportedMode md" "f' \<in> reportedFan f"
      "decodeOperation (Inr ([byte_of_char CHR ''G'', byte_of_char CHR ''1''] @ r))
        = Some (Inr (on, md', tempByteToSetPoint (setPointToTempByte sp), f'))"
    using decodeOperation_reported [OF named r(2)] by blast
  have p: "pres_getOperation dl (sw_link w)
      = (Some (Inr (on, md', tempByteToSetPoint (setPointToTempByte sp), f')), l2)"
    by (simp only: pres_getOperation_def r(1) map_prod_simp id_apply d(3))
  let ?v = "(on, md', tempByteToSetPoint (setPointToTempByte sp), f')"
  have "ps_getOperation (S21PresentationSyncAdapter dl) w = (Inr ?v, w\<lparr>sw_link := l2\<rparr>)"
    using p ok by (simp add: S21PresentationSyncAdapter_def syncCall_def)
  from cache.miss_ok [OF stale, of "ps_getOperation (S21PresentationSyncAdapter dl)", OF this]
  have "operationCacheGet (S21PresentationSyncAdapter dl) m w = (Inr ?v,
      m\<lparr>mOperationCache := cache_update (sw_uptime w) ?v (mOperationCache m)\<rparr>, w\<lparr>sw_link := l2\<rparr>)"
    by (simp add: operationCacheGet_def S21PresentationSyncAdapter_def)
  then show ?thesis using d(1,2) r(3,4) by (metis (no_types))
qed

lemma stack_reads_operation:
  assumes unit: "unit_contract dl good held" and good: "good (sw_link w)" and ready: "mIsReady m"
    and held: "held (sw_link w) = drop 2 (operationPayload on md sp f)"
    and named: "named_OperatingMode md" "named_FanMode f" and ok: "\<not> sw_undefined w"
    and stale: "cache_lookup (mCacheMaxAge m) (sw_uptime w) (mOperationCache m) = None"
    and fan: "fanReadable m (sw_uptime w) on f"
  shows "\<exists>md' m' w'. md' \<in> reportedMode md \<and> \<not> sw_undefined w'
    \<and> mgr_getOperation (S21PresentationSyncAdapter dl) m w
        = (Inr (on, md', tempByteToSetPoint (setPointToTempByte sp), f), m', w')"
proof -
  let ?P = "S21PresentationSyncAdapter dl"
  obtain md' f' c' l2 where r: "md' \<in> reportedMode md" "f' \<in> reportedFan f" "good l2" "held l2 = held (sw_link w)"
      "operationCacheGet ?P m w = (Inr (on, md', tempByteToSetPoint (setPointToTempByte sp), f'),
         m\<lparr>mOperationCache := c'\<rparr>, w\<lparr>sw_link := l2\<rparr>)"
    using stack_reads [OF unit good ready held named ok stale] by blast
  let ?m = "m\<lparr>mOperationCache := c'\<rparr>" and ?w = "w\<lparr>sw_link := l2\<rparr>"
  show ?thesis
  proof (cases "on \<and> f' = FanMode.Auto")
    case True
    then have "fanAsked ?m (sw_uptime ?w)"
      using fan r(2) by (cases f) (auto simp: fanReadable_def reportedFan_def fanAsked_def)
    moreover have "held (sw_link ?w) ! 3 = FanMode_byte f" by (simp add: r(4) held operationPayload_def)
    ultimately obtain m2 w2 where "fanModeCacheGet ?P ?m ?w = (Inr f, m2, w2)" "\<not> sw_undefined w2"
      using fan_asked_over_link [OF unit, of ?w f ?m] r(3) named(2) ok by auto
    then show ?thesis using r(1,5) ready True by (auto simp: mgr_getOperation_def)
  next
    case False
    then have "f' = f" using fan r(2) by (auto simp: reportedFan_def fanReadable_def split: if_splits)
    then show ?thesis using r(1,5) ready False ok by (auto simp: mgr_getOperation_def)
  qed
qed

end
