(* ===== verification/S21_Uart_Init.thy ===== *)
theory S21_Uart_Init
  imports S21_Datalink_Uart S21_Sync_Adapter
begin

text \<open>
  Bringing the data link up (\<open>S21DataLinkUart::init\<close> in \<open>s21/s21_datalink_uart.cpp\<close>), the
  choice of pins (\<open>s21/s21_pinconfig.h\<close>) and \<open>S21Stack::Init\<close> (\<open>s21/s21_stack.cpp\<close>).

  The peripheral registers the code writes are a record: the serial parameters, the match
  candidates, and the DPPI wiring as two partial maps, from events to the channel they publish
  to and from tasks to the channel they subscribe to, with the channels that are enabled.
  The channel allocator is not part of this repository: it is a record of two operations over
  an abstract state, and \<open>gppi_contract\<close> states what its documentation promises.
\<close>

datatype HwEvent = ENDTX | ENDRX | MATCH nat | COMPARE0
datatype HwTask = STARTRX | STOPRX | TIMER_START | TIMER_STOP

record UarteHw =
  hw_enabled :: bool
  hw_txHigh :: bool
  hw_pins :: "(u32 \<times> u32) option"
  hw_baudrate :: nat
  hw_hwfc :: bool
  hw_parity :: bool
  hw_twoStopBits :: bool
  hw_frameTimeoutEn :: bool
  hw_frameTimeout :: nat
  hw_shortTimeoutStopRx :: bool
  hw_candidate :: "nat \<Rightarrow> u8"
  hw_publish :: "HwEvent \<Rightarrow> u8 option"
  hw_subscribe :: "HwTask \<Rightarrow> u8 option"
  hw_channels :: "u8 list"
  hw_prescaler :: nat
  hw_cc0 :: nat
  hw_timerOneShot :: bool
  hw_intEndrx :: bool
  hw_intError :: bool
  hw_intFrameTimeout :: bool
  hw_irq :: bool

record S21DataLinkUart =
  dlu_uart :: Uart
  dlu_hw :: UarteHw
  mGppiChTxRx :: u8
  mGppiChMatchOrTimeout :: u8
  mGppiChEndrxTimer :: u8

record 'g Gppi =
  gppi_channel_alloc :: "'g \<Rightarrow> int \<times> 'g"
  gppi_channel_free :: "u8 \<Rightarrow> 'g \<Rightarrow> 'g"

definition kETX :: u8 where "kETX = 0x03"
definition kMatchIdxETX :: nat where "kMatchIdxETX = 0"
definition kMatchIdxACK :: nat where "kMatchIdxACK = 1"
definition kMatchIdxNAK :: nat where "kMatchIdxNAK = 2"
definition kFrameTimeoutBits :: nat where "kFrameTimeoutBits = 240"

definition init_peripheral :: "u32 \<Rightarrow> u32 \<Rightarrow> UarteHw \<Rightarrow> UarteHw" where
  "init_peripheral txPin rxPin hw =
     hw\<lparr>hw_enabled := False, hw_txHigh := True, hw_pins := Some (txPin, rxPin),
        hw_baudrate := 2400, hw_hwfc := False, hw_parity := True, hw_twoStopBits := True,
        hw_frameTimeoutEn := True, hw_frameTimeout := kFrameTimeoutBits, hw_shortTimeoutStopRx := True,
        hw_candidate := (hw_candidate hw)(kMatchIdxETX := kETX, kMatchIdxACK := kACK, kMatchIdxNAK := kNAK)\<rparr>"

definition wire_channels_A_B :: "u8 \<Rightarrow> u8 \<Rightarrow> UarteHw \<Rightarrow> UarteHw" where
  "wire_channels_A_B cA cB hw =
     hw\<lparr>hw_publish := (hw_publish hw)(ENDTX \<mapsto> cA, MATCH kMatchIdxETX \<mapsto> cB, MATCH kMatchIdxACK \<mapsto> cB,
          MATCH kMatchIdxNAK \<mapsto> cB, COMPARE0 \<mapsto> cB),
        hw_subscribe := (hw_subscribe hw)(STARTRX \<mapsto> cA, STOPRX \<mapsto> cB, TIMER_START \<mapsto> cA),
        hw_channels := cB # cA # hw_channels hw,
        hw_prescaler := 4, hw_cc0 := 200000, hw_timerOneShot := True\<rparr>"

definition wire_channel_C :: "u8 \<Rightarrow> UarteHw \<Rightarrow> UarteHw" where
  "wire_channel_C cC hw =
     hw\<lparr>hw_publish := (hw_publish hw)(ENDRX \<mapsto> cC), hw_subscribe := (hw_subscribe hw)(TIMER_STOP \<mapsto> cC),
        hw_channels := cC # hw_channels hw\<rparr>"

definition enable_irq_and_uarte :: "UarteHw \<Rightarrow> UarteHw" where
  "enable_irq_and_uarte hw =
     hw\<lparr>hw_intEndrx := True, hw_intError := True, hw_intFrameTimeout := True, hw_irq := True,
        hw_enabled := True\<rparr>"

definition uart_init ::
  "'g Gppi \<Rightarrow> u32 \<Rightarrow> u32 \<Rightarrow> S21DataLinkUart \<Rightarrow> 'g \<Rightarrow> int \<times> S21DataLinkUart \<times> 'g" where
  "uart_init G txPin rxPin d g =
     (let d = d\<lparr>dlu_uart := (dlu_uart d)\<lparr>m_rxMsgq := []\<rparr>\<rparr>;
          d = d\<lparr>dlu_hw := init_peripheral txPin rxPin (dlu_hw d)\<rparr>;
          d = d\<lparr>dlu_uart := configureMatch False False False (dlu_uart d)\<rparr>;
          (ch, g) = gppi_channel_alloc G g
      in if ch < 0 then (ch, d, g)
         else
           let d = d\<lparr>mGppiChTxRx := to_u8 ch\<rparr>;
               (ch, g) = gppi_channel_alloc G g
           in if ch < 0 then (ch, d, gppi_channel_free G (mGppiChTxRx d) g)
              else
                let d = d\<lparr>mGppiChMatchOrTimeout := to_u8 ch\<rparr>;
                    d = d\<lparr>dlu_hw := wire_channels_A_B (mGppiChTxRx d) (mGppiChMatchOrTimeout d) (dlu_hw d)\<rparr>;
                    (ch, g) = gppi_channel_alloc G g
                in if ch < 0
                   then (ch, d, gppi_channel_free G (mGppiChMatchOrTimeout d)
                                  (gppi_channel_free G (mGppiChTxRx d) g))
                   else
                     let d = d\<lparr>mGppiChEndrxTimer := to_u8 ch\<rparr>;
                         d = d\<lparr>dlu_hw := wire_channel_C (mGppiChEndrxTimer d) (dlu_hw d)\<rparr>;
                         d = d\<lparr>dlu_hw := enable_irq_and_uarte (dlu_hw d)\<rparr>
                     in (0, d, g))"

section \<open>Pins and the stack\<close>

definition UINT32_MAX :: u32 where "UINT32_MAX = 0xFFFFFFFF"

definition S21_PSEL_GET_PIN :: "u32 \<Rightarrow> u32" where
  "S21_PSEL_GET_PIN psel = psel AND 0x1FF"

definition S21_PSEL_GET_FUN :: "u32 \<Rightarrow> u32" where
  "S21_PSEL_GET_FUN psel = drop_bit 24 psel AND 0xFF"

fun pinForFun :: "u32 list \<Rightarrow> u32 \<Rightarrow> u32" where
  "pinForFun [] fn = UINT32_MAX"
| "pinForFun (psel # psels) fn =
     (if S21_PSEL_GET_FUN psel = fn then S21_PSEL_GET_PIN psel else pinForFun psels fn)"

definition S21Stack_Init ::
  "'g Gppi \<Rightarrow> u32 list \<Rightarrow> u32 \<Rightarrow> u32 \<Rightarrow> S21DataLinkUart \<Rightarrow> 'g \<Rightarrow> int \<times> S21DataLinkUart \<times> 'g" where
  "S21Stack_Init G kPsels funTx funRx d g =
     (let (err, d, g) = uart_init G (pinForFun kPsels funTx) (pinForFun kPsels funRx) d g
      in if err \<noteq> 0 then (err, d, g) else (0, d, g))"

section \<open>What the hardware does with the wiring\<close>

definition triggers :: "UarteHw \<Rightarrow> HwEvent \<Rightarrow> HwTask \<Rightarrow> bool" where
  "triggers hw ev task =
     (case (hw_publish hw ev, hw_subscribe hw task) of
        (Some a, Some b) \<Rightarrow> a = b \<and> a \<in> set (hw_channels hw)
      | _ \<Rightarrow> False)"

text \<open>
  The allocator hands out a channel that is not in use, or a negative error and nothing
  changes; freeing returns a channel.
\<close>

definition gppi_contract :: "'g Gppi \<Rightarrow> ('g \<Rightarrow> u8 set) \<Rightarrow> bool" where
  "gppi_contract G used =
     ((\<forall>g ch g'. gppi_channel_alloc G g = (ch, g') \<longrightarrow>
         (if ch < 0 then used g' = used g
          else ch < 256 \<and> to_u8 ch \<notin> used g \<and> used g' = insert (to_u8 ch) (used g)))
      \<and> (\<forall>c g. used (gppi_channel_free G c g) = used g - {c}))"

lemma gppi_alloc:
  assumes "gppi_contract G used" and "gppi_channel_alloc G g = (ch, g')"
  shows "ch < 0 \<Longrightarrow> used g' = used g"
    and "\<not> ch < 0 \<Longrightarrow> to_u8 ch \<notin> used g \<and> used g' = insert (to_u8 ch) (used g)"
  using assms by (fastforce simp: gppi_contract_def)+

lemma gppi_free: "gppi_contract G used \<Longrightarrow> used (gppi_channel_free G c g) = used g - {c}"
  by (simp add: gppi_contract_def)

text \<open>What successive allocations answer: the channel, or the error code of that step.\<close>

primrec allocations :: "'g Gppi \<Rightarrow> nat \<Rightarrow> 'g \<Rightarrow> int list" where
  "allocations G 0 g = []"
| "allocations G (Suc n) g =
     (case gppi_channel_alloc G g of (ch, g') \<Rightarrow> ch # (if ch < 0 then [] else allocations G n g'))"

definition unwired :: "UarteHw \<Rightarrow> bool" where
  "unwired hw = (hw_publish hw = Map.empty \<and> hw_subscribe hw = Map.empty \<and> hw_channels hw = []
     \<and> \<not> hw_enabled hw \<and> \<not> hw_irq hw)"

definition link_wiring :: "HwEvent \<Rightarrow> HwTask \<Rightarrow> bool" where
  "link_wiring ev task =
     (case task of
        STARTRX \<Rightarrow> ev = ENDTX
      | TIMER_START \<Rightarrow> ev = ENDTX
      | STOPRX \<Rightarrow> ev = COMPARE0 \<or> ev = MATCH kMatchIdxETX \<or> ev = MATCH kMatchIdxACK \<or> ev = MATCH kMatchIdxNAK
      | TIMER_STOP \<Rightarrow> ev = ENDRX)"

lemmas init_defs = init_peripheral_def wire_channels_A_B_def wire_channel_C_def enable_irq_and_uarte_def

lemma wiring_exact:
  assumes "unwired hw" and "distinct [a, b, c]"
  shows "triggers (enable_irq_and_uarte (wire_channel_C c (wire_channels_A_B a b (init_peripheral t r hw)))) ev task
     = link_wiring ev task"
  using assms by (cases ev; cases task)
    (auto simp: init_defs triggers_def link_wiring_def unwired_def kMatchIdxETX_def kMatchIdxACK_def kMatchIdxNAK_def)

section \<open>Properties\<close>

text \<open>
  C33. The link comes up completely or gives everything back. From unwired hardware, with an
  allocator that hands out free channels: initialisation asks for three channels, stopping at the first refusal, and reports
  that refusal's own error code, or 0 when there was none. When it
  reports 0, the three channels allocated are held and differ; the wiring is exactly end of transmission to
  start of reception and of the watchdog, end of reception to stop of the watchdog, and
  each of the three match bytes and the watchdog to stop of reception; the match bytes are
  ETX, ACK and NAK with none armed; the watchdog is 200 ms of the 16 MHz clock; and the
  interrupt and the peripheral are on. When it reports an error, every channel taken has
  been returned and neither the interrupt nor the peripheral is on.
\<close>

theorem uart_init_all_or_nothing:
  assumes G: "gppi_contract G used" and hw: "unwired (dlu_hw d)"
    and init: "uart_init G tx rx d g = (err, d', g')"
  shows "err = (case find (\<lambda>ch. ch < 0) (allocations G 3 g) of Some e \<Rightarrow> e | None \<Rightarrow> 0)
    \<and> err \<le> 0
    \<and> (err = 0 \<longrightarrow>
        map to_u8 (allocations G 3 g) = [mGppiChTxRx d', mGppiChMatchOrTimeout d', mGppiChEndrxTimer d']
      \<and> distinct [mGppiChTxRx d', mGppiChMatchOrTimeout d', mGppiChEndrxTimer d']
      \<and> used g' = used g \<union> {mGppiChTxRx d', mGppiChMatchOrTimeout d', mGppiChEndrxTimer d'}
      \<and> triggers (dlu_hw d') = link_wiring
      \<and> map (hw_candidate (dlu_hw d')) [0, 1, 2] = [0x03, 0x06, 0x15] \<and> matchConfig (dlu_uart d') = 0
      \<and> hw_cc0 (dlu_hw d') * 2 ^ hw_prescaler (dlu_hw d') = 200 * 16000
      \<and> hw_irq (dlu_hw d') \<and> hw_enabled (dlu_hw d') \<and> hw_pins (dlu_hw d') = Some (tx, rx))
    \<and> (err < 0 \<longrightarrow> used g' = used g \<and> \<not> hw_irq (dlu_hw d') \<and> \<not> hw_enabled (dlu_hw d'))"
proof -
  obtain c1 g1 where c1: "gppi_channel_alloc G g = (c1, g1)" by fastforce
  obtain c2 g2 where c2: "gppi_channel_alloc G g1 = (c2, g2)" by fastforce
  obtain c3 g3 where c3: "gppi_channel_alloc G g2 = (c3, g3)" by fastforce
  note a = gppi_alloc [OF G c1] gppi_alloc [OF G c2] gppi_alloc [OF G c3]
  have off: "\<not> hw_irq (dlu_hw d)" using hw by (simp add: unwired_def)
  note al = numeral_3_eq_3 c1 c2 c3
  consider (one) "c1 < 0" | (two) "\<not> c1 < 0" "c2 < 0" | (three) "\<not> c1 < 0" "\<not> c2 < 0" "c3 < 0"
    | (ok) "\<not> c1 < 0" "\<not> c2 < 0" "\<not> c3 < 0" by blast
  then show ?thesis
  proof cases
    case one
    then show ?thesis using init a(1) off by (auto simp: uart_init_def al init_defs)
  next
    case two
    then have "used (gppi_channel_free G (to_u8 c1) g2) = used g"
      using a(2) a(3) by (auto simp: gppi_free [OF G])
    then show ?thesis using two init off by (auto simp: uart_init_def al init_defs)
  next
    case three
    then have "used (gppi_channel_free G (to_u8 c2) (gppi_channel_free G (to_u8 c1) g3)) = used g"
      using a(2) a(4) a(5) by (auto simp: gppi_free [OF G])
    then show ?thesis using three init off by (auto simp: uart_init_def al init_defs)
  next
    case ok
    let ?hw = "enable_irq_and_uarte (wire_channel_C (to_u8 c3)
        (wire_channels_A_B (to_u8 c1) (to_u8 c2) (init_peripheral tx rx (dlu_hw d))))"
    have dist: "distinct [to_u8 c1, to_u8 c2, to_u8 c3]"
      and used: "used g3 = used g \<union> {to_u8 c1, to_u8 c2, to_u8 c3}"
      using ok a(2) a(4) a(6) by auto
    have d': "err = 0" "g' = g3" "dlu_hw d' = ?hw" "mGppiChTxRx d' = to_u8 c1"
        "mGppiChMatchOrTimeout d' = to_u8 c2" "mGppiChEndrxTimer d' = to_u8 c3" "matchConfig (dlu_uart d') = 0"
      using ok init by (auto simp: uart_init_def c1 c2 c3 configureMatch_def)
    have "triggers (dlu_hw d') = link_wiring"
      unfolding d'(3) using wiring_exact [OF hw dist] by (intro ext)
    then show ?thesis
      using dist used ok by (simp add: d' al init_defs kMatchIdxETX_def kMatchIdxACK_def kMatchIdxNAK_def
          kETX_def kACK_def kNAK_def)
  qed
qed

definition freshHw :: UarteHw where
  "freshHw =
     \<lparr>hw_enabled = False, hw_txHigh = False, hw_pins = None, hw_baudrate = 0, hw_hwfc = False, hw_parity = False,
      hw_twoStopBits = False, hw_frameTimeoutEn = False, hw_frameTimeout = 0, hw_shortTimeoutStopRx = False,
      hw_candidate = (\<lambda>_. 0), hw_publish = Map.empty, hw_subscribe = Map.empty, hw_channels = [],
      hw_prescaler = 0, hw_cc0 = 0, hw_timerOneShot = False, hw_intEndrx = False, hw_intError = False,
      hw_intFrameTimeout = False, hw_irq = False\<rparr>"

definition freshLink :: S21DataLinkUart where
  "freshLink = \<lparr>dlu_uart = S21DataLinkUart_new, dlu_hw = freshHw, mGppiChTxRx = 0,
     mGppiChMatchOrTimeout = 0, mGppiChEndrxTimer = 0\<rparr>"

definition listGppi :: "int list \<Rightarrow> (u8 list) Gppi" where
  "listGppi supply =
     \<lparr>gppi_channel_alloc = (\<lambda>l. case filter (\<lambda>c. to_u8 c \<notin> set l) supply of
          [] \<Rightarrow> (- 12, l) | c # cs \<Rightarrow> (c, to_u8 c # l)),
      gppi_channel_free = removeAll\<rparr>"

lemma listGppi_alloc:
  assumes "list_all (\<lambda>c. 0 \<le> c \<and> c < 256) supply"
    and "gppi_channel_alloc (listGppi supply) l = (ch, l')"
  shows "if ch < 0 then set l' = set l
         else ch < 256 \<and> to_u8 ch \<notin> set l \<and> set l' = insert (to_u8 ch) (set l)"
proof (cases "filter (\<lambda>c. to_u8 c \<notin> set l) supply")
  case Nil
  then show ?thesis using assms(2) by (simp add: listGppi_def)
next
  case (Cons c cs)
  then have "c \<in> set (filter (\<lambda>c. to_u8 c \<notin> set l) supply)" by simp
  then have "0 \<le> c" "c < 256" "to_u8 c \<notin> set l" using assms(1) by (simp_all add: list_all_iff)
  moreover have "ch = c" "l' = to_u8 c # l" using assms(2) Cons by (auto simp: listGppi_def)
  ultimately show ?thesis by simp
qed

lemma listGppi_contract:
  assumes "list_all (\<lambda>c. 0 \<le> c \<and> c < 256) supply"
  shows "gppi_contract (listGppi supply) set"
  unfolding gppi_contract_def
proof (intro conjI allI impI)
  show "set (gppi_channel_free (listGppi supply) c l) = set l - {c}" for c l by (simp add: listGppi_def)
qed (rule listGppi_alloc [OF assms])

theorem uart_init_all_or_nothing_witness:
  "triggers (dlu_hw (fst (snd (uart_init (listGppi [4, 5, 6]) 40 41 freshLink [])))) = link_wiring
   \<and> fst (uart_init (listGppi [4, 5]) 40 41 freshLink []) = - 12"
proof -
  have u: "unwired (dlu_hw freshLink)" by (simp add: unwired_def freshLink_def freshHw_def)
  obtain err d g where i: "uart_init (listGppi [4, 5, 6]) 40 41 freshLink [] = (err, d, g)" by (metis prod_cases3)
  obtain err' d' g' where j: "uart_init (listGppi [4, 5]) 40 41 freshLink [] = (err', d', g')" by (metis prod_cases3)
  have a: "allocations (listGppi [4, 5, 6]) 3 [] = [4, 5, 6]" "allocations (listGppi [4, 5]) 3 [] = [4, 5, - 12]"
    by (simp_all add: numeral_3_eq_3 listGppi_def)
  show ?thesis
    using uart_init_all_or_nothing [OF listGppi_contract [of "[4, 5, 6]"] u i]
      uart_init_all_or_nothing [OF listGppi_contract [of "[4, 5]"] u j]
    by (simp add: i j a)
qed

text \<open>
  A failed initialisation leaves the channels it returned wired. When the third channel
  cannot be had, the first two are given back to the allocator, yet end of transmission still
  starts reception and the watchdog through the first, and the match bytes and the watchdog
  still stop reception through the second.
\<close>

theorem failed_init_leaves_freed_channels_wired:
  assumes G: "gppi_contract G used" and hw: "unwired (dlu_hw d)"
    and c1: "gppi_channel_alloc G g = (c1, g1)" "0 \<le> c1" and c2: "gppi_channel_alloc G g1 = (c2, g2)" "0 \<le> c2"
    and c3: "gppi_channel_alloc G g2 = (c3, g3)" "c3 < 0"
  shows "let (err, d', g') = uart_init G tx rx d g
    in err = c3 \<and> triggers (dlu_hw d') ENDTX STARTRX \<and> triggers (dlu_hw d') COMPARE0 STOPRX
     \<and> mGppiChTxRx d' \<in> set (hw_channels (dlu_hw d')) - used g'
     \<and> mGppiChMatchOrTimeout d' \<in> set (hw_channels (dlu_hw d')) - used g'"
proof -
  have "to_u8 c1 \<notin> used g" "to_u8 c2 \<notin> used g" "used g3 = used g \<union> {to_u8 c1, to_u8 c2}" "to_u8 c1 \<noteq> to_u8 c2"
    using gppi_alloc [OF G c1(1)] gppi_alloc [OF G c2(1)] gppi_alloc [OF G c3(1)] c1(2) c2(2) c3(2) by auto
  then show ?thesis
    using c1 c2 c3 by (simp add: uart_init_def init_defs triggers_def gppi_free [OF G]
        kMatchIdxETX_def kMatchIdxACK_def kMatchIdxNAK_def)
qed

theorem failed_init_leaves_freed_channels_wired_witness:
  "triggers (dlu_hw (fst (snd (uart_init (listGppi [4, 5]) 40 41 freshLink [])))) ENDTX STARTRX"
proof -
  have "unwired (dlu_hw freshLink)" by (simp add: unwired_def freshLink_def freshHw_def)
  from failed_init_leaves_freed_channels_wired [OF listGppi_contract [of "[4, 5]"] this,
      of "[]" 4 "[4]" 5 "[5, 4]" "- 12" "[5, 4]" 40 41]
  show ?thesis by (simp add: listGppi_def Let_def case_prod_beta)
qed

text \<open>
  The pin search finds a pin exactly when some entry has the function, so the compile-time
  assertions on \<open>UINT32_MAX\<close> test what they mean to; the pin found is below 512 and is that of the
  first such entry.
\<close>

lemma psel_pin_bound: "S21_PSEL_GET_PIN psel \<le> 0x1FF"
  unfolding S21_PSEL_GET_PIN_def by (rule word_and_le1)

lemma pinForFun_found:
  "pinForFun psels fn \<noteq> UINT32_MAX \<longleftrightarrow> (\<exists>psel \<in> set psels. S21_PSEL_GET_FUN psel = fn)"
proof (induction psels)
  case (Cons psel psels)
  have "S21_PSEL_GET_PIN psel \<noteq> UINT32_MAX"
    using psel_pin_bound [of psel] by (auto simp: UINT32_MAX_def)
  with Cons show ?case by auto
qed simp

end
