(* ===== verification/App_Task.thy ===== *)
theory App_Task
  imports Event_Loop S21_Uart_Init
begin

text \<open>
  Start-up (\<open>app_task.cpp\<close>, \<open>app_task.h\<close>, \<open>main.cpp\<close>). The Matter server, the board support and the
  identify cluster are not part of this repository: what they answer is a parameter, the
  record \<open>AppEnv\<close>, as is the mapping of Zephyr error numbers. The callback run once the Matter
  server is initialised joins the coordinator and the air-conditioner manager.
\<close>

record AppEnv =
  env_MapErrorZephyr :: "int \<Rightarrow> ChipError"
  env_PrepareServer :: ChipError
  env_BoardInit :: bool
  env_RegisterEventHandler :: ChipError
  env_IdentifyInit :: ChipError
  env_StartServer :: ChipError

datatype AppStep = StackInit | PrepareServer | BoardInit | RegisterEventHandler | IdentifyInit
  | ThreadStatusTimer int | StartServer

definition kThreadStatusIntervalMs :: int where "kThreadStatusIntervalMs = 30000"

definition postServerInit ::
  "'p S21PresentationSync \<Rightarrow> 'w Registry \<Rightarrow> bool \<Rightarrow> int \<Rightarrow> S21Manager \<Rightarrow> SyncCoordinator \<Rightarrow> 'w
    \<Rightarrow> 'p AirConditionerManager \<Rightarrow> (ChipError \<times> 'p AirConditionerManager \<times> SyncCoordinator \<times> 'w) option" where
  "postServerInit P R ready rc s21 c w a =
     (let (err, c, w) = Init R 1 c w in
      if err \<noteq> CHIP_NO_ERROR then Some (err, a, c, w)
      else map_option (\<lambda>(err, a). (err, a, mSyncCoordinator a, w)) (acm_Init P ready rc s21 c a))"

definition AppTask_Init :: "AppEnv \<Rightarrow> int \<Rightarrow> ChipError \<times> AppStep list" where
  "AppTask_Init env stackErr =
     (if stackErr \<noteq> 0 then (env_MapErrorZephyr env stackErr, [StackInit])
      else if env_PrepareServer env \<noteq> CHIP_NO_ERROR then (env_PrepareServer env, [StackInit, PrepareServer])
      else if \<not> env_BoardInit env then (CHIP_ERROR_INCORRECT_STATE, [StackInit, PrepareServer, BoardInit])
      else if env_RegisterEventHandler env \<noteq> CHIP_NO_ERROR
        then (env_RegisterEventHandler env, [StackInit, PrepareServer, BoardInit, RegisterEventHandler])
      else if env_IdentifyInit env \<noteq> CHIP_NO_ERROR
        then (env_IdentifyInit env, [StackInit, PrepareServer, BoardInit, RegisterEventHandler, IdentifyInit])
      else (env_StartServer env,
            [StackInit, PrepareServer, BoardInit, RegisterEventHandler, IdentifyInit,
             ThreadStatusTimer kThreadStatusIntervalMs, StartServer]))"

text \<open>\<open>None\<close>: the dispatch loop, which never ends.\<close>

definition StartApp :: "AppEnv \<Rightarrow> int \<Rightarrow> ChipError option" where
  "StartApp env stackErr =
     (let (err, steps) = AppTask_Init env stackErr in if err \<noteq> CHIP_NO_ERROR then Some err else None)"

definition main_exit :: "AppEnv \<Rightarrow> int \<Rightarrow> int option" where
  "main_exit env stackErr = map_option (\<lambda>err. if err = CHIP_NO_ERROR then 0 else 1) (StartApp env stackErr)"

datatype TemperatureButtonAction = Pushed | Released

definition ButtonEventHandler :: "u32 \<Rightarrow> u32 \<Rightarrow> u32 \<Rightarrow> TemperatureButtonAction option" where
  "ButtonEventHandler buttonMask state hasChanged =
     (if buttonMask AND hasChanged \<noteq> 0
      then Some (if buttonMask AND state \<noteq> 0 then Pushed else Released) else None)"

definition ThermostatHandler :: "TemperatureButtonAction \<Rightarrow> 'p AirConditionerManager \<Rightarrow> LogLine list option" where
  "ThermostatHandler action a = (if action = Pushed then LogThermostatStatus a else Some [])"

text \<open>The Thread parent's average and last RSSI, each \<open>None\<close> when its query fails.\<close>

definition ThreadStatusTimerHandler :: "bool \<Rightarrow> int option \<Rightarrow> int option \<Rightarrow> (int \<times> int) option" where
  "ThreadStatusTimerHandler haveInstance avgRssi lastRssi =
     (if \<not> haveInstance then None
      else case (avgRssi, lastRssi) of (Some a, Some l) \<Rightarrow> Some (a, l) | _ \<Rightarrow> None)"

section \<open>Properties\<close>

text \<open>
  The server is started only behind every other step, and the program ends only with a failure: the
  success exit of \<open>main\<close> is never taken.
\<close>

lemma server_started_last:
  "StartServer \<in> set (snd (AppTask_Init env stackErr)) \<longleftrightarrow>
     stackErr = 0 \<and> env_PrepareServer env = CHIP_NO_ERROR \<and> env_BoardInit env
       \<and> env_RegisterEventHandler env = CHIP_NO_ERROR \<and> env_IdentifyInit env = CHIP_NO_ERROR"
  by (simp add: AppTask_Init_def)

lemma main_exit_is_failure: "main_exit env stackErr \<in> {None, Some 1}"
  by (auto simp: main_exit_def StartApp_def split: prod.split)

lemma main_runs_iff:
  "main_exit env stackErr = None \<longleftrightarrow> fst (AppTask_Init env stackErr) = CHIP_NO_ERROR"
  by (auto simp: main_exit_def StartApp_def split: prod.split)

lemma boot_power_off: "readOnOff (BridgeKernel_new cfg) = False"
  by (simp add: readOnOff_def projectedOnOff_def projectedValue_def BridgeKernel_new_def Reconciler_new_def
      LogicalACState_new_def LogicalACStateDefaults_default_def TwinField_new_def)

lemma Init_fresh:
  assumes "Init R e SyncCoordinator_new w = (err, c, w')"
  shows "err = CHIP_NO_ERROR \<Longrightarrow> mKernel c = Some (BridgeKernel_new ReconcilerConfig_default)
      \<and> mPublisher c = ChangePublisher_new \<and> mInitialised c"
    and "err \<noteq> CHIP_NO_ERROR \<Longrightarrow> err = CHIP_ERROR_INTERNAL \<and> mKernel c = None"
  using assms by (auto simp: Init_def SyncCoordinator_new_def Let_def split: prod.splits if_splits)

lemma acm_Init_manager_only:
  "acm_Init P ready rc s21 c (AirConditionerManager_new m c0 p) = acm_Init P ready rc s21 c (AirConditionerManager_new s21 c p)"
  by (simp add: acm_Init_def AirConditionerManager_new_def)

lemma acm_Init_effect:
  assumes "mKernel c = Some k" and "mPublisher c = ChangePublisher_new"
  shows "\<exists>err a'. acm_Init P ready rc s21 c (AirConditionerManager_new m c0 p) = Some (err, a')
    \<and> (err = CHIP_NO_ERROR \<longrightarrow>
         mSyncCoordinator a' = c\<lparr>mPublisher := \<lparr>mListeners = [mMatterAttributeChangeReporter, mPowerIndicator],
                                          mPump = Some ScheduleS21CommandHandlerFn\<rparr>\<rparr>
       \<and> led0 a' = Some (readOnOff k))"
  using assms
  by (auto simp: acm_Init_eval ENODEV_def setS21_def Let_def split: prod.splits)

text \<open>
  C25. Start-up brings up a running bridge or reports an error, and never reaches through an
  absent kernel. From a fresh coordinator and manager the callback is always defined: if the
  coordinator cannot install its handlers the manager is not touched. When it reports
  success the manager is in a start state of the event loop, its coordinator is
  initialised, with the pump handler and both listeners registered in order, and LED0 shows the
  power the bridge boots with, off.
\<close>

theorem startup_brings_up_bridge:
  "\<exists>err a' c' w'. postServerInit P R ready rc s21 SyncCoordinator_new w
        (AirConditionerManager_new s21 SyncCoordinator_new p) = Some (err, a', c', w')
    \<and> (fst (Init R 1 SyncCoordinator_new w) \<noteq> CHIP_NO_ERROR \<longrightarrow>
         err = CHIP_ERROR_INTERNAL \<and> a' = AirConditionerManager_new s21 SyncCoordinator_new p \<and> mKernel c' = None)
    \<and> (err = CHIP_NO_ERROR \<longrightarrow>
         acm_start a' \<and> mSyncCoordinator a' = c' \<and> mInitialised c'
       \<and> mPublisher c' = \<lparr>mListeners = [mMatterAttributeChangeReporter, mPowerIndicator],
                          mPump = Some ScheduleS21CommandHandlerFn\<rparr>
       \<and> led0 a' = Some False \<and> ReadOnOff c' = Some False)"
proof -
  obtain e c w1 where i: "Init R 1 SyncCoordinator_new w = (e, c, w1)" by (metis prod_cases3)
  show ?thesis
  proof (cases "e = CHIP_NO_ERROR")
    case False
    then show ?thesis using i Init_fresh(2) [OF i] by (simp add: postServerInit_def)
  next
    case True
    note c = Init_fresh(1) [OF i True]
    obtain err a' where a': "acm_Init P ready rc s21 c (AirConditionerManager_new s21 SyncCoordinator_new p) = Some (err, a')"
        "err = CHIP_NO_ERROR \<longrightarrow> mSyncCoordinator a' = c\<lparr>mPublisher := \<lparr>mListeners = [0, 1], mPump = Some 0\<rparr>\<rparr>
           \<and> led0 a' = Some False"
      using acm_Init_effect [of c "BridgeKernel_new ReconcilerConfig_default" P ready rc s21 s21 SyncCoordinator_new p] c
      by (auto simp: boot_power_off)
    then have "err = CHIP_NO_ERROR \<longrightarrow> acm_start a'"
      unfolding acm_Init_manager_only [of P ready rc s21 c s21 SyncCoordinator_new p] acm_start_def
      using c kernel_reach_new by (metis option.pred_inject(2))
    with a' show ?thesis
      using i True c by (auto simp: postServerInit_def ReadOnOff_def boot_power_off)
  qed
qed

lemma example_startup_succeeds:
  "\<exists>a' c' w'. postServerInit echoPresentation (list_registry 5) True 0 (S21Manager_new 5000) SyncCoordinator_new
       ([SdkAai 7], []) (AirConditionerManager_new (S21Manager_new 5000) SyncCoordinator_new
          ((False, OperatingMode.Auto, 2200, FanMode.Low), 1000))
     = Some (CHIP_NO_ERROR, a', c', w')"
proof -
  obtain w where i: "Init (list_registry 5) 1 SyncCoordinator_new ([SdkAai 7], []) = (CHIP_NO_ERROR, initialisedCoordinator, w)"
    using initialisedCoordinator_eval by blast
  have "\<exists>a. acm_Init echoPresentation True 0 (S21Manager_new 5000) initialisedCoordinator
     (AirConditionerManager_new (S21Manager_new 5000) SyncCoordinator_new
        ((False, OperatingMode.Auto, 2200, FanMode.Low), 1000)) = Some (CHIP_NO_ERROR, a)"
    by (simp add: acm_Init_eval Let_def split: prod.split)
  with i show ?thesis by (auto simp: postServerInit_def)
qed

theorem startup_brings_up_bridge_witness:
  "\<exists>a' c' w'. postServerInit echoPresentation (list_registry 5) True 0 (S21Manager_new 5000) SyncCoordinator_new
       ([SdkAai 7], []) (AirConditionerManager_new (S21Manager_new 5000) SyncCoordinator_new
          ((False, OperatingMode.Auto, 2200, FanMode.Low), 1000))
     = Some (CHIP_NO_ERROR, a', c', w') \<and> acm_start a' \<and> ReadOnOff c' = Some False"
  using startup_brings_up_bridge [of echoPresentation "list_registry 5" True 0 "S21Manager_new 5000" "([SdkAai 7], [])"
      "((False, OperatingMode.Auto, 2200, FanMode.Low), 1000)"] example_startup_succeeds
  by auto

end
