(* ===== verification/S21_Wire.thy ===== *)
theory S21_Wire
  imports S21_Datalink_Uart S21_Sync_Adapter
begin

text \<open>
  The whole S21 stack down to the bytes on the wire. The UART data link, run over one exchange
  with the unit, is an instance of the asynchronous data-link interface the presentation
  layer is written against (\<open>s21/s21_datalink.h\<close>). The unit is a parameter: a function from its
  state and the frame it receives to the bytes it sends back. The receiver stores bytes until
  one of the match bytes the source arms, or a full buffer, stops it; without either the
  watchdog does.
\<close>

section \<open>One exchange\<close>

definition matches :: "u32 \<Rightarrow> u8 \<Rightarrow> bool" where
  "matches cfg b = (cfg AND 1 \<noteq> 0 \<and> b = 0x03 \<or> cfg AND 2 \<noteq> 0 \<and> b = kACK \<or> cfg AND 4 \<noteq> 0 \<and> b = kNAK)"

text \<open>The bytes stored, and whether a match or the end of the buffer stopped the receiver.\<close>

fun receive :: "u32 \<Rightarrow> nat \<Rightarrow> bytes \<Rightarrow> bytes \<times> bool" where
  "receive cfg 0 bs = ([], True)"
| "receive cfg (Suc n) [] = ([], False)"
| "receive cfg (Suc n) (b # bs) =
     (if matches cfg b then ([b], True) else map_prod (Cons b) id (receive cfg n bs))"

definition wire_receives :: "bytes \<Rightarrow> Uart \<Rightarrow> Uart" where
  "wire_receives bs u =
     (let (buf, stopped) = receive (matchConfig u) kBufSize bs
      in u\<lparr>m_rxBuf := buf, ev_ENDRX := True, compare0 := \<not> stopped,
           ev_MATCH_NAK := (stopped \<and> buf \<noteq> [] \<and> last buf = kNAK)\<rparr>)"

definition exchange :: "('d \<Rightarrow> bytes \<Rightarrow> bytes \<times> 'd) \<Rightarrow> Uart \<Rightarrow> 'd \<Rightarrow> Uart \<times> 'd" where
  "exchange dev u d =
     (case starting u of
        None \<Rightarrow> (u, d)
      | Some (enc, etx, ack) \<Rightarrow>
          (let u = (startTransaction enc etx ack u)\<lparr>starting := None\<rparr>;
               (bs, d) = dev d (m_txBuf u)
           in (deliver (wire_receives bs u), d)))"

definition uart_send :: "('d \<Rightarrow> bytes \<Rightarrow> bytes \<times> 'd) \<Rightarrow> bytes \<Rightarrow> Uart \<times> 'd
    \<Rightarrow> (unit, S21DataLinkError) expected \<times> Uart \<times> 'd" where
  "uart_send dev p ud =
     (let (u, d) = ud;
          u' = send_claim p (length (accepted u)) u
      in if m_opType u \<noteq> OpNone then (Inl Busy, u', d)
         else (let (v, d) = exchange dev u' d
               in (case snd (last (fired v)) of Sent r \<Rightarrow> r | Received _ \<Rightarrow> Inl UartError, v, d)))"

definition uart_transact :: "('d \<Rightarrow> bytes \<Rightarrow> bytes \<times> 'd) \<Rightarrow> bytes \<Rightarrow> Uart \<times> 'd
    \<Rightarrow> (bytes, S21DataLinkError) expected \<times> Uart \<times> 'd" where
  "uart_transact dev p ud =
     (let (u, d) = ud;
          u' = transact_claim p (length (accepted u)) u
      in if m_opType u \<noteq> OpNone then (Inl Busy, u', d)
         else (let (v, d) = exchange dev u' d
               in (case snd (last (fired v)) of Received r \<Rightarrow> r | Sent _ \<Rightarrow> Inl UartError, v, d)))"

definition UartLink :: "('d \<Rightarrow> bytes \<Rightarrow> bytes \<times> 'd) \<Rightarrow> (Uart \<times> 'd) S21DataLink" where
  "UartLink dev = \<lparr>dl_send = uart_send dev, dl_transact = uart_transact dev\<rparr>"

section \<open>Every exchange is a run of the link\<close>

abbreviation link_free :: "Uart \<Rightarrow> bool" where
  "link_free u \<equiv> uart_reach True u \<and> \<not> outstanding u"

lemma peripheral_wire: "peripheral u (wire_receives bs u)"
  unfolding peripheral_def wire_receives_def
  by (cases "receive (matchConfig u) kBufSize bs") (intro exI, rule Uart.equality; simp)

lemma received_wire:
  "received (wire_receives bs u) =
     \<lparr>rx_data = fst (receive (matchConfig u) kBufSize bs),
      rx_status = (if snd (receive (matchConfig u) kBufSize bs) \<and> \<not> ev_FRAME_TIMEOUT u then RxOk else RxTimeout)\<rparr>"
  by (cases "receive (matchConfig u) kBufSize bs") (simp add: received_def wire_receives_def)

lemma exchange_run:
  assumes reach: "uart_reach True u" and start: "starting u = Some (enc, etx, ack)"
    and dev: "dev d (take kBufSize enc) = (bs, d')"
  defines "r \<equiv> receive (matchConfig (startTransaction enc etx ack u)) kBufSize bs"
  shows "\<exists>v cb. exchange dev u d = (v, d') \<and> link_free v
    \<and> fired v = fired u @ [(cb, let rx = \<lparr>rx_data = fst r, rx_status = (if snd r then RxOk else RxTimeout)\<rparr> in
         if m_opType u = Send then Sent (sendResult rx) else Received (transactResult rx))]"
proof -
  let ?s = "(startTransaction enc etx ack u)\<lparr>starting := None\<rparr>"
  let ?w = "wire_receives bs ?s"
  have tx: "m_txBuf ?s = take kBufSize enc" by (simp add: startTransaction_def Let_def)
  have "uart_reach True ?s" using reach start by (auto intro: reach_step uart_step.start)
  then have w: "uart_reach True ?w" by (rule reach_step) (rule uart_step.hw, rule peripheral_wire)
  have f: "m_isrState ?w = WaitingRx" "ev_ENDRX ?w" "m_opType ?w = m_opType u" "fired ?w = fired u"
    by (simp_all add: wire_receives_def startTransaction_def configureMatch_def Let_def split: prod.split)
  have "received ?w = \<lparr>rx_data = fst r, rx_status = (if snd r then RxOk else RxTimeout)\<rparr>"
    by (simp add: received_wire r_def startTransaction_def configureMatch_def Let_def)
  with deliver_fires [OF w f(1,2)] deliver_reach [OF w f(1,2)] f
  show ?thesis
    using start dev tx by (auto simp: exchange_def Let_def)
qed

lemma claims_start:
  assumes "link_free u"
  shows "uart_reach True (send_claim p cb u)" "starting (send_claim p cb u) = Some (encode p, False, True)"
    "m_opType (send_claim p cb u) = Send" "fired (send_claim p cb u) = fired u"
    "uart_reach True (transact_claim p cb u)" "starting (transact_claim p cb u) = Some (encode p, True, False)"
    "m_opType (transact_claim p cb u) = Transact" "fired (transact_claim p cb u) = fired u"
proof -
  have free: "m_opType u = OpNone" "completing u = None" using assms unfolding outstanding_def by blast+
  show "uart_reach True (send_claim p cb u)" "uart_reach True (transact_claim p cb u)"
    using assms free(2) by (auto intro: reach_step uart_step.send uart_step.transact)
  show "starting (send_claim p cb u) = Some (encode p, False, True)" "m_opType (send_claim p cb u) = Send"
    "fired (send_claim p cb u) = fired u"
    "starting (transact_claim p cb u) = Some (encode p, True, False)"
    "m_opType (transact_claim p cb u) = Transact" "fired (transact_claim p cb u) = fired u"
    using free(1) by (simp_all add: send_claim_def transact_claim_def)
qed

lemma armed_matches:
  "matchConfig (startTransaction enc False True u) = 6" "matchConfig (startTransaction enc True False u) = 5"
  by (simp_all add: startTransaction_def configureMatch_def Let_def)

lemma matches_armed [simp]:
  "matches 6 b \<longleftrightarrow> b = kACK \<or> b = kNAK" "matches 5 b \<longleftrightarrow> b = 0x03 \<or> b = kNAK"
  by (simp_all add: matches_def)

lemma uart_send_run:
  assumes free: "link_free u" and dev: "dev d (encode p) = (bs, d')" and fits: "length p \<le> 29"
  shows "\<exists>v. uart_send dev p (u, d) =
      (sendResult \<lparr>rx_data = fst (receive 6 kBufSize bs),
                   rx_status = (if snd (receive 6 kBufSize bs) then RxOk else RxTimeout)\<rparr>, v, d') \<and> link_free v"
proof -
  have "dev d (take kBufSize (encode p)) = (bs, d')" using dev fits by (simp add: kBufSize_def)
  from exchange_run [of "send_claim p (length (accepted u)) u" "encode p" False True dev, OF claims_start(1,2) [OF free] this]
  show ?thesis
    using free by (auto simp: uart_send_def armed_matches claims_start [OF free] Let_def outstanding_def)
qed

lemma uart_transact_run:
  assumes free: "link_free u" and dev: "dev d (encode p) = (bs, d')" and fits: "length p \<le> 29"
  shows "\<exists>v. uart_transact dev p (u, d) =
      (transactResult \<lparr>rx_data = fst (receive 5 kBufSize bs),
                       rx_status = (if snd (receive 5 kBufSize bs) then RxOk else RxTimeout)\<rparr>, v, d') \<and> link_free v"
proof -
  have "dev d (take kBufSize (encode p)) = (bs, d')" using dev fits by (simp add: kBufSize_def)
  from exchange_run [of "transact_claim p (length (accepted u)) u" "encode p" True False dev, OF claims_start(5,6) [OF free] this]
  show ?thesis
    using free by (auto simp: uart_transact_def armed_matches claims_start [OF free] Let_def outstanding_def)
qed

section \<open>What the receiver stores\<close>

lemma receive_prefix: "\<exists>rest. bs = fst (receive cfg n bs) @ rest"
  by (induction cfg n bs rule: receive.induct) auto

lemma receive_until_match:
  "length xs < n \<Longrightarrow> list_all (\<lambda>x. \<not> matches cfg x) xs \<Longrightarrow> matches cfg b
     \<Longrightarrow> receive cfg n (xs @ b # rest) = (xs @ [b], True)"
proof (induction xs arbitrary: n)
  case Nil
  then show ?case by (cases n) simp_all
next
  case (Cons x xs)
  then show ?case by (cases n) simp_all
qed

lemma receive_frame:
  assumes "wire_safe q" and "length q \<le> 28"
  shows "receive 5 kBufSize (kACK # encode q @ rest) = (kACK # encode q, True)"
proof -
  have "list_all (\<lambda>x. \<not> matches 5 x) (kACK # 0x02 # q @ [computeChecksum q])"
    using assms(1) checksum_not_reserved [of q]
    by (auto simp: wire_safe_def list_all_iff kReserved_def kACK_def kNAK_def)
  from receive_until_match [OF _ this, of kBufSize "0x03" rest] show ?thesis
    using assms(2) by (simp add: encode_def kBufSize_def)
qed

lemma first_byte_outcomes [simp]:
  "receive 5 kBufSize (kNAK # rest) = ([kNAK], True)" "receive 6 kBufSize (kNAK # rest) = ([kNAK], True)"
  "receive 6 kBufSize (kACK # rest) = ([kACK], True)"
  "receive cfg kBufSize [] = ([], False)"
  by (simp_all add: kBufSize_def numeral_eq_Suc)

lemma uart_transact_outcome:
  fixes bs :: bytes
  defines "r \<equiv> transactResult \<lparr>rx_data = fst (receive 5 kBufSize bs),
                             rx_status = (if snd (receive 5 kBufSize bs) then RxOk else RxTimeout)\<rparr>"
  shows "r = Inr q \<Longrightarrow> q \<noteq> [] \<and> (\<exists>rest. bs = encode q @ rest \<or> bs = kACK # encode q @ rest)"
    and "q \<noteq> [] \<Longrightarrow> wire_safe q \<Longrightarrow> length q \<le> 28 \<Longrightarrow> bs = kACK # encode q @ rest \<Longrightarrow> r = Inr q"
    and "bs = kNAK # rest \<Longrightarrow> r = Inl NAK" and "bs = [] \<Longrightarrow> r = Inl Timeout"
proof -
  show "q \<noteq> [] \<and> (\<exists>rest. bs = encode q @ rest \<or> bs = kACK # encode q @ rest)" if "r = Inr q"
    using that receive_prefix [of bs 5 kBufSize] by (auto simp: r_def transactResult_iff split: if_splits)
  show "r = Inr q" if "q \<noteq> []" "wire_safe q" "length q \<le> 28" "bs = kACK # encode q @ rest"
    using that receive_frame [OF that(2,3), of rest] by (simp add: r_def transactResult_iff)
  show "r = Inl NAK" if "bs = kNAK # rest"
    using that by (simp add: r_def transactResult_def rxResultError_def)
  show "r = Inl Timeout" if "bs = []"
    using that by (simp add: r_def transactResult_def rxResultError_def)
qed

lemma uart_send_outcome:
  fixes bs :: bytes
  defines "r \<equiv> sendResult \<lparr>rx_data = fst (receive 6 kBufSize bs),
                         rx_status = (if snd (receive 6 kBufSize bs) then RxOk else RxTimeout)\<rparr>"
  shows "r = Inr () \<longleftrightarrow> (\<exists>rest. bs = kACK # rest)"
    and "bs = kNAK # rest \<Longrightarrow> r = Inl NAK" and "bs = [] \<Longrightarrow> r = Inl Timeout"
proof -
  show "r = Inr () \<longleftrightarrow> (\<exists>rest. bs = kACK # rest)"
    using receive_prefix [of bs 6 kBufSize] by (auto simp: r_def sendResult_iff split: if_splits)
  show "r = Inl NAK" if "bs = kNAK # rest" using that by (simp add: r_def sendResult_def rxResultError_def)
  show "r = Inl Timeout" if "bs = []" using that by (simp add: r_def sendResult_def rxResultError_def)
qed

section \<open>Properties\<close>

text \<open>
  C10. The UART link implements the data-link interface, over any unit. A transaction from a free
  link puts exactly the frame of the payload on the wire and ends with the link free again.
  If it answers a payload, the unit did send that payload's frame, with or without an acknowledge
  in front; a frame the unit sends after its acknowledge, with no control byte in
  the payload and within the buffer, is answered; a negative acknowledge and silence are
  reported as such. A send succeeds exactly when the unit acknowledges before it
  refuses.
\<close>

theorem uart_implements_data_link:
  assumes free: "link_free u" and dev: "dev d (encode p) = (bs, d')" and fits: "length p \<le> 29"
  shows "(\<exists>r v. dl_transact (UartLink dev) p (u, d) = (r, v, d') \<and> link_free v
      \<and> (\<forall>q. r = Inr q \<longrightarrow> q \<noteq> [] \<and> (\<exists>rest. bs = encode q @ rest \<or> bs = kACK # encode q @ rest))
      \<and> (\<forall>q rest. q \<noteq> [] \<and> wire_safe q \<and> length q \<le> 28 \<and> bs = kACK # encode q @ rest \<longrightarrow> r = Inr q)
      \<and> (\<forall>rest. bs = kNAK # rest \<longrightarrow> r = Inl NAK) \<and> (bs = [] \<longrightarrow> r = Inl Timeout))
    \<and> (\<exists>r v. dl_send (UartLink dev) p (u, d) = (r, v, d') \<and> link_free v
      \<and> (r = Inr () \<longleftrightarrow> (\<exists>rest. bs = kACK # rest))
      \<and> (\<forall>rest. bs = kNAK # rest \<longrightarrow> r = Inl NAK) \<and> (bs = [] \<longrightarrow> r = Inl Timeout))"
proof (rule conjI)
  show "\<exists>r v. dl_transact (UartLink dev) p (u, d) = (r, v, d') \<and> link_free v
      \<and> (\<forall>q. r = Inr q \<longrightarrow> q \<noteq> [] \<and> (\<exists>rest. bs = encode q @ rest \<or> bs = kACK # encode q @ rest))
      \<and> (\<forall>q rest. q \<noteq> [] \<and> wire_safe q \<and> length q \<le> 28 \<and> bs = kACK # encode q @ rest \<longrightarrow> r = Inr q)
      \<and> (\<forall>rest. bs = kNAK # rest \<longrightarrow> r = Inl NAK) \<and> (bs = [] \<longrightarrow> r = Inl Timeout)"
    using uart_transact_run [of u dev d p, OF assms] uart_transact_outcome [where bs = bs]
    unfolding UartLink_def S21DataLink.simps by blast
  show "\<exists>r v. dl_send (UartLink dev) p (u, d) = (r, v, d') \<and> link_free v
      \<and> (r = Inr () \<longleftrightarrow> (\<exists>rest. bs = kACK # rest))
      \<and> (\<forall>rest. bs = kNAK # rest \<longrightarrow> r = Inl NAK) \<and> (bs = [] \<longrightarrow> r = Inl Timeout)"
    using uart_send_run [of u dev d p, OF assms] uart_send_outcome [where bs = bs]
    unfolding UartLink_def S21DataLink.simps by blast
qed

text \<open>
  A unit that holds what it is told. Its status report names the cooling side when it is in Auto and calls a Quiet fan Auto.
\<close>

fun statusReport :: "bytes \<Rightarrow> bytes" where
  "statusReport [p, md, t, f] =
     [p, if md = byte_of_char CHR ''1'' then byte_of_char CHR ''0'' else md, t,
      if f = byte_of_char CHR ''B'' then byte_of_char CHR ''A'' else f]"
| "statusReport h = h"

definition echoUnit :: "bytes \<Rightarrow> bytes \<Rightarrow> bytes \<times> bytes" where
  "echoUnit held frame =
     (case decode frame of
        Inl _ \<Rightarrow> ([kNAK], held)
      | Inr payload \<Rightarrow>
          if take 2 payload = [byte_of_char CHR ''D'', byte_of_char CHR ''1''] then ([kACK], drop 2 payload)
          else if payload = [byte_of_char CHR ''R'', byte_of_char CHR ''G'']
          then (kACK # encode [byte_of_char CHR ''S'', byte_of_char CHR ''G'', held ! 3], held)
          else (kACK # encode ([byte_of_char CHR ''G'', byte_of_char CHR ''1''] @ statusReport held), held))"

lemma fresh_link_free: "link_free S21DataLinkUart_new"
proof
  show "uart_reach True S21DataLinkUart_new" by (rule reach_start) simp
qed (simp add: outstanding_def S21DataLinkUart_new_def)

theorem uart_implements_data_link_witness:
  "fst (dl_transact (UartLink echoUnit) [0x46, 0x31] (S21DataLinkUart_new, [0x31, 0x33, 0x4A, 0x41]))
     = Inr [0x47, 0x31, 0x31, 0x33, 0x4A, 0x41]"
proof -
  let ?h = "[0x31, 0x33, 0x4A, 0x41] :: bytes"
  let ?q = "[0x47, 0x31, 0x31, 0x33, 0x4A, 0x41] :: bytes"
  have dev: "echoUnit ?h (encode [0x46, 0x31]) = (kACK # encode ?q, ?h)"
    by (simp add: echoUnit_def decode_encode)
  have "length [0x46, 0x31 :: u8] \<le> 29" by simp
  from uart_implements_data_link [of S21DataLinkUart_new echoUnit, OF fresh_link_free dev this]
  obtain r v where r: "dl_transact (UartLink echoUnit) [0x46, 0x31] (S21DataLinkUart_new, ?h) = (r, v, ?h)"
    and q: "\<forall>q rest. q \<noteq> [] \<and> wire_safe q \<and> length q \<le> 28 \<and> kACK # encode ?q = kACK # encode q @ rest \<longrightarrow> r = Inr q"
    by blast
  have "wire_safe ?q" by (simp add: wire_safe_def)
  then have "r = Inr ?q" using q [rule_format, of ?q "[]"] by simp
  with r show ?thesis by simp
qed

text \<open>
  A unit as the S21 protocol documents it, at the level of frames: it acknowledges a state command
  and holds its four bytes, answers a status request with an acknowledge and the frame of a report of
  the bytes it holds (in Auto perhaps the side it works on, a Quiet fan perhaps as Auto), and a fan request with the fan byte it
  holds.
\<close>

definition wire_contract :: "('d \<Rightarrow> bytes \<Rightarrow> bytes \<times> 'd) \<Rightarrow> ('d \<Rightarrow> bytes) \<Rightarrow> ('d \<Rightarrow> bool) \<Rightarrow> bool" where
  "wire_contract dev held valid =
     ((\<forall>d. valid d \<longrightarrow> length (held d) = 4 \<and> wire_safe (held d))
      \<and> (\<forall>d body. valid d \<and> length body = 4 \<and> wire_safe body \<longrightarrow>
           (\<exists>d'. dev d (encode ([byte_of_char CHR ''D'', byte_of_char CHR ''1''] @ body)) = ([kACK], d')
             \<and> held d' = body \<and> valid d'))
      \<and> (\<forall>d. valid d \<longrightarrow>
           (\<exists>r d'. dev d (encode [byte_of_char CHR ''F'', byte_of_char CHR ''1''])
               = (kACK # encode ([byte_of_char CHR ''G'', byte_of_char CHR ''1''] @ r), d')
             \<and> reportedAs (held d) r \<and> held d' = held d \<and> valid d'))
      \<and> (\<forall>d. valid d \<longrightarrow>
           (\<exists>d'. dev d (encode [byte_of_char CHR ''R'', byte_of_char CHR ''G''])
               = (kACK # encode [byte_of_char CHR ''S'', byte_of_char CHR ''G'', held d ! 3], d')
             \<and> held d' = held d \<and> valid d')))"

lemma uart_transact_answer:
  assumes u: "link_free u" and dev: "dev d (encode req) = (kACK # encode q, d')"
    and req: "length req \<le> 29" and q: "q \<noteq> []" "wire_safe q" "length q \<le> 28"
  shows "\<exists>v. uart_transact dev req (u, d) = (Inr q, v, d') \<and> link_free v"
proof -
  have "transactResult \<lparr>rx_data = fst (receive 5 kBufSize (kACK # encode q)),
      rx_status = (if snd (receive 5 kBufSize (kACK # encode q)) then RxOk else RxTimeout)\<rparr> = Inr q"
    using q by (intro uart_transact_outcome(2) [where rest = "[]"]) simp_all
  with uart_transact_run [of u dev, OF u dev req] show ?thesis by auto
qed

lemma wire_unit:
  assumes "wire_contract dev held valid"
  shows "unit_contract (UartLink dev) (\<lambda>l. link_free (fst l) \<and> valid (snd l)) (\<lambda>l. held (snd l))"
proof -
  have h: "length (held d) = 4" "wire_safe (held d)" if "valid d" for d
    using assms that by (simp_all add: wire_contract_def)
  have send: "\<exists>v d'. uart_send dev ([byte_of_char CHR ''D'', byte_of_char CHR ''1''] @ body) (u, d) = (Inr (), v, d')
      \<and> link_free v \<and> held d' = body \<and> valid d'"
    if u: "link_free u" and d: "valid d" "length body = 4" "wire_safe body" for u d body
  proof -
    obtain d' where d': "dev d (encode ([byte_of_char CHR ''D'', byte_of_char CHR ''1''] @ body)) = ([kACK], d')"
        "held d' = body" "valid d'"
      using assms d unfolding wire_contract_def by blast
    have "length ([byte_of_char CHR ''D'', byte_of_char CHR ''1''] @ body) \<le> 29" using d(2) by simp
    from uart_send_run [of u dev, OF u d'(1) this] d'(2,3) show ?thesis
      using uart_send_outcome(1) [of "[kACK]"] by auto
  qed
  have get: "\<exists>r v d'. uart_transact dev [byte_of_char CHR ''F'', byte_of_char CHR ''1''] (u, d)
        = (Inr ([byte_of_char CHR ''G'', byte_of_char CHR ''1''] @ r), v, d')
      \<and> reportedAs (held d) r \<and> link_free v \<and> held d' = held d \<and> valid d'" if u: "link_free u" and d: "valid d" for u d
  proof -
    obtain r d' where r: "dev d (encode [byte_of_char CHR ''F'', byte_of_char CHR ''1''])
          = (kACK # encode ([byte_of_char CHR ''G'', byte_of_char CHR ''1''] @ r), d')"
        "reportedAs (held d) r" "held d' = held d" "valid d'"
      using assms d unfolding wire_contract_def by blast
    have "wire_safe r" "length r = 4"
      using reported_safe [OF r(2) h [OF d]] r(2) by (simp_all add: reportedAs_def)
    then have "wire_safe ([byte_of_char CHR ''G'', byte_of_char CHR ''1''] @ r)"
        "length ([byte_of_char CHR ''G'', byte_of_char CHR ''1''] @ r) \<le> 28"
      by (simp_all add: wire_safe_def)
    from uart_transact_answer [of u dev, OF u r(1) _ _ this] show ?thesis using r(2-4) by auto
  qed
  have fan: "\<exists>v d'. uart_transact dev [byte_of_char CHR ''R'', byte_of_char CHR ''G''] (u, d)
        = (Inr [byte_of_char CHR ''S'', byte_of_char CHR ''G'', held d ! 3], v, d')
      \<and> link_free v \<and> held d' = held d \<and> valid d'" if u: "link_free u" and d: "valid d" for u d
  proof -
    obtain d' where d': "dev d (encode [byte_of_char CHR ''R'', byte_of_char CHR ''G''])
          = (kACK # encode [byte_of_char CHR ''S'', byte_of_char CHR ''G'', held d ! 3], d')" "held d' = held d" "valid d'"
      using assms d unfolding wire_contract_def by blast
    have "0x20 \<le> held d ! 3" using h [OF d] by (simp add: wire_safe_def list_all_length)
    then have "wire_safe [byte_of_char CHR ''S'', byte_of_char CHR ''G'', held d ! 3]" by (simp add: wire_safe_def)
    from uart_transact_answer [of u dev, OF u d'(1) _ _ this] show ?thesis using d'(2,3) by auto
  qed
  show ?thesis using send get fan unfolding unit_contract_def UartLink_def S21DataLink.simps by fastforce
qed

text \<open>
  What the manager's accessors answer about a unit that holds the bytes of a command, when they have to ask it.
\<close>

definition accessorsAnswer ::
  "('d \<Rightarrow> bytes \<Rightarrow> bytes \<times> 'd) \<Rightarrow> S21Manager \<Rightarrow> (Uart \<times> 'd) SyncWorld \<Rightarrow> bool \<Rightarrow> OperatingMode \<Rightarrow> i16 \<Rightarrow> FanMode \<Rightarrow> bool" where
  "accessorsAnswer dev m w on md sp f =
     (let P = S21PresentationSyncAdapter (UartLink dev) in
      fst (mgr_getOnOff P m w) = Inr on
      \<and> (\<exists>md'. fst (mgr_getOperatingMode P m w) = Inr md' \<and> md' \<in> reportedMode md)
      \<and> (\<exists>sp'. fst (mgr_getSetpoint P m w) = Inr sp' \<and> \<bar>sint sp' - sint sp\<bar> < 50 \<and> (50 dvd sint sp \<longrightarrow> sp' = sp))
      \<and> (fanAsked m (sw_uptime w) \<longrightarrow> fst (mgr_getFanMode P m w) = Inr f)
      \<and> (fanReadable m (sw_uptime w) on f \<longrightarrow>
           (\<exists>md' sp' mp. mgr_getOperation P m w = (Inr (on, md', sp', f), mp) \<and> md' \<in> reportedMode md
              \<and> \<bar>sint sp' - sint sp\<bar> < 50 \<and> (50 dvd sint sp \<longrightarrow> sp' = sp)))
      \<and> \<not> sw_undefined (snd (snd (mgr_getOnOff P m w))) \<and> \<not> sw_undefined (snd (snd (mgr_getSetpoint P m w))))"

lemma accessors_over_wire:
  assumes unit: "wire_contract dev held valid" and good: "link_free (fst (sw_link w)) \<and> valid (snd (sw_link w))"
    and ready: "mIsReady m" and held: "held (snd (sw_link w)) = drop 2 (operationPayload on md sp f)"
    and sp: "setPoint_ok sp" and named: "named_OperatingMode md" "named_FanMode f" and ok: "\<not> sw_undefined w"
    and stale: "cache_lookup (mCacheMaxAge m) (sw_uptime w) (mOperationCache m) = None"
  shows "accessorsAnswer dev m w on md sp f"
proof -
  let ?P = "S21PresentationSyncAdapter (UartLink dev)"
  let ?sp = "tempByteToSetPoint (setPointToTempByte sp)"
  note U = wire_unit [OF unit] and near = setpoint_wire_roundtrip [OF sp]
  have byte: "held (snd (sw_link w)) ! 3 = FanMode_byte f" by (simp add: held operationPayload_def)
  have fanAns: "fst (mgr_getFanMode ?P m w) = Inr f" if "fanAsked m (sw_uptime w)"
    using fan_asked_over_link [OF U good byte named(2) that ok] ready by (auto simp: mgr_getFanMode_def)
  have op: "\<exists>md' sp' mp. mgr_getOperation ?P m w = (Inr (on, md', sp', f), mp) \<and> md' \<in> reportedMode md
      \<and> \<bar>sint sp' - sint sp\<bar> < 50 \<and> (50 dvd sint sp \<longrightarrow> sp' = sp)" if "fanReadable m (sw_uptime w) on f"
    using stack_reads_operation [OF U good ready held named ok stale that] near by blast
  obtain md' f' c' l2 where "md' \<in> reportedMode md"
      "operationCacheGet ?P m w = (Inr (on, md', ?sp, f'), m\<lparr>mOperationCache := c'\<rparr>, w\<lparr>sw_link := l2\<rparr>)"
    using stack_reads [OF U good ready held named ok stale] by blast
  then have "fst (mgr_getOnOff ?P m w) = Inr on" "fst (mgr_getOperatingMode ?P m w) = Inr md'"
      "fst (mgr_getSetpoint ?P m w) = Inr ?sp" "\<not> sw_undefined (snd (snd (mgr_getOnOff ?P m w)))"
      "\<not> sw_undefined (snd (snd (mgr_getSetpoint ?P m w)))"
    using ready ok by (simp_all add: mgr_getOnOff_def mgr_getOperatingMode_def mgr_getSetpoint_def fromOperation_def)
  then show ?thesis
    using \<open>md' \<in> reportedMode md\<close> near fanAns op unfolding Let_def accessorsAnswer_def by blast
qed

lemma stack_over_wire:
  assumes unit: "wire_contract dev held valid" and good: "link_free (fst (sw_link w)) \<and> valid (snd (sw_link w))"
    and ready: "mIsReady m" and sp: "setPoint_ok sp" and named: "named_OperatingMode md" "named_FanMode f"
    and safe: "0x20 \<le> OperatingMode_byte md" "0x20 \<le> FanMode_byte f" and ok: "\<not> sw_undefined w"
  shows "\<exists>m' w'. mgr_setOperation (S21PresentationSyncAdapter (UartLink dev)) on md sp f m w = (Inr (), m', w')
    \<and> \<not> sw_undefined w' \<and> sw_uptime w' = sw_uptime w \<and> link_free (fst (sw_link w'))
    \<and> held (snd (sw_link w')) = [if on then 0x31 else 0x30, OperatingMode_byte md, setPointToTempByte sp, FanMode_byte f]
    \<and> (\<forall>t. fanAsked m' t = fanAsked m t)
    \<and> (\<forall>t. mCacheMaxAge m < t - sw_uptime w \<longrightarrow> accessorsAnswer dev m' (w'\<lparr>sw_uptime := t\<rparr>) on md sp f)"
proof -
  define m' where "m' = m\<lparr>mOperationCache := cache_update (sw_uptime w) (on, md, sp, f) (mOperationCache m)\<rparr>"
  obtain l' where set: "mgr_setOperation (S21PresentationSyncAdapter (UartLink dev)) on md sp f m w = (Inr (), m', w\<lparr>sw_link := l'\<rparr>)"
      and l': "link_free (fst l') \<and> valid (snd l')" "held (snd l') = drop 2 (operationPayload on md sp f)"
    using stack_sets [OF wire_unit [OF unit] good ready sp safe] unfolding m'_def by blast
  have "accessorsAnswer dev m' (w\<lparr>sw_link := l'\<rparr>\<lparr>sw_uptime := t\<rparr>) on md sp f" if "mCacheMaxAge m < t - sw_uptime w" for t
  proof (rule accessors_over_wire [OF unit _ _ _ sp named])
    show "cache_lookup (mCacheMaxAge m') (sw_uptime (w\<lparr>sw_link := l'\<rparr>\<lparr>sw_uptime := t\<rparr>)) (mOperationCache m') = None"
      using that by (simp add: m'_def cache_lookup_def cache_update_def)
  qed (use l' ready ok in \<open>simp_all add: m'_def\<close>)
  then show ?thesis
    using set ok l' by (intro exI [of _ m'] exI [of _ "w\<lparr>sw_link := l'\<rparr>"])
      (simp add: operationPayload_def m'_def fanAsked_def)
qed

text \<open>
  C12. Through the whole S21 stack, what is set is what is read, down to the bytes. Over a unit that
  holds what it is told, a command with a valid setpoint, sent through manager, blocking
  adapter, presentation layer, framing and the UART link, succeeds and leaves the link free and the four state
  bytes in the unit: power 1 or 0, the mode's byte, a temperature byte of 64 plus one per half degree above 18, and the fan's byte.
  Once the cache has expired the manager's accessors, asking the unit again over the wire, answer the power;
  the mode, where a unit told Auto may answer the side of Auto it is on; a setpoint within half a degree, and exactly for whole half
  degrees; the fan, when its own cache has expired too and the fan request has not been given up, by the fan
  accessor, and by the whole status read for a unit that is on or whose fan is not Quiet. No decoder reads past a response.
\<close>

theorem stack_reads_back_what_it_set:
  assumes unit: "wire_contract dev held valid" and link: "sw_link w = (u, d)" "link_free u" "valid d" and ready: "mIsReady m"
    and sp: "setPoint_ok sp" and named: "named_OperatingMode md" "named_FanMode f"
    and safe: "0x20 \<le> OperatingMode_byte md" "0x20 \<le> FanMode_byte f" and ok: "\<not> sw_undefined w"
  shows "\<exists>m' w' b. mgr_setOperation (S21PresentationSyncAdapter (UartLink dev)) on md sp f m w = (Inr (), m', w')
    \<and> \<not> sw_undefined w' \<and> sw_uptime w' = sw_uptime w \<and> link_free (fst (sw_link w'))
    \<and> held (snd (sw_link w')) = [if on then 0x31 else 0x30, OperatingMode_byte md, b, FanMode_byte f]
    \<and> uint b = 64 + (sint sp - 1800) sdiv 50
    \<and> (\<forall>t. fanAsked m' t = fanAsked m t)
    \<and> (\<forall>t. mCacheMaxAge m < t - sw_uptime w \<longrightarrow> accessorsAnswer dev m' (w'\<lparr>sw_uptime := t\<rparr>) on md sp f)"
proof -
  have good: "link_free (fst (sw_link w)) \<and> valid (snd (sw_link w))" using link by simp
  from stack_over_wire [OF unit good ready sp named safe ok, of on] show ?thesis
    using tempByte_value [OF sp] by blast
qed

lemma statusReport_reportedAs: "length h = 4 \<Longrightarrow> reportedAs h (statusReport h)"
  by (subst (2) list4_nth, assumption)
     (auto simp: reportedAs_def reportedMode_def reportedFan_def OperatingMode_cast_def FanMode_cast_def)

lemma echoUnit_contract: "wire_contract echoUnit id (\<lambda>h. length h = 4 \<and> wire_safe h)"
  by (auto simp: wire_contract_def echoUnit_def decode_encode intro!: statusReport_reportedAs)

theorem stack_reads_back_what_it_set_witness:
  "let P = S21PresentationSyncAdapter (UartLink echoUnit) in
   \<exists>m' w'. mgr_setOperation P True OperatingMode.Auto 2300 FanMode.Quiet
       (S21Stack_manager\<lparr>mIsReady := True\<rparr>)
       \<lparr>sw_link = (S21DataLinkUart_new, [0x30, 0x31, 0x4A, 0x41]), sw_uptime = 100, sw_undefined = False\<rparr>
     = (Inr (), m', w') \<and> snd (sw_link w') = [0x31, 0x31, 0x4A, 0x42]
     \<and> fst (mgr_getFanMode P m' (w'\<lparr>sw_uptime := 9000\<rparr>)) = Inr FanMode.Quiet
     \<and> fst (mgr_getSetpoint P m' (w'\<lparr>sw_uptime := 9000\<rparr>)) = Inr 2300"
proof -
  let ?w = "\<lparr>sw_link = (S21DataLinkUart_new, [0x30, 0x31, 0x4A, 0x41]), sw_uptime = 100, sw_undefined = False\<rparr>"
  let ?m = "S21Stack_manager\<lparr>mIsReady := True\<rparr>"
  have sp: "setPoint_ok 2300" "50 dvd sint (2300 :: i16)" "named_OperatingMode OperatingMode.Auto" "named_FanMode FanMode.Quiet"
      "fanAsked ?m 9000" "mCacheMaxAge ?m < 9000 - 100"
    by (simp_all add: named_OperatingMode_def named_FanMode_def OperatingMode_cast_def FanMode_cast_def fanAsked_def
        S21Stack_manager_def S21Manager_new_def cache_lookup_def kS21CacheMaxAge_def isUnsupported_def CommandCapability_new_def)
  have b: "b = 0x4A" if "uint b = 64 + (sint (2300 :: i16) - 1800) sdiv 50" for b :: u8
    using that by (simp add: word_uint_eq_iff signed_divide_int_def)
  have v: "length [0x30, 0x31, 0x4A, 0x41 :: u8] = 4 \<and> wire_safe [0x30, 0x31, 0x4A, 0x41]" by (simp add: wire_safe_def)
  have s: "sw_link ?w = (S21DataLinkUart_new, [0x30, 0x31, 0x4A, 0x41])" by simp
  have r: "mIsReady ?m" "0x20 \<le> OperatingMode_byte OperatingMode.Auto" "0x20 \<le> FanMode_byte FanMode.Quiet" "\<not> sw_undefined ?w"
    by simp_all
  from stack_reads_back_what_it_set [OF echoUnit_contract s fresh_link_free v r(1) sp(1) sp(3,4) r(2-4), of True]
  obtain m' w' b where *: "mgr_setOperation (S21PresentationSyncAdapter (UartLink echoUnit)) True OperatingMode.Auto 2300
      FanMode.Quiet ?m ?w = (Inr (), m', w')" "snd (sw_link w') = [0x31, 0x31, b, 0x42]" "b = 0x4A"
      "fst (mgr_getFanMode (S21PresentationSyncAdapter (UartLink echoUnit)) m' (w'\<lparr>sw_uptime := 9000\<rparr>)) = Inr FanMode.Quiet"
      "fst (mgr_getSetpoint (S21PresentationSyncAdapter (UartLink echoUnit)) m' (w'\<lparr>sw_uptime := 9000\<rparr>)) = Inr 2300"
    using sp(2,5,6) b by (auto simp: accessorsAnswer_def Let_def)
  then show ?thesis by (auto simp: Let_def)
qed

end
