(* ===== verification/AAI_Access.thy ===== *)
theory AAI_Access
  imports Sync_Coordinator AAI_Translation
begin

text \<open>
  The attribute-access interfaces of the four bridged clusters (\<open>sync/aai_onoff.cpp\<close>,
  \<open>sync/aai_thermostat.cpp\<close>, \<open>sync/aai_fan_control.cpp\<close>, \<open>sync/aai_humidity.cpp\<close>). The
  SDK's decoder is a record with the outcome of \<open>Decode\<close> at each type; a read yields the
  value handed to the encoder, or \<open>Fallback\<close> where the source returns success without
  encoding. A result of \<open>None\<close> is a call on a coordinator without a kernel.
\<close>

record Decoder =
  dec_bool :: "(bool, ChipError) expected"
  dec_int16 :: "(i16, ChipError) expected"
  dec_systemMode :: "(SystemModeEnum, ChipError) expected"
  dec_nullableUint8 :: "(u8 Nullable, ChipError) expected"
  dec_fanMode :: "(FanModeEnum, ChipError) expected"

datatype EncodedValue =
  EncBool bool | EncI16 i16 | EncU8 u8
  | EncNullableI16 "i16 Nullable" | EncNullableU8 "u8 Nullable" | EncNullableU16 "u16 Nullable"
  | EncSystemMode SystemModeEnum | EncRunningMode ThermostatRunningModeEnum
  | EncSetpointSource SetpointChangeSourceEnum | EncFanMode FanModeEnum

datatype ReadResult = Encode EncodedValue | Fallback

type_synonym write_result = "(ChipError \<times> DispatchCall list \<times> SyncCoordinator) option"

text \<open>\<open>mStack->ApplyIntent(...); return CHIP_NO_ERROR;\<close> and a return that applies nothing.\<close>

definition issue :: "millis \<Rightarrow> WriteIntent \<Rightarrow> SyncCoordinator \<Rightarrow> write_result" where
  "issue now intent c =
     map_option (\<lambda>(change, calls, c'). (CHIP_NO_ERROR, calls, c')) (ApplyIntent now intent c)"

definition answer :: "ChipError \<Rightarrow> SyncCoordinator \<Rightarrow> write_result" where
  "answer err c = Some (err, [], c)"

definition OnOff_Read :: "AttributeId \<Rightarrow> SyncCoordinator \<Rightarrow> ReadResult option" where
  "OnOff_Read aid c =
     (if aid = OnOff_Id then map_option (\<lambda>v. Encode (EncBool v)) (ReadOnOff c)
      else Some Fallback)"

definition OnOff_Write ::
  "millis \<Rightarrow> AttributeId \<Rightarrow> Decoder \<Rightarrow> SyncCoordinator \<Rightarrow> write_result" where
  "OnOff_Write now aid decoder c =
     (if aid = OnOff_Id
      then (case dec_bool decoder of
              Inl err \<Rightarrow> answer err c
            | Inr value \<Rightarrow> issue now (SetOnOffIntent value) c)
      else answer CHIP_NO_ERROR c)"

definition Thermostat_Read :: "AttributeId \<Rightarrow> SyncCoordinator \<Rightarrow> ReadResult option" where
  "Thermostat_Read aid c =
     (if aid = LocalTemperature_Id
      then map_option (\<lambda>v. Encode (EncNullableI16 (wrap v))) (ReadLocalTemperature c)
      else if aid = OutdoorTemperature_Id
      then map_option (\<lambda>v. Encode (EncNullableI16 (wrap v))) (ReadOutdoorTemperature c)
      else if aid = OccupiedHeatingSetpoint_Id
      then map_option (\<lambda>v. Encode (EncI16 v)) (ReadOccupiedHeatingSetpoint c)
      else if aid = OccupiedCoolingSetpoint_Id
      then map_option (\<lambda>v. Encode (EncI16 v)) (ReadOccupiedCoolingSetpoint c)
      else if aid = SystemMode_Id
      then map_option (\<lambda>p. Encode (EncSystemMode (toMatterSystemMode (pj_onOff p) (pj_mode p))))
             (ProjectionSnapshot c)
      else if aid = ThermostatRunningMode_Id
      then map_option (\<lambda>v. Encode (EncRunningMode (toMatterRunningMode v))) (ReadRunningMode c)
      else if aid = SetpointChangeSource_Id
      then map_option (\<lambda>v. Encode (EncSetpointSource (toMatterSetpointSource v))) (ReadSetpointSource c)
      else if aid = SetpointChangeSourceTimestamp_Id then Some Fallback
      else Some Fallback)"

definition Thermostat_Write ::
  "millis \<Rightarrow> AttributeId \<Rightarrow> Decoder \<Rightarrow> SyncCoordinator \<Rightarrow> write_result" where
  "Thermostat_Write now aid decoder c =
     (if aid = OccupiedHeatingSetpoint_Id
      then (case dec_int16 decoder of
              Inl err \<Rightarrow> answer err c
            | Inr v \<Rightarrow> issue now (SetOccupiedHeatingSetpointIntent v) c)
      else if aid = OccupiedCoolingSetpoint_Id
      then (case dec_int16 decoder of
              Inl err \<Rightarrow> answer err c
            | Inr v \<Rightarrow> issue now (SetOccupiedCoolingSetpointIntent v) c)
      else if aid = SystemMode_Id
      then (case dec_systemMode decoder of
              Inl err \<Rightarrow> answer err c
            | Inr v \<Rightarrow>
                (case fromMatterSystemMode v of
                   None \<Rightarrow> answer IM_ConstraintError c
                 | Some (pwr, m) \<Rightarrow> issue now (SetSystemModeIntent pwr m) c))
      else if aid = LocalTemperature_Id \<or> aid = OutdoorTemperature_Id
              \<or> aid = ThermostatRunningMode_Id \<or> aid = SetpointChangeSource_Id
              \<or> aid = SetpointChangeSourceTimestamp_Id
      then answer IM_UnsupportedWrite c
      else answer CHIP_NO_ERROR c)"

definition FanControl_Read :: "AttributeId \<Rightarrow> SyncCoordinator \<Rightarrow> ReadResult option" where
  "FanControl_Read aid c =
     (if aid = SpeedSetting_Id
      then map_option (\<lambda>v. Encode (EncNullableU8 (wrap v))) (ReadSpeedSetting c)
      else if aid = FanMode_Id
      then map_option (\<lambda>v. Encode (EncFanMode (toMatterFanMode v))) (ReadFanMode c)
      else if aid = SpeedCurrent_Id
      then map_option (\<lambda>v. Encode (EncU8 v)) (ReadSpeedCurrent c)
      else if aid = PercentSetting_Id
      then map_option (\<lambda>v. Encode (EncNullableU8 (wrap v))) (ReadPercentSetting c)
      else if aid = PercentCurrent_Id
      then map_option (\<lambda>v. Encode (EncU8 v)) (ReadPercentCurrent c)
      else Some Fallback)"

definition FanControl_Write ::
  "millis \<Rightarrow> AttributeId \<Rightarrow> Decoder \<Rightarrow> SyncCoordinator \<Rightarrow> write_result" where
  "FanControl_Write now aid decoder c =
     (if aid = SpeedSetting_Id
      then (case dec_nullableUint8 decoder of
              Inl err \<Rightarrow> answer err c
            | Inr Null \<Rightarrow> answer CHIP_NO_ERROR c
            | Inr (NonNull raw) \<Rightarrow>
                if raw = 0 then issue now (SetOnOffIntent False) c
                else if raw > kFanSpeedMax then answer IM_ConstraintError c
                else issue now (SetSpeedSettingIntent (Some (FanLevel_cast raw))) c)
      else if aid = PercentSetting_Id
      then (case dec_nullableUint8 decoder of
              Inl err \<Rightarrow> answer err c
            | Inr Null \<Rightarrow> answer CHIP_NO_ERROR c
            | Inr (NonNull pct) \<Rightarrow>
                if pct = 0 then issue now (SetOnOffIntent False) c
                else if pct > 100 then answer IM_ConstraintError c
                else issue now (SetPercentSettingIntent (Some pct)) c)
      else if aid = FanMode_Id
      then (case dec_fanMode decoder of
              Inl err \<Rightarrow> answer err c
            | Inr m \<Rightarrow>
                (let w = fromMatterFanMode m in
                 case fmw_kind w of
                   PowerOff \<Rightarrow> issue now (SetOnOffIntent False) c
                 | SetSpeed \<Rightarrow> issue now (SetSpeedSettingIntent (fmw_speed w)) c
                 | Reject \<Rightarrow> answer IM_ConstraintError c))
      else if aid = SpeedCurrent_Id \<or> aid = PercentCurrent_Id then answer CHIP_NO_ERROR c
      else answer CHIP_NO_ERROR c)"

definition Humidity_Read :: "AttributeId \<Rightarrow> SyncCoordinator \<Rightarrow> ReadResult option" where
  "Humidity_Read aid c =
     (if aid = MeasuredValue_Id
      then map_option (\<lambda>v. Encode (EncNullableU16 (wrap v))) (ReadHumidityCentiPercent c)
      else Some Fallback)"

section \<open>Lemmas\<close>

lemma issue_eq:
  "mKernel c = Some k \<Longrightarrow> issue now i c =
     Some (CHIP_NO_ERROR, operationalCalls (mPublisher c) k (applyOne now i k),
           c\<lparr>mKernel := Some (applyOne now i k)\<rparr>)"
proof -
  assume k: "mKernel c = Some k"
  have "dirtyAttributes (fst (applyIntent now i k))
      = diffProjections (projectionSnapshot k) (projectionSnapshot (applyOne now i k))"
    by (simp add: applyIntent_def Let_def projectionSnapshot_def)
  from operational_dispatch [OF this applyIntent_eq(2), of "mPublisher c"]
  show ?thesis by (simp add: issue_def ApplyIntent_def k case_prod_beta Let_def applyIntent_eq)
qed

lemma named_cast: "raw \<noteq> 0 \<Longrightarrow> \<not> kFanSpeedMax < raw \<Longrightarrow> named_FanLevel (FanLevel_cast raw)"
  by (simp add: named_FanLevel_cast kFanSpeedMax_def word_less_nat_alt word_le_nat_alt
      word_unat_eq_iff)

lemma percent_ok: "pct \<noteq> 0 \<Longrightarrow> \<not> 100 < pct \<Longrightarrow> 1 \<le> pct \<and> pct \<le> (100 :: u8)"
  by (simp add: word_less_nat_alt word_le_nat_alt word_unat_eq_iff)

lemma fromMatterFanMode_ok:
  "fmw_kind (fromMatterFanMode v) = SetSpeed \<Longrightarrow>
     pred_option named_FanLevel (fmw_speed (fromMatterFanMode v))"
  by (cases v) (simp_all add: fromMatterFanMode_def)

text \<open>What any of the three writable clusters does with a write: it answers, or issues one valid intent.\<close>

lemma write_cases:
  assumes "res \<in> {OnOff_Write now aid decoder c, Thermostat_Write now aid decoder c, FanControl_Write now aid decoder c}"
  shows "(\<exists>err. res = answer err c) \<or> (\<exists>i. intent_ok i \<and> res = issue now i c)"
proof -
  let ?Q = "\<lambda>res. (\<exists>err. res = answer err c) \<or> (\<exists>i. intent_ok i \<and> res = issue now i c)"
  have a: "?Q (answer err c)" for err by blast
  have b: "intent_ok i \<Longrightarrow> ?Q (issue now i c)" for i by blast
  have "?Q (OnOff_Write now aid decoder c)"
    unfolding OnOff_Write_def by (simp add: a b del: ex_simps split: sum.split)
  moreover have "?Q (Thermostat_Write now aid decoder c)"
    unfolding Thermostat_Write_def using a b by (auto split: sum.split option.split)
  moreover have "?Q (FanControl_Write now aid decoder c)"
    unfolding FanControl_Write_def Let_def
    using a b named_cast percent_ok fromMatterFanMode_ok
    by (auto split: sum.split Nullable.split FanModeWriteKind.split)
  ultimately show ?thesis using assms by blast
qed

section \<open>Properties\<close>

text \<open>
  What a write to each attribute means, as a table: refused with a status, ignored with success, or one intent. Values are
  written out: the system modes and fan modes by enumerator, the fan speeds by level.
\<close>

datatype WriteOutcome = Refused ChipError | Ignored | Applied WriteIntent

definition decodedAs :: "(ChipError + 'a) \<Rightarrow> ('a \<Rightarrow> WriteOutcome) \<Rightarrow> WriteOutcome" where
  "decodedAs d f = case_sum Refused f d"

definition systemModeRows :: "(SystemModeEnum \<times> WriteIntent) list" where
  "systemModeRows =
     [(SystemModeEnum.kOff, SetSystemModeIntent False OperationalMode.Auto),
      (SystemModeEnum.kAuto, SetSystemModeIntent True OperationalMode.Auto),
      (SystemModeEnum.kCool, SetSystemModeIntent True OperationalMode.Cool),
      (kPrecooling, SetSystemModeIntent True OperationalMode.Cool),
      (SystemModeEnum.kHeat, SetSystemModeIntent True OperationalMode.Heat),
      (kEmergencyHeat, SetSystemModeIntent True OperationalMode.Heat),
      (kDry, SetSystemModeIntent True OperationalMode.Dry),
      (kFanOnly, SetSystemModeIntent True OperationalMode.FanOnly)]"

definition speedRows :: "(u8 \<times> WriteIntent) list" where
  "speedRows =
     [(0, SetOnOffIntent False),
      (1, SetSpeedSettingIntent (Some FanLevel.Quiet)), (2, SetSpeedSettingIntent (Some FanLevel.Low)),
      (3, SetSpeedSettingIntent (Some FanLevel.MidLow)), (4, SetSpeedSettingIntent (Some FanLevel.Medium)),
      (5, SetSpeedSettingIntent (Some FanLevel.MidHigh)), (6, SetSpeedSettingIntent (Some FanLevel.High))]"

definition fanModeRows :: "(FanModeEnum \<times> WriteIntent) list" where
  "fanModeRows =
     [(FanModeEnum.kOff, SetOnOffIntent False),
      (kLow, SetSpeedSettingIntent (Some FanLevel.Low)), (kMedium, SetSpeedSettingIntent (Some FanLevel.Medium)),
      (kHigh, SetSpeedSettingIntent (Some FanLevel.High)), (kOn, SetSpeedSettingIntent (Some FanLevel.High)),
      (FanModeEnum.kAuto, SetSpeedSettingIntent None), (kSmart, SetSpeedSettingIntent None)]"

definition inRows :: "('a \<times> WriteIntent) list \<Rightarrow> 'a \<Rightarrow> WriteOutcome" where
  "inRows rows v = (case map_of rows v of Some i \<Rightarrow> Applied i | None \<Rightarrow> Refused IM_ConstraintError)"

fun unlessNull :: "('a \<Rightarrow> WriteOutcome) \<Rightarrow> 'a Nullable \<Rightarrow> WriteOutcome" where
  "unlessNull f Null = Ignored"
| "unlessNull f (NonNull v) = f v"

definition percentOutcome :: "u8 \<Rightarrow> WriteOutcome" where
  "percentOutcome p =
     (if p \<in> {1..100} then Applied (SetPercentSettingIntent (Some p))
      else if p = 0 then Applied (SetOnOffIntent False) else Refused IM_ConstraintError)"

definition onOffOutcome :: "Decoder \<Rightarrow> AttributeId \<Rightarrow> WriteOutcome" where
  "onOffOutcome d aid =
     (case map_of [(OnOff_Id, decodedAs (dec_bool d) (Applied \<circ> SetOnOffIntent))] aid of
        Some r \<Rightarrow> r | None \<Rightarrow> Ignored)"

definition thermostatOutcome :: "Decoder \<Rightarrow> AttributeId \<Rightarrow> WriteOutcome" where
  "thermostatOutcome d aid =
     (case map_of
        [(LocalTemperature_Id, Refused IM_UnsupportedWrite), (OutdoorTemperature_Id, Refused IM_UnsupportedWrite),
         (OccupiedCoolingSetpoint_Id, decodedAs (dec_int16 d) (Applied \<circ> SetOccupiedCoolingSetpointIntent)),
         (OccupiedHeatingSetpoint_Id, decodedAs (dec_int16 d) (Applied \<circ> SetOccupiedHeatingSetpointIntent)),
         (SystemMode_Id, decodedAs (dec_systemMode d) (inRows systemModeRows)),
         (ThermostatRunningMode_Id, Refused IM_UnsupportedWrite), (SetpointChangeSource_Id, Refused IM_UnsupportedWrite),
         (SetpointChangeSourceTimestamp_Id, Refused IM_UnsupportedWrite)] aid of
        Some r \<Rightarrow> r | None \<Rightarrow> Ignored)"

definition fanControlOutcome :: "Decoder \<Rightarrow> AttributeId \<Rightarrow> WriteOutcome" where
  "fanControlOutcome d aid =
     (case map_of
        [(FanMode_Id, decodedAs (dec_fanMode d) (inRows fanModeRows)),
         (PercentSetting_Id, decodedAs (dec_nullableUint8 d) (unlessNull percentOutcome)),
         (SpeedSetting_Id, decodedAs (dec_nullableUint8 d) (unlessNull (inRows speedRows)))] aid of
        Some r \<Rightarrow> r | None \<Rightarrow> Ignored)"

fun carriedOut :: "millis \<Rightarrow> BridgeKernel \<Rightarrow> SyncCoordinator \<Rightarrow> WriteOutcome \<Rightarrow> write_result" where
  "carriedOut now k c (Refused err) = Some (err, [], c)"
| "carriedOut now k c Ignored = Some (CHIP_NO_ERROR, [], c)"
| "carriedOut now k c (Applied i) =
     Some (CHIP_NO_ERROR, operationalCalls (mPublisher c) k (applyOne now i k),
           c\<lparr>mKernel := Some (applyOne now i k)\<rparr>)"

lemma carriedOut_answer: "carriedOut now k c (Refused err) = answer err c" "carriedOut now k c Ignored = answer CHIP_NO_ERROR c"
  by (simp_all add: answer_def)

lemma carriedOut_issue: "mKernel c = Some k \<Longrightarrow> carriedOut now k c (Applied i) = issue now i c"
  by (simp add: issue_eq del: applyOne.simps)

lemma speed_row:
  "inRows speedRows n =
     (if n = 0 then Applied (SetOnOffIntent False) else if n > kFanSpeedMax then Refused IM_ConstraintError
      else Applied (SetSpeedSettingIntent (Some (FanLevel_cast n))))"
proof (cases "n \<le> kFanSpeedMax")
  case True
  then have "unat n \<in> {0, 1, 2, 3, 4, 5, 6}" by (auto simp: kFanSpeedMax_def word_le_nat_alt)
  then have "n \<in> {0, 1, 2, 3, 4, 5, 6}" by (auto simp: word_unat_eq_iff)
  then show ?thesis by (auto simp: inRows_def speedRows_def kFanSpeedMax_def FanLevel_cast_def)
next
  case False
  then have "n \<notin> {0, 1, 2, 3, 4, 5, 6}" by (auto simp: kFanSpeedMax_def)
  with False show ?thesis by (auto simp: inRows_def speedRows_def)
qed

lemma percent_row:
  "percentOutcome p =
     (if p = 0 then Applied (SetOnOffIntent False) else if p > 100 then Refused IM_ConstraintError
      else Applied (SetPercentSettingIntent (Some p)))"
  using percent_ok [of p] by (auto simp: percentOutcome_def)

lemma fan_mode_row:
  "inRows fanModeRows m =
     (case fmw_kind (fromMatterFanMode m) of
        PowerOff \<Rightarrow> Applied (SetOnOffIntent False)
      | SetSpeed \<Rightarrow> Applied (SetSpeedSettingIntent (fmw_speed (fromMatterFanMode m)))
      | Reject \<Rightarrow> Refused IM_ConstraintError)"
  by (cases m) (simp_all add: inRows_def fanModeRows_def fromMatterFanMode_def representativeSpeed_def)

lemma system_mode_row:
  "inRows systemModeRows m =
     (case fromMatterSystemMode m of
        None \<Rightarrow> Refused IM_ConstraintError | Some (on, o') \<Rightarrow> Applied (SetSystemModeIntent on o'))"
  by (cases m) (simp_all add: inRows_def systemModeRows_def fromMatterSystemMode_def)

lemmas write_rows = decodedAs_def speed_row percent_row fan_mode_row system_mode_row

lemma OnOff_Write_table:
  "mKernel c = Some k \<Longrightarrow> OnOff_Write now aid d c = carriedOut now k c (onOffOutcome d aid)"
  by (simp add: OnOff_Write_def onOffOutcome_def write_rows carriedOut_answer carriedOut_issue
      del: carriedOut.simps split: sum.split)

lemma Thermostat_Write_table:
  "mKernel c = Some k \<Longrightarrow> Thermostat_Write now aid d c = carriedOut now k c (thermostatOutcome d aid)"
  by (simp add: Thermostat_Write_def thermostatOutcome_def write_rows carriedOut_answer carriedOut_issue
      del: carriedOut.simps split: sum.split option.split)

lemma FanControl_Write_table:
  "mKernel c = Some k \<Longrightarrow> FanControl_Write now aid d c = carriedOut now k c (fanControlOutcome d aid)"
  by (simp add: FanControl_Write_def fanControlOutcome_def write_rows carriedOut_answer carriedOut_issue Let_def
      del: carriedOut.simps split: sum.split Nullable.split FanModeWriteKind.split)

text \<open>
  C23. Every attribute write does exactly what the table says. For any attribute identifier, any decoder outcome and any of
  the three writable clusters: a value the decoder rejects is answered with the decoder's error; On/Off, the two setpoints, the
  system modes, the fan modes, fan speeds 0 to 6 and percentages 0 to 100 apply exactly the intent of their row; anything else a
  writable attribute is given is a constraint error; the read-only thermostat attributes are an unsupported write; a null speed or
  percentage and every other attribute is success without effect. A refused or ignored write changes nothing and calls nobody;
  an applied one answers success, makes one kernel step with a valid intent and no other change, and calls exactly the listeners
  and the pump that step calls for.
\<close>

theorem attribute_writes_follow_table:
  assumes "mKernel c = Some k"
  shows "OnOff_Write now aid d c = carriedOut now k c (onOffOutcome d aid)
    \<and> Thermostat_Write now aid d c = carriedOut now k c (thermostatOutcome d aid)
    \<and> FanControl_Write now aid d c = carriedOut now k c (fanControlOutcome d aid)
    \<and> (\<forall>i. Applied i \<in> {onOffOutcome d aid, thermostatOutcome d aid, fanControlOutcome d aid} \<longrightarrow> intent_ok i)"
proof -
  have "intent_ok i" if "onOffOutcome d aid = Applied i" for i
    using that by (auto simp: onOffOutcome_def write_rows split: if_splits sum.splits)
  moreover have "intent_ok i" if "thermostatOutcome d aid = Applied i" for i
    using that by (auto simp: thermostatOutcome_def write_rows split: if_splits sum.splits option.splits)
  moreover have "intent_ok i" if "fanControlOutcome d aid = Applied i" for i
    using that named_cast percent_ok fromMatterFanMode_ok
    by (auto simp: fanControlOutcome_def write_rows unlessNull.simps
        split: if_splits sum.splits FanModeWriteKind.splits elim!: unlessNull.elims)
  ultimately show ?thesis
    using OnOff_Write_table [OF assms] Thermostat_Write_table [OF assms] FanControl_Write_table [OF assms] by auto
qed

text \<open>A decoder that rejects every type, the base of the concrete decoders below.\<close>

definition undecodable :: Decoder where
  "undecodable = \<lparr>dec_bool = Inl CHIP_ERROR_INTERNAL, dec_int16 = Inl CHIP_ERROR_INTERNAL,
     dec_systemMode = Inl CHIP_ERROR_INTERNAL, dec_nullableUint8 = Inl CHIP_ERROR_INTERNAL,
     dec_fanMode = Inl CHIP_ERROR_INTERNAL\<rparr>"

theorem attribute_writes_follow_table_witness:
  "let c = initialisedCoordinator\<lparr>mKernel := Some booted\<rparr>; speed = (\<lambda>n. undecodable\<lparr>dec_nullableUint8 := Inr (NonNull n)\<rparr>) in
   FanControl_Write 5 SpeedSetting_Id (speed 3) c
     = Some (CHIP_NO_ERROR, operationalCalls (mPublisher c) booted (applyOne 5 (SetSpeedSettingIntent (Some FanLevel.MidLow)) booted),
             c\<lparr>mKernel := Some (applyOne 5 (SetSpeedSettingIntent (Some FanLevel.MidLow)) booted)\<rparr>)
   \<and> FanControl_Write 5 SpeedSetting_Id (speed 7) c = Some (IM_ConstraintError, [], c)"
  using attribute_writes_follow_table
      [of "initialisedCoordinator\<lparr>mKernel := Some booted\<rparr>" booted 5 SpeedSetting_Id "undecodable\<lparr>dec_nullableUint8 := Inr (NonNull 3)\<rparr>"]
    attribute_writes_follow_table
      [of "initialisedCoordinator\<lparr>mKernel := Some booted\<rparr>" booted 5 SpeedSetting_Id "undecodable\<lparr>dec_nullableUint8 := Inr (NonNull 7)\<rparr>"]
  by (simp add: fanControlOutcome_def decodedAs_def inRows_def speedRows_def Let_def del: applyOne.simps)

text \<open>
  Each system mode a controller may write, the mode it then reads, and the operating mode the unit is to be given.
\<close>

definition systemModeReads :: "(SystemModeEnum \<times> SystemModeEnum \<times> OperatingMode option) list" where
  "systemModeReads =
     [(SystemModeEnum.kOff, SystemModeEnum.kOff, None),
      (SystemModeEnum.kAuto, SystemModeEnum.kAuto, Some OperatingMode.Auto),
      (SystemModeEnum.kCool, SystemModeEnum.kCool, Some OperatingMode.Cool),
      (SystemModeEnum.kHeat, SystemModeEnum.kHeat, Some OperatingMode.Heat),
      (kDry, kDry, Some OperatingMode.Dry),
      (kFanOnly, kFanOnly, Some OperatingMode.FanOnly),
      (kEmergencyHeat, SystemModeEnum.kHeat, Some OperatingMode.Heat),
      (kPrecooling, SystemModeEnum.kCool, Some OperatingMode.Cool)]"

text \<open>
  C28. System mode write and read back, value by value. Outside the guard window and with no power or mode
  command awaited, writing Off, Auto, Cool, Heat, Dry or FanOnly succeeds and is read back as written, EmergencyHeat reads
  back as Heat and Precooling as Cool. The command then wanted from the unit has its power on, except for Off, and carries the
  operating mode of that name; Off leaves the wanted mode alone. Sleep and any byte outside the enumeration are refused with a constraint error and
  change nothing.
\<close>

theorem system_mode_roundtrip:
  assumes "mKernel c = Some k" and "dec_systemMode decoder = Inr v"
    and "mInFlight (onOff (mState k)) = None" and "mInFlight (mode (mState k)) = None"
    and "window_elapsed now k (at_onOff (mLastDeviceObserved k))"
    and "window_elapsed now k (at_mode (mLastDeviceObserved k))"
  shows "case map_of systemModeReads v of
      None \<Rightarrow> (v = kSleep \<or> (\<exists>b. v = SystemModeEnum_raw b))
        \<and> Thermostat_Write now SystemMode_Id decoder c = Some (IM_ConstraintError, [], c)
    | Some (r, m) \<Rightarrow>
        (\<exists>calls c' k'. Thermostat_Write now SystemMode_Id decoder c = Some (CHIP_NO_ERROR, calls, c')
           \<and> mKernel c' = Some k'
           \<and> Thermostat_Read SystemMode_Id c' = Some (Encode (EncSystemMode r))
           \<and> OnOff_Read OnOff_Id c' = Some (Encode (EncBool (m \<noteq> None)))
           \<and> cmd_onOff (desiredCommand (mState k')) = (m \<noteq> None)
           \<and> cmd_operatingMode (desiredCommand (mState k'))
               = (case m of Some w \<Rightarrow> w | None \<Rightarrow> cmd_operatingMode (desiredCommand (mState k))))"
proof -
  have k': "mState (applyOne now (SetSystemModeIntent on m) k) =
      (if on then (mState k)\<lparr>onOff := setDesired True (onOff (mState k)), mode := setDesired m (mode (mState k))\<rparr>
       else (mState k)\<lparr>onOff := setDesired False (onOff (mState k))\<rparr>)" for on m
    using assms(5,6) by (simp add: apply_SetSystemModeIntent_def Let_def)
  note eval = Thermostat_Write_def assms(2) issue_eq [OF assms(1)] answer_def
    Thermostat_Read_def OnOff_Read_def ProjectionSnapshot_def projectionSnapshot_def project_def
    projectedOnOff_def projectedMode_def projectedValue_def ReadOnOff_def readOnOff_def
    toMatterSystemMode_def fromMatterSystemMode_def systemModeReads_def operationalModeToS21OperatingMode_def
  show ?thesis
    using assms(3,4) by (cases v) (simp_all add: eval k' del: applyOne.simps)
qed

theorem system_mode_roundtrip_witness:
  "\<exists>calls c' k'. Thermostat_Write 5 SystemMode_Id (undecodable\<lparr>dec_systemMode := Inr kPrecooling\<rparr>)
       (initialisedCoordinator\<lparr>mKernel := Some booted\<rparr>) = Some (CHIP_NO_ERROR, calls, c')
     \<and> mKernel c' = Some k' \<and> Thermostat_Read SystemMode_Id c' = Some (Encode (EncSystemMode SystemModeEnum.kCool))
     \<and> cmd_operatingMode (desiredCommand (mState k')) = OperatingMode.Cool"
  using system_mode_roundtrip [of "initialisedCoordinator\<lparr>mKernel := Some booted\<rparr>" booted
      "undecodable\<lparr>dec_systemMode := Inr kPrecooling\<rparr>" kPrecooling 5]
  by (auto simp: systemModeReads_def)

lemma fan_write_views:
  assumes "mInFlight (onOff (mState k)) = None" and "mInFlight (fan (mState k)) = None"
    and "mDesired (onOff (mState k)) \<or> \<not> mObserved (onOff (mState k))"
    and "window_elapsed now k (at_onOff (mLastDeviceObserved k))"
    and "window_elapsed now k (at_fan (mLastDeviceObserved k))"
  shows "readSpeedSetting (applyOne now (SetSpeedSettingIntent (Some l)) k) = Some (FanLevel_byte l)"
    and "readPercentSetting (applyOne now (SetSpeedSettingIntent (Some l)) k) = Some (speedLevelToPercent l)"
    and "readFanMode (applyOne now (SetSpeedSettingIntent (Some l)) k) = fanModeOf (Some l)"
    and "readPercentSetting (applyOne now (SetPercentSettingIntent (Some p)) k) = Some p"
    and "readSpeedSetting (applyOne now (SetPercentSettingIntent (Some p)) k)
           = Some (FanLevel_byte (percentToSpeedLevel p))"
    and "readOnOff (applyOne now (SetOnOffIntent False) k) = False"
    and "readSpeedSetting (applyOne now (SetOnOffIntent False) k) = Some 0"
    and "readPercentSetting (applyOne now (SetOnOffIntent False) k) = Some 0"
  using assms
  by (simp_all add: apply_defs Let_def readSpeedSetting_def readPercentSetting_def readFanMode_def
      readOnOff_def projectedSpeedSetting_def projectedPercentSetting_def projectedFanMode_def
      projectedOnOff_def projectedValue_def, blast+)

text \<open>
  Fan writes and read back. Outside the guard window, with no power or fan command awaited
  and the unit not about to be switched off, a SpeedSetting of 1..6 and a PercentSetting of
  1..100 succeed and are read back exactly as written, each with the other attribute naming
  the same level; zero switches the unit off and both read zero; a larger value is refused
  with a constraint error, and a null write changes nothing.
\<close>

theorem fan_write_roundtrip:
  fixes n :: u8
  assumes "mKernel c = Some k" and "dec_nullableUint8 decoder = Inr (NonNull n)"
    and "mInFlight (onOff (mState k)) = None" and "mInFlight (fan (mState k)) = None"
    and "mDesired (onOff (mState k)) \<or> \<not> mObserved (onOff (mState k))"
    and "window_elapsed now k (at_onOff (mLastDeviceObserved k))"
    and "window_elapsed now k (at_fan (mLastDeviceObserved k))"
  shows "(if n \<le> 6
      then (case FanControl_Write now SpeedSetting_Id decoder c of
              None \<Rightarrow> False
            | Some (err, calls, c') \<Rightarrow> err = CHIP_NO_ERROR
                \<and> FanControl_Read SpeedSetting_Id c' = Some (Encode (EncNullableU8 (NonNull n)))
                \<and> FanControl_Read PercentSetting_Id c' = Some (Encode (EncNullableU8 (NonNull
                    (if n = 0 then 0 else speedLevelToPercent (FanLevel_cast n))))))
      else FanControl_Write now SpeedSetting_Id decoder c = Some (IM_ConstraintError, [], c))
    \<and> (if n \<le> 100
      then (case FanControl_Write now PercentSetting_Id decoder c of
              None \<Rightarrow> False
            | Some (err, calls, c') \<Rightarrow> err = CHIP_NO_ERROR
                \<and> FanControl_Read PercentSetting_Id c' = Some (Encode (EncNullableU8 (NonNull n)))
                \<and> FanControl_Read SpeedSetting_Id c' = Some (Encode (EncNullableU8 (NonNull
                    (if n = 0 then 0 else FanLevel_byte (percentToSpeedLevel n))))))
      else FanControl_Write now PercentSetting_Id decoder c = Some (IM_ConstraintError, [], c))
    \<and> FanControl_Write now SpeedSetting_Id (decoder\<lparr>dec_nullableUint8 := Inr Null\<rparr>) c
        = Some (CHIP_NO_ERROR, [], c)"
proof -
  note views = fan_write_views [OF assms(3-7)]
  note defs = FanControl_Write_def FanControl_Read_def assms(2) issue_eq [OF assms(1)] wrap_def
    ReadSpeedSetting_def ReadPercentSetting_def answer_def kFanSpeedMax_def
  show ?thesis
    by (cases "n = 0") (simp_all add: defs views not_less [symmetric] del: applyOne.simps)
qed

theorem fan_write_roundtrip_witness:
  "case FanControl_Write 5 PercentSetting_Id (undecodable\<lparr>dec_nullableUint8 := Inr (NonNull 40)\<rparr>)
      (initialisedCoordinator\<lparr>mKernel := Some booted\<rparr>) of
     None \<Rightarrow> False
   | Some (err, calls, c') \<Rightarrow>
       FanControl_Read PercentSetting_Id c' = Some (Encode (EncNullableU8 (NonNull 40)))"
  using fan_write_roundtrip [of "initialisedCoordinator\<lparr>mKernel := Some booted\<rparr>" booted
      "undecodable\<lparr>dec_nullableUint8 := Inr (NonNull 40)\<rparr>" 40 5]
  by (auto split: option.splits)

text \<open>
  The types the data model of the repository declares for the bridged attributes
  (\<open>default_zap/room-airconditioner.matter\<close>), and the ranges the bridge keeps: percentages are at most 100, speeds at most the \<open>speedMax\<close>
  default of 6, enumerations hold a declared enumerator.
\<close>

fun conforms_nullable :: "('a \<Rightarrow> bool) \<Rightarrow> 'a Nullable \<Rightarrow> bool" where
  "conforms_nullable P Null = True"
| "conforms_nullable P (NonNull v) = P v"

definition conforms_Thermostat :: "AttributeId \<Rightarrow> ReadResult \<Rightarrow> bool" where
  "conforms_Thermostat aid r =
     (if aid \<in> {LocalTemperature_Id, OutdoorTemperature_Id} then (\<exists>v. r = Encode (EncNullableI16 v))
      else if aid \<in> {OccupiedHeatingSetpoint_Id, OccupiedCoolingSetpoint_Id} then (\<exists>v. r = Encode (EncI16 v))
      else if aid = SystemMode_Id
        then r \<in> (\<lambda>m. Encode (EncSystemMode m)) ` {SystemModeEnum.kOff, SystemModeEnum.kAuto, SystemModeEnum.kCool,
                     SystemModeEnum.kHeat, kFanOnly, kDry}
      else if aid = ThermostatRunningMode_Id then (\<exists>v. r = Encode (EncRunningMode v))
      else if aid = SetpointChangeSource_Id then (\<exists>v. r = Encode (EncSetpointSource v))
      else r = Fallback)"

definition conforms_FanControl :: "AttributeId \<Rightarrow> ReadResult \<Rightarrow> bool" where
  "conforms_FanControl aid r =
     (if aid = FanMode_Id
        then r \<in> (\<lambda>m. Encode (EncFanMode m)) ` {FanModeEnum.kOff, kLow, kMedium, kHigh, FanModeEnum.kAuto}
      else if aid = PercentSetting_Id
        then (\<exists>v. r = Encode (EncNullableU8 v) \<and> conforms_nullable (\<lambda>p. p \<le> 100) v)
      else if aid = PercentCurrent_Id then (\<exists>v. r = Encode (EncU8 v) \<and> v \<le> 100)
      else if aid = SpeedSetting_Id
        then (\<exists>v. r = Encode (EncNullableU8 v) \<and> conforms_nullable (\<lambda>n. n \<le> kFanSpeedMax) v)
      else if aid = SpeedCurrent_Id then (\<exists>v. r = Encode (EncU8 v) \<and> v \<le> kFanSpeedMax)
      else r = Fallback)"

lemma named_FanLevel_byte: "named_FanLevel l \<Longrightarrow> FanLevel_byte l \<le> kFanSpeedMax"
  by (cases l) (simp_all add: kFanSpeedMax_def)

lemma named_FanLevel_percent: "named_FanLevel l \<Longrightarrow> speedLevelToPercent l \<le> 100"
  by (cases l) simp_all

lemma reached_fan_view:
  assumes "kernel_inv k"
  shows "pred_option named_FanLevel (projectedValue (fan (mState k)))"
  using assms by (auto simp: kernel_inv_def fan_inv_def projectedValue_def split: option.splits)

lemma reached_fan_speeds:
  assumes "kernel_inv k"
  shows "conforms_nullable (\<lambda>n. n \<le> kFanSpeedMax) (wrap (readSpeedSetting k))"
    and "readSpeedCurrent k \<le> kFanSpeedMax" and "readPercentCurrent k \<le> 100"
proof -
  have named: "named_FanLevel (case projectedValue (fan (mState k)) of None \<Rightarrow> FanLevel.MidLow | Some l \<Rightarrow> l)"
    using reached_fan_view [OF assms] by (auto split: option.split)
  then show "readSpeedCurrent k \<le> kFanSpeedMax"
    by (simp add: readSpeedCurrent_def projectedSpeedCurrent_def named_FanLevel_byte)
  show "readPercentCurrent k \<le> 100"
    using named by (simp add: readPercentCurrent_def projectedPercentCurrent_def projectedSpeedCurrent_def
        FanLevel_cast_byte named_FanLevel_percent FanLevel_cast_def [of 0])
  show "conforms_nullable (\<lambda>n. n \<le> kFanSpeedMax) (wrap (readSpeedSetting k))"
    using reached_fan_view [OF assms]
    by (auto simp: readSpeedSetting_def projectedSpeedSetting_def wrap_def named_FanLevel_byte split: option.split)
qed

lemma reached_fan_percent:
  assumes "kernel_inv k"
  shows "conforms_nullable (\<lambda>p. p \<le> 100) (wrap (readPercentSetting k))"
  using assms by (auto simp: kernel_inv_def fan_inv_def readPercentSetting_def projectedPercentSetting_def
      percent_in_range_def wrap_def split: option.splits)

lemma humidity_scale: "unat (ucast (h :: u8) * 100 :: u16) = unat h * 100"
proof -
  have "unat h < 256" using unsigned_less [of h, where ?'a = nat] by simp
  then show ?thesis by (simp add: unat_word_ariths unsigned_ucast_eq take_bit_nat_def)
qed

lemma humidity_conforms:
  "conforms_nullable (\<lambda>h. unat h \<le> 25500 \<and> unat h mod 100 = 0) (wrap (readHumidityCentiPercent k))"
proof -
  have "unat (h :: u8) \<le> 255" for h using unsigned_less [of h, where ?'a = nat] by simp
  then show ?thesis
    by (auto simp: readHumidityCentiPercent_def projectedHumidityCentiPercent_def wrap_def humidity_scale
        split: option.split)
qed

lemma FanControl_Read_conforms:
  assumes "mKernel c = Some k" and "kernel_inv k"
  shows "\<exists>r. FanControl_Read aid c = Some r \<and> conforms_FanControl aid r"
proof -
  have mode: "toMatterFanMode m \<in> {FanModeEnum.kOff, kLow, kMedium, kHigh, FanModeEnum.kAuto}" for m
    by (cases m) (simp_all add: toMatterFanMode_def)
  show ?thesis
    using reached_fan_speeds [OF assms(2)] reached_fan_percent [OF assms(2)] mode [of "readFanMode k"] assms(1)
    by (simp add: FanControl_Read_def conforms_FanControl_def ReadSpeedSetting_def ReadFanMode_def
        ReadSpeedCurrent_def ReadPercentSetting_def ReadPercentCurrent_def)
qed

lemma Thermostat_Read_conforms:
  assumes "mKernel c = Some k"
  shows "\<exists>r. Thermostat_Read aid c = Some r \<and> conforms_Thermostat aid r"
proof -
  have mode: "toMatterSystemMode on m \<in> {SystemModeEnum.kOff, SystemModeEnum.kAuto, SystemModeEnum.kCool,
      SystemModeEnum.kHeat, kFanOnly, kDry}" for on m
    by (cases m) (simp_all add: toMatterSystemMode_def)
  show ?thesis
    using mode assms
    by (simp add: Thermostat_Read_def conforms_Thermostat_def ReadLocalTemperature_def ReadOutdoorTemperature_def
        ReadOccupiedHeatingSetpoint_def ReadOccupiedCoolingSetpoint_def ProjectionSnapshot_def
        ReadRunningMode_def ReadSetpointSource_def)
qed

text \<open>
  C19. Every attribute a controller reads has the type the data model declares, whatever
  writes, polls and link losses came before. The fan percentages are at most 100 and the
  speeds at most 6, the system modes and fan modes are enumerators the cluster declares, humidity is a whole number of percent scaled without
  overflow, and an attribute the bridge does not serve falls back to the SDK's own storage. The setpoints and temperatures are
  any 16-bit value and humidity may be up to 25500: their declared limits are not enforced on a read.
\<close>

theorem attribute_reads_conform:
  assumes "coordinator_reach R (c, w)" and "mInitialised c"
  shows "(\<exists>r. FanControl_Read aid c = Some r \<and> conforms_FanControl aid r)
    \<and> (\<exists>r. Thermostat_Read aid c = Some r \<and> conforms_Thermostat aid r)
    \<and> (\<exists>b. OnOff_Read OnOff_Id c = Some (Encode (EncBool b)))
    \<and> (\<exists>v. Humidity_Read MeasuredValue_Id c = Some (Encode (EncNullableU16 v))
         \<and> conforms_nullable (\<lambda>h. unat h \<le> 25500 \<and> unat h mod 100 = 0) v)"
proof -
  obtain k where k: "mKernel c = Some k" "kernel_reach k"
    using assms coordinator.reach_inv [OF assms(1)] by (auto simp: coordinator_inv_def)
  have inv: "kernel_inv k" using k(2) by (rule kernel.reach_inv)
  show ?thesis
    using FanControl_Read_conforms [OF k(1) inv] Thermostat_Read_conforms [OF k(1)] humidity_conforms [of k] k(1)
    by (simp add: OnOff_Read_def Humidity_Read_def ReadOnOff_def ReadHumidityCentiPercent_def)
qed

theorem attribute_reads_conform_witness:
  "\<exists>r. FanControl_Read PercentCurrent_Id initialisedCoordinator = Some r
     \<and> conforms_FanControl PercentCurrent_Id r"
proof -
  obtain w where "coordinator_reach (list_registry 5) (initialisedCoordinator, w)"
    using initialisedCoordinator_reach by blast
  then show ?thesis using attribute_reads_conform [OF _ initialisedCoordinator_fields(1)] by metis
qed

end
