(* ===== verification/Bridge_System.thy ===== *)
theory Bridge_System
  imports S21_Wire Event_Loop AAI_Access
begin

text \<open>
  The composed bridge: a controller's attribute write at the Matter side, the coordinator and
  its pump handler, the command work item, the S21 manager, the blocking adapter, the
  presentation layer, framing and the UART link, down to the bytes the unit holds, and back
  through a poll of the unit to settled attributes.
\<close>

text \<open>
  A write handled by an attribute-access interface of the running bridge: the coordinator's
  change, then the calls it makes outside its lock.
\<close>

definition controllerWrite ::
  "write_result \<Rightarrow> 'p AirConditionerManager \<Rightarrow> (ChipError \<times> 'p AirConditionerManager) option" where
  "controllerWrite res a =
     (case res of
        None \<Rightarrow> None
      | Some (err, calls, c) \<Rightarrow> map_option (Pair err) (runCalls calls (a\<lparr>mSyncCoordinator := c\<rparr>)))"

lemma controllerWrite_issue:
  "controllerWrite (issue now i (mSyncCoordinator a)) a = map_option (Pair CHIP_NO_ERROR) (dispatchIntent now i a)"
  by (simp add: controllerWrite_def issue_def dispatchIntent_def split: option.split prod.split)

text \<open>The bytes of a command the bridge forms are never control bytes.\<close>

lemma desiredCommand_wire:
  "named_OperatingMode (operationalModeToS21OperatingMode m)" "named_FanMode (fanSpeedToS21FanMode v)"
  "0x20 \<le> OperatingMode_byte (operationalModeToS21OperatingMode m)" "0x20 \<le> FanMode_byte (fanSpeedToS21FanMode v)"
proof -
  show "named_OperatingMode (operationalModeToS21OperatingMode m)"
    "0x20 \<le> OperatingMode_byte (operationalModeToS21OperatingMode m)"
    by (cases m; simp add: operationalModeToS21OperatingMode_def named_OperatingMode_def OperatingMode_cast_def)+
  show "named_FanMode (fanSpeedToS21FanMode v)" "0x20 \<le> FanMode_byte (fanSpeedToS21FanMode v)"
    by (auto simp: fanSpeedToS21FanMode_def named_FanMode_def FanMode_cast_def split: option.split FanLevel.split)
qed

abbreviation wire_presentation ::
  "('d \<Rightarrow> bytes \<Rightarrow> bytes \<times> 'd) \<Rightarrow> (Uart \<times> 'd) SyncWorld S21PresentationSync" where
  "wire_presentation dev \<equiv> S21PresentationSyncAdapter (UartLink dev)"

text \<open>The pump over the wire: the unit holds the command's bytes, and a later poll reads them back.\<close>

definition commandBytes :: "S21OperationCommand \<Rightarrow> bytes" where
  "commandBytes cmd = [if cmd_onOff cmd then 0x31 else 0x30, OperatingMode_byte (cmd_operatingMode cmd),
     setPointToTempByte (cmd_setpointCelsius cmd), FanMode_byte (cmd_fanMode cmd)]"

lemma reportedMode_operational:
  "md' \<in> reportedMode md \<Longrightarrow> s21OperatingModeToOperationalMode md' = s21OperatingModeToOperationalMode md"
  by (auto simp: reportedMode_def s21OperatingModeToOperationalMode_def split: if_splits)

lemma pump_over_wire:
  assumes unit: "wire_contract dev held valid" and link: "sw_link (link a) = (u, d)" "link_free u" "valid d"
    and ready: "mIsReady (mS21Manager a)" and ok: "\<not> sw_undefined (link a)"
    and k: "mKernel (mSyncCoordinator a) = Some k" and cmd: "pendingCommand k = Some cmd"
    and sp: "setPoint_ok (cmd_setpointCelsius cmd)"
  shows "\<exists>a'. CommandWorkHandler (wire_presentation dev) a = Some a'
    \<and> mKernel (mSyncCoordinator a') = Some (onCommandSent cmd k)
    \<and> link_free (fst (sw_link (link a'))) \<and> held (snd (sw_link (link a'))) = commandBytes cmd
    \<and> (\<forall>t. fanAsked (mS21Manager a') t = fanAsked (mS21Manager a) t)
    \<and> (\<forall>t. mCacheMaxAge (mS21Manager a) < t - sw_uptime (link a) \<longrightarrow>
          accessorsAnswer dev (mS21Manager a') ((link a')\<lparr>sw_uptime := t\<rparr>) (cmd_onOff cmd) (cmd_operatingMode cmd)
            (cmd_setpointCelsius cmd) (cmd_fanMode cmd))"
proof -
  let ?P = "wire_presentation dev"
  have good: "link_free (fst (sw_link (link a))) \<and> valid (snd (sw_link (link a)))" using link by simp
  have cmd': "cmd = desiredCommand (mState k)" using cmd by (simp add: pendingCommand_Some_iff)
  have named: "named_OperatingMode (cmd_operatingMode cmd)" "named_FanMode (cmd_fanMode cmd)"
      "0x20 \<le> OperatingMode_byte (cmd_operatingMode cmd)" "0x20 \<le> FanMode_byte (cmd_fanMode cmd)"
    by (simp_all add: cmd' desiredCommand_wire)
  obtain m' w' where set: "mgr_setOperation ?P (cmd_onOff cmd) (cmd_operatingMode cmd) (cmd_setpointCelsius cmd)
        (cmd_fanMode cmd) (mS21Manager a) (link a) = (Inr (), m', w')"
      and held: "link_free (fst (sw_link w'))" "held (snd (sw_link w')) = commandBytes cmd"
        "\<forall>t. fanAsked m' t = fanAsked (mS21Manager a) t"
      and get: "\<forall>t. mCacheMaxAge (mS21Manager a) < t - sw_uptime (link a) \<longrightarrow> accessorsAnswer dev m' (w'\<lparr>sw_uptime := t\<rparr>)
          (cmd_onOff cmd) (cmd_operatingMode cmd) (cmd_setpointCelsius cmd) (cmd_fanMode cmd)"
    using stack_over_wire [OF unit good ready sp named ok, of "cmd_onOff cmd"] unfolding commandBytes_def by blast
  let ?a = "setS21 (m', w') (a\<lparr>mCommandWork := None,
      mSyncCoordinator := (mSyncCoordinator a)\<lparr>mKernel := Some (onCommandSent cmd k)\<rparr>\<rparr>)"
  have "CommandWorkHandler ?P a = Some ?a" by (rule pump_effect [OF k cmd set])
  then show ?thesis using held get by (intro exI [of _ ?a]) simp
qed

section \<open>Writes, the bytes they ask for, and what reads them back\<close>

text \<open>
  The attribute writes of a controller that name a value the unit can be given, as the three attribute-access interfaces
  receive them.
\<close>

datatype ControllerWrite = PowerTo bool | ModeTo SystemModeEnum | CoolTo i16 | HeatTo i16 | SpeedTo u8

fun attributeWrite :: "millis \<Rightarrow> ControllerWrite \<Rightarrow> SyncCoordinator \<Rightarrow> write_result" where
  "attributeWrite now (PowerTo v) c = OnOff_Write now OnOff_Id (undecodable\<lparr>dec_bool := Inr v\<rparr>) c"
| "attributeWrite now (ModeTo v) c = Thermostat_Write now SystemMode_Id (undecodable\<lparr>dec_systemMode := Inr v\<rparr>) c"
| "attributeWrite now (CoolTo v) c = Thermostat_Write now OccupiedCoolingSetpoint_Id (undecodable\<lparr>dec_int16 := Inr v\<rparr>) c"
| "attributeWrite now (HeatTo v) c = Thermostat_Write now OccupiedHeatingSetpoint_Id (undecodable\<lparr>dec_int16 := Inr v\<rparr>) c"
| "attributeWrite now (SpeedTo n) c = FanControl_Write now SpeedSetting_Id (undecodable\<lparr>dec_nullableUint8 := Inr (NonNull n)\<rparr>) c"

text \<open>A setpoint written in the mode that uses it, a mode the tables have, a speed of a unit that is not about to be switched off.\<close>

fun applicable :: "ControllerWrite \<Rightarrow> BridgeKernel \<Rightarrow> bool" where
  "applicable (PowerTo v) k = True"
| "applicable (ModeTo v) k = (v \<in> fst ` set systemModeReads)"
| "applicable (CoolTo v) k =
     (mObserved (mode (mState k)) = OperationalMode.Cool \<and> mDesired (mode (mState k)) = OperationalMode.Cool)"
| "applicable (HeatTo v) k =
     (mObserved (mode (mState k)) = OperationalMode.Heat \<and> mDesired (mode (mState k)) = OperationalMode.Heat)"
| "applicable (SpeedTo n) k = (1 \<le> n \<and> n \<le> 6 \<and> (mDesired (onOff (mState k)) \<or> \<not> mObserved (onOff (mState k))))"

text \<open>The bytes of the S21 protocol that say so: power, mode, temperature, fan.\<close>

fun unitCarries :: "ControllerWrite \<Rightarrow> bytes \<Rightarrow> bool" where
  "unitCarries (PowerTo v) h = (h ! 0 = (if v then 0x31 else 0x30))"
| "unitCarries (ModeTo v) h =
     (if v = SystemModeEnum.kOff then h ! 0 = 0x30
      else h ! 0 = 0x31 \<and> map_of [(SystemModeEnum.kAuto, 0x31), (kDry, 0x32), (SystemModeEnum.kCool, 0x33), (kPrecooling, 0x33),
             (SystemModeEnum.kHeat, 0x34), (kEmergencyHeat, 0x34), (kFanOnly, 0x36)] v = Some (h ! 1))"
| "unitCarries (CoolTo v) h = (h ! 1 = 0x33 \<and> uint (h ! 2) = 64 + (sint v - 1800) sdiv 50)"
| "unitCarries (HeatTo v) h = (h ! 1 = 0x34 \<and> uint (h ! 2) = 64 + (sint v - 1800) sdiv 50)"
| "unitCarries (SpeedTo n) h =
     (h ! 0 = 0x31 \<and> map_of [(1, 0x42), (2, 0x33), (3, 0x34), (4, 0x35), (5, 0x36), (6, 0x37)] n = Some (h ! 3))"

fun readsBack :: "ControllerWrite \<Rightarrow> SyncCoordinator \<Rightarrow> bool" where
  "readsBack (PowerTo v) c = (OnOff_Read OnOff_Id c = Some (Encode (EncBool v)))"
| "readsBack (ModeTo v) c =
     (Thermostat_Read SystemMode_Id c = map_option (\<lambda>(r, _). Encode (EncSystemMode r)) (map_of systemModeReads v))"
| "readsBack (CoolTo v) c = (Thermostat_Read OccupiedCoolingSetpoint_Id c = Some (Encode (EncI16 v)))"
| "readsBack (HeatTo v) c = (Thermostat_Read OccupiedHeatingSetpoint_Id c = Some (Encode (EncI16 v)))"
| "readsBack (SpeedTo n) c = (FanControl_Read SpeedSetting_Id c = Some (Encode (EncNullableU8 (NonNull n))))"

fun intentOf :: "ControllerWrite \<Rightarrow> WriteIntent" where
  "intentOf (PowerTo v) = SetOnOffIntent v"
| "intentOf (ModeTo v) = (case fromMatterSystemMode v of Some (on, m) \<Rightarrow> SetSystemModeIntent on m | None \<Rightarrow> SetOnOffIntent False)"
| "intentOf (CoolTo v) = SetOccupiedCoolingSetpointIntent v"
| "intentOf (HeatTo v) = SetOccupiedHeatingSetpointIntent v"
| "intentOf (SpeedTo n) = SetSpeedSettingIntent (Some (FanLevel_cast n))"

lemma speed_range: "1 \<le> n \<Longrightarrow> n \<le> 6 \<Longrightarrow> n \<in> {1, 2, 3, 4, 5, 6 :: u8}"
proof -
  assume "1 \<le> n" "n \<le> 6"
  then have "unat n \<in> {1, 2, 3, 4, 5, 6}" by (auto simp: word_le_nat_alt)
  then show ?thesis by (auto simp: word_unat_eq_iff)
qed

lemma attributeWrite_issue:
  assumes "applicable w k"
  shows "attributeWrite now w c = issue now (intentOf w) c" and "intent_ok (intentOf w)"
proof -
  show "attributeWrite now w c = issue now (intentOf w) c"
    using assms by (cases w) (auto simp: OnOff_Write_def Thermostat_Write_def FanControl_Write_def systemModeReads_def
        fromMatterSystemMode_def kFanSpeedMax_def not_less [symmetric])
  show "intent_ok (intentOf w)"
    using assms by (cases w) (auto simp: systemModeReads_def fromMatterSystemMode_def FanLevel_cast_def dest!: speed_range)
qed

text \<open>With the guards open, the command formed after a write asks the unit for the value written.\<close>

lemma command_carries:
  assumes "guardsOpen now k" and "applicable w k" and "setPoint_ok (cmd_setpointCelsius (desiredCommand (mState (applyOne now (intentOf w) k))))"
  shows "unitCarries w (commandBytes (desiredCommand (mState (applyOne now (intentOf w) k))))"
proof -
  note pass = guardsOpen_passes [OF assms(1)]
  note t = tempByte_value [OF assms(3)]
  show ?thesis
  proof (cases w)
    case (ModeTo v)
    then show ?thesis
      using assms(2) by (auto simp: commandBytes_def apply_SetSystemModeIntent_def pass Let_def systemModeReads_def fromMatterSystemMode_def
          operationalModeToS21OperatingMode_def)
  next
    case (CoolTo v)
    then show ?thesis
      using assms(2) t by (simp add: commandBytes_def apply_SetOccupiedCoolingSetpointIntent_def pass activeSetpoint_def
          operationalModeToS21OperatingMode_def)
  next
    case (HeatTo v)
    then show ?thesis
      using assms(2) t by (simp add: commandBytes_def apply_SetOccupiedHeatingSetpointIntent_def pass activeSetpoint_def
          operationalModeToS21OperatingMode_def)
  next
    case (SpeedTo n)
    then show ?thesis
      using assms(2) by (auto simp: commandBytes_def apply_SetSpeedSettingIntent_def powerOnForFanWrite_def pass FanLevel_cast_def
          fanSpeedToS21FanMode_def dest!: speed_range split: if_splits)
  qed (simp add: commandBytes_def apply_SetOnOffIntent_def pass)
qed

lemma settled_view: "twin_phase t = Settled v \<Longrightarrow> projectedValue t = v"
  by (auto simp: twin_phase_def projectedValue_def split: option.splits if_splits)

text \<open>Once settled, the attribute written reads as written.\<close>

lemma settled_reads_back:
  assumes "applicable w k" and "writeSettled (intentOf w) k k'" and c: "mKernel c = Some k'"
    and mode: "twin_phase (mode (mState k')) = Settled (mDesired (mode (mState (applyOne now (intentOf w) k))))"
  shows "readsBack w c"
proof (cases w)
  case (ModeTo v)
  then show ?thesis
    using assms(1,2) c by (auto simp: systemModeReads_def fromMatterSystemMode_def Thermostat_Read_def ProjectionSnapshot_def
        projectionSnapshot_def project_def projectedOnOff_def projectedMode_def toMatterSystemMode_def dest!: settled_view)
next
  case (CoolTo v)
  then have "mDesired (mode (mState (applyOne now (intentOf w) k))) = OperationalMode.Cool"
    using assms(1) by (simp add: apply_SetOccupiedCoolingSetpointIntent_def)
  then show ?thesis
    using CoolTo assms(1,2) c settled_view [OF mode] by (simp add: Thermostat_Read_def ReadOccupiedCoolingSetpoint_def
        readOccupiedCoolingSetpoint_def projectedOccupiedCoolingSetpoint_def settled_view)
next
  case (HeatTo v)
  then have "mDesired (mode (mState (applyOne now (intentOf w) k))) = OperationalMode.Heat"
    using assms(1) by (simp add: apply_SetOccupiedHeatingSetpointIntent_def)
  then show ?thesis
    using HeatTo assms(1,2) c settled_view [OF mode] by (simp add: Thermostat_Read_def ReadOccupiedHeatingSetpoint_def
        readOccupiedHeatingSetpoint_def projectedOccupiedHeatingSetpoint_def settled_view)
next
  case (SpeedTo n)
  then show ?thesis
    using assms(1,2) c by (simp add: FanControl_Read_def ReadSpeedSetting_def readSpeedSetting_def projectedSpeedSetting_def
        projectedOnOff_def powersOn_def settled_view wrap_def)
next
  case (PowerTo v)
  then show ?thesis
    using assms(2) c by (simp add: OnOff_Read_def ReadOnOff_def readOnOff_def projectedOnOff_def settled_view)
qed

section \<open>Properties\<close>


definition wireManager :: "(Uart \<times> bytes) SyncWorld AirConditionerManager" where
  "wireManager = AirConditionerManager_new (S21Stack_manager\<lparr>mIsReady := True\<rparr>)
     (initialisedCoordinator\<lparr>mPublisher := \<lparr>mListeners = [0, 1], mPump = Some 0\<rparr>\<rparr>)
     \<lparr>sw_link = (S21DataLinkUart_new, [0x30, 0x31, 0x4A, 0x41]), sw_uptime = 100, sw_undefined = False\<rparr>"

lemma wireManager_fields [simp]:
  "mKernel (mSyncCoordinator wireManager) = Some booted" "mPump (mPublisher (mSyncCoordinator wireManager)) = Some 0"
  "sw_link (link wireManager) = (S21DataLinkUart_new, [0x30, 0x31, 0x4A, 0x41])" "sw_uptime (link wireManager) = 100"
  "mIsReady (mS21Manager wireManager)" "\<not> sw_undefined (link wireManager)" "mCacheMaxAge (mS21Manager wireManager) = 5000"
  by (simp_all add: wireManager_def AirConditionerManager_new_def booted_def BridgeKernel_new_def S21Stack_manager_def
      S21Manager_new_def kS21CacheMaxAge_def)


end
