(* ===== verification/Sensor_Path.thy ===== *)
theory Sensor_Path
  imports Bridge_System
begin

text \<open>
  Sensor readings from the unit's frames to a controller's read: the UART exchange, framing, the decoders of the
  presentation layer, the blocking adapter, the S21 manager's accessors, the environmental phase of
  a poll, the kernel and the attribute-access interfaces.
\<close>

section \<open>A unit that reports its sensors\<close>

text \<open>
  By what the S21 protocol documents: each of the three requests is answered with an acknowledge and the
  frame of the reading's digits; asking changes no reading. Temperatures are in tenths of a degree.
\<close>

definition sensorResponse :: "char \<Rightarrow> int \<Rightarrow> bytes" where
  "sensorResponse c t = byte_of_char CHR ''S'' # byte_of_char c # sensorDigits t"

definition sensorRequest :: "char \<Rightarrow> bytes" where
  "sensorRequest c = [byte_of_char CHR ''R'', byte_of_char c]"

definition sensor_contract ::
  "('d \<Rightarrow> bytes \<Rightarrow> bytes \<times> 'd) \<Rightarrow> ('d \<Rightarrow> int \<times> int \<times> int) \<Rightarrow> ('d \<Rightarrow> bool) \<Rightarrow> bool" where
  "sensor_contract dev readings valid =
     (\<forall>d room outdoor hum. valid d \<and> readings d = (room, outdoor, hum) \<longrightarrow>
        \<bar>room\<bar> \<le> 999 \<and> \<bar>outdoor\<bar> \<le> 999 \<and> 0 \<le> hum \<and> hum \<le> 100
        \<and> list_all (\<lambda>(c, t). \<exists>d'. dev d (encode (sensorRequest c)) = (kACK # encode (sensorResponse c t), d')
               \<and> valid d' \<and> readings d' = readings d)
            [(CHR ''H'', room), (CHR ''a'', outdoor), (CHR ''e'', hum)])"

lemma sensor_contractD:
  assumes "sensor_contract dev readings valid" and "valid d" and "readings d = (room, outdoor, hum)"
  shows "\<bar>room\<bar> \<le> 999" "\<bar>outdoor\<bar> \<le> 999" "0 \<le> hum" "hum \<le> 255"
    and "(c, t) \<in> {(CHR ''H'', room), (CHR ''a'', outdoor), (CHR ''e'', hum)} \<Longrightarrow>
      \<exists>d'. dev d (encode (sensorRequest c)) = (kACK # encode (sensorResponse c t), d') \<and> valid d' \<and> readings d' = readings d"
proof -
  have all: "\<bar>room\<bar> \<le> 999 \<and> \<bar>outdoor\<bar> \<le> 999 \<and> 0 \<le> hum \<and> hum \<le> 100
      \<and> list_all (\<lambda>(c, t). \<exists>d'. dev d (encode (sensorRequest c)) = (kACK # encode (sensorResponse c t), d')
           \<and> valid d' \<and> readings d' = readings d) [(CHR ''H'', room), (CHR ''a'', outdoor), (CHR ''e'', hum)]"
    using assms unfolding sensor_contract_def by blast
  then show "\<bar>room\<bar> \<le> 999" "\<bar>outdoor\<bar> \<le> 999" "0 \<le> hum" "hum \<le> 255" by simp_all
  show "\<exists>d'. dev d (encode (sensorRequest c)) = (kACK # encode (sensorResponse c t), d') \<and> valid d' \<and> readings d' = readings d"
    if "(c, t) \<in> {(CHR ''H'', room), (CHR ''a'', outdoor), (CHR ''e'', hum)}"
    using all that by auto
qed

lemma digit_byte_safe: "0 \<le> d \<Longrightarrow> d \<le> 9 \<Longrightarrow> 32 \<le> digit_byte d"
  by (simp add: word_le_def uint_digit_byte)

lemma sensorDigits_safe:
  assumes "\<bar>t\<bar> \<le> 999"
  shows "wire_safe (sensorDigits t)"
proof -
  note d = reading_digits [OF assms]
  show ?thesis
    using digit_byte_safe [OF d(1,2)] digit_byte_safe [OF d(3,4)] digit_byte_safe [OF d(5,6)]
    unfolding wire_safe_def sensorDigits_def list_all_iff by (auto simp only: list.set insert_iff empty_iff split: if_splits) simp_all
qed

text \<open>One reading over the wire.\<close>

definition link_at :: "('d \<Rightarrow> bool) \<Rightarrow> ('d \<Rightarrow> 'r) \<Rightarrow> 'r \<Rightarrow> (Uart \<times> 'd) SyncWorld \<Rightarrow> bool" where
  "link_at valid readings r w =
     (link_free (fst (sw_link w)) \<and> valid (snd (sw_link w)) \<and> readings (snd (sw_link w)) = r \<and> \<not> sw_undefined w)"

lemma reading_over_wire:
  assumes unit: "sensor_contract dev readings valid" and r: "r = (room, outdoor, hum)" and w: "link_at valid readings r w"
    and c: "(c, t) \<in> {(CHR ''H'', room), (CHR ''a'', outdoor), (CHR ''e'', hum)}"
  shows "\<exists>v. uart_transact dev (sensorRequest c) (sw_link w) = (Inr (sensorResponse c t), v)
    \<and> link_at valid readings r (w\<lparr>sw_link := v\<rparr>)"
proof -
  obtain u d where ud: "sw_link w = (u, d)" by (cases "sw_link w")
  with w r have d: "link_free u" "valid d" "readings d = (room, outdoor, hum)" by (simp_all add: link_at_def)
  note unit' = sensor_contractD [OF unit d(2,3)]
  have bound: "\<bar>t\<bar> \<le> 999" using unit'(1-4) c by auto
  obtain d' where d': "dev d (encode (sensorRequest c)) = (kACK # encode (sensorResponse c t), d')"
      "valid d'" "readings d' = readings d"
    using unit'(5) [OF c] by blast
  have "wire_safe (sensorResponse c t)" "length (sensorResponse c t) \<le> 28" "sensorResponse c t \<noteq> []"
    using sensorDigits_safe [OF bound] c by (auto simp: sensorResponse_def wire_safe_def sensorDigits_def)
  note outcome = uart_transact_outcome(2) [OF this(3,1,2), of "kACK # encode (sensorResponse c t)" "[]"]
  have "length (sensorRequest c) \<le> 29" by (simp add: sensorRequest_def)
  from uart_transact_run [of u dev, OF d(1) d'(1) this] obtain v where
    "uart_transact dev (sensorRequest c) (u, d) = (Inr (sensorResponse c t), v, d')" "link_free v"
    using outcome by auto
  then show ?thesis using ud d'(2,3) w by (simp add: link_at_def)
qed

lemma sensors_over_wire:
  assumes unit: "sensor_contract dev readings valid" and r: "r = (room, outdoor, hum)" and w: "link_at valid readings r w"
  shows "\<exists>w'. ps_getRoomTemperature (wire_presentation dev) w = (Inr (to_i16 (10 * room)), w') \<and> link_at valid readings r w'"
    and "\<exists>w'. ps_getOutdoorTemperature (wire_presentation dev) w = (Inr (to_i16 (10 * outdoor)), w') \<and> link_at valid readings r w'"
    and "\<exists>w'. ps_getHumidity (wire_presentation dev) w = (Inr (to_u8 hum), w') \<and> link_at valid readings r w'"
proof -
  have b: "\<bar>room\<bar> \<le> 999" "\<bar>outdoor\<bar> \<le> 999" "0 \<le> hum" "hum \<le> 255"
    using sensor_contractD(1-4) [OF unit] w r unfolding link_at_def by blast+
  note wire = reading_over_wire [OF assms]
  note codes = pres_getRoomTemperature_def pres_getOutdoorTemperature_def pres_getHumidity_def sensorRequest_def
    UartLink_def S21PresentationSyncAdapter_def syncCall_def validateResponseCode_def
  show "\<exists>w'. ps_getRoomTemperature (wire_presentation dev) w = (Inr (to_i16 (10 * room)), w') \<and> link_at valid readings r w'"
    using wire [of "CHR ''H''" room] decodeSensorTemp_digits(1) [OF b(1)] by (auto simp: codes sensorResponse_def)
  show "\<exists>w'. ps_getOutdoorTemperature (wire_presentation dev) w = (Inr (to_i16 (10 * outdoor)), w') \<and> link_at valid readings r w'"
    using wire [of "CHR ''a''" outdoor] decodeSensorTemp_digits(1) [OF b(2)] by (auto simp: codes sensorResponse_def)
  show "\<exists>w'. ps_getHumidity (wire_presentation dev) w = (Inr (to_u8 hum), w') \<and> link_at valid readings r w'"
    using wire [of "CHR ''e''" hum] decodeHumidity_digits(1) [OF b(3,4)] by (auto simp: codes sensorResponse_def)
qed

section \<open>Through the manager\<close>

lemma accessors_direct:
  assumes "mIsReady m"
  shows "\<not> isUnsupported (mRoomTemperatureCapability m) \<Longrightarrow> ps_getRoomTemperature P p = (Inr v, p') \<Longrightarrow>
      mgr_getRoomTemperature P m p = (Inr v, m\<lparr>mRoomTemperatureCapability := recordSuccess (mRoomTemperatureCapability m)\<rparr>, p')"
    and "\<not> isUnsupported (mOutdoorTemperatureCapability m) \<Longrightarrow> ps_getOutdoorTemperature P p = (Inr v, p') \<Longrightarrow>
      mgr_getOutdoorTemperature P m p = (Inr v, m\<lparr>mOutdoorTemperatureCapability := recordSuccess (mOutdoorTemperatureCapability m)\<rparr>, p')"
    and "\<not> isUnsupported (mHumidityCapability m) \<Longrightarrow> ps_getHumidity P p = (Inr h, p') \<Longrightarrow>
      mgr_getHumidity P m p = (Inr h, m\<lparr>mHumidityCapability := recordSuccess (mHumidityCapability m)\<rparr>, p')"
  using assms by (simp_all add: mgr_getRoomTemperature_def mgr_getOutdoorTemperature_def mgr_getHumidity_def
      callWithTracking_def fallBackToCoarse_def record_result_def)

lemma readSensors_over_wire:
  assumes unit: "sensor_contract dev readings valid" and r: "r = (room, outdoor, hum)" and w: "link_at valid readings r w"
    and ready: "mIsReady m"
    and supported: "\<not> isUnsupported (mRoomTemperatureCapability m)" "\<not> isUnsupported (mOutdoorTemperatureCapability m)"
      "\<not> isUnsupported (mHumidityCapability m)"
  shows "\<exists>m' w'. readSensors (wire_presentation dev) m w
      = (Some \<lparr>env_indoorTemperatureCelsius = to_i16 (10 * room), env_outdoorTemperatureCelsius = to_i16 (10 * outdoor),
               env_indoorRelativeHumidityPercent = to_u8 hum\<rparr>, m', w') \<and> link_at valid readings r w'"
proof -
  note wire = sensors_over_wire [OF unit r]
  obtain w1 where 1: "ps_getRoomTemperature (wire_presentation dev) w = (Inr (to_i16 (10 * room)), w1)" "link_at valid readings r w1"
    using wire(1) [OF w] by blast
  obtain w2 where 2: "ps_getOutdoorTemperature (wire_presentation dev) w1 = (Inr (to_i16 (10 * outdoor)), w2)" "link_at valid readings r w2"
    using wire(2) [OF 1(2)] by blast
  obtain w3 where 3: "ps_getHumidity (wire_presentation dev) w2 = (Inr (to_u8 hum), w3)" "link_at valid readings r w3"
    using wire(3) [OF 2(2)] by blast
  show ?thesis
    using ready supported 3(2) by (simp add: readSensors_def accessors_direct 1(1) 2(1) 3(1))
qed

section \<open>Properties\<close>

text \<open>
  C8. Sensor readings reach the controller. On a poll that reads the sensors, with a unit that
  answers the three requests on the wire, the bridge takes the readings through the UART link, framing, decoders and
  manager, and controllers then read at the Thermostat cluster exactly the unit's room and outdoor
  temperature, in hundredths of a degree, and at the humidity cluster its relative humidity in hundredths of a
  percent, for every reading the protocol can express. No decoder reads past a response, the link is free again, and no
  command is scheduled.
\<close>

theorem sensor_reading_reaches_controller:
  fixes a :: "(Uart \<times> 'd) SyncWorld AirConditionerManager"
  assumes unit: "sensor_contract dev readings valid"
    and link: "sw_link (link a) = (u, d)" "link_free u" "valid d" "readings d = (room, outdoor, hum)" "\<not> sw_undefined (link a)"
    and k: "mKernel (mSyncCoordinator a) = Some k" and due: "mEnvironmentalReadCountdown a = 0"
    and ready: "mIsReady (mS21Manager a)"
    and supported: "\<not> isUnsupported (mRoomTemperatureCapability (mS21Manager a))"
      "\<not> isUnsupported (mOutdoorTemperatureCapability (mS21Manager a))" "\<not> isUnsupported (mHumidityCapability (mS21Manager a))"
  shows "\<exists>b i o' h. PollEnvironmentalPhase (wire_presentation dev) a = Some b
    \<and> Thermostat_Read LocalTemperature_Id (mSyncCoordinator b) = Some (Encode (EncNullableI16 (NonNull i))) \<and> sint i = 10 * room
    \<and> Thermostat_Read OutdoorTemperature_Id (mSyncCoordinator b) = Some (Encode (EncNullableI16 (NonNull o'))) \<and> sint o' = 10 * outdoor
    \<and> Humidity_Read MeasuredValue_Id (mSyncCoordinator b) = Some (Encode (EncNullableU16 (NonNull h))) \<and> uint h = 100 * hum
    \<and> link_free (fst (sw_link (link b))) \<and> \<not> sw_undefined (link b) \<and> mCommandWork b = mCommandWork a"
proof -
  have w: "link_at valid readings (room, outdoor, hum) (link a)" using link by (simp add: link_at_def)
  have b: "\<bar>room\<bar> \<le> 999" "\<bar>outdoor\<bar> \<le> 999" "0 \<le> hum" "hum \<le> 255"
    using sensor_contractD(1-4) [OF unit link(3,4)] by blast+
  let ?env = "\<lparr>env_indoorTemperatureCelsius = to_i16 (10 * room), env_outdoorTemperatureCelsius = to_i16 (10 * outdoor),
               env_indoorRelativeHumidityPercent = to_u8 hum\<rparr>"
  obtain m w' where s: "readSensors (wire_presentation dev) (mS21Manager a) (link a) = (Some ?env, m, w')"
      "link_at valid readings (room, outdoor, hum) w'"
    using readSensors_over_wire [OF unit refl w ready supported] by blast
  obtain c where c: "PollEnvironmentalPhase (wire_presentation dev) a = Some c"
      "dispatched False k (snd (applyEnvironmentalObservation ?env k)) (setS21 (m, w') (a\<lparr>mEnvironmentalReadCountdown := 5\<rparr>)) c"
    using PollEnvironmentalPhase_read [OF due s(1) k] by blast
  then have kc: "mKernel (mSyncCoordinator c) = Some (snd (applyEnvironmentalObservation ?env k))" "link c = w'"
      "mCommandWork c = mCommandWork a"
    by (simp_all add: dispatched_def)
  let ?h = "ucast (to_u8 hum) * 100 :: u16"
  have "int (unat ?h) = int (unat (to_u8 hum)) * 100" by (simp only: humidity_scale)
  then have h: "uint ?h = 100 * hum" using decodeHumidity_digits(2) [OF b(3,4)] by simp
  have reads: "Thermostat_Read LocalTemperature_Id (mSyncCoordinator c) = Some (Encode (EncNullableI16 (NonNull (to_i16 (10 * room)))))"
      "Thermostat_Read OutdoorTemperature_Id (mSyncCoordinator c) = Some (Encode (EncNullableI16 (NonNull (to_i16 (10 * outdoor)))))"
      "Humidity_Read MeasuredValue_Id (mSyncCoordinator c) = Some (Encode (EncNullableU16 (NonNull ?h)))"
    by (simp_all add: Thermostat_Read_def Humidity_Read_def ReadLocalTemperature_def ReadOutdoorTemperature_def
        ReadHumidityCentiPercent_def wrap_def kc(1))
  show ?thesis
    using c(1) reads h decodeSensorTemp_digits(2) [OF b(1)] decodeSensorTemp_digits(2) [OF b(2)] s(2) kc(2,3)
    unfolding link_at_def by blast
qed

text \<open>A unit at 21.5 degrees indoors, minus 5.3 outdoors and 47 percent.\<close>

definition sensorUnit :: "unit \<Rightarrow> bytes \<Rightarrow> bytes \<times> unit" where
  "sensorUnit d frame =
     (case decode frame of
        Inl _ \<Rightarrow> ([kNAK], d)
      | Inr payload \<Rightarrow>
          (if payload = sensorRequest CHR ''H'' then kACK # encode (sensorResponse CHR ''H'' 215)
           else if payload = sensorRequest CHR ''a'' then kACK # encode (sensorResponse CHR ''a'' (- 53))
           else if payload = sensorRequest CHR ''e'' then kACK # encode (sensorResponse CHR ''e'' 47)
           else [kNAK], d))"

lemma sensorUnit_contract: "sensor_contract sensorUnit (\<lambda>_. (215, - 53, 47)) (\<lambda>_. True)"
  by (simp add: sensor_contract_def sensorUnit_def decode_encode sensorRequest_def)

theorem sensor_reading_reaches_controller_witness:
  "\<exists>b o'. PollEnvironmentalPhase (wire_presentation sensorUnit)
       (AirConditionerManager_new (S21Stack_manager\<lparr>mIsReady := True\<rparr>) initialisedCoordinator
          \<lparr>sw_link = (S21DataLinkUart_new, ()), sw_uptime = 100, sw_undefined = False\<rparr>) = Some b
     \<and> Thermostat_Read OutdoorTemperature_Id (mSyncCoordinator b) = Some (Encode (EncNullableI16 (NonNull o')))
     \<and> sint o' = - 530"
proof -
  let ?a = "AirConditionerManager_new (S21Stack_manager\<lparr>mIsReady := True\<rparr>) initialisedCoordinator
          \<lparr>sw_link = (S21DataLinkUart_new, ()), sw_uptime = 100, sw_undefined = False\<rparr>"
  have a: "sw_link (link ?a) = (S21DataLinkUart_new, ())" "\<not> sw_undefined (link ?a)"
      "mKernel (mSyncCoordinator ?a) = Some (BridgeKernel_new ReconcilerConfig_default)" "mEnvironmentalReadCountdown ?a = 0"
      "mIsReady (mS21Manager ?a)" "\<not> isUnsupported (mRoomTemperatureCapability (mS21Manager ?a))"
      "\<not> isUnsupported (mOutdoorTemperatureCapability (mS21Manager ?a))" "\<not> isUnsupported (mHumidityCapability (mS21Manager ?a))"
    by (simp_all add: AirConditionerManager_new_def S21Stack_manager_def S21Manager_new_def isUnsupported_def CommandCapability_new_def)
  from sensor_reading_reaches_controller [OF sensorUnit_contract a(1) fresh_link_free TrueI refl a(2-8)]
  show ?thesis by (elim exE conjE) (intro exI conjI, assumption+, simp)
qed

end
