(* ===== verification/Data_Model.thy ===== *)
theory Data_Model
  imports AAI_Translation
begin

text \<open>
  The data model the SDK serves (\<open>default_zap/zap-generated/endpoint_config.h\<close>): the attribute, command,
  event and cluster tables of the two endpoints, as the macros of the header define them. Endpoint 0 is the node's
  root, endpoint 1 the air conditioner. Indices into the tables are the numbers of the index macros.
\<close>

datatype ZapDefault = ZAP_EMPTY_DEFAULT | ZAP_SIMPLE_DEFAULT nat | ZAP_MIN_MAX_DEFAULTS_INDEX nat

datatype ZapType =
  ZAP_ARRAY | ZAP_BITMAP8 | ZAP_BITMAP16 | ZAP_BITMAP32 | ZAP_BOOLEAN | ZAP_CHAR_STRING | ZAP_ENUM8 | ZAP_FABRIC_IDX
  | ZAP_INT8U | ZAP_INT8S | ZAP_INT16U | ZAP_INT32U | ZAP_INT32S | ZAP_INT64U | ZAP_OCTET_STRING | ZAP_PERCENT
  | ZAP_STRUCT | ZAP_TEMPERATURE | ZAP_VENDOR_ID

datatype ZapAttributeMask = MIN_MAX | EXTERNAL_STORAGE | WRITABLE | READABLE | NULLABLE

datatype EmberAfAttributeMetadata =
  EmberAfAttributeMetadata (defaultValue: ZapDefault) (attributeId: AttributeId) (attributeSize: nat)
    (attributeType: ZapType) (attributeMask: "ZapAttributeMask list")

datatype EmberAfAttributeMinMaxValue =
  EmberAfAttributeMinMaxValue (mm_defaultValue: u16) (mm_minValue: u16) (mm_maxValue: u16)

datatype ZapClusterMask =
  SERVER | CLIENT | INIT_FUNCTION | ATTRIBUTE_CHANGED_FUNCTION | SHUTDOWN_FUNCTION | PRE_ATTRIBUTE_CHANGED_FUNCTION

datatype EmberAfGenericClusterFunction =
  emberAfGroupsClusterServerInitCallback | emberAfOnOffClusterServerInitCallback
  | MatterOnOffClusterServerShutdownCallback | emberAfThermostatClusterServerInitCallback
  | MatterThermostatClusterServerAttributeChangedCallback | MatterThermostatClusterServerShutdownCallback
  | MatterThermostatClusterServerPreAttributeChangedCallback | MatterFanControlClusterServerAttributeChangedCallback
  | MatterFanControlClusterServerPreAttributeChangedCallback

datatype EmberAfCluster =
  EmberAfCluster (clusterId: ClusterId) (attributesIndex: nat) (attributeCount: nat) (clusterSize: nat)
    (clusterMask: "ZapClusterMask list") (clusterFunctions: "EmberAfGenericClusterFunction list")
    (acceptedCommandList: "nat option") (generatedCommandList: "nat option") (eventList: "nat option") (eventCount: nat)

datatype EmberAfEndpointType =
  EmberAfEndpointType (clusterIndex: nat) (clusterCount: nat) (endpointSize: nat)

section \<open>Tables\<close>

definition GENERATED_MIN_MAX_DEFAULTS :: "EmberAfAttributeMinMaxValue list" where
  "GENERATED_MIN_MAX_DEFAULTS =
   [EmberAfAttributeMinMaxValue 0x10 0x0 0x3F,
    EmberAfAttributeMinMaxValue 0x0 (- 0x6AB3) 0x7FFF,
    EmberAfAttributeMinMaxValue 0x0 (- 0x6AB3) 0x7FFF,
    EmberAfAttributeMinMaxValue 0x5DC (- 0x6AB3) 0x7FFF,
    EmberAfAttributeMinMaxValue 0xAF0 (- 0x6AB3) 0x7FFF,
    EmberAfAttributeMinMaxValue 0x640 (- 0x6AB3) 0x7FFF,
    EmberAfAttributeMinMaxValue 0xC80 (- 0x6AB3) 0x7FFF,
    EmberAfAttributeMinMaxValue 0xA 0x0 0x7F,
    EmberAfAttributeMinMaxValue 0x4 0x0 0x5,
    EmberAfAttributeMinMaxValue 0x0 0x0 0x9,
    EmberAfAttributeMinMaxValue 0x4 0x0 0x4,
    EmberAfAttributeMinMaxValue 0x0 0x0 0x6,
    EmberAfAttributeMinMaxValue 0x0 0x0 0x64,
    EmberAfAttributeMinMaxValue 0x0 0x0 0x64,
    EmberAfAttributeMinMaxValue 0x0 0x0 0x7]"

definition ep0_Descriptor_attributes :: "EmberAfAttributeMetadata list" where
  "ep0_Descriptor_attributes =
   [EmberAfAttributeMetadata ZAP_EMPTY_DEFAULT 0x0000 0 ZAP_ARRAY [EXTERNAL_STORAGE, READABLE],
    EmberAfAttributeMetadata ZAP_EMPTY_DEFAULT 0x0001 0 ZAP_ARRAY [EXTERNAL_STORAGE, READABLE],
    EmberAfAttributeMetadata ZAP_EMPTY_DEFAULT 0x0002 0 ZAP_ARRAY [EXTERNAL_STORAGE, READABLE],
    EmberAfAttributeMetadata ZAP_EMPTY_DEFAULT 0x0003 0 ZAP_ARRAY [EXTERNAL_STORAGE, READABLE],
    EmberAfAttributeMetadata ZAP_EMPTY_DEFAULT 0xFFFC 4 ZAP_BITMAP32 [EXTERNAL_STORAGE, READABLE],
    EmberAfAttributeMetadata ZAP_EMPTY_DEFAULT 0xFFFD 2 ZAP_INT16U [EXTERNAL_STORAGE, READABLE]]"

definition ep0_AccessControl_attributes :: "EmberAfAttributeMetadata list" where
  "ep0_AccessControl_attributes =
   [EmberAfAttributeMetadata ZAP_EMPTY_DEFAULT 0x0000 0 ZAP_ARRAY [EXTERNAL_STORAGE, WRITABLE, READABLE],
    EmberAfAttributeMetadata ZAP_EMPTY_DEFAULT 0x0001 0 ZAP_ARRAY [EXTERNAL_STORAGE, WRITABLE, READABLE],
    EmberAfAttributeMetadata ZAP_EMPTY_DEFAULT 0x0002 2 ZAP_INT16U [EXTERNAL_STORAGE, READABLE],
    EmberAfAttributeMetadata ZAP_EMPTY_DEFAULT 0x0003 2 ZAP_INT16U [EXTERNAL_STORAGE, READABLE],
    EmberAfAttributeMetadata ZAP_EMPTY_DEFAULT 0x0004 2 ZAP_INT16U [EXTERNAL_STORAGE, READABLE],
    EmberAfAttributeMetadata ZAP_EMPTY_DEFAULT 0xFFFC 4 ZAP_BITMAP32 [EXTERNAL_STORAGE, READABLE],
    EmberAfAttributeMetadata ZAP_EMPTY_DEFAULT 0xFFFD 2 ZAP_INT16U [EXTERNAL_STORAGE, READABLE]]"

definition ep0_BasicInformation_attributes :: "EmberAfAttributeMetadata list" where
  "ep0_BasicInformation_attributes =
   [EmberAfAttributeMetadata ZAP_EMPTY_DEFAULT 0x0000 2 ZAP_INT16U [EXTERNAL_STORAGE, READABLE],
    EmberAfAttributeMetadata ZAP_EMPTY_DEFAULT 0x0001 33 ZAP_CHAR_STRING [EXTERNAL_STORAGE, READABLE],
    EmberAfAttributeMetadata ZAP_EMPTY_DEFAULT 0x0002 2 ZAP_VENDOR_ID [EXTERNAL_STORAGE, READABLE],
    EmberAfAttributeMetadata ZAP_EMPTY_DEFAULT 0x0003 33 ZAP_CHAR_STRING [EXTERNAL_STORAGE, READABLE],
    EmberAfAttributeMetadata ZAP_EMPTY_DEFAULT 0x0004 2 ZAP_INT16U [EXTERNAL_STORAGE, READABLE],
    EmberAfAttributeMetadata ZAP_EMPTY_DEFAULT 0x0005 33 ZAP_CHAR_STRING [EXTERNAL_STORAGE, WRITABLE, READABLE],
    EmberAfAttributeMetadata ZAP_EMPTY_DEFAULT 0x0006 3 ZAP_CHAR_STRING [EXTERNAL_STORAGE, WRITABLE, READABLE],
    EmberAfAttributeMetadata ZAP_EMPTY_DEFAULT 0x0007 2 ZAP_INT16U [EXTERNAL_STORAGE, READABLE],
    EmberAfAttributeMetadata ZAP_EMPTY_DEFAULT 0x0008 65 ZAP_CHAR_STRING [EXTERNAL_STORAGE, READABLE],
    EmberAfAttributeMetadata ZAP_EMPTY_DEFAULT 0x0009 4 ZAP_INT32U [EXTERNAL_STORAGE, READABLE],
    EmberAfAttributeMetadata ZAP_EMPTY_DEFAULT 0x000A 65 ZAP_CHAR_STRING [EXTERNAL_STORAGE, READABLE],
    EmberAfAttributeMetadata ZAP_EMPTY_DEFAULT 0x000B 17 ZAP_CHAR_STRING [EXTERNAL_STORAGE, READABLE],
    EmberAfAttributeMetadata ZAP_EMPTY_DEFAULT 0x000F 33 ZAP_CHAR_STRING [EXTERNAL_STORAGE, READABLE],
    EmberAfAttributeMetadata ZAP_EMPTY_DEFAULT 0x0012 33 ZAP_CHAR_STRING [EXTERNAL_STORAGE, READABLE],
    EmberAfAttributeMetadata ZAP_EMPTY_DEFAULT 0x0013 0 ZAP_STRUCT [EXTERNAL_STORAGE, READABLE],
    EmberAfAttributeMetadata ZAP_EMPTY_DEFAULT 0x0015 4 ZAP_INT32U [EXTERNAL_STORAGE, READABLE],
    EmberAfAttributeMetadata ZAP_EMPTY_DEFAULT 0x0016 2 ZAP_INT16U [EXTERNAL_STORAGE, READABLE],
    EmberAfAttributeMetadata ZAP_EMPTY_DEFAULT 0xFFFC 4 ZAP_BITMAP32 [EXTERNAL_STORAGE, READABLE],
    EmberAfAttributeMetadata ZAP_EMPTY_DEFAULT 0xFFFD 2 ZAP_INT16U [EXTERNAL_STORAGE, READABLE]]"

definition ep0_OTASoftwareUpdateRequestor_attributes :: "EmberAfAttributeMetadata list" where
  "ep0_OTASoftwareUpdateRequestor_attributes =
   [EmberAfAttributeMetadata ZAP_EMPTY_DEFAULT 0x0000 0 ZAP_ARRAY [EXTERNAL_STORAGE, WRITABLE, READABLE],
    EmberAfAttributeMetadata (ZAP_SIMPLE_DEFAULT 1) 0x0001 1 ZAP_BOOLEAN [READABLE],
    EmberAfAttributeMetadata (ZAP_SIMPLE_DEFAULT 0) 0x0002 1 ZAP_ENUM8 [READABLE],
    EmberAfAttributeMetadata ZAP_EMPTY_DEFAULT 0x0003 1 ZAP_INT8U [READABLE, NULLABLE],
    EmberAfAttributeMetadata (ZAP_SIMPLE_DEFAULT 0) 0xFFFC 4 ZAP_BITMAP32 [READABLE],
    EmberAfAttributeMetadata (ZAP_SIMPLE_DEFAULT 1) 0xFFFD 2 ZAP_INT16U [READABLE]]"

definition ep0_GeneralCommissioning_attributes :: "EmberAfAttributeMetadata list" where
  "ep0_GeneralCommissioning_attributes =
   [EmberAfAttributeMetadata ZAP_EMPTY_DEFAULT 0x0000 8 ZAP_INT64U [EXTERNAL_STORAGE, WRITABLE, READABLE],
    EmberAfAttributeMetadata ZAP_EMPTY_DEFAULT 0x0001 0 ZAP_STRUCT [EXTERNAL_STORAGE, READABLE],
    EmberAfAttributeMetadata ZAP_EMPTY_DEFAULT 0x0002 1 ZAP_ENUM8 [EXTERNAL_STORAGE, READABLE],
    EmberAfAttributeMetadata ZAP_EMPTY_DEFAULT 0x0003 1 ZAP_ENUM8 [EXTERNAL_STORAGE, READABLE],
    EmberAfAttributeMetadata ZAP_EMPTY_DEFAULT 0x0004 1 ZAP_BOOLEAN [EXTERNAL_STORAGE, READABLE],
    EmberAfAttributeMetadata ZAP_EMPTY_DEFAULT 0xFFFC 4 ZAP_BITMAP32 [EXTERNAL_STORAGE, READABLE],
    EmberAfAttributeMetadata ZAP_EMPTY_DEFAULT 0xFFFD 2 ZAP_INT16U [EXTERNAL_STORAGE, READABLE]]"

definition ep0_NetworkCommissioning_attributes :: "EmberAfAttributeMetadata list" where
  "ep0_NetworkCommissioning_attributes =
   [EmberAfAttributeMetadata ZAP_EMPTY_DEFAULT 0x0000 1 ZAP_INT8U [EXTERNAL_STORAGE, READABLE],
    EmberAfAttributeMetadata ZAP_EMPTY_DEFAULT 0x0001 0 ZAP_ARRAY [EXTERNAL_STORAGE, READABLE],
    EmberAfAttributeMetadata ZAP_EMPTY_DEFAULT 0x0002 1 ZAP_INT8U [EXTERNAL_STORAGE, READABLE],
    EmberAfAttributeMetadata ZAP_EMPTY_DEFAULT 0x0003 1 ZAP_INT8U [EXTERNAL_STORAGE, READABLE],
    EmberAfAttributeMetadata ZAP_EMPTY_DEFAULT 0x0004 1 ZAP_BOOLEAN [EXTERNAL_STORAGE, WRITABLE, READABLE],
    EmberAfAttributeMetadata ZAP_EMPTY_DEFAULT 0x0005 1 ZAP_ENUM8 [EXTERNAL_STORAGE, READABLE, NULLABLE],
    EmberAfAttributeMetadata ZAP_EMPTY_DEFAULT 0x0006 33 ZAP_OCTET_STRING [EXTERNAL_STORAGE, READABLE, NULLABLE],
    EmberAfAttributeMetadata ZAP_EMPTY_DEFAULT 0x0007 4 ZAP_INT32S [EXTERNAL_STORAGE, READABLE, NULLABLE],
    EmberAfAttributeMetadata ZAP_EMPTY_DEFAULT 0x0008 0 ZAP_ARRAY [EXTERNAL_STORAGE, READABLE],
    EmberAfAttributeMetadata ZAP_EMPTY_DEFAULT 0x0009 2 ZAP_BITMAP16 [EXTERNAL_STORAGE, READABLE],
    EmberAfAttributeMetadata ZAP_EMPTY_DEFAULT 0x000A 2 ZAP_INT16U [EXTERNAL_STORAGE, READABLE],
    EmberAfAttributeMetadata ZAP_EMPTY_DEFAULT 0xFFFC 4 ZAP_BITMAP32 [EXTERNAL_STORAGE, READABLE],
    EmberAfAttributeMetadata ZAP_EMPTY_DEFAULT 0xFFFD 2 ZAP_INT16U [EXTERNAL_STORAGE, READABLE]]"

definition ep0_DiagnosticLogs_attributes :: "EmberAfAttributeMetadata list" where
  "ep0_DiagnosticLogs_attributes =
   [EmberAfAttributeMetadata ZAP_EMPTY_DEFAULT 0xFFFC 4 ZAP_BITMAP32 [EXTERNAL_STORAGE, READABLE],
    EmberAfAttributeMetadata ZAP_EMPTY_DEFAULT 0xFFFD 2 ZAP_INT16U [EXTERNAL_STORAGE, READABLE]]"

definition ep0_GeneralDiagnostics_attributes :: "EmberAfAttributeMetadata list" where
  "ep0_GeneralDiagnostics_attributes =
   [EmberAfAttributeMetadata ZAP_EMPTY_DEFAULT 0x0000 0 ZAP_ARRAY [EXTERNAL_STORAGE, READABLE],
    EmberAfAttributeMetadata ZAP_EMPTY_DEFAULT 0x0001 2 ZAP_INT16U [EXTERNAL_STORAGE, READABLE],
    EmberAfAttributeMetadata ZAP_EMPTY_DEFAULT 0x0002 8 ZAP_INT64U [EXTERNAL_STORAGE, READABLE],
    EmberAfAttributeMetadata ZAP_EMPTY_DEFAULT 0x0003 4 ZAP_INT32U [EXTERNAL_STORAGE, READABLE],
    EmberAfAttributeMetadata ZAP_EMPTY_DEFAULT 0x0004 1 ZAP_ENUM8 [EXTERNAL_STORAGE, READABLE],
    EmberAfAttributeMetadata ZAP_EMPTY_DEFAULT 0x0008 1 ZAP_BOOLEAN [EXTERNAL_STORAGE, READABLE],
    EmberAfAttributeMetadata ZAP_EMPTY_DEFAULT 0xFFFC 4 ZAP_BITMAP32 [EXTERNAL_STORAGE, READABLE],
    EmberAfAttributeMetadata ZAP_EMPTY_DEFAULT 0xFFFD 2 ZAP_INT16U [EXTERNAL_STORAGE, READABLE]]"

definition ep0_SoftwareDiagnostics_attributes :: "EmberAfAttributeMetadata list" where
  "ep0_SoftwareDiagnostics_attributes =
   [EmberAfAttributeMetadata ZAP_EMPTY_DEFAULT 0x0001 8 ZAP_INT64U [EXTERNAL_STORAGE, READABLE],
    EmberAfAttributeMetadata ZAP_EMPTY_DEFAULT 0x0002 8 ZAP_INT64U [EXTERNAL_STORAGE, READABLE],
    EmberAfAttributeMetadata ZAP_EMPTY_DEFAULT 0xFFFC 4 ZAP_BITMAP32 [EXTERNAL_STORAGE, READABLE],
    EmberAfAttributeMetadata ZAP_EMPTY_DEFAULT 0xFFFD 2 ZAP_INT16U [EXTERNAL_STORAGE, READABLE]]"

definition ep0_ThreadNetworkDiagnostics_attributes :: "EmberAfAttributeMetadata list" where
  "ep0_ThreadNetworkDiagnostics_attributes =
   [EmberAfAttributeMetadata ZAP_EMPTY_DEFAULT 0x0000 2 ZAP_INT16U [EXTERNAL_STORAGE, READABLE, NULLABLE],
    EmberAfAttributeMetadata ZAP_EMPTY_DEFAULT 0x0001 1 ZAP_ENUM8 [EXTERNAL_STORAGE, READABLE, NULLABLE],
    EmberAfAttributeMetadata ZAP_EMPTY_DEFAULT 0x0002 17 ZAP_CHAR_STRING [EXTERNAL_STORAGE, READABLE, NULLABLE],
    EmberAfAttributeMetadata ZAP_EMPTY_DEFAULT 0x0003 2 ZAP_INT16U [EXTERNAL_STORAGE, READABLE, NULLABLE],
    EmberAfAttributeMetadata ZAP_EMPTY_DEFAULT 0x0004 8 ZAP_INT64U [EXTERNAL_STORAGE, READABLE, NULLABLE],
    EmberAfAttributeMetadata ZAP_EMPTY_DEFAULT 0x0005 18 ZAP_OCTET_STRING [EXTERNAL_STORAGE, READABLE, NULLABLE],
    EmberAfAttributeMetadata ZAP_EMPTY_DEFAULT 0x0006 8 ZAP_INT64U [EXTERNAL_STORAGE, READABLE],
    EmberAfAttributeMetadata ZAP_EMPTY_DEFAULT 0x0007 0 ZAP_ARRAY [EXTERNAL_STORAGE, READABLE],
    EmberAfAttributeMetadata ZAP_EMPTY_DEFAULT 0x0008 0 ZAP_ARRAY [EXTERNAL_STORAGE, READABLE],
    EmberAfAttributeMetadata ZAP_EMPTY_DEFAULT 0x0009 4 ZAP_INT32U [EXTERNAL_STORAGE, READABLE, NULLABLE],
    EmberAfAttributeMetadata ZAP_EMPTY_DEFAULT 0x000A 2 ZAP_INT16U [EXTERNAL_STORAGE, READABLE, NULLABLE],
    EmberAfAttributeMetadata ZAP_EMPTY_DEFAULT 0x000B 2 ZAP_INT16U [EXTERNAL_STORAGE, READABLE, NULLABLE],
    EmberAfAttributeMetadata ZAP_EMPTY_DEFAULT 0x000C 2 ZAP_INT16U [EXTERNAL_STORAGE, READABLE, NULLABLE],
    EmberAfAttributeMetadata ZAP_EMPTY_DEFAULT 0x000D 1 ZAP_INT8U [EXTERNAL_STORAGE, READABLE, NULLABLE],
    EmberAfAttributeMetadata ZAP_EMPTY_DEFAULT 0x000E 2 ZAP_INT16U [EXTERNAL_STORAGE, READABLE],
    EmberAfAttributeMetadata ZAP_EMPTY_DEFAULT 0x000F 2 ZAP_INT16U [EXTERNAL_STORAGE, READABLE],
    EmberAfAttributeMetadata ZAP_EMPTY_DEFAULT 0x0010 2 ZAP_INT16U [EXTERNAL_STORAGE, READABLE],
    EmberAfAttributeMetadata ZAP_EMPTY_DEFAULT 0x0011 2 ZAP_INT16U [EXTERNAL_STORAGE, READABLE],
    EmberAfAttributeMetadata ZAP_EMPTY_DEFAULT 0x0012 2 ZAP_INT16U [EXTERNAL_STORAGE, READABLE],
    EmberAfAttributeMetadata ZAP_EMPTY_DEFAULT 0x0013 2 ZAP_INT16U [EXTERNAL_STORAGE, READABLE],
    EmberAfAttributeMetadata ZAP_EMPTY_DEFAULT 0x0014 2 ZAP_INT16U [EXTERNAL_STORAGE, READABLE],
    EmberAfAttributeMetadata ZAP_EMPTY_DEFAULT 0x0015 2 ZAP_INT16U [EXTERNAL_STORAGE, READABLE],
    EmberAfAttributeMetadata ZAP_EMPTY_DEFAULT 0x0016 4 ZAP_INT32U [EXTERNAL_STORAGE, READABLE],
    EmberAfAttributeMetadata ZAP_EMPTY_DEFAULT 0x0017 4 ZAP_INT32U [EXTERNAL_STORAGE, READABLE],
    EmberAfAttributeMetadata ZAP_EMPTY_DEFAULT 0x0018 4 ZAP_INT32U [EXTERNAL_STORAGE, READABLE],
    EmberAfAttributeMetadata ZAP_EMPTY_DEFAULT 0x0019 4 ZAP_INT32U [EXTERNAL_STORAGE, READABLE],
    EmberAfAttributeMetadata ZAP_EMPTY_DEFAULT 0x001A 4 ZAP_INT32U [EXTERNAL_STORAGE, READABLE],
    EmberAfAttributeMetadata ZAP_EMPTY_DEFAULT 0x001B 4 ZAP_INT32U [EXTERNAL_STORAGE, READABLE],
    EmberAfAttributeMetadata ZAP_EMPTY_DEFAULT 0x001C 4 ZAP_INT32U [EXTERNAL_STORAGE, READABLE],
    EmberAfAttributeMetadata ZAP_EMPTY_DEFAULT 0x001D 4 ZAP_INT32U [EXTERNAL_STORAGE, READABLE],
    EmberAfAttributeMetadata ZAP_EMPTY_DEFAULT 0x001E 4 ZAP_INT32U [EXTERNAL_STORAGE, READABLE],
    EmberAfAttributeMetadata ZAP_EMPTY_DEFAULT 0x001F 4 ZAP_INT32U [EXTERNAL_STORAGE, READABLE],
    EmberAfAttributeMetadata ZAP_EMPTY_DEFAULT 0x0020 4 ZAP_INT32U [EXTERNAL_STORAGE, READABLE],
    EmberAfAttributeMetadata ZAP_EMPTY_DEFAULT 0x0021 4 ZAP_INT32U [EXTERNAL_STORAGE, READABLE],
    EmberAfAttributeMetadata ZAP_EMPTY_DEFAULT 0x0022 4 ZAP_INT32U [EXTERNAL_STORAGE, READABLE],
    EmberAfAttributeMetadata ZAP_EMPTY_DEFAULT 0x0023 4 ZAP_INT32U [EXTERNAL_STORAGE, READABLE],
    EmberAfAttributeMetadata ZAP_EMPTY_DEFAULT 0x0024 4 ZAP_INT32U [EXTERNAL_STORAGE, READABLE],
    EmberAfAttributeMetadata ZAP_EMPTY_DEFAULT 0x0025 4 ZAP_INT32U [EXTERNAL_STORAGE, READABLE],
    EmberAfAttributeMetadata ZAP_EMPTY_DEFAULT 0x0026 4 ZAP_INT32U [EXTERNAL_STORAGE, READABLE],
    EmberAfAttributeMetadata ZAP_EMPTY_DEFAULT 0x0027 4 ZAP_INT32U [EXTERNAL_STORAGE, READABLE],
    EmberAfAttributeMetadata ZAP_EMPTY_DEFAULT 0x0028 4 ZAP_INT32U [EXTERNAL_STORAGE, READABLE],
    EmberAfAttributeMetadata ZAP_EMPTY_DEFAULT 0x0029 4 ZAP_INT32U [EXTERNAL_STORAGE, READABLE],
    EmberAfAttributeMetadata ZAP_EMPTY_DEFAULT 0x002A 4 ZAP_INT32U [EXTERNAL_STORAGE, READABLE],
    EmberAfAttributeMetadata ZAP_EMPTY_DEFAULT 0x002B 4 ZAP_INT32U [EXTERNAL_STORAGE, READABLE],
    EmberAfAttributeMetadata ZAP_EMPTY_DEFAULT 0x002C 4 ZAP_INT32U [EXTERNAL_STORAGE, READABLE],
    EmberAfAttributeMetadata ZAP_EMPTY_DEFAULT 0x002D 4 ZAP_INT32U [EXTERNAL_STORAGE, READABLE],
    EmberAfAttributeMetadata ZAP_EMPTY_DEFAULT 0x002E 4 ZAP_INT32U [EXTERNAL_STORAGE, READABLE],
    EmberAfAttributeMetadata ZAP_EMPTY_DEFAULT 0x002F 4 ZAP_INT32U [EXTERNAL_STORAGE, READABLE],
    EmberAfAttributeMetadata ZAP_EMPTY_DEFAULT 0x0030 4 ZAP_INT32U [EXTERNAL_STORAGE, READABLE],
    EmberAfAttributeMetadata ZAP_EMPTY_DEFAULT 0x0031 4 ZAP_INT32U [EXTERNAL_STORAGE, READABLE],
    EmberAfAttributeMetadata ZAP_EMPTY_DEFAULT 0x0032 4 ZAP_INT32U [EXTERNAL_STORAGE, READABLE],
    EmberAfAttributeMetadata ZAP_EMPTY_DEFAULT 0x0033 4 ZAP_INT32U [EXTERNAL_STORAGE, READABLE],
    EmberAfAttributeMetadata ZAP_EMPTY_DEFAULT 0x0034 4 ZAP_INT32U [EXTERNAL_STORAGE, READABLE],
    EmberAfAttributeMetadata ZAP_EMPTY_DEFAULT 0x0035 4 ZAP_INT32U [EXTERNAL_STORAGE, READABLE],
    EmberAfAttributeMetadata ZAP_EMPTY_DEFAULT 0x0036 4 ZAP_INT32U [EXTERNAL_STORAGE, READABLE],
    EmberAfAttributeMetadata ZAP_EMPTY_DEFAULT 0x0037 4 ZAP_INT32U [EXTERNAL_STORAGE, READABLE],
    EmberAfAttributeMetadata ZAP_EMPTY_DEFAULT 0x0038 8 ZAP_INT64U [EXTERNAL_STORAGE, READABLE, NULLABLE],
    EmberAfAttributeMetadata ZAP_EMPTY_DEFAULT 0x0039 8 ZAP_INT64U [EXTERNAL_STORAGE, READABLE, NULLABLE],
    EmberAfAttributeMetadata ZAP_EMPTY_DEFAULT 0x003A 4 ZAP_INT32U [EXTERNAL_STORAGE, READABLE, NULLABLE],
    EmberAfAttributeMetadata ZAP_EMPTY_DEFAULT 0x003B 0 ZAP_STRUCT [EXTERNAL_STORAGE, READABLE, NULLABLE],
    EmberAfAttributeMetadata ZAP_EMPTY_DEFAULT 0x003C 5 ZAP_OCTET_STRING [EXTERNAL_STORAGE, READABLE, NULLABLE],
    EmberAfAttributeMetadata ZAP_EMPTY_DEFAULT 0x003D 0 ZAP_STRUCT [EXTERNAL_STORAGE, READABLE, NULLABLE],
    EmberAfAttributeMetadata ZAP_EMPTY_DEFAULT 0x003E 0 ZAP_ARRAY [EXTERNAL_STORAGE, READABLE],
    EmberAfAttributeMetadata (ZAP_SIMPLE_DEFAULT 0x000F) 0xFFFC 4 ZAP_BITMAP32 [READABLE],
    EmberAfAttributeMetadata ZAP_EMPTY_DEFAULT 0xFFFD 2 ZAP_INT16U [EXTERNAL_STORAGE, READABLE]]"

definition ep0_WiFiNetworkDiagnostics_attributes :: "EmberAfAttributeMetadata list" where
  "ep0_WiFiNetworkDiagnostics_attributes =
   [EmberAfAttributeMetadata ZAP_EMPTY_DEFAULT 0x0000 7 ZAP_OCTET_STRING [EXTERNAL_STORAGE, READABLE, NULLABLE],
    EmberAfAttributeMetadata ZAP_EMPTY_DEFAULT 0x0001 1 ZAP_ENUM8 [EXTERNAL_STORAGE, READABLE, NULLABLE],
    EmberAfAttributeMetadata ZAP_EMPTY_DEFAULT 0x0002 1 ZAP_ENUM8 [EXTERNAL_STORAGE, READABLE, NULLABLE],
    EmberAfAttributeMetadata ZAP_EMPTY_DEFAULT 0x0003 2 ZAP_INT16U [EXTERNAL_STORAGE, READABLE, NULLABLE],
    EmberAfAttributeMetadata ZAP_EMPTY_DEFAULT 0x0004 1 ZAP_INT8S [EXTERNAL_STORAGE, READABLE, NULLABLE],
    EmberAfAttributeMetadata ZAP_EMPTY_DEFAULT 0x0006 4 ZAP_INT32U [EXTERNAL_STORAGE, READABLE, NULLABLE],
    EmberAfAttributeMetadata ZAP_EMPTY_DEFAULT 0x0007 4 ZAP_INT32U [EXTERNAL_STORAGE, READABLE, NULLABLE],
    EmberAfAttributeMetadata ZAP_EMPTY_DEFAULT 0x0008 4 ZAP_INT32U [EXTERNAL_STORAGE, READABLE, NULLABLE],
    EmberAfAttributeMetadata ZAP_EMPTY_DEFAULT 0x0009 4 ZAP_INT32U [EXTERNAL_STORAGE, READABLE, NULLABLE],
    EmberAfAttributeMetadata ZAP_EMPTY_DEFAULT 0x000A 4 ZAP_INT32U [EXTERNAL_STORAGE, READABLE, NULLABLE],
    EmberAfAttributeMetadata (ZAP_SIMPLE_DEFAULT 1) 0xFFFC 4 ZAP_BITMAP32 [READABLE],
    EmberAfAttributeMetadata (ZAP_SIMPLE_DEFAULT 0x0001) 0xFFFD 2 ZAP_INT16U [READABLE]]"

definition ep0_AdministratorCommissioning_attributes :: "EmberAfAttributeMetadata list" where
  "ep0_AdministratorCommissioning_attributes =
   [EmberAfAttributeMetadata ZAP_EMPTY_DEFAULT 0x0000 1 ZAP_ENUM8 [EXTERNAL_STORAGE, READABLE],
    EmberAfAttributeMetadata ZAP_EMPTY_DEFAULT 0x0001 1 ZAP_FABRIC_IDX [EXTERNAL_STORAGE, READABLE, NULLABLE],
    EmberAfAttributeMetadata ZAP_EMPTY_DEFAULT 0x0002 2 ZAP_VENDOR_ID [EXTERNAL_STORAGE, READABLE, NULLABLE],
    EmberAfAttributeMetadata (ZAP_SIMPLE_DEFAULT 1) 0xFFFC 4 ZAP_BITMAP32 [READABLE],
    EmberAfAttributeMetadata ZAP_EMPTY_DEFAULT 0xFFFD 2 ZAP_INT16U [EXTERNAL_STORAGE, READABLE]]"

definition ep0_OperationalCredentials_attributes :: "EmberAfAttributeMetadata list" where
  "ep0_OperationalCredentials_attributes =
   [EmberAfAttributeMetadata ZAP_EMPTY_DEFAULT 0x0000 0 ZAP_ARRAY [EXTERNAL_STORAGE, READABLE],
    EmberAfAttributeMetadata ZAP_EMPTY_DEFAULT 0x0001 0 ZAP_ARRAY [EXTERNAL_STORAGE, READABLE],
    EmberAfAttributeMetadata ZAP_EMPTY_DEFAULT 0x0002 1 ZAP_INT8U [EXTERNAL_STORAGE, READABLE],
    EmberAfAttributeMetadata ZAP_EMPTY_DEFAULT 0x0003 1 ZAP_INT8U [EXTERNAL_STORAGE, READABLE],
    EmberAfAttributeMetadata ZAP_EMPTY_DEFAULT 0x0004 0 ZAP_ARRAY [EXTERNAL_STORAGE, READABLE],
    EmberAfAttributeMetadata ZAP_EMPTY_DEFAULT 0x0005 1 ZAP_INT8U [EXTERNAL_STORAGE, READABLE],
    EmberAfAttributeMetadata ZAP_EMPTY_DEFAULT 0xFFFC 4 ZAP_BITMAP32 [EXTERNAL_STORAGE, READABLE],
    EmberAfAttributeMetadata ZAP_EMPTY_DEFAULT 0xFFFD 2 ZAP_INT16U [EXTERNAL_STORAGE, READABLE]]"

definition ep0_GroupKeyManagement_attributes :: "EmberAfAttributeMetadata list" where
  "ep0_GroupKeyManagement_attributes =
   [EmberAfAttributeMetadata ZAP_EMPTY_DEFAULT 0x0000 0 ZAP_ARRAY [EXTERNAL_STORAGE, WRITABLE, READABLE],
    EmberAfAttributeMetadata ZAP_EMPTY_DEFAULT 0x0001 0 ZAP_ARRAY [EXTERNAL_STORAGE, READABLE],
    EmberAfAttributeMetadata ZAP_EMPTY_DEFAULT 0x0002 2 ZAP_INT16U [EXTERNAL_STORAGE, READABLE],
    EmberAfAttributeMetadata ZAP_EMPTY_DEFAULT 0x0003 2 ZAP_INT16U [EXTERNAL_STORAGE, READABLE],
    EmberAfAttributeMetadata ZAP_EMPTY_DEFAULT 0xFFFC 4 ZAP_BITMAP32 [EXTERNAL_STORAGE, READABLE],
    EmberAfAttributeMetadata ZAP_EMPTY_DEFAULT 0xFFFD 2 ZAP_INT16U [EXTERNAL_STORAGE, READABLE]]"

definition ep1_Identify_attributes :: "EmberAfAttributeMetadata list" where
  "ep1_Identify_attributes =
   [EmberAfAttributeMetadata ZAP_EMPTY_DEFAULT 0x0000 2 ZAP_INT16U [EXTERNAL_STORAGE, WRITABLE, READABLE],
    EmberAfAttributeMetadata ZAP_EMPTY_DEFAULT 0x0001 1 ZAP_ENUM8 [EXTERNAL_STORAGE, READABLE],
    EmberAfAttributeMetadata ZAP_EMPTY_DEFAULT 0xFFFC 4 ZAP_BITMAP32 [EXTERNAL_STORAGE, READABLE],
    EmberAfAttributeMetadata ZAP_EMPTY_DEFAULT 0xFFFD 2 ZAP_INT16U [EXTERNAL_STORAGE, READABLE]]"

definition ep1_Groups_attributes :: "EmberAfAttributeMetadata list" where
  "ep1_Groups_attributes =
   [EmberAfAttributeMetadata (ZAP_SIMPLE_DEFAULT 0x00) 0x0000 1 ZAP_BITMAP8 [READABLE],
    EmberAfAttributeMetadata (ZAP_SIMPLE_DEFAULT 0) 0xFFFC 4 ZAP_BITMAP32 [READABLE],
    EmberAfAttributeMetadata (ZAP_SIMPLE_DEFAULT 4) 0xFFFD 2 ZAP_INT16U [READABLE]]"

definition ep1_OnOff_attributes :: "EmberAfAttributeMetadata list" where
  "ep1_OnOff_attributes =
   [EmberAfAttributeMetadata ZAP_EMPTY_DEFAULT 0x0000 1 ZAP_BOOLEAN [EXTERNAL_STORAGE, READABLE],
    EmberAfAttributeMetadata (ZAP_SIMPLE_DEFAULT 2) 0xFFFC 4 ZAP_BITMAP32 [READABLE],
    EmberAfAttributeMetadata (ZAP_SIMPLE_DEFAULT 6) 0xFFFD 2 ZAP_INT16U [READABLE]]"

definition ep1_Descriptor_attributes :: "EmberAfAttributeMetadata list" where
  "ep1_Descriptor_attributes =
   [EmberAfAttributeMetadata ZAP_EMPTY_DEFAULT 0x0000 0 ZAP_ARRAY [EXTERNAL_STORAGE, READABLE],
    EmberAfAttributeMetadata ZAP_EMPTY_DEFAULT 0x0001 0 ZAP_ARRAY [EXTERNAL_STORAGE, READABLE],
    EmberAfAttributeMetadata ZAP_EMPTY_DEFAULT 0x0002 0 ZAP_ARRAY [EXTERNAL_STORAGE, READABLE],
    EmberAfAttributeMetadata ZAP_EMPTY_DEFAULT 0x0003 0 ZAP_ARRAY [EXTERNAL_STORAGE, READABLE],
    EmberAfAttributeMetadata ZAP_EMPTY_DEFAULT 0xFFFC 4 ZAP_BITMAP32 [EXTERNAL_STORAGE, READABLE],
    EmberAfAttributeMetadata ZAP_EMPTY_DEFAULT 0xFFFD 2 ZAP_INT16U [EXTERNAL_STORAGE, READABLE]]"

definition ep1_Binding_attributes :: "EmberAfAttributeMetadata list" where
  "ep1_Binding_attributes =
   [EmberAfAttributeMetadata ZAP_EMPTY_DEFAULT 0x0000 0 ZAP_ARRAY [EXTERNAL_STORAGE, WRITABLE, READABLE],
    EmberAfAttributeMetadata ZAP_EMPTY_DEFAULT 0xFFFC 4 ZAP_BITMAP32 [EXTERNAL_STORAGE, READABLE],
    EmberAfAttributeMetadata ZAP_EMPTY_DEFAULT 0xFFFD 2 ZAP_INT16U [EXTERNAL_STORAGE, READABLE]]"

definition ep1_Thermostat_attributes :: "EmberAfAttributeMetadata list" where
  "ep1_Thermostat_attributes =
   [EmberAfAttributeMetadata ZAP_EMPTY_DEFAULT 0x0000 2 ZAP_TEMPERATURE [EXTERNAL_STORAGE, READABLE, NULLABLE],
    EmberAfAttributeMetadata ZAP_EMPTY_DEFAULT 0x0001 2 ZAP_TEMPERATURE [EXTERNAL_STORAGE, READABLE, NULLABLE],
    EmberAfAttributeMetadata (ZAP_SIMPLE_DEFAULT 1000) 0x0003 2 ZAP_TEMPERATURE [READABLE],
    EmberAfAttributeMetadata (ZAP_SIMPLE_DEFAULT 3000) 0x0004 2 ZAP_TEMPERATURE [READABLE],
    EmberAfAttributeMetadata (ZAP_SIMPLE_DEFAULT 1800) 0x0005 2 ZAP_TEMPERATURE [READABLE],
    EmberAfAttributeMetadata (ZAP_SIMPLE_DEFAULT 3200) 0x0006 2 ZAP_TEMPERATURE [READABLE],
    EmberAfAttributeMetadata (ZAP_MIN_MAX_DEFAULTS_INDEX 0) 0x0009 1 ZAP_BITMAP8 [MIN_MAX, WRITABLE, READABLE],
    EmberAfAttributeMetadata (ZAP_MIN_MAX_DEFAULTS_INDEX 1) 0x0011 2 ZAP_TEMPERATURE [MIN_MAX, EXTERNAL_STORAGE, WRITABLE, READABLE],
    EmberAfAttributeMetadata (ZAP_MIN_MAX_DEFAULTS_INDEX 2) 0x0012 2 ZAP_TEMPERATURE [MIN_MAX, EXTERNAL_STORAGE, WRITABLE, READABLE],
    EmberAfAttributeMetadata (ZAP_MIN_MAX_DEFAULTS_INDEX 3) 0x0015 2 ZAP_TEMPERATURE [MIN_MAX, WRITABLE, READABLE],
    EmberAfAttributeMetadata (ZAP_MIN_MAX_DEFAULTS_INDEX 4) 0x0016 2 ZAP_TEMPERATURE [MIN_MAX, WRITABLE, READABLE],
    EmberAfAttributeMetadata (ZAP_MIN_MAX_DEFAULTS_INDEX 5) 0x0017 2 ZAP_TEMPERATURE [MIN_MAX, WRITABLE, READABLE],
    EmberAfAttributeMetadata (ZAP_MIN_MAX_DEFAULTS_INDEX 6) 0x0018 2 ZAP_TEMPERATURE [MIN_MAX, WRITABLE, READABLE],
    EmberAfAttributeMetadata (ZAP_MIN_MAX_DEFAULTS_INDEX 7) 0x0019 1 ZAP_INT8S [MIN_MAX, WRITABLE, READABLE],
    EmberAfAttributeMetadata (ZAP_MIN_MAX_DEFAULTS_INDEX 8) 0x001B 1 ZAP_ENUM8 [MIN_MAX, WRITABLE, READABLE],
    EmberAfAttributeMetadata (ZAP_MIN_MAX_DEFAULTS_INDEX 9) 0x001C 1 ZAP_ENUM8 [MIN_MAX, EXTERNAL_STORAGE, WRITABLE, READABLE],
    EmberAfAttributeMetadata ZAP_EMPTY_DEFAULT 0x001E 1 ZAP_ENUM8 [EXTERNAL_STORAGE, READABLE],
    EmberAfAttributeMetadata (ZAP_MIN_MAX_DEFAULTS_INDEX 10) 0x0040 1 ZAP_ENUM8 [MIN_MAX, WRITABLE, READABLE],
    EmberAfAttributeMetadata (ZAP_SIMPLE_DEFAULT 0x8000) 0x0046 2 ZAP_TEMPERATURE [READABLE, NULLABLE],
    EmberAfAttributeMetadata (ZAP_SIMPLE_DEFAULT 35) 0xFFFC 4 ZAP_BITMAP32 [READABLE],
    EmberAfAttributeMetadata ZAP_EMPTY_DEFAULT 0xFFFD 2 ZAP_INT16U [EXTERNAL_STORAGE, READABLE]]"

definition ep1_FanControl_attributes :: "EmberAfAttributeMetadata list" where
  "ep1_FanControl_attributes =
   [EmberAfAttributeMetadata (ZAP_MIN_MAX_DEFAULTS_INDEX 11) 0x0000 1 ZAP_ENUM8 [MIN_MAX, EXTERNAL_STORAGE, WRITABLE, READABLE],
    EmberAfAttributeMetadata (ZAP_SIMPLE_DEFAULT 2) 0x0001 1 ZAP_ENUM8 [READABLE],
    EmberAfAttributeMetadata (ZAP_MIN_MAX_DEFAULTS_INDEX 12) 0x0002 1 ZAP_PERCENT [MIN_MAX, EXTERNAL_STORAGE, WRITABLE, READABLE, NULLABLE],
    EmberAfAttributeMetadata ZAP_EMPTY_DEFAULT 0x0003 1 ZAP_PERCENT [EXTERNAL_STORAGE, READABLE],
    EmberAfAttributeMetadata (ZAP_SIMPLE_DEFAULT 6) 0x0004 1 ZAP_INT8U [READABLE],
    EmberAfAttributeMetadata (ZAP_MIN_MAX_DEFAULTS_INDEX 13) 0x0005 1 ZAP_INT8U [MIN_MAX, EXTERNAL_STORAGE, WRITABLE, READABLE, NULLABLE],
    EmberAfAttributeMetadata ZAP_EMPTY_DEFAULT 0x0006 1 ZAP_INT8U [EXTERNAL_STORAGE, READABLE],
    EmberAfAttributeMetadata (ZAP_SIMPLE_DEFAULT 0x03) 0x0007 1 ZAP_BITMAP8 [READABLE],
    EmberAfAttributeMetadata (ZAP_MIN_MAX_DEFAULTS_INDEX 14) 0x0008 1 ZAP_BITMAP8 [MIN_MAX, WRITABLE, READABLE],
    EmberAfAttributeMetadata (ZAP_SIMPLE_DEFAULT 0x07) 0xFFFC 4 ZAP_BITMAP32 [READABLE],
    EmberAfAttributeMetadata (ZAP_SIMPLE_DEFAULT 5) 0xFFFD 2 ZAP_INT16U [READABLE]]"

definition ep1_RelativeHumidityMeasurement_attributes :: "EmberAfAttributeMetadata list" where
  "ep1_RelativeHumidityMeasurement_attributes =
   [EmberAfAttributeMetadata (ZAP_SIMPLE_DEFAULT 0xFFFF) 0x0000 2 ZAP_INT16U [READABLE, NULLABLE],
    EmberAfAttributeMetadata (ZAP_SIMPLE_DEFAULT 0) 0x0001 2 ZAP_INT16U [READABLE, NULLABLE],
    EmberAfAttributeMetadata (ZAP_SIMPLE_DEFAULT 10000) 0x0002 2 ZAP_INT16U [READABLE, NULLABLE],
    EmberAfAttributeMetadata (ZAP_SIMPLE_DEFAULT 100) 0x0003 2 ZAP_INT16U [READABLE],
    EmberAfAttributeMetadata (ZAP_SIMPLE_DEFAULT 0) 0xFFFC 4 ZAP_BITMAP32 [READABLE],
    EmberAfAttributeMetadata (ZAP_SIMPLE_DEFAULT 3) 0xFFFD 2 ZAP_INT16U [READABLE]]"

definition GENERATED_ATTRIBUTES :: "EmberAfAttributeMetadata list" where
  "GENERATED_ATTRIBUTES =
     concat [ep0_Descriptor_attributes,
       ep0_AccessControl_attributes,
       ep0_BasicInformation_attributes,
       ep0_OTASoftwareUpdateRequestor_attributes,
       ep0_GeneralCommissioning_attributes,
       ep0_NetworkCommissioning_attributes,
       ep0_DiagnosticLogs_attributes,
       ep0_GeneralDiagnostics_attributes,
       ep0_SoftwareDiagnostics_attributes,
       ep0_ThreadNetworkDiagnostics_attributes,
       ep0_WiFiNetworkDiagnostics_attributes,
       ep0_AdministratorCommissioning_attributes,
       ep0_OperationalCredentials_attributes,
       ep0_GroupKeyManagement_attributes,
       ep1_Identify_attributes,
       ep1_Groups_attributes,
       ep1_OnOff_attributes,
       ep1_Descriptor_attributes,
       ep1_Binding_attributes,
       ep1_Thermostat_attributes,
       ep1_FanControl_attributes,
       ep1_RelativeHumidityMeasurement_attributes]"

definition GENERATED_EVENTS :: "u32 list" where
  "GENERATED_EVENTS = [0x0, 0x1, 0x2, 0x0, 0x1, 0x2]"

definition chipFuncArrayGroupsServer :: "EmberAfGenericClusterFunction list" where
  "chipFuncArrayGroupsServer = [emberAfGroupsClusterServerInitCallback]"

definition chipFuncArrayOnOffServer :: "EmberAfGenericClusterFunction list" where
  "chipFuncArrayOnOffServer = [emberAfOnOffClusterServerInitCallback, MatterOnOffClusterServerShutdownCallback]"

definition chipFuncArrayThermostatServer :: "EmberAfGenericClusterFunction list" where
  "chipFuncArrayThermostatServer =
     [emberAfThermostatClusterServerInitCallback, MatterThermostatClusterServerAttributeChangedCallback,
      MatterThermostatClusterServerShutdownCallback, MatterThermostatClusterServerPreAttributeChangedCallback]"

definition chipFuncArrayFanControlServer :: "EmberAfGenericClusterFunction list" where
  "chipFuncArrayFanControlServer =
     [MatterFanControlClusterServerAttributeChangedCallback, MatterFanControlClusterServerPreAttributeChangedCallback]"

text \<open>The SDK's marker at the end of a command list.\<close>

definition kInvalidCommandId :: u32 where "kInvalidCommandId = 0xFFFFFFFF"

definition GENERATED_COMMANDS :: "u32 list" where
  "GENERATED_COMMANDS =
    [0x0, kInvalidCommandId,
     0x0, 0x2, 0x4, kInvalidCommandId, 0x1, 0x3, 0x5, kInvalidCommandId,
     0x0, 0x2, 0x3, 0x4, 0x6, 0x8, kInvalidCommandId, 0x1, 0x5, 0x7, kInvalidCommandId,
     0x0, kInvalidCommandId, 0x1, kInvalidCommandId,
     0x0, 0x1, kInvalidCommandId, 0x2, kInvalidCommandId,
     0x0, kInvalidCommandId,
     0x0, 0x1, 0x2, kInvalidCommandId,
     0x0, 0x2, 0x4, 0x6, 0x7, 0x9, 0xA, 0xB, 0xC, 0xD, kInvalidCommandId, 0x1, 0x3, 0x5, 0x8, 0xE, kInvalidCommandId,
     0x0, 0x1, 0x3, 0x4, kInvalidCommandId, 0x2, 0x5, kInvalidCommandId,
     0x0, kInvalidCommandId,
     0x0, 0x1, 0x2, 0x3, 0x4, 0x5, kInvalidCommandId, 0x0, 0x1, 0x2, 0x3, kInvalidCommandId,
     0x0, 0x1, 0x2, kInvalidCommandId,
     0x0, kInvalidCommandId]"

definition ep0_clusters_commissioning :: "EmberAfCluster list" where
  "ep0_clusters_commissioning =
   [EmberAfCluster 0x001D 0 6 0 [SERVER] [] None None None 0,
    EmberAfCluster 0x001F 6 7 0 [SERVER] [] None None None 0,
    EmberAfCluster 0x0028 13 19 0 [SERVER] [] None None (Some 0) 3,
    EmberAfCluster 0x0029 32 0 0 [CLIENT] [] None None None 0,
    EmberAfCluster 0x002A 32 6 9 [SERVER] [] (Some 0) None (Some 3) 3,
    EmberAfCluster 0x0030 38 7 0 [SERVER] [] (Some 2) (Some 6) None 0,
    EmberAfCluster 0x0031 45 13 0 [SERVER] [] (Some 10) (Some 17) None 0,
    EmberAfCluster 0x0032 58 2 0 [SERVER] [] (Some 21) (Some 23) None 0]"

definition ep0_clusters_diagnostics :: "EmberAfCluster list" where
  "ep0_clusters_diagnostics =
   [EmberAfCluster 0x0033 60 8 0 [SERVER] [] (Some 25) (Some 28) None 0,
    EmberAfCluster 0x0034 68 4 0 [SERVER] [] None None None 0,
    EmberAfCluster 0x0035 72 65 4 [SERVER] [] (Some 30) None None 0,
    EmberAfCluster 0x0036 137 12 6 [SERVER] [] None None None 0,
    EmberAfCluster 0x003C 149 5 4 [SERVER] [] (Some 32) None None 0,
    EmberAfCluster 0x003E 154 8 0 [SERVER] [] (Some 36) (Some 47) None 0,
    EmberAfCluster 0x003F 162 6 0 [SERVER] [] (Some 53) (Some 58) None 0]"

definition ep1_clusters :: "EmberAfCluster list" where
  "ep1_clusters =
   [EmberAfCluster 0x0003 168 0 0 [CLIENT] [] None None None 0,
    EmberAfCluster 0x0003 168 4 0 [SERVER] [] (Some 61) None None 0,
    EmberAfCluster 0x0004 172 3 7 [SERVER, INIT_FUNCTION] chipFuncArrayGroupsServer (Some 63) (Some 70) None 0,
    EmberAfCluster 0x0006 175 3 6 [SERVER, INIT_FUNCTION, SHUTDOWN_FUNCTION] chipFuncArrayOnOffServer (Some 75) None None 0,
    EmberAfCluster 0x001D 178 6 0 [SERVER] [] None None None 0,
    EmberAfCluster 0x001E 184 3 0 [SERVER] [] None None None 0,
    EmberAfCluster 0x0201 187 21 26 [SERVER, INIT_FUNCTION, ATTRIBUTE_CHANGED_FUNCTION, SHUTDOWN_FUNCTION, PRE_ATTRIBUTE_CHANGED_FUNCTION] chipFuncArrayThermostatServer (Some 79) None None 0,
    EmberAfCluster 0x0202 208 11 10 [SERVER, ATTRIBUTE_CHANGED_FUNCTION, PRE_ATTRIBUTE_CHANGED_FUNCTION] chipFuncArrayFanControlServer None None None 0,
    EmberAfCluster 0x0405 219 6 14 [SERVER] [] None None None 0]"

definition GENERATED_CLUSTERS :: "EmberAfCluster list" where
  "GENERATED_CLUSTERS = ep0_clusters_commissioning @ ep0_clusters_diagnostics @ ep1_clusters"

definition GENERATED_ENDPOINT_TYPES :: "EmberAfEndpointType list" where
  "GENERATED_ENDPOINT_TYPES = [EmberAfEndpointType 0 15 23, EmberAfEndpointType 15 9 63]"

definition ATTRIBUTE_LARGEST :: nat where "ATTRIBUTE_LARGEST = 66"
definition ATTRIBUTE_MAX_SIZE :: nat where "ATTRIBUTE_MAX_SIZE = 86"
definition FIXED_ENDPOINT_ARRAY :: "u16 list" where "FIXED_ENDPOINT_ARRAY = [0x0000, 0x0001]"
definition FIXED_ENDPOINT_TYPES :: "nat list" where "FIXED_ENDPOINT_TYPES = [0, 1]"

section \<open>Reading the tables\<close>

definition clusterAttributes :: "EmberAfCluster \<Rightarrow> EmberAfAttributeMetadata list" where
  "clusterAttributes c = take (attributeCount c) (drop (attributesIndex c) GENERATED_ATTRIBUTES)"

definition endpointClusters :: "EmberAfEndpointType \<Rightarrow> EmberAfCluster list" where
  "endpointClusters e = take (clusterCount e) (drop (clusterIndex e) GENERATED_CLUSTERS)"

text \<open>The bytes the SDK stores itself: those of the attributes without external storage.\<close>

definition storedSize :: "EmberAfAttributeMetadata \<Rightarrow> nat" where
  "storedSize m = (if EXTERNAL_STORAGE \<in> set (attributeMask m) then 0 else attributeSize m)"

text \<open>The command list that starts at an index: up to the end marker.\<close>

definition commandsAt :: "nat option \<Rightarrow> u32 list" where
  "commandsAt i = (case i of None \<Rightarrow> [] | Some i \<Rightarrow> takeWhile (\<lambda>c. c \<noteq> kInvalidCommandId) (drop i GENERATED_COMMANDS))"

text \<open>A signed attribute's default and bounds are read as signed numbers.\<close>

definition signedType :: "ZapType \<Rightarrow> bool" where
  "signedType t = (t \<in> {ZAP_TEMPERATURE, ZAP_INT8S, ZAP_INT32S})"

definition minMaxOk :: "EmberAfAttributeMetadata \<Rightarrow> bool" where
  "minMaxOk m =
     (case defaultValue m of
        ZAP_MIN_MAX_DEFAULTS_INDEX i \<Rightarrow>
          MIN_MAX \<in> set (attributeMask m) \<and> i < length GENERATED_MIN_MAX_DEFAULTS
          \<and> (let b = GENERATED_MIN_MAX_DEFAULTS ! i;
                 rd = (\<lambda>w. if signedType (attributeType m) then sint (w :: u16) else uint w)
             in rd (mm_minValue b) \<le> rd (mm_defaultValue b) \<and> rd (mm_defaultValue b) \<le> rd (mm_maxValue b))
      | _ \<Rightarrow> MIN_MAX \<notin> set (attributeMask m))"

definition functionMasks :: "ZapClusterMask list \<Rightarrow> ZapClusterMask list" where
  "functionMasks ms = filter (\<lambda>x. x \<noteq> SERVER \<and> x \<noteq> CLIENT) ms"

section \<open>The tables of the clusters\<close>

lemmas attribute_tables = ep0_Descriptor_attributes_def ep0_AccessControl_attributes_def ep0_BasicInformation_attributes_def ep0_OTASoftwareUpdateRequestor_attributes_def
  ep0_GeneralCommissioning_attributes_def ep0_NetworkCommissioning_attributes_def ep0_DiagnosticLogs_attributes_def ep0_GeneralDiagnostics_attributes_def
  ep0_SoftwareDiagnostics_attributes_def ep0_ThreadNetworkDiagnostics_attributes_def ep0_WiFiNetworkDiagnostics_attributes_def ep0_AdministratorCommissioning_attributes_def
  ep0_OperationalCredentials_attributes_def ep0_GroupKeyManagement_attributes_def ep1_Identify_attributes_def ep1_Groups_attributes_def
  ep1_OnOff_attributes_def ep1_Descriptor_attributes_def ep1_Binding_attributes_def ep1_Thermostat_attributes_def
  ep1_FanControl_attributes_def ep1_RelativeHumidityMeasurement_attributes_def

lemmas cluster_tables = ep0_clusters_commissioning_def ep0_clusters_diagnostics_def ep1_clusters_def

text \<open>Consecutive slices of a table; clusters whose indices follow each other read exactly these.\<close>

primrec slices :: "nat list \<Rightarrow> 'a list \<Rightarrow> 'a list list" where
  "slices [] xs = []"
| "slices (n # ns) xs = take n xs # slices ns (drop n xs)"

primrec indexedFrom :: "nat \<Rightarrow> EmberAfCluster list \<Rightarrow> bool" where
  "indexedFrom n [] = True"
| "indexedFrom n (c # cs) = (attributesIndex c = n \<and> indexedFrom (n + attributeCount c) cs)"

lemma slices_concat: "slices (map length xss) (concat xss) = xss"
  by (induction xss) simp_all

lemma indexed_slices:
  "indexedFrom n cs \<Longrightarrow> map clusterAttributes cs = slices (map attributeCount cs) (drop n GENERATED_ATTRIBUTES)"
  by (induction cs arbitrary: n) (simp_all add: clusterAttributes_def add.commute)

lemma table_lengths:
  "length ep0_Descriptor_attributes = 6"
  "length ep0_AccessControl_attributes = 7"
  "length ep0_BasicInformation_attributes = 19"
  "length ep0_OTASoftwareUpdateRequestor_attributes = 6"
  "length ep0_GeneralCommissioning_attributes = 7"
  "length ep0_NetworkCommissioning_attributes = 13"
  "length ep0_DiagnosticLogs_attributes = 2"
  "length ep0_GeneralDiagnostics_attributes = 8"
  "length ep0_SoftwareDiagnostics_attributes = 4"
  "length ep0_ThreadNetworkDiagnostics_attributes = 65"
  "length ep0_WiFiNetworkDiagnostics_attributes = 12"
  "length ep0_AdministratorCommissioning_attributes = 5"
  "length ep0_OperationalCredentials_attributes = 8"
  "length ep0_GroupKeyManagement_attributes = 6"
  "length ep1_Identify_attributes = 4"
  "length ep1_Groups_attributes = 3"
  "length ep1_OnOff_attributes = 3"
  "length ep1_Descriptor_attributes = 6"
  "length ep1_Binding_attributes = 3"
  "length ep1_Thermostat_attributes = 21"
  "length ep1_FanControl_attributes = 11"
  "length ep1_RelativeHumidityMeasurement_attributes = 6"
  by (simp_all add: attribute_tables)

lemma clusters_indexed: "indexedFrom 0 GENERATED_CLUSTERS"
  by (simp add: GENERATED_CLUSTERS_def cluster_tables)

text \<open>Each cluster reads its own table; the two client clusters have no attributes.\<close>

lemma cluster_attributes:
  "map clusterAttributes GENERATED_CLUSTERS =
     [ep0_Descriptor_attributes, ep0_AccessControl_attributes, ep0_BasicInformation_attributes, [],
      ep0_OTASoftwareUpdateRequestor_attributes, ep0_GeneralCommissioning_attributes, ep0_NetworkCommissioning_attributes, ep0_DiagnosticLogs_attributes,
      ep0_GeneralDiagnostics_attributes, ep0_SoftwareDiagnostics_attributes, ep0_ThreadNetworkDiagnostics_attributes, ep0_WiFiNetworkDiagnostics_attributes,
      ep0_AdministratorCommissioning_attributes, ep0_OperationalCredentials_attributes, ep0_GroupKeyManagement_attributes, [],
      ep1_Identify_attributes, ep1_Groups_attributes, ep1_OnOff_attributes, ep1_Descriptor_attributes,
      ep1_Binding_attributes, ep1_Thermostat_attributes, ep1_FanControl_attributes, ep1_RelativeHumidityMeasurement_attributes]"
proof -
  let ?tables = "[ep0_Descriptor_attributes, ep0_AccessControl_attributes, ep0_BasicInformation_attributes, [],
      ep0_OTASoftwareUpdateRequestor_attributes, ep0_GeneralCommissioning_attributes, ep0_NetworkCommissioning_attributes, ep0_DiagnosticLogs_attributes,
      ep0_GeneralDiagnostics_attributes, ep0_SoftwareDiagnostics_attributes, ep0_ThreadNetworkDiagnostics_attributes, ep0_WiFiNetworkDiagnostics_attributes,
      ep0_AdministratorCommissioning_attributes, ep0_OperationalCredentials_attributes, ep0_GroupKeyManagement_attributes, [],
      ep1_Identify_attributes, ep1_Groups_attributes, ep1_OnOff_attributes, ep1_Descriptor_attributes,
      ep1_Binding_attributes, ep1_Thermostat_attributes, ep1_FanControl_attributes, ep1_RelativeHumidityMeasurement_attributes]"
  have "map attributeCount GENERATED_CLUSTERS = map length ?tables"
    by (simp add: GENERATED_CLUSTERS_def cluster_tables table_lengths)
  moreover have "GENERATED_ATTRIBUTES = concat ?tables" by (simp add: GENERATED_ATTRIBUTES_def)
  ultimately show ?thesis
    using indexed_slices [OF clusters_indexed] slices_concat [of ?tables] by (simp only: drop_0)
qed

lemma stored_sizes:
  "sum_list (map storedSize ep0_Descriptor_attributes) = 0"
  "sum_list (map storedSize ep0_AccessControl_attributes) = 0"
  "sum_list (map storedSize ep0_BasicInformation_attributes) = 0"
  "sum_list (map storedSize ep0_OTASoftwareUpdateRequestor_attributes) = 9"
  "sum_list (map storedSize ep0_GeneralCommissioning_attributes) = 0"
  "sum_list (map storedSize ep0_NetworkCommissioning_attributes) = 0"
  "sum_list (map storedSize ep0_DiagnosticLogs_attributes) = 0"
  "sum_list (map storedSize ep0_GeneralDiagnostics_attributes) = 0"
  "sum_list (map storedSize ep0_SoftwareDiagnostics_attributes) = 0"
  "sum_list (map storedSize ep0_ThreadNetworkDiagnostics_attributes) = 4"
  "sum_list (map storedSize ep0_WiFiNetworkDiagnostics_attributes) = 6"
  "sum_list (map storedSize ep0_AdministratorCommissioning_attributes) = 4"
  "sum_list (map storedSize ep0_OperationalCredentials_attributes) = 0"
  "sum_list (map storedSize ep0_GroupKeyManagement_attributes) = 0"
  "sum_list (map storedSize ep1_Identify_attributes) = 0"
  "sum_list (map storedSize ep1_Groups_attributes) = 7"
  "sum_list (map storedSize ep1_OnOff_attributes) = 6"
  "sum_list (map storedSize ep1_Descriptor_attributes) = 0"
  "sum_list (map storedSize ep1_Binding_attributes) = 0"
  "sum_list (map storedSize ep1_Thermostat_attributes) = 26"
  "sum_list (map storedSize ep1_FanControl_attributes) = 10"
  "sum_list (map storedSize ep1_RelativeHumidityMeasurement_attributes) = 14"
  by (simp_all add: attribute_tables storedSize_def)

lemma clusters_stored:
  "map clusterSize GENERATED_CLUSTERS = map (\<lambda>c. sum_list (map storedSize (clusterAttributes c))) GENERATED_CLUSTERS"
proof -
  have "map (\<lambda>c. sum_list (map storedSize (clusterAttributes c))) GENERATED_CLUSTERS
      = map (\<lambda>t. sum_list (map storedSize t)) (map clusterAttributes GENERATED_CLUSTERS)" by simp
  then show ?thesis
    unfolding cluster_attributes by (simp add: stored_sizes GENERATED_CLUSTERS_def cluster_tables)
qed

fun ascending :: "EmberAfAttributeMetadata list \<Rightarrow> bool" where
  "ascending (a # b # xs) = (attributeId a < attributeId b \<and> ascending (b # xs))"
| "ascending _ = True"

lemma tables_ascending:
  "ascending ep0_Descriptor_attributes"
  "ascending ep0_AccessControl_attributes"
  "ascending ep0_BasicInformation_attributes"
  "ascending ep0_OTASoftwareUpdateRequestor_attributes"
  "ascending ep0_GeneralCommissioning_attributes"
  "ascending ep0_NetworkCommissioning_attributes"
  "ascending ep0_DiagnosticLogs_attributes"
  "ascending ep0_GeneralDiagnostics_attributes"
  "ascending ep0_SoftwareDiagnostics_attributes"
  "ascending ep0_ThreadNetworkDiagnostics_attributes"
  "ascending ep0_WiFiNetworkDiagnostics_attributes"
  "ascending ep0_AdministratorCommissioning_attributes"
  "ascending ep0_OperationalCredentials_attributes"
  "ascending ep0_GroupKeyManagement_attributes"
  "ascending ep1_Identify_attributes"
  "ascending ep1_Groups_attributes"
  "ascending ep1_OnOff_attributes"
  "ascending ep1_Descriptor_attributes"
  "ascending ep1_Binding_attributes"
  "ascending ep1_Thermostat_attributes"
  "ascending ep1_FanControl_attributes"
  "ascending ep1_RelativeHumidityMeasurement_attributes"
  by (simp_all add: attribute_tables)

lemma tables_minMaxOk:
  "list_all minMaxOk ep0_Descriptor_attributes"
  "list_all minMaxOk ep0_AccessControl_attributes"
  "list_all minMaxOk ep0_BasicInformation_attributes"
  "list_all minMaxOk ep0_OTASoftwareUpdateRequestor_attributes"
  "list_all minMaxOk ep0_GeneralCommissioning_attributes"
  "list_all minMaxOk ep0_NetworkCommissioning_attributes"
  "list_all minMaxOk ep0_DiagnosticLogs_attributes"
  "list_all minMaxOk ep0_GeneralDiagnostics_attributes"
  "list_all minMaxOk ep0_SoftwareDiagnostics_attributes"
  "list_all minMaxOk ep0_ThreadNetworkDiagnostics_attributes"
  "list_all minMaxOk ep0_WiFiNetworkDiagnostics_attributes"
  "list_all minMaxOk ep0_AdministratorCommissioning_attributes"
  "list_all minMaxOk ep0_OperationalCredentials_attributes"
  "list_all minMaxOk ep0_GroupKeyManagement_attributes"
  "list_all minMaxOk ep1_Identify_attributes"
  "list_all minMaxOk ep1_Groups_attributes"
  "list_all minMaxOk ep1_OnOff_attributes"
  "list_all minMaxOk ep1_Descriptor_attributes"
  "list_all minMaxOk ep1_Binding_attributes"
  "list_all minMaxOk ep1_Thermostat_attributes"
  "list_all minMaxOk ep1_FanControl_attributes"
  "list_all minMaxOk ep1_RelativeHumidityMeasurement_attributes"
  by (simp_all add: attribute_tables minMaxOk_def GENERATED_MIN_MAX_DEFAULTS_def signedType_def)

lemma tables_sizes:
  "list_all (\<lambda>m. attributeSize m \<le> ATTRIBUTE_LARGEST) ep0_Descriptor_attributes"
  "list_all (\<lambda>m. attributeSize m \<le> ATTRIBUTE_LARGEST) ep0_AccessControl_attributes"
  "list_all (\<lambda>m. attributeSize m \<le> ATTRIBUTE_LARGEST) ep0_BasicInformation_attributes"
  "list_all (\<lambda>m. attributeSize m \<le> ATTRIBUTE_LARGEST) ep0_OTASoftwareUpdateRequestor_attributes"
  "list_all (\<lambda>m. attributeSize m \<le> ATTRIBUTE_LARGEST) ep0_GeneralCommissioning_attributes"
  "list_all (\<lambda>m. attributeSize m \<le> ATTRIBUTE_LARGEST) ep0_NetworkCommissioning_attributes"
  "list_all (\<lambda>m. attributeSize m \<le> ATTRIBUTE_LARGEST) ep0_DiagnosticLogs_attributes"
  "list_all (\<lambda>m. attributeSize m \<le> ATTRIBUTE_LARGEST) ep0_GeneralDiagnostics_attributes"
  "list_all (\<lambda>m. attributeSize m \<le> ATTRIBUTE_LARGEST) ep0_SoftwareDiagnostics_attributes"
  "list_all (\<lambda>m. attributeSize m \<le> ATTRIBUTE_LARGEST) ep0_ThreadNetworkDiagnostics_attributes"
  "list_all (\<lambda>m. attributeSize m \<le> ATTRIBUTE_LARGEST) ep0_WiFiNetworkDiagnostics_attributes"
  "list_all (\<lambda>m. attributeSize m \<le> ATTRIBUTE_LARGEST) ep0_AdministratorCommissioning_attributes"
  "list_all (\<lambda>m. attributeSize m \<le> ATTRIBUTE_LARGEST) ep0_OperationalCredentials_attributes"
  "list_all (\<lambda>m. attributeSize m \<le> ATTRIBUTE_LARGEST) ep0_GroupKeyManagement_attributes"
  "list_all (\<lambda>m. attributeSize m \<le> ATTRIBUTE_LARGEST) ep1_Identify_attributes"
  "list_all (\<lambda>m. attributeSize m \<le> ATTRIBUTE_LARGEST) ep1_Groups_attributes"
  "list_all (\<lambda>m. attributeSize m \<le> ATTRIBUTE_LARGEST) ep1_OnOff_attributes"
  "list_all (\<lambda>m. attributeSize m \<le> ATTRIBUTE_LARGEST) ep1_Descriptor_attributes"
  "list_all (\<lambda>m. attributeSize m \<le> ATTRIBUTE_LARGEST) ep1_Binding_attributes"
  "list_all (\<lambda>m. attributeSize m \<le> ATTRIBUTE_LARGEST) ep1_Thermostat_attributes"
  "list_all (\<lambda>m. attributeSize m \<le> ATTRIBUTE_LARGEST) ep1_FanControl_attributes"
  "list_all (\<lambda>m. attributeSize m \<le> ATTRIBUTE_LARGEST) ep1_RelativeHumidityMeasurement_attributes"
  by (simp_all add: attribute_tables ATTRIBUTE_LARGEST_def)

lemma tables_all:
  assumes "list_all (list_all P) (map clusterAttributes GENERATED_CLUSTERS)"
  shows "list_all P GENERATED_ATTRIBUTES"
proof -
  have "list_all P (concat (map clusterAttributes GENERATED_CLUSTERS))" using assms by (simp add: list_all_iff)
  then show ?thesis unfolding cluster_attributes by (simp add: GENERATED_ATTRIBUTES_def)
qed

lemma endpoint_clusters:
  "map endpointClusters GENERATED_ENDPOINT_TYPES = [ep0_clusters_commissioning @ ep0_clusters_diagnostics, ep1_clusters]"
proof -
  have n: "length ep0_clusters_commissioning = 8" "length ep0_clusters_diagnostics = 7" "length ep1_clusters = 9"
    by (simp_all add: cluster_tables)
  show ?thesis by (simp add: GENERATED_ENDPOINT_TYPES_def endpointClusters_def GENERATED_CLUSTERS_def n)
qed

text \<open>The lists of a cluster in the command table, each with its end marker.\<close>

definition commandLists :: "EmberAfCluster \<Rightarrow> u32 list list" where
  "commandLists c =
     map (\<lambda>i. commandsAt (Some i) @ [kInvalidCommandId])
       ((case acceptedCommandList c of None \<Rightarrow> [] | Some i \<Rightarrow> [i])
        @ (case generatedCommandList c of None \<Rightarrow> [] | Some i \<Rightarrow> [i]))"

lemma command_lists_tile: "concat (concat (map commandLists GENERATED_CLUSTERS)) = GENERATED_COMMANDS"
  by (simp add: GENERATED_CLUSTERS_def cluster_tables commandLists_def commandsAt_def GENERATED_COMMANDS_def
      kInvalidCommandId_def)

section \<open>Properties\<close>

text \<open>
  C32. The generated tables fit together. The attribute ranges of the clusters tile the attribute table, each in
  ascending order of identifiers; the storage a cluster declares is that of its attributes without external
  storage, the storage of an endpoint that of its clusters, and the total what the SDK reserves; no attribute is larger than the
  buffers; a default lies within its bounds, read with its sign; the function
  array of a cluster has one entry for each function its mask announces; the command lists tile the command table; and the
  events of a cluster lie within the event table.
\<close>

theorem data_model_tables_fit:
  "concat (map clusterAttributes GENERATED_CLUSTERS) = GENERATED_ATTRIBUTES
   \<and> list_all (\<lambda>c. ascending (clusterAttributes c) \<and> clusterSize c = sum_list (map storedSize (clusterAttributes c))
        \<and> length (clusterFunctions c) = length (functionMasks (clusterMask c))
        \<and> (case eventList c of None \<Rightarrow> eventCount c = 0 | Some i \<Rightarrow> i + eventCount c \<le> length GENERATED_EVENTS))
      GENERATED_CLUSTERS
   \<and> concat (map endpointClusters GENERATED_ENDPOINT_TYPES) = GENERATED_CLUSTERS
   \<and> map endpointSize GENERATED_ENDPOINT_TYPES
       = map (\<lambda>e. sum_list (map clusterSize (endpointClusters e))) GENERATED_ENDPOINT_TYPES
   \<and> sum_list (map endpointSize GENERATED_ENDPOINT_TYPES) = ATTRIBUTE_MAX_SIZE
   \<and> list_all (\<lambda>m. attributeSize m \<le> ATTRIBUTE_LARGEST \<and> minMaxOk m) GENERATED_ATTRIBUTES
   \<and> concat (concat (map commandLists GENERATED_CLUSTERS)) = GENERATED_COMMANDS"
proof (intro conjI)
  show "concat (map clusterAttributes GENERATED_CLUSTERS) = GENERATED_ATTRIBUTES"
    unfolding cluster_attributes by (simp add: GENERATED_ATTRIBUTES_def)
  have "list_all ascending (map clusterAttributes GENERATED_CLUSTERS)"
    unfolding cluster_attributes by (simp add: tables_ascending)
  moreover have "list_all (\<lambda>c. length (clusterFunctions c) = length (functionMasks (clusterMask c))
      \<and> (case eventList c of None \<Rightarrow> eventCount c = 0 | Some i \<Rightarrow> i + eventCount c \<le> length GENERATED_EVENTS)) GENERATED_CLUSTERS"
    by (simp add: GENERATED_CLUSTERS_def cluster_tables functionMasks_def GENERATED_EVENTS_def chipFuncArrayGroupsServer_def
        chipFuncArrayOnOffServer_def chipFuncArrayThermostatServer_def chipFuncArrayFanControlServer_def)
  ultimately show "list_all (\<lambda>c. ascending (clusterAttributes c) \<and> clusterSize c = sum_list (map storedSize (clusterAttributes c))
        \<and> length (clusterFunctions c) = length (functionMasks (clusterMask c))
        \<and> (case eventList c of None \<Rightarrow> eventCount c = 0 | Some i \<Rightarrow> i + eventCount c \<le> length GENERATED_EVENTS))
      GENERATED_CLUSTERS"
    using clusters_stored unfolding list_all_iff map_eq_conv by simp
  show "concat (map endpointClusters GENERATED_ENDPOINT_TYPES) = GENERATED_CLUSTERS"
    unfolding endpoint_clusters by (simp add: GENERATED_CLUSTERS_def)
  have "map (\<lambda>e. sum_list (map clusterSize (endpointClusters e))) GENERATED_ENDPOINT_TYPES
      = map (\<lambda>cs. sum_list (map clusterSize cs)) (map endpointClusters GENERATED_ENDPOINT_TYPES)" by simp
  also have "\<dots> = map endpointSize GENERATED_ENDPOINT_TYPES"
    unfolding endpoint_clusters by (simp add: cluster_tables GENERATED_ENDPOINT_TYPES_def)
  finally show "map endpointSize GENERATED_ENDPOINT_TYPES
       = map (\<lambda>e. sum_list (map clusterSize (endpointClusters e))) GENERATED_ENDPOINT_TYPES" by (rule sym)
  show "sum_list (map endpointSize GENERATED_ENDPOINT_TYPES) = ATTRIBUTE_MAX_SIZE"
    by (simp add: GENERATED_ENDPOINT_TYPES_def ATTRIBUTE_MAX_SIZE_def)
  have "list_all (list_all (\<lambda>m. attributeSize m \<le> ATTRIBUTE_LARGEST)) (map clusterAttributes GENERATED_CLUSTERS)"
    "list_all (list_all minMaxOk) (map clusterAttributes GENERATED_CLUSTERS)"
    unfolding cluster_attributes by (simp_all add: tables_sizes tables_minMaxOk)
  from this [THEN tables_all]
  show "list_all (\<lambda>m. attributeSize m \<le> ATTRIBUTE_LARGEST \<and> minMaxOk m) GENERATED_ATTRIBUTES"
    by (simp add: list_all_iff)
  show "concat (concat (map commandLists GENERATED_CLUSTERS)) = GENERATED_COMMANDS" by (rule command_lists_tile)
qed

end
