(* ===== verification/Command_Router.thy ===== *)
theory Command_Router
  imports AAI_Access
begin

text \<open>
  The command handlers for On/Off/Toggle and SetpointRaiseLower (\<open>sync/command_router.h\<close>,
  \<open>sync/command_router.cpp\<close>). The identifiers of the SDK's commands are constructors, with
  any other identifier held by \<open>OtherCommand\<close>; the request the SDK decodes is an argument;
  the four configured limits are arguments too, \<open>None\<close> where the ember read fails and leaves
  the default. Each intent is applied at its own reading of the clock.
\<close>

datatype OnOffCommandId = OffCommand | OnCommand | ToggleCommand | OtherCommand u32

datatype SetpointRaiseLowerModeEnum = kHeat | kCool | kBoth | SetpointRaiseLowerMode_raw u8

datatype CommandStatus = Success | InvalidCommand

record CommandOutcome =
  handled :: bool
  statuses :: "CommandStatus list"
  made :: "DispatchCall list"
  coordinator :: SyncCoordinator

record SetpointLimits =
  MinHeatSetpointLimit :: "i16 option"
  MaxHeatSetpointLimit :: "i16 option"
  MinCoolSetpointLimit :: "i16 option"
  MaxCoolSetpointLimit :: "i16 option"

definition getLimit :: "i16 option \<Rightarrow> i16 \<Rightarrow> i16" where
  "getLimit read_result seed = (case read_result of Some v \<Rightarrow> v | None \<Rightarrow> seed)"

definition OnOff_InvokeCommand ::
  "millis \<Rightarrow> OnOffCommandId \<Rightarrow> SyncCoordinator \<Rightarrow> CommandOutcome option" where
  "OnOff_InvokeCommand now cid c =
     (let run = (\<lambda>target. map_option
            (\<lambda>(change, calls, c'). \<lparr>handled = True, statuses = [Success], made = calls, coordinator = c'\<rparr>)
            (ApplyIntent now (SetOnOffIntent target) c))
      in case cid of
           OnCommand \<Rightarrow> run True
         | OffCommand \<Rightarrow> run False
         | ToggleCommand \<Rightarrow> (case ReadOnOff c of None \<Rightarrow> None | Some v \<Rightarrow> run (\<not> v))
         | OtherCommand _ \<Rightarrow> Some \<lparr>handled = False, statuses = [], made = [], coordinator = c\<rparr>)"

definition raiseHeat ::
  "millis \<Rightarrow> SetpointLimits \<Rightarrow> i8 \<Rightarrow> SyncCoordinator \<Rightarrow> (DispatchCall list \<times> SyncCoordinator) option" where
  "raiseHeat now lim amount c =
     (let lo = getLimit (MinHeatSetpointLimit lim) 1000;
          hi = getLimit (MaxHeatSetpointLimit lim) 3000
      in case ReadOccupiedHeatingSetpoint c of
           None \<Rightarrow> None
         | Some cur \<Rightarrow>
             map_option snd (ApplyIntent now
               (SetOccupiedHeatingSetpointIntent (applySetpointDelta cur amount lo hi)) c))"

definition raiseCool ::
  "millis \<Rightarrow> SetpointLimits \<Rightarrow> i8 \<Rightarrow> SyncCoordinator \<Rightarrow> (DispatchCall list \<times> SyncCoordinator) option" where
  "raiseCool now lim amount c =
     (let lo = getLimit (MinCoolSetpointLimit lim) 1600;
          hi = getLimit (MaxCoolSetpointLimit lim) 3200
      in case ReadOccupiedCoolingSetpoint c of
           None \<Rightarrow> None
         | Some cur \<Rightarrow>
             map_option snd (ApplyIntent now
               (SetOccupiedCoolingSetpointIntent (applySetpointDelta cur amount lo hi)) c))"

definition HandleSetpointRaiseLower ::
  "millis \<Rightarrow> millis \<Rightarrow> SetpointLimits \<Rightarrow> SetpointRaiseLowerModeEnum \<Rightarrow> i8 \<Rightarrow> SyncCoordinator
    \<Rightarrow> CommandOutcome option" where
  "HandleSetpointRaiseLower now1 now2 lim m amount c =
     (let doHeat = (m = kBoth \<or> m = kHeat);
          doCool = (m = kBoth \<or> m = kCool)
      in if \<not> doHeat \<and> \<not> doCool
         then Some \<lparr>handled = True, statuses = [InvalidCommand], made = [], coordinator = c\<rparr>
         else case (if doHeat then raiseHeat now1 lim amount c else Some ([], c)) of
                None \<Rightarrow> None
              | Some (calls1, c1) \<Rightarrow>
                  (case (if doCool then raiseCool now2 lim amount c1 else Some ([], c1)) of
                     None \<Rightarrow> None
                   | Some (calls2, c2) \<Rightarrow>
                       Some \<lparr>handled = True, statuses = [Success], made = calls1 @ calls2,
                             coordinator = c2\<rparr>))"

text \<open>
  \<open>InvokeCommand\<close> leaves matching and decoding to the SDK's \<open>HandleCommand\<close>, which calls the
  handler with the decoded request; \<open>request\<close> is what it decoded, \<open>None\<close> when it does not call
  the handler.
\<close>

definition Thermostat_InvokeCommand ::
  "millis \<Rightarrow> millis \<Rightarrow> SetpointLimits \<Rightarrow> (SetpointRaiseLowerModeEnum \<times> i8) option \<Rightarrow> SyncCoordinator
    \<Rightarrow> CommandOutcome option" where
  "Thermostat_InvokeCommand now1 now2 lim request c =
     (case request of
        None \<Rightarrow> Some \<lparr>handled = False, statuses = [], made = [], coordinator = c\<rparr>
      | Some (m, amount) \<Rightarrow> HandleSetpointRaiseLower now1 now2 lim m amount c)"

section \<open>Lemmas\<close>

lemma ApplyIntent_state:
  "mKernel c = Some k \<Longrightarrow>
     map_option (\<lambda>(ch, calls, c'). c') (ApplyIntent now i c)
       = Some (c\<lparr>mKernel := Some (applyOne now i k)\<rparr>)"
  by (simp add: ApplyIntent_def case_prod_beta Let_def applyIntent_eq)

definition autoSettled :: "millis \<Rightarrow> millis \<Rightarrow> int \<Rightarrow> int \<Rightarrow> BridgeKernel \<Rightarrow> bool" where
  "autoSettled now1 now2 a w k =
     (mObserved (mode (mState k)) = OperationalMode.Auto
      \<and> mDesired (mode (mState k)) = OperationalMode.Auto
      \<and> mInFlight (autoSetpoint (mState k)) = None
      \<and> sint (mDesired (autoSetpoint (mState k))) = a
      \<and> sint (autoBandHalfWidthCentiC (projectorConfig (mConfig k))) = w
      \<and> 0 \<le> a \<and> a \<le> 10000 \<and> 0 \<le> w \<and> w \<le> 1000
      \<and> window_elapsed now1 k (at_autoSetpoint (mLastDeviceObserved k))
      \<and> window_elapsed now2 k (at_autoSetpoint (mLastDeviceObserved k)))"

lemma autoSettled_edges:
  assumes "autoSettled now1 now2 a w k"
  shows "sint (readOccupiedHeatingSetpoint k) = a - w" "sint (readOccupiedCoolingSetpoint k) = a + w"
proof -
  have h: "readOccupiedHeatingSetpoint k = to_i16 (a - w)"
    and c: "readOccupiedCoolingSetpoint k = to_i16 (a + w)"
    using assms unfolding autoSettled_def readOccupiedHeatingSetpoint_def
      readOccupiedCoolingSetpoint_def projectedOccupiedHeatingSetpoint_def
      projectedOccupiedCoolingSetpoint_def projectedValue_def
    by (simp_all split: if_splits)
  show "sint (readOccupiedHeatingSetpoint k) = a - w"
    unfolding h using assms by (intro sint_to_i16) (simp_all add: autoSettled_def)
  show "sint (readOccupiedCoolingSetpoint k) = a + w"
    unfolding c using assms by (intro sint_to_i16) (simp_all add: autoSettled_def)
qed

lemma half_of_even: "x = 2 * y \<Longrightarrow> - 32768 \<le> y \<Longrightarrow> y \<le> 32767 \<Longrightarrow> sint (to_i16 (x sdiv 2)) = y"
  by (simp only: sdiv_two_double sint_to_i16)

lemma auto_edge_write:
  assumes "autoSettled now1 now2 a w k" and "- 1280 \<le> d" and "d \<le> 1270"
    and "0 \<le> a + d" and "a + d \<le> 10000" and "now \<in> {now1, now2}"
  shows "sint h = a - w + 2 * d \<Longrightarrow>
      autoSettled now1 now2 (a + d) w (applyOne now (SetOccupiedHeatingSetpointIntent h) k)"
    and "sint c = a + w + 2 * d \<Longrightarrow>
      autoSettled now1 now2 (a + d) w (applyOne now (SetOccupiedCoolingSetpointIntent c) k)"
proof -
  let ?a = "mDesired (autoSetpoint (mState k))"
  let ?w = "autoBandHalfWidthCentiC (projectorConfig (mConfig k))"
  have aw: "sint ?a = a" "sint ?w = w" and pass: "intentPassesGuard now k (at_autoSetpoint (mLastDeviceObserved k)) b" for b
    using assms(1,6) by (auto simp: autoSettled_def)
  have bounds: "0 \<le> a" "a \<le> 10000" "0 \<le> w" "w \<le> 1000"
    using assms(1) by (simp_all add: autoSettled_def)
  have edges: "sint (to_i16 (sint ?a + sint ?w)) = a + w" "sint (to_i16 (sint ?a - sint ?w)) = a - w"
    unfolding aw using bounds by (intro sint_to_i16; simp)+
  { assume "sint h = a - w + 2 * d"
    then have "sint (to_i16 ((sint (to_i16 (sint ?a + sint ?w)) + sint h) sdiv 2)) = a + d"
      unfolding edges using assms(4,5) by (intro half_of_even) simp_all
    then show "autoSettled now1 now2 (a + d) w (applyOne now (SetOccupiedHeatingSetpointIntent h) k)"
      using assms(1,4,5) pass unfolding autoSettled_def applyOne.simps
        apply_SetOccupiedHeatingSetpointIntent_def Let_def by simp }
  { assume "sint c = a + w + 2 * d"
    then have "sint (to_i16 ((sint c + sint (to_i16 (sint ?a - sint ?w))) sdiv 2)) = a + d"
      unfolding edges using assms(4,5) by (intro half_of_even) simp_all
    then show "autoSettled now1 now2 (a + d) w (applyOne now (SetOccupiedCoolingSetpointIntent c) k)"
      using assms(1,4,5) pass unfolding autoSettled_def applyOne.simps
        apply_SetOccupiedCoolingSetpointIntent_def Let_def by simp }
qed

lemma raiseHeat_kernel:
  assumes "mKernel c = Some k"
    and "next = applySetpointDelta (readOccupiedHeatingSetpoint k) amount
          (getLimit (MinHeatSetpointLimit lim) 1000) (getLimit (MaxHeatSetpointLimit lim) 3000)"
  shows "\<exists>calls. raiseHeat now lim amount c
    = Some (calls, c\<lparr>mKernel := Some (applyOne now (SetOccupiedHeatingSetpointIntent next) k)\<rparr>)"
  using assms by (simp add: raiseHeat_def Let_def ReadOccupiedHeatingSetpoint_def ApplyIntent_def
      case_prod_beta applyIntent_eq del: applyOne.simps)

lemma raiseCool_kernel:
  assumes "mKernel c = Some k"
    and "next = applySetpointDelta (readOccupiedCoolingSetpoint k) amount
          (getLimit (MinCoolSetpointLimit lim) 1600) (getLimit (MaxCoolSetpointLimit lim) 3200)"
  shows "\<exists>calls. raiseCool now lim amount c
    = Some (calls, c\<lparr>mKernel := Some (applyOne now (SetOccupiedCoolingSetpointIntent next) k)\<rparr>)"
  using assms by (simp add: raiseCool_def Let_def ReadOccupiedCoolingSetpoint_def ApplyIntent_def
      case_prod_beta applyIntent_eq del: applyOne.simps)

lemma raiseHeat_auto:
  assumes "mKernel c = Some k" and "autoSettled now1 now2 a w k"
    and "0 \<le> a + 5 * sint amount" "a + 5 * sint amount \<le> 10000"
    and "sint (getLimit (MinHeatSetpointLimit lim) 1000) \<le> a - w + 10 * sint amount"
    and "a - w + 10 * sint amount \<le> sint (getLimit (MaxHeatSetpointLimit lim) 3000)"
  shows "\<exists>calls k'. raiseHeat now1 lim amount c = Some (calls, c\<lparr>mKernel := Some k'\<rparr>)
    \<and> autoSettled now1 now2 (a + 5 * sint amount) w k'"
proof -
  let ?n = "applySetpointDelta (readOccupiedHeatingSetpoint k) amount
    (getLimit (MinHeatSetpointLimit lim) 1000) (getLimit (MaxHeatSetpointLimit lim) 3000)"
  have "sint ?n = a - w + 10 * sint amount"
    using applySetpointDelta_within [of "getLimit (MinHeatSetpointLimit lim) 1000"
        "readOccupiedHeatingSetpoint k" amount "getLimit (MaxHeatSetpointLimit lim) 3000"]
      assms(5,6) autoSettled_edges(1) [OF assms(2)] by simp
  then have "autoSettled now1 now2 (a + 5 * sint amount) w
      (applyOne now1 (SetOccupiedHeatingSetpointIntent ?n) k)"
    using sint_i8_bounds [of amount] assms(3,4)
    by (intro auto_edge_write(1) [OF assms(2)]) simp_all
  then show ?thesis using raiseHeat_kernel [OF assms(1) refl] by blast
qed

lemma raiseCool_auto:
  assumes "mKernel c = Some k" and "autoSettled now1 now2 a w k"
    and "0 \<le> a + 5 * sint amount" "a + 5 * sint amount \<le> 10000"
    and "sint (getLimit (MinCoolSetpointLimit lim) 1600) \<le> a + w + 10 * sint amount"
    and "a + w + 10 * sint amount \<le> sint (getLimit (MaxCoolSetpointLimit lim) 3200)"
  shows "\<exists>calls k'. raiseCool now2 lim amount c = Some (calls, c\<lparr>mKernel := Some k'\<rparr>)
    \<and> autoSettled now1 now2 (a + 5 * sint amount) w k'"
proof -
  let ?n = "applySetpointDelta (readOccupiedCoolingSetpoint k) amount
    (getLimit (MinCoolSetpointLimit lim) 1600) (getLimit (MaxCoolSetpointLimit lim) 3200)"
  have "sint ?n = a + w + 10 * sint amount"
    using applySetpointDelta_within [of "getLimit (MinCoolSetpointLimit lim) 1600"
        "readOccupiedCoolingSetpoint k" amount "getLimit (MaxCoolSetpointLimit lim) 3200"]
      assms(5,6) autoSettled_edges(2) [OF assms(2)] by simp
  then have "autoSettled now1 now2 (a + 5 * sint amount) w
      (applyOne now2 (SetOccupiedCoolingSetpointIntent ?n) k)"
    using sint_i8_bounds [of amount] assms(3,4)
    by (intro auto_edge_write(2) [OF assms(2)]) simp_all
  then show ?thesis using raiseCool_kernel [OF assms(1) refl] by blast
qed

section \<open>Properties\<close>

text \<open>
  C29. SetpointRaiseLower in Auto mode. With the band settled around centre \<open>a\<close>, the guard
  window elapsed and no limit in the way, raising or lowering both setpoints by an amount
  moves the centre, and with it both edges read back, by exactly ten times the amount,
  although each edge is written in turn; the same command for the heating setpoint alone
  moves the whole band by half of that.
\<close>

theorem raise_lower_moves_auto_band:
  assumes k: "mKernel c = Some k" and auto: "autoSettled now1 now2 a w k"
    and range: "0 \<le> a + 5 * sint amount" "a + 5 * sint amount \<le> 10000"
      "0 \<le> a + 10 * sint amount" "a + 10 * sint amount \<le> 10000"
    and heat: "sint (getLimit (MinHeatSetpointLimit lim) 1000) \<le> a - w + 10 * sint amount"
      "a - w + 10 * sint amount \<le> sint (getLimit (MaxHeatSetpointLimit lim) 3000)"
    and cool: "sint (getLimit (MinCoolSetpointLimit lim) 1600) \<le> a + w + 15 * sint amount"
      "a + w + 15 * sint amount \<le> sint (getLimit (MaxCoolSetpointLimit lim) 3200)"
  shows "(\<exists>o' k'. HandleSetpointRaiseLower now1 now2 lim kBoth amount c = Some o'
        \<and> statuses o' = [Success] \<and> mKernel (coordinator o') = Some k'
        \<and> sint (readOccupiedHeatingSetpoint k') = a - w + 10 * sint amount
        \<and> sint (readOccupiedCoolingSetpoint k') = a + w + 10 * sint amount)
    \<and> (\<exists>o' k'. HandleSetpointRaiseLower now1 now2 lim SetpointRaiseLowerModeEnum.kHeat amount c = Some o'
        \<and> statuses o' = [Success] \<and> mKernel (coordinator o') = Some k'
        \<and> sint (readOccupiedHeatingSetpoint k') = a - w + 5 * sint amount)"
proof -
  obtain calls1 k1 where 1: "raiseHeat now1 lim amount c = Some (calls1, c\<lparr>mKernel := Some k1\<rparr>)"
      "autoSettled now1 now2 (a + 5 * sint amount) w k1"
    using raiseHeat_auto [OF k auto range(1,2) heat] by blast
  have "\<exists>calls k'. raiseCool now2 lim amount (c\<lparr>mKernel := Some k1\<rparr>)
        = Some (calls, (c\<lparr>mKernel := Some k1\<rparr>)\<lparr>mKernel := Some k'\<rparr>)
      \<and> autoSettled now1 now2 (a + 5 * sint amount + 5 * sint amount) w k'"
    using range(3,4) cool by (intro raiseCool_auto [OF _ 1(2)]) simp_all
  then obtain calls2 k2 where 2: "raiseCool now2 lim amount (c\<lparr>mKernel := Some k1\<rparr>)
        = Some (calls2, (c\<lparr>mKernel := Some k1\<rparr>)\<lparr>mKernel := Some k2\<rparr>)"
      "autoSettled now1 now2 (a + 5 * sint amount + 5 * sint amount) w k2" by blast
  show ?thesis
    using autoSettled_edges [OF 1(2)] autoSettled_edges [OF 2(2)]
    by (simp add: HandleSetpointRaiseLower_def Let_def 1(1) 2(1))
qed

theorem raise_lower_moves_auto_band_witness:
  "\<exists>o' k'. HandleSetpointRaiseLower 5 6
       \<lparr>MinHeatSetpointLimit = None, MaxHeatSetpointLimit = None,
        MinCoolSetpointLimit = None, MaxCoolSetpointLimit = Some 3100\<rparr> kBoth 20
       (initialisedCoordinator\<lparr>mKernel := Some booted\<rparr>) = Some o'
     \<and> mKernel (coordinator o') = Some k' \<and> sint (readOccupiedHeatingSetpoint k') = 2350"
proof -
  have auto: "autoSettled 5 6 2200 50 booted"
    by (simp add: autoSettled_def ReconcilerConfig_default_def ProjectorConfig_default_def)
  have "(\<exists>o' k'. HandleSetpointRaiseLower 5 6
       \<lparr>MinHeatSetpointLimit = None, MaxHeatSetpointLimit = None,
        MinCoolSetpointLimit = None, MaxCoolSetpointLimit = Some 3100\<rparr> kBoth 20
       (initialisedCoordinator\<lparr>mKernel := Some booted\<rparr>) = Some o'
        \<and> statuses o' = [Success] \<and> mKernel (coordinator o') = Some k'
        \<and> sint (readOccupiedHeatingSetpoint k') = 2200 - 50 + 10 * sint (20 :: i8)
        \<and> sint (readOccupiedCoolingSetpoint k') = 2200 + 50 + 10 * sint (20 :: i8))"
    by (rule conjunct1 [OF raise_lower_moves_auto_band [OF _ auto]]) (simp_all add: getLimit_def)
  then show ?thesis by fastforce
qed

text \<open>
  The On, Off and Toggle commands. On a coordinator with a kernel whose power is not
  awaiting a command and outside the guard window, On, Off and Toggle are answered with
  success and the power attribute then reads on, off and the opposite of what it read
  before; any other command is left to the SDK with nothing changed.
\<close>

theorem on_off_commands:
  assumes "mKernel c = Some k" and "mInFlight (onOff (mState k)) = None"
    and "window_elapsed now k (at_onOff (mLastDeviceObserved k))"
  shows "(\<exists>o'. OnOff_InvokeCommand now OnCommand c = Some o' \<and> handled o' \<and> statuses o' = [Success]
          \<and> ReadOnOff (coordinator o') = Some True)
    \<and> (\<exists>o'. OnOff_InvokeCommand now OffCommand c = Some o' \<and> handled o' \<and> statuses o' = [Success]
          \<and> ReadOnOff (coordinator o') = Some False)
    \<and> (\<exists>o' v. OnOff_InvokeCommand now ToggleCommand c = Some o' \<and> handled o' \<and> statuses o' = [Success]
          \<and> ReadOnOff c = Some v \<and> ReadOnOff (coordinator o') = Some (\<not> v))
    \<and> OnOff_InvokeCommand now (OtherCommand i) c
        = Some \<lparr>handled = False, statuses = [], made = [], coordinator = c\<rparr>"
proof -
  have "readOnOff (applyOne now (SetOnOffIntent v) k) = v" for v
    using assms(2,3) by (simp add: apply_SetOnOffIntent_def readOnOff_def projectedOnOff_def
        projectedValue_def)
  then show ?thesis
    using assms(1) by (simp add: OnOff_InvokeCommand_def Let_def ReadOnOff_def ApplyIntent_def
        case_prod_beta applyIntent_eq del: applyOne.simps)
qed

theorem on_off_commands_witness:
  "\<exists>o'. OnOff_InvokeCommand 5 ToggleCommand (initialisedCoordinator\<lparr>mKernel := Some booted\<rparr>) = Some o'
     \<and> statuses o' = [Success]"
  using on_off_commands [of "initialisedCoordinator\<lparr>mKernel := Some booted\<rparr>" booted 5] by auto

end
