(* ===== verification/Matter_Endpoint.thy ===== *)
theory Matter_Endpoint
  imports Data_Model Command_Router
begin

text \<open>
  The bridge's clusters against the generated data model: what the attribute-access interfaces answer against the
  declared types, the reported addresses against the declared attributes, and the application's callbacks
  (\<open>zcl_callbacks.cpp\<close>) against the attributes the SDK stores.
\<close>

section \<open>Bridged attributes\<close>

text \<open>The type and nullability a value is encoded with.\<close>

fun encodesAs :: "EncodedValue \<Rightarrow> ZapType \<Rightarrow> bool \<Rightarrow> bool" where
  "encodesAs (EncBool _) t n = (t = ZAP_BOOLEAN \<and> \<not> n)"
| "encodesAs (EncI16 _) t n = (t = ZAP_TEMPERATURE \<and> \<not> n)"
| "encodesAs (EncNullableI16 _) t n = (t = ZAP_TEMPERATURE \<and> n)"
| "encodesAs (EncU8 _) t n = (t \<in> {ZAP_INT8U, ZAP_PERCENT} \<and> \<not> n)"
| "encodesAs (EncNullableU8 _) t n = (t \<in> {ZAP_INT8U, ZAP_PERCENT} \<and> n)"
| "encodesAs (EncNullableU16 _) t n = (t = ZAP_INT16U \<and> n)"
| "encodesAs (EncSystemMode _) t n = (t = ZAP_ENUM8 \<and> \<not> n)"
| "encodesAs (EncRunningMode _) t n = (t = ZAP_ENUM8 \<and> \<not> n)"
| "encodesAs (EncSetpointSource _) t n = (t = ZAP_ENUM8 \<and> \<not> n)"
| "encodesAs (EncFanMode _) t n = (t = ZAP_ENUM8 \<and> \<not> n)"

abbreviation (input) ClusterRevision_Id :: AttributeId where "ClusterRevision_Id \<equiv> 0xFFFD"

text \<open>
  A declared attribute is answered as declared: with a value of its type, or left to the SDK, which holds it in
  its own storage or, for the cluster revision, serves it from the cluster's code.
\<close>

definition answersAsDeclared ::
  "(AttributeId \<Rightarrow> SyncCoordinator \<Rightarrow> ReadResult option) \<Rightarrow> SyncCoordinator \<Rightarrow> EmberAfAttributeMetadata \<Rightarrow> bool" where
  "answersAsDeclared read c m =
     (case read (attributeId m) c of
        None \<Rightarrow> False
      | Some (Encode e) \<Rightarrow> encodesAs e (attributeType m) (NULLABLE \<in> set (attributeMask m))
      | Some Fallback \<Rightarrow> EXTERNAL_STORAGE \<notin> set (attributeMask m) \<or> attributeId m = ClusterRevision_Id)"

text \<open>The attributes endpoint 1 declares for a cluster.\<close>

definition declaredOn :: "ClusterId \<Rightarrow> EmberAfAttributeMetadata list" where
  "declaredOn cl = concat (map clusterAttributes (filter (\<lambda>c. clusterId c = cl \<and> SERVER \<in> set (clusterMask c)) ep1_clusters))"

lemma ep1_attributes:
  "map clusterAttributes ep1_clusters =
     [[], ep1_Identify_attributes, ep1_Groups_attributes, ep1_OnOff_attributes, ep1_Descriptor_attributes, ep1_Binding_attributes,
      ep1_Thermostat_attributes, ep1_FanControl_attributes, ep1_RelativeHumidityMeasurement_attributes]"
proof -
  have "length (ep0_clusters_commissioning @ ep0_clusters_diagnostics) = 15" by (simp add: cluster_tables)
  then have "drop 15 GENERATED_CLUSTERS = ep1_clusters" by (simp add: GENERATED_CLUSTERS_def)
  then have "map clusterAttributes ep1_clusters = drop 15 (map clusterAttributes GENERATED_CLUSTERS)" by (simp add: drop_map)
  then show ?thesis unfolding cluster_attributes by simp
qed

lemma declaredOn_bridged:
  "declaredOn OnOff_ClusterId = ep1_OnOff_attributes" "declaredOn Thermostat_ClusterId = ep1_Thermostat_attributes"
  "declaredOn FanControl_ClusterId = ep1_FanControl_attributes"
  "declaredOn Humidity_ClusterId = ep1_RelativeHumidityMeasurement_attributes"
  using ep1_attributes by (simp_all add: declaredOn_def ep1_clusters_def)

section \<open>Properties of the bridged clusters\<close>

text \<open>
  C20. Every declared attribute of the bridged clusters is answered as the data model declares it. With a kernel in
  place, the interfaces of On/Off, Thermostat, Fan Control and humidity answer each attribute the data model declares for their
  cluster either with a value of the declared type and nullability, or leave it to the SDK; and they
  leave to it only attributes it stores itself and the cluster revision, so no attribute with external storage goes unanswered.
\<close>

theorem reads_match_data_model:
  assumes "mKernel c = Some k"
  shows "list_all (answersAsDeclared OnOff_Read c) (declaredOn OnOff_ClusterId)
    \<and> list_all (answersAsDeclared Thermostat_Read c) (declaredOn Thermostat_ClusterId)
    \<and> list_all (answersAsDeclared FanControl_Read c) (declaredOn FanControl_ClusterId)
    \<and> list_all (answersAsDeclared Humidity_Read c) (declaredOn Humidity_ClusterId)"
proof (intro conjI)
  note reads = ReadOnOff_def ReadLocalTemperature_def ReadOutdoorTemperature_def ReadOccupiedHeatingSetpoint_def
    ReadOccupiedCoolingSetpoint_def ProjectionSnapshot_def ReadRunningMode_def ReadSetpointSource_def ReadSpeedSetting_def
    ReadFanMode_def ReadSpeedCurrent_def ReadPercentSetting_def ReadPercentCurrent_def ReadHumidityCentiPercent_def
  show "list_all (answersAsDeclared OnOff_Read c) (declaredOn OnOff_ClusterId)"
    by (simp add: declaredOn_bridged ep1_OnOff_attributes_def answersAsDeclared_def OnOff_Read_def reads assms)
  show "list_all (answersAsDeclared Thermostat_Read c) (declaredOn Thermostat_ClusterId)"
    by (simp add: declaredOn_bridged ep1_Thermostat_attributes_def answersAsDeclared_def Thermostat_Read_def reads assms)
  show "list_all (answersAsDeclared FanControl_Read c) (declaredOn FanControl_ClusterId)"
    by (simp add: declaredOn_bridged ep1_FanControl_attributes_def answersAsDeclared_def FanControl_Read_def reads assms)
  show "list_all (answersAsDeclared Humidity_Read c) (declaredOn Humidity_ClusterId)"
    by (simp add: declaredOn_bridged ep1_RelativeHumidityMeasurement_attributes_def answersAsDeclared_def Humidity_Read_def reads assms)
qed

theorem reads_match_data_model_witness:
  "list_all (answersAsDeclared Thermostat_Read initialisedCoordinator) (declaredOn Thermostat_ClusterId)"
  using reads_match_data_model [OF initialisedCoordinator_fields(3)] by blast

text \<open>
  The reported attributes exist, but for one. Every logical attribute that is reported to subscribers has an
  address the data model declares readable on endpoint 1, except the source of the last setpoint change: the bridge serves and
  reports it at an address no controller can read. Reachable has no address and is never reported.
\<close>

theorem reported_attributes_declared:
  "(\<exists>m \<in> set (declaredOn (fst (toMatterAddress a))). attributeId m = snd (toMatterAddress a) \<and> READABLE \<in> set (attributeMask m))
     \<longleftrightarrow> a \<noteq> SetpointSource \<and> a \<noteq> Reachable"
proof -
  have none: "declaredOn 0 = []" by (simp add: declaredOn_def ep1_clusters_def)
  show ?thesis
    by (cases a) (simp_all add: declaredOn_bridged none ep1_OnOff_attributes_def ep1_Thermostat_attributes_def
        ep1_FanControl_attributes_def ep1_RelativeHumidityMeasurement_attributes_def)
qed

section \<open>The attribute-change callback\<close>

text \<open>
  The application's callbacks (\<open>zcl_callbacks.cpp\<close>), by the line they log. The SDK calls the first after it has stored
  a value, so for attributes it stores itself.
\<close>

datatype ZclLog = IdentifyLog AttributeId u8 u8 u16 | OnOffInitLog u16

definition MatterPostAttributeChangeCallback :: "ClusterId \<Rightarrow> AttributeId \<Rightarrow> u8 \<Rightarrow> u16 \<Rightarrow> u8 \<Rightarrow> ZclLog list" where
  "MatterPostAttributeChangeCallback cl aid ty sz v = (if cl = 0x0003 then [IdentifyLog aid ty v sz] else [])"

definition emberAfOnOffClusterInitCallback :: "u16 \<Rightarrow> ZclLog list" where
  "emberAfOnOffClusterInitCallback endpoint = [OnOffInitLog endpoint]"

definition storedWritable :: "ClusterId \<Rightarrow> AttributeId list" where
  "storedWritable cl = map attributeId
     (filter (\<lambda>m. WRITABLE \<in> set (attributeMask m) \<and> EXTERNAL_STORAGE \<notin> set (attributeMask m)) (declaredOn cl))"

text \<open>
  The attributes of endpoint 1 that controllers write into the SDK's storage are eight of the Thermostat, its limits among
  them, and the rocking of the fan; none is of Identify, so the callback never logs.
\<close>

theorem attribute_change_log_is_dead:
  "storedWritable 0x0003 = []
   \<and> storedWritable Thermostat_ClusterId = [0x09, 0x15, 0x16, 0x17, 0x18, 0x19, 0x1B, 0x40]
   \<and> storedWritable FanControl_ClusterId = [0x08]
   \<and> (aid \<in> set (storedWritable cl) \<longrightarrow> MatterPostAttributeChangeCallback cl aid ty sz v = [])"
proof -
  have "declaredOn 0x0003 = ep1_Identify_attributes" using ep1_attributes by (simp add: declaredOn_def ep1_clusters_def)
  then have "storedWritable 0x0003 = []" by (simp add: storedWritable_def ep1_Identify_attributes_def)
  moreover have "storedWritable Thermostat_ClusterId = [0x09, 0x15, 0x16, 0x17, 0x18, 0x19, 0x1B, 0x40]"
    "storedWritable FanControl_ClusterId = [0x08]"
    by (simp_all add: storedWritable_def declaredOn_bridged ep1_Thermostat_attributes_def ep1_FanControl_attributes_def)
  ultimately show ?thesis by (auto simp: MatterPostAttributeChangeCallback_def)
qed

theorem attribute_change_log_is_dead_witness:
  "MatterPostAttributeChangeCallback Thermostat_ClusterId 0x15 0x29 2 0 = []"
  using attribute_change_log_is_dead [of "0x15" Thermostat_ClusterId "0x29" 2 0] by simp

end
