(* ===== verification/Bridge_Recovery.thy ===== *)
theory Bridge_Recovery
  imports Event_Loop
begin

text \<open>
  The bridge through an outage of the unit (\<open>airconditioner_manager.cpp\<close>, \<open>sync/reconciler.cpp\<close>): any
  sequence of command transmissions and polls that fail, and the first poll and command after the
  unit answers again; and the indicator's behaviour when two notifications overlap.
\<close>

section \<open>A unit that does not answer\<close>

text \<open>
  In the good states of the link below, which failures keep, neither a command nor a status request succeeds.
\<close>

definition silent :: "'p S21PresentationSync \<Rightarrow> ('p \<Rightarrow> bool) \<Rightarrow> bool" where
  "silent D good =
     (\<forall>p. good p \<longrightarrow>
        (\<forall>on md sp f. \<exists>e p'. ps_setOperation D on md sp f p = (Inl e, p') \<and> good p')
        \<and> (\<exists>e p'. ps_getOperation D p = (Inl e, p') \<and> good p'))"

datatype OutageEvent = FailedPump | FailedPoll millis

fun outage ::
  "'p S21PresentationSync \<Rightarrow> OutageEvent list \<Rightarrow> 'p AirConditionerManager \<Rightarrow> 'p AirConditionerManager option" where
  "outage D [] a = Some a"
| "outage D (FailedPump # es) a = Option.bind (CommandWorkHandler D a) (outage D es)"
| "outage D (FailedPoll now # es) a = Option.bind (PollOperationalPhase D now a) (outage D es)"

text \<open>What an outage can do to the kernel: forget the last sent command, mark the unit unreachable.\<close>

definition outage_kernel :: "BridgeKernel \<Rightarrow> BridgeKernel \<Rightarrow> bool" where
  "outage_kernel k k' \<longleftrightarrow> k' \<in> {k, onCommandFailed k, notifyLinkDown k, notifyLinkDown (onCommandFailed k)}"

lemma outage_kernel_closed:
  "outage_kernel k k' \<Longrightarrow> outage_kernel k (onCommandFailed k')"
  "outage_kernel k k' \<Longrightarrow> outage_kernel k (notifyLinkDown k')"
proof -
  have c: "onCommandFailed (notifyLinkDown r) = notifyLinkDown (onCommandFailed r)" for r
    by (simp add: onCommandFailed_def notifyLinkDown_def)
  show "outage_kernel k k' \<Longrightarrow> outage_kernel k (onCommandFailed k')"
    "outage_kernel k k' \<Longrightarrow> outage_kernel k (notifyLinkDown k')"
    by (auto simp: outage_kernel_def c)
qed

lemma notifyLinkDown_twins [simp]:
  "onOff (mState (notifyLinkDown k)) = onOff (mState k)" "mode (mState (notifyLinkDown k)) = mode (mState k)"
  "fan (mState (notifyLinkDown k)) = fan (mState k)"
  "activeSetpoint (mState (notifyLinkDown k)) m = activeSetpoint (mState k) m"
  by (simp_all add: notifyLinkDown_def activeSetpoint_def split: OperationalMode.split)

lemma outage_kernel_twins:
  assumes "outage_kernel k k'"
  shows "onOff (mState k') = onOff (mState k)" "mode (mState k') = mode (mState k)" "fan (mState k') = fan (mState k)"
    "activeSetpoint (mState k') m = activeSetpoint (mState k) m"
  using assms by (auto simp: outage_kernel_def)

lemma outage_kernel_pending:
  "outage_kernel k k' \<Longrightarrow> pendingCommand k = Some cmd \<Longrightarrow> pendingCommand k' = Some cmd"
  by (auto simp: outage_kernel_def pendingCommand_failed)

text \<open>The state a manager keeps through an outage.\<close>

definition waiting :: "('p \<Rightarrow> bool) \<Rightarrow> 'p AirConditionerManager \<Rightarrow> BridgeKernel \<Rightarrow> 'p AirConditionerManager \<Rightarrow> bool" where
  "waiting good a k a' =
     (mS21Manager a' = mS21Manager a \<and> mPublisher (mSyncCoordinator a') = mPublisher (mSyncCoordinator a)
      \<and> good (link a') \<and> (\<exists>k'. mKernel (mSyncCoordinator a') = Some k' \<and> outage_kernel k k'))"

lemma pump_failed:
  assumes k: "mKernel (mSyncCoordinator a) = Some k" and cmd: "pendingCommand k = Some cmd"
    and sent: "mgr_setOperation P (cmd_onOff cmd) (cmd_operatingMode cmd) (cmd_setpointCelsius cmd)
                 (cmd_fanMode cmd) (mS21Manager a) (link a) = (Inl e, mp)"
  shows "CommandWorkHandler P a = Some (setS21 mp (a\<lparr>mCommandWork := None,
      mSyncCoordinator := (mSyncCoordinator a)\<lparr>mKernel := Some (onCommandFailed k)\<rparr>\<rparr>))"
  using assms by (cases mp) (simp add: CommandWorkHandler_def PendingCommand_def OnCommandFailed_def setS21_def)

lemma waiting_pump:
  assumes w: "waiting good a k b" and silent: "silent D good" and pending: "pendingCommand k = Some cmd"
    and ready: "mIsReady (mS21Manager a)"
  shows "\<exists>c. CommandWorkHandler D b = Some c \<and> waiting good a k c"
proof -
  obtain k' where k': "mKernel (mSyncCoordinator b) = Some k'" "outage_kernel k k'" and b: "good (link b)"
      "mS21Manager b = mS21Manager a" "mPublisher (mSyncCoordinator b) = mPublisher (mSyncCoordinator a)"
    using w by (auto simp: waiting_def)
  obtain e p where p: "ps_setOperation D (cmd_onOff cmd) (cmd_operatingMode cmd) (cmd_setpointCelsius cmd) (cmd_fanMode cmd) (link b)
      = (Inl e, p)" "good p"
    using silent b(1) unfolding silent_def by blast
  then have "mgr_setOperation D (cmd_onOff cmd) (cmd_operatingMode cmd) (cmd_setpointCelsius cmd) (cmd_fanMode cmd)
      (mS21Manager b) (link b) = (Inl (DataLinkFailure e), mS21Manager b, p)"
    using ready b(2) by (simp add: mgr_setOperation_def)
  note step = pump_failed [OF k'(1) outage_kernel_pending [OF k'(2) pending] this]
  show ?thesis
    unfolding step waiting_def using outage_kernel_closed(1) [OF k'(2)] b(2,3) p(2) by simp
qed

lemma waiting_poll:
  assumes w: "waiting good a k b" and silent: "silent D good"
    and stale: "\<forall>p. cache_lookup (mCacheMaxAge (mS21Manager a)) (ps_now D p) (mOperationCache (mS21Manager a)) = None"
    and ready: "mIsReady (mS21Manager a)"
  shows "\<exists>c. PollOperationalPhase D now b = Some c \<and> waiting good a k c"
proof -
  obtain k' where k': "mKernel (mSyncCoordinator b) = Some k'" "outage_kernel k k'" and b: "good (link b)"
      "mS21Manager b = mS21Manager a" "mPublisher (mSyncCoordinator b) = mPublisher (mSyncCoordinator a)"
    using w by (auto simp: waiting_def)
  obtain e p where g: "ps_getOperation D (link b) = (Inl e, p)" "good p"
    using silent b(1) unfolding silent_def by blast
  have miss: "cache_lookup (mCacheMaxAge (mS21Manager a)) (ps_now D (link b)) (mOperationCache (mS21Manager a)) = None"
    using stale by (rule spec)
  have get: "operationCacheGet D (mS21Manager a) (link b) = (Inl e, mS21Manager a, p)"
    unfolding operationCacheGet_def using cache.miss_error [OF miss, of "ps_getOperation D", OF g(1)] by simp
  have "mgr_getOperation D (mS21Manager b) (link b) = (Inl (PresentationFailure e), mS21Manager b, p)"
    unfolding b(2) mgr_getOperation_def get using ready by simp
  note step = PollOperationalPhase_failed [OF this k'(1), of now]
  show ?thesis
    unfolding step waiting_def using b(2,3) g(2) k' outage_kernel_closed(2) [OF k'(2)]
    by (cases "kReachableFailureThreshold \<le> mConsecutivePollFailures b + 1") simp_all
qed

lemma outage_waits:
  assumes "waiting good a k b" and "silent D good" and "pendingCommand k = Some cmd" and "mIsReady (mS21Manager a)"
    and "\<forall>p. cache_lookup (mCacheMaxAge (mS21Manager a)) (ps_now D p) (mOperationCache (mS21Manager a)) = None"
  shows "\<exists>c. outage D es b = Some c \<and> waiting good a k c"
  using assms(1)
proof (induction es arbitrary: b)
  case (Cons e es)
  show ?case
  proof (cases e)
    case FailedPump
    then show ?thesis using waiting_pump [OF Cons.prems assms(2-4)] Cons.IH by force
  next
    case (FailedPoll now)
    then show ?thesis using waiting_poll [OF Cons.prems assms(2,5,4), of now] Cons.IH by force
  qed
qed simp

section \<open>The unit answers again\<close>

lemma pump_delivers:
  assumes k: "mKernel (mSyncCoordinator a) = Some k" and cmd: "pendingCommand k = Some cmd"
    and sent: "mgr_setOperation P (cmd_onOff cmd) (cmd_operatingMode cmd) (cmd_setpointCelsius cmd)
                 (cmd_fanMode cmd) (mS21Manager a) w = (Inr (), m', w')"
  shows "\<exists>d. CommandWorkHandler P (a\<lparr>link := w\<rparr>) = Some d \<and> link d = w' \<and> PendingCommand (mSyncCoordinator d) = Some None"
proof -
  have "desiredCommand (mState k) = cmd" using cmd by (simp add: pendingCommand_Some_iff)
  then have "pendingCommand (onCommandSent cmd k) = None" by (rule pendingCommand_after_sent)
  moreover have "CommandWorkHandler P (a\<lparr>link := w\<rparr>) = Some (setS21 (m', w') ((a\<lparr>link := w\<rparr>)\<lparr>mCommandWork := None,
      mSyncCoordinator := (mSyncCoordinator a)\<lparr>mKernel := Some (onCommandSent cmd k)\<rparr>\<rparr>))"
    using pump_effect [of "a\<lparr>link := w\<rparr>" k cmd P "(m', w')"] k cmd sent by simp
  ultimately show ?thesis by (simp add: PendingCommand_def)
qed

text \<open>A poll that reads what is already observed, with a command pending and nothing awaited.\<close>

lemma answered_poll_resumes:
  assumes k: "mKernel (mSyncCoordinator a) = Some k" and pending: "pendingCommand k = Some cmd"
    and pump: "mPump (mPublisher (mSyncCoordinator a)) = Some ScheduleS21CommandHandlerFn"
    and idle: "mInFlight (onOff (mState k)) = None" "mInFlight (mode (mState k)) = None" "mInFlight (fan (mState k)) = None"
      "mInFlight (activeSetpoint (mState k) (mObserved (mode (mState k)))) = None"
    and op: "mgr_getOperation P (mS21Manager a) (link a) = (Inr (on, md, sp, f), m, p)"
    and old: "\<And>valve. repeatsObserved \<lparr>obs_onOff = on, obs_operatingMode = md, obs_setpointCelsius = sp, obs_fanMode = f,
      obs_refrigerantValveOpen = valve\<rparr> k"
  shows "\<exists>c k'. PollOperationalPhase P now a = Some c \<and> mCommandWork c = Some 50
    \<and> ReadReachable (mSyncCoordinator c) = Some True
    \<and> mKernel (mSyncCoordinator c) = Some k' \<and> pendingCommand k' = Some cmd"
proof -
  let ?obs = "\<lambda>valve. \<lparr>obs_onOff = on, obs_operatingMode = md, obs_setpointCelsius = sp, obs_fanMode = f,
    obs_refrigerantValveOpen = valve\<rparr>"
  obtain c b valve where c: "PollOperationalPhase P now a = Some c"
      "mSyncCoordinator b = mSyncCoordinator a" "dispatched True k (observed now (?obs valve) k) b c"
    using PollOperationalPhase_ok [OF op k, of now] by blast
  have "pendingCommand (observed now (?obs valve) k) = Some cmd"
    by (rule stale_poll_keeps_pending [OF pending idle old])
  then show ?thesis
    using c pump by (auto simp: dispatched_def kCommandDebounceMs_def ReadReachable_def observed_reachable)
qed

section \<open>Properties\<close>

text \<open>
  C7. A command survives an outage. With a command pending and nothing awaited, let the unit be silent
  for any sequence of transmissions and polls, and then answer a poll with the state it had. Through the outage
  the command stays pending; the answered poll schedules the pump; and when the pump runs, the link receives exactly
  that command, nothing stays pending, and the unit counts as reachable.
\<close>

theorem command_survives_outage:
  assumes k: "mKernel (mSyncCoordinator a) = Some k" and ready: "mIsReady (mS21Manager a)"
    and pump: "mPump (mPublisher (mSyncCoordinator a)) = Some ScheduleS21CommandHandlerFn"
    and pending: "pendingCommand k = Some cmd"
    and idle: "mInFlight (onOff (mState k)) = None" "mInFlight (mode (mState k)) = None" "mInFlight (fan (mState k)) = None"
      "mInFlight (activeSetpoint (mState k) (mObserved (mode (mState k)))) = None"
    and silent: "silent D good" "good (link a)"
      "\<forall>p. cache_lookup (mCacheMaxAge (mS21Manager a)) (ps_now D p) (mOperationCache (mS21Manager a)) = None"
  shows "\<exists>b. outage D es a = Some b \<and> PendingCommand (mSyncCoordinator b) = Some (Some cmd)
    \<and> mS21Manager b = mS21Manager a
    \<and> (mgr_getOperation P (mS21Manager b) q = (Inr (on, md, sp, f), m, p)
       \<and> on = mObserved (onOff (mState k))
       \<and> s21OperatingModeToOperationalMode md = mObserved (mode (mState k))
       \<and> sp = mObserved (activeSetpoint (mState k) (mObserved (mode (mState k))))
       \<and> s21FanModeToSpeedSetting f = mObserved (fan (mState k)) \<longrightarrow>
       (\<exists>c. PollOperationalPhase P now (b\<lparr>link := q\<rparr>) = Some c \<and> mCommandWork c = Some 50
          \<and> ReadReachable (mSyncCoordinator c) = Some True
          \<and> PendingCommand (mSyncCoordinator c) = Some (Some cmd)
          \<and> (\<forall>w w' m'. mgr_setOperation P (cmd_onOff cmd) (cmd_operatingMode cmd) (cmd_setpointCelsius cmd)
                (cmd_fanMode cmd) (mS21Manager c) w = (Inr (), m', w') \<longrightarrow>
              (\<exists>d. CommandWorkHandler P (c\<lparr>link := w\<rparr>) = Some d \<and> link d = w'
                 \<and> PendingCommand (mSyncCoordinator d) = Some None))))"
proof -
  have "waiting good a k a" using k silent(2) by (simp add: waiting_def outage_kernel_def)
  then obtain b k' where b: "outage D es a = Some b" "mKernel (mSyncCoordinator b) = Some k'" "outage_kernel k k'"
      "mPublisher (mSyncCoordinator b) = mPublisher (mSyncCoordinator a)" "mS21Manager b = mS21Manager a"
    using outage_waits [OF _ silent(1) pending ready silent(3)] unfolding waiting_def by blast
  have pend: "pendingCommand k' = Some cmd" using b(3) pending by (rule outage_kernel_pending)
  note same = outage_kernel_twins [OF b(3)]
  let ?b = "b\<lparr>link := q\<rparr>"
  have kb: "mKernel (mSyncCoordinator ?b) = Some k'" and pb: "mPump (mPublisher (mSyncCoordinator ?b)) = Some ScheduleS21CommandHandlerFn"
    using b(2,4) pump by simp_all
  have idle': "mInFlight (onOff (mState k')) = None" "mInFlight (mode (mState k')) = None" "mInFlight (fan (mState k')) = None"
      "mInFlight (activeSetpoint (mState k') (mObserved (mode (mState k')))) = None"
    by (simp_all add: same idle)
  have resumes: "\<exists>c k''. PollOperationalPhase P now ?b = Some c \<and> mCommandWork c = Some 50
      \<and> ReadReachable (mSyncCoordinator c) = Some True
      \<and> mKernel (mSyncCoordinator c) = Some k'' \<and> pendingCommand k'' = Some cmd"
    if "mgr_getOperation P (mS21Manager b) q = (Inr (on, md, sp, f), m, p) \<and> on = mObserved (onOff (mState k))
       \<and> s21OperatingModeToOperationalMode md = mObserved (mode (mState k))
       \<and> sp = mObserved (activeSetpoint (mState k) (mObserved (mode (mState k))))
       \<and> s21FanModeToSpeedSetting f = mObserved (fan (mState k))"
  proof (rule answered_poll_resumes [OF kb pend pb idle'])
    show "mgr_getOperation P (mS21Manager ?b) (link ?b) = (Inr (on, md, sp, f), m, p)" using that by simp
  qed (use that in \<open>simp add: repeatsObserved_def same\<close>)
  show ?thesis
    using b(1,2,5) pend resumes pump_delivers [where cmd = cmd and P = P] by (fastforce simp: PendingCommand_def)
qed

theorem command_survives_outage_witness:
  "\<exists>b c. outage deafPresentation [FailedPump, FailedPoll 10, FailedPoll 20, FailedPump, FailedPoll 30]
       (runningManager\<lparr>mSyncCoordinator := (mSyncCoordinator runningManager)\<lparr>mKernel := Some poweredOnByIntent\<rparr>\<rparr>) = Some b
     \<and> PollOperationalPhase echoPresentation 40 (b\<lparr>link := ((False, OperatingMode.Auto, 2200, FanMode.Auto), 9000)\<rparr>) = Some c
     \<and> mCommandWork c = Some 50
     \<and> PendingCommand (mSyncCoordinator c) = Some (Some (desiredCommand (mState poweredOnByIntent)))"
proof -
  let ?a = "runningManager\<lparr>mSyncCoordinator := (mSyncCoordinator runningManager)\<lparr>mKernel := Some poweredOnByIntent\<rparr>\<rparr>"
  let ?q = "((False, OperatingMode.Auto, 2200, FanMode.Auto), 9000)"
  have st: "onOff (mState poweredOnByIntent) = setDesired True (TwinField_new False)"
    "mode (mState poweredOnByIntent) = TwinField_new OperationalMode.Auto" "fan (mState poweredOnByIntent) = TwinField_new None"
    "autoSetpoint (mState poweredOnByIntent) = TwinField_new 2200"
    by (simp_all add: poweredOnByIntent_def apply_SetOnOffIntent_def intentPassesGuard_def)
  have a: "mKernel (mSyncCoordinator ?a) = Some poweredOnByIntent" "mIsReady (mS21Manager ?a)"
      "mPump (mPublisher (mSyncCoordinator ?a)) = Some ScheduleS21CommandHandlerFn" by simp_all
  have idle: "mInFlight (onOff (mState poweredOnByIntent)) = None" "mInFlight (mode (mState poweredOnByIntent)) = None"
      "mInFlight (fan (mState poweredOnByIntent)) = None"
      "mInFlight (activeSetpoint (mState poweredOnByIntent) (mObserved (mode (mState poweredOnByIntent)))) = None"
    by (simp_all add: st activeSetpoint_def)
  have silent: "silent deafPresentation (\<lambda>_. True)" "\<forall>p. cache_lookup (mCacheMaxAge (mS21Manager ?a)) (ps_now deafPresentation p)
      (mOperationCache (mS21Manager ?a)) = None"
    by (simp_all add: silent_def deafPresentation_def cache_lookup_def S21Manager_new_def)
  obtain m p where answer: "mgr_getOperation echoPresentation (mS21Manager ?a) ?q
      = (Inr (False, OperatingMode.Auto, 2200, FanMode.Auto), m, p)"
    by (simp add: mgr_getOperation_def operationCacheGet_def cache_get_def S21Manager_new_def echoPresentation_def)
  have old: "False = mObserved (onOff (mState poweredOnByIntent))"
      "s21OperatingModeToOperationalMode OperatingMode.Auto = mObserved (mode (mState poweredOnByIntent))"
      "2200 = mObserved (activeSetpoint (mState poweredOnByIntent) (mObserved (mode (mState poweredOnByIntent))))"
      "s21FanModeToSpeedSetting FanMode.Auto = mObserved (fan (mState poweredOnByIntent))"
    by (simp_all add: st activeSetpoint_def s21OperatingModeToOperationalMode_def s21FanModeToSpeedSetting_def)
  note survives = command_survives_outage [OF a poweredOnByIntent_pending idle silent(1) TrueI silent(2),
      of "[FailedPump, FailedPoll 10, FailedPoll 20, FailedPump, FailedPoll 30]" echoPresentation ?q
        False OperatingMode.Auto 2200 FanMode.Auto m p 40]
  show ?thesis using survives answer old by metis
qed

text \<open>
  Two overlapping notifications can leave the power indicator wrong. The indicator reads the power
  and then sets the pin. When another thread's observation changes the power in between and runs its own notification,
  the first thread's value is written last: LED0 shows the power read before.
\<close>

theorem power_indicator_race:
  assumes k: "mKernel (mSyncCoordinator a) = Some k"
    and listening: "mPowerIndicator \<in> set (mListeners (mPublisher (mSyncCoordinator a)))"
    and changed: "readOnOff (snd (applyOperationalObservation now obs k)) \<noteq> readOnOff k"
  shows "\<exists>on b. ReadOnOff (mSyncCoordinator a) = Some on \<and> dispatchOperational now obs a = Some b
    \<and> led0 b = ReadOnOff (mSyncCoordinator b)
    \<and> led0 (PowerIndicator_Set on b) \<noteq> ReadOnOff (mSyncCoordinator (PowerIndicator_Set on b))"
  using dispatch_effect(2) [OF k, of now obs] k listening changed
  by (fastforce simp: dispatched_def ReadOnOff_def PowerIndicator_Set_def)

theorem power_indicator_race_witness:
  "\<exists>on b. ReadOnOff (mSyncCoordinator runningManager) = Some on
     \<and> dispatchOperational 5 \<lparr>obs_onOff = True, obs_operatingMode = OperatingMode.Auto, obs_setpointCelsius = 2200,
          obs_fanMode = FanMode.Auto, obs_refrigerantValveOpen = None\<rparr> runningManager = Some b
     \<and> led0 (PowerIndicator_Set on b) \<noteq> ReadOnOff (mSyncCoordinator (PowerIndicator_Set on b))"
proof -
  let ?obs = "\<lparr>obs_onOff = True, obs_operatingMode = OperatingMode.Auto, obs_setpointCelsius = 2200,
          obs_fanMode = FanMode.Auto, obs_refrigerantValveOpen = None\<rparr>"
  have k: "mKernel (mSyncCoordinator runningManager) = Some booted"
    by (simp add: booted_def BridgeKernel_new_def)
  have "readOnOff (snd (applyOperationalObservation 5 ?obs booted)) \<noteq> readOnOff booted"
    by (simp add: applyOperationalObservation_eq readOnOff_def projectedOnOff_def projectedValue_def twin_observe)
  from power_indicator_race [OF k _ this] show ?thesis by force
qed

end
