(* ===== verification/Setpoint_Delivery.thy ===== *)
theory Setpoint_Delivery
  imports Matter_Endpoint Bridge_Recovery Bridge_System
begin

text \<open>
  Which setpoints reach the unit. The S21 command carries setpoints from 10 to 32 degrees
  (\<open>s21/s21_presentation.cpp\<close>); the raise and lower commands clamp to the limits the data model
  configures (\<open>sync/command_router.cpp\<close>, \<open>zap-generated/endpoint_config.h\<close>); an attribute write does not clamp
  (\<open>sync/aai_thermostat.cpp\<close>).
\<close>

section \<open>The configured limits\<close>

text \<open>The default the SDK's storage starts with, where the data model gives one.\<close>

definition attributeDefault :: "ClusterId \<Rightarrow> AttributeId \<Rightarrow> u16 option" where
  "attributeDefault cl aid =
     (case filter (\<lambda>m. attributeId m = aid) (declaredOn cl) of
        [] \<Rightarrow> None
      | m # _ \<Rightarrow>
          (case defaultValue m of
             ZAP_EMPTY_DEFAULT \<Rightarrow> None
           | ZAP_SIMPLE_DEFAULT v \<Rightarrow> Some (of_nat v)
           | ZAP_MIN_MAX_DEFAULTS_INDEX i \<Rightarrow> Some (mm_defaultValue (GENERATED_MIN_MAX_DEFAULTS ! i))))"

definition configuredLimits :: SetpointLimits where
  "configuredLimits =
     \<lparr>MinHeatSetpointLimit = attributeDefault Thermostat_ClusterId 0x15,
      MaxHeatSetpointLimit = attributeDefault Thermostat_ClusterId 0x16,
      MinCoolSetpointLimit = attributeDefault Thermostat_ClusterId 0x17,
      MaxCoolSetpointLimit = attributeDefault Thermostat_ClusterId 0x18\<rparr>"

lemma configuredLimits_values [simp]:
  "getLimit (MinHeatSetpointLimit configuredLimits) d = 1500" "getLimit (MaxHeatSetpointLimit configuredLimits) d = 2800"
  "getLimit (MinCoolSetpointLimit configuredLimits) d = 1600" "getLimit (MaxCoolSetpointLimit configuredLimits) d = 3200"
  by (simp_all add: configuredLimits_def attributeDefault_def declaredOn_bridged ep1_Thermostat_attributes_def
      GENERATED_MIN_MAX_DEFAULTS_def getLimit_def)

section \<open>Setpoints the unit accepts\<close>

definition deliverable :: "BridgeKernel \<Rightarrow> bool" where
  "deliverable k =
     (setPoint_ok (mDesired (heatSetpoint (mState k))) \<and> setPoint_ok (mDesired (coolSetpoint (mState k)))
      \<and> setPoint_ok (mDesired (autoSetpoint (mState k)))
      \<and> 0 \<le> sint (autoBandHalfWidthCentiC (projectorConfig (mConfig k)))
      \<and> sint (autoBandHalfWidthCentiC (projectorConfig (mConfig k))) \<le> 400)"

lemma deliverable_command:
  "deliverable k \<Longrightarrow> setPoint_ok (cmd_setpointCelsius (desiredCommand (mState k)))"
  by (cases "mDesired (mode (mState k))") (simp_all add: deliverable_def desiredCommand_def Let_def)

lemma centre_ok:
  fixes a v :: i16 and w :: int
  assumes "1000 \<le> sint a + w + sint v - 1000" and "sint a + w + sint v \<le> 6400" and "\<bar>w\<bar> \<le> 400" and "setPoint_ok a"
  shows "setPoint_ok (to_i16 ((sint (to_i16 (sint a + w)) + sint v) sdiv 2))"
    and "setPoint_ok (to_i16 ((sint v + sint (to_i16 (sint a + w))) sdiv 2))"
proof -
  have "sint (to_i16 (sint a + w)) = sint a + w" using assms by (intro sint_to_i16) auto
  moreover have "(sint a + w + sint v) sdiv 2 = (sint a + w + sint v) div 2" using assms by (intro sdiv_nonneg) auto
  moreover have "1000 \<le> (sint a + w + sint v) div 2 \<and> (sint a + w + sint v) div 2 \<le> 3200" using assms by linarith
  ultimately have "setPoint_ok (to_i16 ((sint a + w + sint v) sdiv 2))" by (simp add: sint_to_i16)
  then show "setPoint_ok (to_i16 ((sint (to_i16 (sint a + w)) + sint v) sdiv 2))"
    "setPoint_ok (to_i16 ((sint v + sint (to_i16 (sint a + w))) sdiv 2))"
    using \<open>sint (to_i16 (sint a + w)) = sint a + w\<close> by (simp_all add: add.commute)
qed

lemma setpoint_intents_deliverable:
  assumes "deliverable k"
  shows "1500 \<le> sint v \<Longrightarrow> sint v \<le> 2800 \<Longrightarrow> deliverable (applyOne now (SetOccupiedHeatingSetpointIntent v) k)"
    and "1600 \<le> sint v \<Longrightarrow> sint v \<le> 3200 \<Longrightarrow> deliverable (applyOne now (SetOccupiedCoolingSetpointIntent v) k)"
proof -
  let ?a = "mDesired (autoSetpoint (mState k))" and ?w = "sint (autoBandHalfWidthCentiC (projectorConfig (mConfig k)))"
  note d = assms [unfolded deliverable_def]
  show "deliverable (applyOne now (SetOccupiedHeatingSetpointIntent v) k)" if "1500 \<le> sint v" "sint v \<le> 2800"
    using d that centre_ok(1) [of ?a ?w v]
    by (cases "mObserved (mode (mState k))") (simp_all add: apply_SetOccupiedHeatingSetpointIntent_def Let_def deliverable_def)
  show "deliverable (applyOne now (SetOccupiedCoolingSetpointIntent v) k)" if "1600 \<le> sint v" "sint v \<le> 3200"
    using d that centre_ok(2) [of ?a "- ?w" v]
    by (cases "mObserved (mode (mState k))") (simp_all add: apply_SetOccupiedCoolingSetpointIntent_def Let_def deliverable_def)
qed

lemma applySetpointDelta_range:
  assumes "sint lo \<le> sint hi"
  shows "sint lo \<le> sint (applySetpointDelta cur amount lo hi)" "sint (applySetpointDelta cur amount lo hi) \<le> sint hi"
proof -
  define d where "d = max (sint lo) (min (sint hi) (sint cur + sint amount * 10))"
  have "applySetpointDelta cur amount lo hi = to_i16 d"
    using assms unfolding applySetpointDelta_def Let_def d_def
    by (intro arg_cong [where f = to_i16]) (simp add: max_def min_def)
  moreover have "sint lo \<le> d" "d \<le> sint hi" using assms by (simp_all add: d_def)
  moreover from this have "sint (to_i16 d) = d"
    using sint_i16_bounds [of lo] sint_i16_bounds [of hi] by (intro sint_to_i16) auto
  ultimately show "sint lo \<le> sint (applySetpointDelta cur amount lo hi)" "sint (applySetpointDelta cur amount lo hi) \<le> sint hi"
    by simp_all
qed

lemma raise_deliverable:
  assumes "mKernel c = Some k" and "deliverable k"
  shows "\<exists>calls c' k'. raiseHeat now configuredLimits amount c = Some (calls, c') \<and> mKernel c' = Some k' \<and> deliverable k'"
    and "\<exists>calls c' k'. raiseCool now configuredLimits amount c = Some (calls, c') \<and> mKernel c' = Some k' \<and> deliverable k'"
proof -
  have "deliverable (applyOne now (SetOccupiedHeatingSetpointIntent (applySetpointDelta cur amount 1500 2800)) k)" for cur
    using applySetpointDelta_range [of 1500 2800 cur amount] by (intro setpoint_intents_deliverable(1) [OF assms(2)]) simp_all
  then show "\<exists>calls c' k'. raiseHeat now configuredLimits amount c = Some (calls, c') \<and> mKernel c' = Some k' \<and> deliverable k'"
    using assms(1) by (simp add: raiseHeat_def ReadOccupiedHeatingSetpoint_def ApplyIntent_def case_prod_beta Let_def applyIntent_eq
        del: applyOne.simps)
  have "deliverable (applyOne now (SetOccupiedCoolingSetpointIntent (applySetpointDelta cur amount 1600 3200)) k)" for cur
    using applySetpointDelta_range [of 1600 3200 cur amount] by (intro setpoint_intents_deliverable(2) [OF assms(2)]) simp_all
  then show "\<exists>calls c' k'. raiseCool now configuredLimits amount c = Some (calls, c') \<and> mKernel c' = Some k' \<and> deliverable k'"
    using assms(1) by (simp add: raiseCool_def ReadOccupiedCoolingSetpoint_def ApplyIntent_def case_prod_beta Let_def applyIntent_eq
        del: applyOne.simps)
qed

section \<open>A setpoint the unit refuses\<close>

text \<open>Runs of the pump and writes of controllers, in any order.\<close>

datatype ControlEvent = PumpRun | Write millis WriteIntent

fun runEvents ::
  "'p S21PresentationSync \<Rightarrow> ControlEvent list \<Rightarrow> 'p AirConditionerManager \<Rightarrow> 'p AirConditionerManager option" where
  "runEvents P [] a = Some a"
| "runEvents P (PumpRun # es) a = Option.bind (CommandWorkHandler P a) (runEvents P es)"
| "runEvents P (Write t i # es) a = Option.bind (dispatchIntent t i a) (runEvents P es)"

text \<open>Events that leave cooling and its setpoint alone: everything but a cooling setpoint and a system mode other than Cool or Off.\<close>

fun leavesCooling :: "ControlEvent \<Rightarrow> bool" where
  "leavesCooling PumpRun = True"
| "leavesCooling (Write t (SetOccupiedCoolingSetpointIntent v)) = False"
| "leavesCooling (Write t (SetSystemModeIntent on m)) = (\<not> on \<or> m = OperationalMode.Cool)"
| "leavesCooling (Write t i) = True"

definition blockedOn :: "i16 \<Rightarrow> BridgeKernel \<Rightarrow> bool" where
  "blockedOn v k =
     (mObserved (mode (mState k)) = OperationalMode.Cool \<and> mDesired (mode (mState k)) = OperationalMode.Cool
      \<and> mDesired (coolSetpoint (mState k)) = v \<and> mObserved (coolSetpoint (mState k)) \<noteq> v
      \<and> mInFlight (coolSetpoint (mState k)) = None
      \<and> (\<forall>x. mLastSentCommand k = Some x \<longrightarrow> cmd_setpointCelsius x \<noteq> v))"

lemma blockedOn_pending:
  assumes "blockedOn v k"
  shows "pendingCommand k = Some (desiredCommand (mState k))" "cmd_setpointCelsius (desiredCommand (mState k)) = v"
proof -
  show sp: "cmd_setpointCelsius (desiredCommand (mState k)) = v"
    using assms by (simp add: blockedOn_def activeSetpoint_def)
  have "dirty (coolSetpoint (mState k))" using assms by (auto simp: blockedOn_def dirty_iff)
  then have "anyDirty (mState k)" by (simp add: anyDirty_def)
  moreover have "mLastSentCommand k \<noteq> Some (desiredCommand (mState k))" using assms sp unfolding blockedOn_def by metis
  ultimately show "pendingCommand k = Some (desiredCommand (mState k))" by (simp add: pendingCommand_Some_iff)
qed

lemma blockedOn_write: "blockedOn v k \<Longrightarrow> leavesCooling (Write t i) \<Longrightarrow> blockedOn v (applyOne t i k)"
proof (cases i)
  case (SetPercentSettingIntent p)
  assume "blockedOn v k"
  then show ?thesis unfolding SetPercentSettingIntent by (cases p) (simp_all add: blockedOn_def apply_defs Let_def)
qed (auto simp: blockedOn_def apply_defs Let_def)

lemma blockedOn_pump:
  fixes a :: "'l SyncWorld AirConditionerManager"
  assumes k: "mKernel (mSyncCoordinator a) = Some k" "blockedOn v k"
    and bad: "\<not> setPoint_ok v" and ready: "mIsReady (mS21Manager a)"
  shows "\<exists>b kb. CommandWorkHandler (S21PresentationSyncAdapter dl) a = Some b \<and> link b = link a \<and> mS21Manager b = mS21Manager a
    \<and> mKernel (mSyncCoordinator b) = Some kb \<and> blockedOn v kb"
proof -
  let ?cmd = "desiredCommand (mState k)"
  note p = blockedOn_pending [OF k(2)]
  have "ps_setOperation (S21PresentationSyncAdapter dl) (cmd_onOff ?cmd) (cmd_operatingMode ?cmd) (cmd_setpointCelsius ?cmd)
      (cmd_fanMode ?cmd) w = (Inl SetPointOutOfRange, w)" for w
    using bad unfolding p(2) by (auto simp: S21PresentationSyncAdapter_def sync_setOperation_def pres_setOperation_def)
  then have "mgr_setOperation (S21PresentationSyncAdapter dl) (cmd_onOff ?cmd) (cmd_operatingMode ?cmd) (cmd_setpointCelsius ?cmd)
      (cmd_fanMode ?cmd) (mS21Manager a) (link a) = (Inl (DataLinkFailure SetPointOutOfRange), mS21Manager a, link a)"
    using ready by (simp add: mgr_setOperation_def)
  from pump_failed [OF k(1) p(1) this] show ?thesis
    using k(2) by (auto simp: blockedOn_def onCommandFailed_def)
qed

lemma blockedOn_events:
  fixes a :: "'l SyncWorld AirConditionerManager"
  assumes "mKernel (mSyncCoordinator a) = Some k" "blockedOn v k" "\<not> setPoint_ok v" "mIsReady (mS21Manager a)"
    and "list_all leavesCooling es"
  shows "\<exists>b kb. runEvents (S21PresentationSyncAdapter dl) es a = Some b \<and> link b = link a
    \<and> mKernel (mSyncCoordinator b) = Some kb \<and> blockedOn v kb"
  using assms
proof (induction es arbitrary: a k)
  case Nil
  then show ?case by simp
next
  case (Cons e es)
  show ?case
  proof (cases e)
    case PumpRun
    obtain b kb where "CommandWorkHandler (S21PresentationSyncAdapter dl) a = Some b" "link b = link a"
        "mS21Manager b = mS21Manager a" "mKernel (mSyncCoordinator b) = Some kb" "blockedOn v kb"
      using blockedOn_pump [OF Cons.prems(1-4)] by blast
    with Cons.IH [of b kb] Cons.prems(3-5) PumpRun show ?thesis by auto
  next
    case (Write t i)
    obtain b where b: "dispatchIntent t i a = Some b" "dispatched True k (applyOne t i k) a b"
      using dispatch_effect(1) [OF Cons.prems(1), of t i] unfolding applyIntent_eq by blast
    then have "mKernel (mSyncCoordinator b) = Some (applyOne t i k)" "mS21Manager b = mS21Manager a" "link b = link a"
      by (simp_all add: dispatched_def)
    moreover have "blockedOn v (applyOne t i k)" using Cons.prems(2,5) Write by (intro blockedOn_write [where t = t]) simp_all
    ultimately show ?thesis using Cons.IH [of b "applyOne t i k"] Cons.prems(3-5) b(1) Write by auto
  qed
qed

section \<open>Properties\<close>

text \<open>
  C17. Raising and lowering never produces a setpoint the unit refuses. With the limits the data model configures, from a
  state whose three desired setpoints the unit accepts, SetpointRaiseLower with any mode and amount is answered and leaves a state
  whose desired setpoints, and with them the setpoint of the command the bridge works towards, the unit accepts;
  so the presentation layer hands that command to the link.
\<close>

theorem raise_lower_stays_deliverable:
  fixes dl :: "'l S21DataLink"
  assumes k: "mKernel c = Some k" and d: "deliverable k"
  shows "\<exists>out k'. HandleSetpointRaiseLower now1 now2 configuredLimits m amount c = Some out
    \<and> mKernel (coordinator out) = Some k' \<and> deliverable k'
    \<and> (let cmd = desiredCommand (mState k') in
        pres_setOperation dl (cmd_onOff cmd) (cmd_operatingMode cmd) (cmd_setpointCelsius cmd) (cmd_fanMode cmd) l
        = dl_send dl (operationPayload (cmd_onOff cmd) (cmd_operatingMode cmd) (cmd_setpointCelsius cmd) (cmd_fanMode cmd)) l)"
proof -
  have send: "pres_setOperation dl (cmd_onOff cmd) (cmd_operatingMode cmd) (cmd_setpointCelsius cmd) (cmd_fanMode cmd) l
        = dl_send dl (operationPayload (cmd_onOff cmd) (cmd_operatingMode cmd) (cmd_setpointCelsius cmd) (cmd_fanMode cmd)) l"
    if "deliverable k'" "cmd = desiredCommand (mState k')" for k' cmd
    using deliverable_command [OF that(1)] that(2) by (auto simp: pres_setOperation_def)
  obtain h1 c1 k1 where 1: "(if m = kBoth \<or> m = SetpointRaiseLowerModeEnum.kHeat then raiseHeat now1 configuredLimits amount c else Some ([], c))
      = Some (h1, c1)" "mKernel c1 = Some k1" "deliverable k1"
    using raise_deliverable(1) [OF k d, of now1 amount] k d by (cases "m = kBoth \<or> m = SetpointRaiseLowerModeEnum.kHeat") auto
  obtain h2 c2 k2 where 2: "(if m = kBoth \<or> m = SetpointRaiseLowerModeEnum.kCool then raiseCool now2 configuredLimits amount c1 else Some ([], c1))
      = Some (h2, c2)" "mKernel c2 = Some k2" "deliverable k2"
    using raise_deliverable(2) [OF 1(2,3), of now2 amount] 1(2,3) by (cases "m = kBoth \<or> m = SetpointRaiseLowerModeEnum.kCool") auto
  have "\<exists>out k'. HandleSetpointRaiseLower now1 now2 configuredLimits m amount c = Some out
      \<and> mKernel (coordinator out) = Some k' \<and> deliverable k'"
    unfolding HandleSetpointRaiseLower_def Let_def 1(1) using 2 k d by auto
  then show ?thesis using send by (auto simp: Let_def)
qed

theorem raise_lower_stays_deliverable_witness:
  "\<exists>out k'. HandleSetpointRaiseLower 10 11 configuredLimits kBoth 100 initialisedCoordinator = Some out
     \<and> mKernel (coordinator out) = Some k' \<and> deliverable k'"
proof -
  have "deliverable (BridgeKernel_new ReconcilerConfig_default)"
    by (simp add: deliverable_def BridgeKernel_new_def Reconciler_new_def LogicalACState_new_def LogicalACStateDefaults_default_def
        ReconcilerConfig_default_def ProjectorConfig_default_def)
  from raise_lower_stays_deliverable [OF initialisedCoordinator_fields(3) this, of 10 11 kBoth 100
      "\<lparr>dl_send = (\<lambda>p l. (Inr (), l)), dl_transact = (\<lambda>p l. (Inl Timeout, l))\<rparr>" "()"]
  show ?thesis by blast
qed

text \<open>
  C16. In Cool mode, a cooling setpoint the unit refuses is accepted from a controller and blocks every command. With
  nothing awaited for the setpoint, a write of a cooling setpoint below 10 or above 32 degrees is answered with success. From then on,
  through any sequence of pump runs and of writes other than of the cooling setpoint and of a mode other than Cool or Off, so through any power,
  fan and heating writes, nothing is handed to the link and a command is pending that carries the refused setpoint: the unit cannot be switched off
  either. (In Auto the same write moves the middle of the band, which may be within range.)
\<close>

theorem out_of_range_setpoint_blocks_commands:
  fixes a :: "'l SyncWorld AirConditionerManager"
  assumes k: "mKernel (mSyncCoordinator a) = Some k" and ready: "mIsReady (mS21Manager a)"
    and cool: "mObserved (mode (mState k)) = OperationalMode.Cool" "mDesired (mode (mState k)) = OperationalMode.Cool"
      "intentPassesGuard now k (at_coolSetpoint (mLastDeviceObserved k)) (v \<noteq> mObserved (coolSetpoint (mState k)))"
      "v \<noteq> mObserved (coolSetpoint (mState k))" "mInFlight (coolSetpoint (mState k)) = None"
      "\<forall>x. mLastSentCommand k = Some x \<longrightarrow> cmd_setpointCelsius x \<noteq> v"
    and v: "dec_int16 decoder = Inr v" "\<not> setPoint_ok v"
  shows "\<exists>a1. controllerWrite (Thermostat_Write now OccupiedCoolingSetpoint_Id decoder (mSyncCoordinator a)) a = Some (CHIP_NO_ERROR, a1)
    \<and> (\<forall>es. list_all leavesCooling es \<longrightarrow>
        (\<exists>b cmd. runEvents (S21PresentationSyncAdapter dl) es a1 = Some b \<and> link b = link a
          \<and> PendingCommand (mSyncCoordinator b) = Some (Some cmd) \<and> cmd_setpointCelsius cmd = v))"
proof -
  define k1 where "k1 = applyOne now (SetOccupiedCoolingSetpointIntent v) k"
  have blocked: "blockedOn v k1"
    using cool by (auto simp: k1_def blockedOn_def apply_SetOccupiedCoolingSetpointIntent_def)
  have w: "Thermostat_Write now OccupiedCoolingSetpoint_Id decoder (mSyncCoordinator a)
      = issue now (SetOccupiedCoolingSetpointIntent v) (mSyncCoordinator a)"
    by (simp add: Thermostat_Write_def v(1))
  obtain a1 where a1: "dispatchIntent now (SetOccupiedCoolingSetpointIntent v) a = Some a1" "dispatched True k k1 a a1"
    using dispatch_effect(1) [OF k] unfolding k1_def applyIntent_eq by blast
  then have f: "mKernel (mSyncCoordinator a1) = Some k1" "mIsReady (mS21Manager a1)" "link a1 = link a"
    using ready by (simp_all add: dispatched_def)
  have "\<exists>b cmd. runEvents (S21PresentationSyncAdapter dl) es a1 = Some b \<and> link b = link a
      \<and> PendingCommand (mSyncCoordinator b) = Some (Some cmd) \<and> cmd_setpointCelsius cmd = v" if "list_all leavesCooling es" for es
    using blockedOn_events [OF f(1) blocked v(2) f(2) that, of dl] f(3)
    by (auto simp: PendingCommand_def dest: blockedOn_pending)
  moreover have "controllerWrite (Thermostat_Write now OccupiedCoolingSetpoint_Id decoder (mSyncCoordinator a)) a = Some (CHIP_NO_ERROR, a1)"
    unfolding w by (simp add: controllerWrite_issue a1(1))
  ultimately show ?thesis by blast
qed

text \<open>A bridge whose unit was last seen cooling, and a write of 35 degrees.\<close>

definition coolingKernel :: BridgeKernel where
  "coolingKernel = booted\<lparr>mState := (mState booted)\<lparr>mode := TwinField_new OperationalMode.Cool\<rparr>\<rparr>"

definition acceptingLink :: "unit S21DataLink" where
  "acceptingLink = \<lparr>dl_send = (\<lambda>p l. (Inr (), l)), dl_transact = (\<lambda>p l. (Inl Timeout, l))\<rparr>"

definition coolingManager :: "unit SyncWorld AirConditionerManager" where
  "coolingManager = AirConditionerManager_new (S21Stack_manager\<lparr>mIsReady := True\<rparr>)
     (initialisedCoordinator\<lparr>mKernel := Some coolingKernel\<rparr>) \<lparr>sw_link = (), sw_uptime = 100, sw_undefined = False\<rparr>"

definition thirtyFive :: Decoder where
  "thirtyFive = undecodable\<lparr>dec_int16 := Inr 3500\<rparr>"

theorem out_of_range_setpoint_blocks_commands_witness:
  "\<exists>a1 b cmd. controllerWrite (Thermostat_Write 7 OccupiedCoolingSetpoint_Id thirtyFive (mSyncCoordinator coolingManager)) coolingManager
       = Some (CHIP_NO_ERROR, a1)
     \<and> runEvents (S21PresentationSyncAdapter acceptingLink) [PumpRun, Write 8 (SetOnOffIntent False), PumpRun] a1 = Some b
     \<and> link b = link coolingManager \<and> PendingCommand (mSyncCoordinator b) = Some (Some cmd) \<and> cmd_setpointCelsius cmd = 3500"
proof -
  have k: "mKernel (mSyncCoordinator coolingManager) = Some coolingKernel" "mIsReady (mS21Manager coolingManager)"
    by (simp_all add: coolingManager_def AirConditionerManager_new_def)
  have cool: "mObserved (mode (mState coolingKernel)) = OperationalMode.Cool" "mDesired (mode (mState coolingKernel)) = OperationalMode.Cool"
      "intentPassesGuard 7 coolingKernel (at_coolSetpoint (mLastDeviceObserved coolingKernel)) (3500 \<noteq> mObserved (coolSetpoint (mState coolingKernel)))"
      "3500 \<noteq> mObserved (coolSetpoint (mState coolingKernel))" "mInFlight (coolSetpoint (mState coolingKernel)) = None"
      "\<forall>x. mLastSentCommand coolingKernel = Some x \<longrightarrow> cmd_setpointCelsius x \<noteq> 3500"
    by (simp_all add: coolingKernel_def intentPassesGuard_def)
  have v: "dec_int16 thirtyFive = Inr 3500" "\<not> setPoint_ok 3500" by (simp_all add: thirtyFive_def)
  have "list_all leavesCooling [PumpRun, Write 8 (SetOnOffIntent False), PumpRun]" by simp
  then show ?thesis
    using out_of_range_setpoint_blocks_commands [OF k cool v, of acceptingLink] by blast
qed

end
