(* ===== verification/Cluster_Dispatch.thy ===== *)
theory Cluster_Dispatch
  imports Data_Model AAI_Installer
begin

text \<open>
  The generated command dispatcher (\<open>default_zap/zap-generated/IMClusterCommandHandler.cpp\<close>), whose plugin callbacks and
  decoder are parameters, and the switches of the code-driven clusters (\<open>zap-generated/CodeDrivenInitShutdown.cpp\<close>),
  against the commands the data model accepts.
\<close>

section \<open>The dispatcher\<close>

datatype DispatchStatus = StatusSuccess | StatusUnsupportedCommand | StatusInvalidCommand | StatusUnsupportedCluster

text \<open>The callbacks of the SDK's cluster plugins, which answer whether they handled the command.\<close>

datatype CommandCallback =
  emberAfGroupsClusterAddGroupCallback | emberAfGroupsClusterViewGroupCallback
  | emberAfGroupsClusterGetGroupMembershipCallback | emberAfGroupsClusterRemoveGroupCallback
  | emberAfGroupsClusterRemoveAllGroupsCallback | emberAfGroupsClusterAddGroupIfIdentifyingCallback
  | emberAfOtaSoftwareUpdateRequestorClusterAnnounceOTAProviderCallback
  | emberAfOnOffClusterOffCallback | emberAfOnOffClusterOnCallback | emberAfOnOffClusterToggleCallback
  | emberAfThermostatClusterSetpointRaiseLowerCallback | emberAfThreadNetworkDiagnosticsClusterResetCountsCallback

record 's CommandPlugins =
  cp_decode :: "CommandCallback \<Rightarrow> 's \<Rightarrow> ChipError"
  cp_call :: "CommandCallback \<Rightarrow> 's \<Rightarrow> bool \<times> 's"

text \<open>A case of the switch: decode, call on success, and the check after the switch.\<close>

definition dispatchCase :: "'s CommandPlugins \<Rightarrow> CommandCallback \<Rightarrow> 's \<Rightarrow> DispatchStatus \<times> 's" where
  "dispatchCase P cb s =
     (let TLVError = cp_decode P cb s;
          (wasHandled, s) = (if TLVError = CHIP_NO_ERROR then cp_call P cb s else (False, s))
      in (if TLVError \<noteq> CHIP_NO_ERROR \<or> \<not> wasHandled then StatusInvalidCommand else StatusSuccess, s))"

definition Groups_DispatchServerCommand :: "'s CommandPlugins \<Rightarrow> u32 \<Rightarrow> 's \<Rightarrow> DispatchStatus \<times> 's" where
  "Groups_DispatchServerCommand P cid s =
     (if cid = 0x00 then dispatchCase P emberAfGroupsClusterAddGroupCallback s
      else if cid = 0x01 then dispatchCase P emberAfGroupsClusterViewGroupCallback s
      else if cid = 0x02 then dispatchCase P emberAfGroupsClusterGetGroupMembershipCallback s
      else if cid = 0x03 then dispatchCase P emberAfGroupsClusterRemoveGroupCallback s
      else if cid = 0x04 then dispatchCase P emberAfGroupsClusterRemoveAllGroupsCallback s
      else if cid = 0x05 then dispatchCase P emberAfGroupsClusterAddGroupIfIdentifyingCallback s
      else (StatusUnsupportedCommand, s))"

definition OtaSoftwareUpdateRequestor_DispatchServerCommand :: "'s CommandPlugins \<Rightarrow> u32 \<Rightarrow> 's \<Rightarrow> DispatchStatus \<times> 's" where
  "OtaSoftwareUpdateRequestor_DispatchServerCommand P cid s =
     (if cid = 0x00 then dispatchCase P emberAfOtaSoftwareUpdateRequestorClusterAnnounceOTAProviderCallback s
      else (StatusUnsupportedCommand, s))"

definition OnOff_DispatchServerCommand :: "'s CommandPlugins \<Rightarrow> u32 \<Rightarrow> 's \<Rightarrow> DispatchStatus \<times> 's" where
  "OnOff_DispatchServerCommand P cid s =
     (if cid = 0x00 then dispatchCase P emberAfOnOffClusterOffCallback s
      else if cid = 0x01 then dispatchCase P emberAfOnOffClusterOnCallback s
      else if cid = 0x02 then dispatchCase P emberAfOnOffClusterToggleCallback s
      else (StatusUnsupportedCommand, s))"

definition Thermostat_DispatchServerCommand :: "'s CommandPlugins \<Rightarrow> u32 \<Rightarrow> 's \<Rightarrow> DispatchStatus \<times> 's" where
  "Thermostat_DispatchServerCommand P cid s =
     (if cid = 0x00 then dispatchCase P emberAfThermostatClusterSetpointRaiseLowerCallback s
      else (StatusUnsupportedCommand, s))"

definition ThreadNetworkDiagnostics_DispatchServerCommand :: "'s CommandPlugins \<Rightarrow> u32 \<Rightarrow> 's \<Rightarrow> DispatchStatus \<times> 's" where
  "ThreadNetworkDiagnostics_DispatchServerCommand P cid s =
     (if cid = 0x00 then dispatchCase P emberAfThreadNetworkDiagnosticsClusterResetCountsCallback s
      else (StatusUnsupportedCommand, s))"

text \<open>The dispatcher answers with the statuses it adds to the command's response.\<close>

definition DispatchSingleClusterCommand ::
  "'s CommandPlugins \<Rightarrow> ClusterId \<Rightarrow> u32 \<Rightarrow> 's \<Rightarrow> DispatchStatus list \<times> 's" where
  "DispatchSingleClusterCommand P cl cid s =
     (let (errorStatus, s) =
        (if cl = 0x0004 then Groups_DispatchServerCommand P cid s
         else if cl = 0x002A then OtaSoftwareUpdateRequestor_DispatchServerCommand P cid s
         else if cl = 0x0006 then OnOff_DispatchServerCommand P cid s
         else if cl = 0x0201 then Thermostat_DispatchServerCommand P cid s
         else if cl = 0x0035 then ThreadNetworkDiagnostics_DispatchServerCommand P cid s
         else (StatusUnsupportedCluster, s))
      in (if errorStatus \<noteq> StatusSuccess then [errorStatus] else [], s))"

lemmas dispatchers = Groups_DispatchServerCommand_def OtaSoftwareUpdateRequestor_DispatchServerCommand_def
  OnOff_DispatchServerCommand_def Thermostat_DispatchServerCommand_def ThreadNetworkDiagnostics_DispatchServerCommand_def

lemma dispatchCase_supported [simp]:
  "fst (dispatchCase P cb s) \<noteq> StatusUnsupportedCommand" "fst (dispatchCase P cb s) \<noteq> StatusUnsupportedCluster"
  by (simp_all add: dispatchCase_def Let_def split: prod.split)

text \<open>The commands the data model accepts for a cluster, on any endpoint.\<close>

definition acceptedCommands :: "ClusterId \<Rightarrow> u32 list" where
  "acceptedCommands cl = concat (map (\<lambda>c. commandsAt (acceptedCommandList c)) (filter (\<lambda>c. clusterId c = cl) GENERATED_CLUSTERS))"

lemma accepted_dispatched:
  "acceptedCommands 0x0004 = [0, 1, 2, 3, 4, 5]" "acceptedCommands 0x002A = [0]" "acceptedCommands 0x0006 = [0, 1, 2]"
  "acceptedCommands 0x0201 = [0]" "acceptedCommands 0x0035 = [0]"
  by (simp_all add: acceptedCommands_def GENERATED_CLUSTERS_def cluster_tables commandsAt_def GENERATED_COMMANDS_def kInvalidCommandId_def)

text \<open>The plugins of a cluster, in the order of its accepted commands.\<close>

definition clusterPlugins :: "ClusterId \<Rightarrow> CommandCallback list" where
  "clusterPlugins cl =
     (if cl = 0x0004 then
        [emberAfGroupsClusterAddGroupCallback, emberAfGroupsClusterViewGroupCallback,
         emberAfGroupsClusterGetGroupMembershipCallback, emberAfGroupsClusterRemoveGroupCallback,
         emberAfGroupsClusterRemoveAllGroupsCallback, emberAfGroupsClusterAddGroupIfIdentifyingCallback]
      else if cl = 0x002A then [emberAfOtaSoftwareUpdateRequestorClusterAnnounceOTAProviderCallback]
      else if cl = 0x0006 then [emberAfOnOffClusterOffCallback, emberAfOnOffClusterOnCallback, emberAfOnOffClusterToggleCallback]
      else if cl = 0x0201 then [emberAfThermostatClusterSetpointRaiseLowerCallback]
      else if cl = 0x0035 then [emberAfThreadNetworkDiagnosticsClusterResetCountsCallback]
      else [])"

definition tableDispatch :: "'s CommandPlugins \<Rightarrow> ClusterId \<Rightarrow> u32 \<Rightarrow> 's \<Rightarrow> DispatchStatus \<times> 's" where
  "tableDispatch P cl cid s =
     (case map_of (zip (acceptedCommands cl) (clusterPlugins cl)) cid of
        None \<Rightarrow> (StatusUnsupportedCommand, s)
      | Some cb \<Rightarrow> dispatchCase P cb s)"

lemma dispatchers_table:
  "Groups_DispatchServerCommand P cid s = tableDispatch P 0x0004 cid s"
  "OtaSoftwareUpdateRequestor_DispatchServerCommand P cid s = tableDispatch P 0x002A cid s"
  "OnOff_DispatchServerCommand P cid s = tableDispatch P 0x0006 cid s"
  "Thermostat_DispatchServerCommand P cid s = tableDispatch P 0x0201 cid s"
  "ThreadNetworkDiagnostics_DispatchServerCommand P cid s = tableDispatch P 0x0035 cid s"
  by (simp_all add: dispatchers tableDispatch_def accepted_dispatched clusterPlugins_def)

lemma dispatchCase_run:
  "dispatchCase P cb s =
     (if cp_decode P cb s \<noteq> CHIP_NO_ERROR then (StatusInvalidCommand, s)
      else (if fst (cp_call P cb s) then StatusSuccess else StatusInvalidCommand, snd (cp_call P cb s)))"
  by (simp add: dispatchCase_def Let_def split: prod.split)

text \<open>
  C31. The dispatcher handles exactly the commands the data model accepts, each with its own plugin. For the five clusters with generated
  handlers a command is refused as unsupported exactly when the data model does not list it, and then no plugin runs; a listed
  command that fails to decode is refused as invalid and runs no plugin; one that decodes runs the plugin of its place in the
  list once, and a status is added exactly when the plugin did not handle it. A command of any other cluster is refused as
  unsupported and runs nothing.
\<close>

theorem dispatch_matches_data_model:
  "DispatchSingleClusterCommand P cl cid s =
     (if clusterPlugins cl = [] then ([StatusUnsupportedCluster], s)
      else case map_of (zip (acceptedCommands cl) (clusterPlugins cl)) cid of
        None \<Rightarrow> ([StatusUnsupportedCommand], s)
      | Some cb \<Rightarrow>
          (if cp_decode P cb s \<noteq> CHIP_NO_ERROR then ([StatusInvalidCommand], s)
           else (if fst (cp_call P cb s) then [] else [StatusInvalidCommand], snd (cp_call P cb s))))
   \<and> length (clusterPlugins cl) = (if clusterPlugins cl = [] then 0 else length (acceptedCommands cl))"
proof -
  consider "cl = 0x0004" | "cl = 0x002A" | "cl = 0x0006" | "cl = 0x0201" | "cl = 0x0035"
    | "cl \<noteq> 0x0004" "cl \<noteq> 0x002A" "cl \<noteq> 0x0006" "cl \<noteq> 0x0201" "cl \<noteq> 0x0035" by blast
  then show ?thesis
  proof cases
    case 6
    then show ?thesis by (simp add: DispatchSingleClusterCommand_def clusterPlugins_def)
  qed (simp_all add: DispatchSingleClusterCommand_def dispatchers_table tableDispatch_def dispatchCase_run
      clusterPlugins_def accepted_dispatched)
qed

section \<open>Clusters with code of their own\<close>

text \<open>
  The switches that start and stop the code-driven clusters (\<open>zap-generated/CodeDrivenInitShutdown.cpp\<close>), by the callback
  they call for an endpoint.
\<close>

datatype CodeDrivenCallback =
  MatterIdentifyClusterInitCallback | MatterDescriptorClusterInitCallback
  | MatterBindingClusterInitCallback | MatterAccessControlClusterInitCallback
  | MatterBasicInformationClusterInitCallback | MatterGeneralCommissioningClusterInitCallback
  | MatterDiagnosticLogsClusterInitCallback | MatterGeneralDiagnosticsClusterInitCallback
  | MatterSoftwareDiagnosticsClusterInitCallback | MatterWiFiNetworkDiagnosticsClusterInitCallback
  | MatterAdministratorCommissioningClusterInitCallback | MatterOperationalCredentialsClusterInitCallback
  | MatterGroupKeyManagementClusterInitCallback | MatterIdentifyClusterShutdownCallback
  | MatterDescriptorClusterShutdownCallback | MatterBindingClusterShutdownCallback
  | MatterAccessControlClusterShutdownCallback | MatterBasicInformationClusterShutdownCallback
  | MatterGeneralCommissioningClusterShutdownCallback | MatterDiagnosticLogsClusterShutdownCallback
  | MatterGeneralDiagnosticsClusterShutdownCallback | MatterSoftwareDiagnosticsClusterShutdownCallback
  | MatterWiFiNetworkDiagnosticsClusterShutdownCallback | MatterAdministratorCommissioningClusterShutdownCallback
  | MatterOperationalCredentialsClusterShutdownCallback | MatterGroupKeyManagementClusterShutdownCallback

definition MatterClusterServerInitCallback :: "u16 \<Rightarrow> ClusterId \<Rightarrow> (CodeDrivenCallback \<times> u16) list" where
  "MatterClusterServerInitCallback endpoint cl =
     (if cl = 0x0003 then [(MatterIdentifyClusterInitCallback, endpoint)]
      else if cl = 0x001D then [(MatterDescriptorClusterInitCallback, endpoint)]
      else if cl = 0x001E then [(MatterBindingClusterInitCallback, endpoint)]
      else if cl = 0x001F then [(MatterAccessControlClusterInitCallback, endpoint)]
      else if cl = 0x0028 then [(MatterBasicInformationClusterInitCallback, endpoint)]
      else if cl = 0x0030 then [(MatterGeneralCommissioningClusterInitCallback, endpoint)]
      else if cl = 0x0032 then [(MatterDiagnosticLogsClusterInitCallback, endpoint)]
      else if cl = 0x0033 then [(MatterGeneralDiagnosticsClusterInitCallback, endpoint)]
      else if cl = 0x0034 then [(MatterSoftwareDiagnosticsClusterInitCallback, endpoint)]
      else if cl = 0x0036 then [(MatterWiFiNetworkDiagnosticsClusterInitCallback, endpoint)]
      else if cl = 0x003C then [(MatterAdministratorCommissioningClusterInitCallback, endpoint)]
      else if cl = 0x003E then [(MatterOperationalCredentialsClusterInitCallback, endpoint)]
      else if cl = 0x003F then [(MatterGroupKeyManagementClusterInitCallback, endpoint)]
      else [])"

definition MatterClusterServerShutdownCallback :: "u16 \<Rightarrow> ClusterId \<Rightarrow> (CodeDrivenCallback \<times> u16) list" where
  "MatterClusterServerShutdownCallback endpoint cl =
     (if cl = 0x0003 then [(MatterIdentifyClusterShutdownCallback, endpoint)]
      else if cl = 0x001D then [(MatterDescriptorClusterShutdownCallback, endpoint)]
      else if cl = 0x001E then [(MatterBindingClusterShutdownCallback, endpoint)]
      else if cl = 0x001F then [(MatterAccessControlClusterShutdownCallback, endpoint)]
      else if cl = 0x0028 then [(MatterBasicInformationClusterShutdownCallback, endpoint)]
      else if cl = 0x0030 then [(MatterGeneralCommissioningClusterShutdownCallback, endpoint)]
      else if cl = 0x0032 then [(MatterDiagnosticLogsClusterShutdownCallback, endpoint)]
      else if cl = 0x0033 then [(MatterGeneralDiagnosticsClusterShutdownCallback, endpoint)]
      else if cl = 0x0034 then [(MatterSoftwareDiagnosticsClusterShutdownCallback, endpoint)]
      else if cl = 0x0036 then [(MatterWiFiNetworkDiagnosticsClusterShutdownCallback, endpoint)]
      else if cl = 0x003C then [(MatterAdministratorCommissioningClusterShutdownCallback, endpoint)]
      else if cl = 0x003E then [(MatterOperationalCredentialsClusterShutdownCallback, endpoint)]
      else if cl = 0x003F then [(MatterGroupKeyManagementClusterShutdownCallback, endpoint)]
      else [])"

text \<open>
  What is started is stopped, once, and no cluster that accepts commands is without a handler: each has a generated
  dispatcher or is code-driven, network commissioning apart, which the SDK serves from the network driver's instance.
\<close>

lemma code_driven_paired:
  "length (MatterClusterServerInitCallback e cl) = length (MatterClusterServerShutdownCallback e cl)"
  "length (MatterClusterServerInitCallback e cl) \<le> 1"
  by (simp_all add: MatterClusterServerInitCallback_def MatterClusterServerShutdownCallback_def)

lemma commands_have_handlers:
  "list_all (\<lambda>c. acceptedCommandList c = None \<or> clusterPlugins (clusterId c) \<noteq> []
      \<or> MatterClusterServerInitCallback e (clusterId c) \<noteq> [] \<or> clusterId c = 0x0031) GENERATED_CLUSTERS"
  by (simp add: GENERATED_CLUSTERS_def cluster_tables clusterPlugins_def MatterClusterServerInitCallback_def)

end
