(* ===== verification/Access_Tables.thy ===== *)
theory Access_Tables
  imports Cluster_Dispatch
begin

text \<open>
  The access-control tables (\<open>default_zap/zap-generated/access.h\<close>), parallel arrays of cluster, identifier
  and required privilege, against the attributes and commands of the data model.
\<close>

section \<open>Tables\<close>

datatype Privilege = kView | kProxyView | kOperate | kManage | kAdminister

definition GENERATED_ACCESS_READ_ATTRIBUTE__CLUSTER :: "u32 list" where
  "GENERATED_ACCESS_READ_ATTRIBUTE__CLUSTER =
     [0x1F, 0x1F, 0x31, 0x31, 0x31, 0x31, 0x31, 0x3E]"

definition GENERATED_ACCESS_READ_ATTRIBUTE__ATTRIBUTE :: "u32 list" where
  "GENERATED_ACCESS_READ_ATTRIBUTE__ATTRIBUTE =
     [0x0, 0x1, 0x0, 0x1, 0x5, 0x6, 0x7, 0x0]"

definition GENERATED_ACCESS_READ_ATTRIBUTE__PRIVILEGE :: "Privilege list" where
  "GENERATED_ACCESS_READ_ATTRIBUTE__PRIVILEGE =
     [kAdminister, kAdminister, kAdminister, kAdminister, kAdminister, kAdminister, kAdminister, kAdminister]"

definition GENERATED_ACCESS_WRITE_ATTRIBUTE__CLUSTER :: "u32 list" where
  "GENERATED_ACCESS_WRITE_ATTRIBUTE__CLUSTER =
     [0x1E, 0x1F, 0x1F, 0x28, 0x28, 0x2A, 0x30, 0x31, 0x3F,
      0x201, 0x201, 0x201, 0x201, 0x201, 0x201, 0x201, 0x201, 0x201]"

definition GENERATED_ACCESS_WRITE_ATTRIBUTE__ATTRIBUTE :: "u32 list" where
  "GENERATED_ACCESS_WRITE_ATTRIBUTE__ATTRIBUTE =
     [0x0, 0x0, 0x1, 0x5, 0x6, 0x0, 0x0, 0x4, 0x0,
      0x9, 0x15, 0x16, 0x17, 0x18, 0x19, 0x1B, 0x1C, 0x40]"

definition GENERATED_ACCESS_WRITE_ATTRIBUTE__PRIVILEGE :: "Privilege list" where
  "GENERATED_ACCESS_WRITE_ATTRIBUTE__PRIVILEGE =
     [kManage, kAdminister, kAdminister, kManage, kAdminister, kAdminister, kAdminister, kAdminister, kManage,
      kManage, kManage, kManage, kManage, kManage, kManage, kManage, kManage, kManage]"

definition GENERATED_ACCESS_INVOKE_COMMAND__CLUSTER :: "u32 list" where
  "GENERATED_ACCESS_INVOKE_COMMAND__CLUSTER =
     [0x3, 0x4, 0x4, 0x4, 0x4, 0x2A, 0x30, 0x30, 0x30,
      0x31, 0x31, 0x31, 0x31, 0x31, 0x31, 0x33, 0x35, 0x3C,
      0x3C, 0x3C, 0x3E, 0x3E, 0x3E, 0x3E, 0x3E, 0x3E, 0x3E,
      0x3E, 0x3E, 0x3E, 0x3F, 0x3F, 0x3F, 0x3F]"

definition GENERATED_ACCESS_INVOKE_COMMAND__COMMAND :: "u32 list" where
  "GENERATED_ACCESS_INVOKE_COMMAND__COMMAND =
     [0x0, 0x0, 0x3, 0x4, 0x5, 0x0, 0x0, 0x2, 0x4,
      0x0, 0x2, 0x3, 0x4, 0x6, 0x8, 0x0, 0x0, 0x0,
      0x1, 0x2, 0x0, 0x2, 0x4, 0x6, 0x7, 0x9, 0xA,
      0xB, 0xC, 0xD, 0x0, 0x1, 0x3, 0x4]"

definition GENERATED_ACCESS_INVOKE_COMMAND__PRIVILEGE :: "Privilege list" where
  "GENERATED_ACCESS_INVOKE_COMMAND__PRIVILEGE =
     [kManage, kManage, kManage, kManage, kManage, kAdminister, kAdminister, kAdminister, kAdminister,
      kAdminister, kAdminister, kAdminister, kAdminister, kAdminister, kAdminister, kManage, kManage, kAdminister,
      kAdminister, kAdminister, kAdminister, kAdminister, kAdminister, kAdminister, kAdminister, kAdminister, kAdminister,
      kAdminister, kAdminister, kAdminister, kAdminister, kAdminister, kAdminister, kAdminister]"

definition GENERATED_ACCESS_READ_EVENT__CLUSTER :: "u32 list" where
  "GENERATED_ACCESS_READ_EVENT__CLUSTER =
     [0x1F, 0x1F, 0x1F]"

definition GENERATED_ACCESS_READ_EVENT__EVENT :: "u32 list" where
  "GENERATED_ACCESS_READ_EVENT__EVENT =
     [0x0, 0x1, 0x2]"

definition GENERATED_ACCESS_READ_EVENT__PRIVILEGE :: "Privilege list" where
  "GENERATED_ACCESS_READ_EVENT__PRIVILEGE =
     [kAdminister, kAdminister, kAdminister]"

lemmas access_tables = GENERATED_ACCESS_READ_ATTRIBUTE__CLUSTER_def GENERATED_ACCESS_READ_ATTRIBUTE__ATTRIBUTE_def
  GENERATED_ACCESS_READ_ATTRIBUTE__PRIVILEGE_def GENERATED_ACCESS_WRITE_ATTRIBUTE__CLUSTER_def
  GENERATED_ACCESS_WRITE_ATTRIBUTE__ATTRIBUTE_def GENERATED_ACCESS_WRITE_ATTRIBUTE__PRIVILEGE_def
  GENERATED_ACCESS_INVOKE_COMMAND__CLUSTER_def GENERATED_ACCESS_INVOKE_COMMAND__COMMAND_def
  GENERATED_ACCESS_INVOKE_COMMAND__PRIVILEGE_def GENERATED_ACCESS_READ_EVENT__CLUSTER_def
  GENERATED_ACCESS_READ_EVENT__EVENT_def GENERATED_ACCESS_READ_EVENT__PRIVILEGE_def

text \<open>The privilege a table asks for, where it has an entry: its three arrays are read in parallel.\<close>

definition privilegeFor :: "u32 list \<Rightarrow> u32 list \<Rightarrow> Privilege list \<Rightarrow> u32 \<times> u32 \<Rightarrow> Privilege option" where
  "privilegeFor clusters ids privileges = map_of (zip (zip clusters ids) privileges)"

definition writePrivilege :: "ClusterId \<times> AttributeId \<Rightarrow> Privilege option" where
  "writePrivilege = privilegeFor GENERATED_ACCESS_WRITE_ATTRIBUTE__CLUSTER GENERATED_ACCESS_WRITE_ATTRIBUTE__ATTRIBUTE
     GENERATED_ACCESS_WRITE_ATTRIBUTE__PRIVILEGE"

definition invokePrivilege :: "ClusterId \<times> u32 \<Rightarrow> Privilege option" where
  "invokePrivilege = privilegeFor GENERATED_ACCESS_INVOKE_COMMAND__CLUSTER GENERATED_ACCESS_INVOKE_COMMAND__COMMAND
     GENERATED_ACCESS_INVOKE_COMMAND__PRIVILEGE"

text \<open>The attributes either endpoint declares for a cluster.\<close>

definition declaredAt :: "ClusterId \<Rightarrow> EmberAfAttributeMetadata list" where
  "declaredAt cl = concat (map clusterAttributes (filter (\<lambda>c. clusterId c = cl) GENERATED_CLUSTERS))"

lemma concat_map_filter_zip:
  "concat (map f (filter (\<lambda>c. g c = x) cs)) = concat (map snd (filter (\<lambda>p. fst p = x) (zip (map g cs) (map f cs))))"
  by (induction cs) simp_all

lemma declaredAt_clusters:
  "declaredAt 0x1E = ep1_Binding_attributes" "declaredAt 0x1F = ep0_AccessControl_attributes"
  "declaredAt 0x28 = ep0_BasicInformation_attributes" "declaredAt 0x2A = ep0_OTASoftwareUpdateRequestor_attributes"
  "declaredAt 0x30 = ep0_GeneralCommissioning_attributes" "declaredAt 0x31 = ep0_NetworkCommissioning_attributes"
  "declaredAt 0x3E = ep0_OperationalCredentials_attributes" "declaredAt 0x3F = ep0_GroupKeyManagement_attributes"
  "declaredAt 0x201 = ep1_Thermostat_attributes"
proof -
  note tables = declaredAt_def concat_map_filter_zip [of clusterAttributes clusterId] cluster_attributes
  have ids: "map clusterId GENERATED_CLUSTERS = [0x1D, 0x1F, 0x28, 0x29, 0x2A, 0x30, 0x31, 0x32, 0x33, 0x34, 0x35, 0x36, 0x3C, 0x3E, 0x3F,
      0x03, 0x03, 0x04, 0x06, 0x1D, 0x1E, 0x201, 0x202, 0x405]"
    by (simp add: GENERATED_CLUSTERS_def cluster_tables)
  show "declaredAt 0x1E = ep1_Binding_attributes" "declaredAt 0x1F = ep0_AccessControl_attributes"
    "declaredAt 0x28 = ep0_BasicInformation_attributes" "declaredAt 0x2A = ep0_OTASoftwareUpdateRequestor_attributes"
    "declaredAt 0x30 = ep0_GeneralCommissioning_attributes" "declaredAt 0x31 = ep0_NetworkCommissioning_attributes"
    "declaredAt 0x3E = ep0_OperationalCredentials_attributes" "declaredAt 0x3F = ep0_GroupKeyManagement_attributes"
    "declaredAt 0x201 = ep1_Thermostat_attributes"
    unfolding tables ids by simp_all
qed

definition writableIds :: "ClusterId \<Rightarrow> AttributeId list" where
  "writableIds cl = map attributeId (filter (\<lambda>m. WRITABLE \<in> set (attributeMask m)) (declaredAt cl))"

lemma writable_clusters:
  "writableIds 0x1E = [0]" "writableIds 0x1F = [0, 1]" "writableIds 0x28 = [5, 6]" "writableIds 0x2A = [0]"
  "writableIds 0x30 = [0]" "writableIds 0x31 = [4]" "writableIds 0x3F = [0]"
  "writableIds 0x201 = [9, 0x11, 0x12, 0x15, 0x16, 0x17, 0x18, 0x19, 0x1B, 0x1C, 0x40]"
  by (simp_all add: writableIds_def declaredAt_clusters ep1_Binding_attributes_def ep0_AccessControl_attributes_def
      ep0_BasicInformation_attributes_def ep0_OTASoftwareUpdateRequestor_attributes_def ep0_GeneralCommissioning_attributes_def
      ep0_NetworkCommissioning_attributes_def ep0_GroupKeyManagement_attributes_def ep1_Thermostat_attributes_def)

lemma accepted_commissioning:
  "acceptedCommands 0x03 = [0]" "acceptedCommands 0x30 = [0, 2, 4]" "acceptedCommands 0x31 = [0, 2, 3, 4, 6, 8]" "acceptedCommands 0x33 = [0, 1]"
  "acceptedCommands 0x3C = [0, 1, 2]" "acceptedCommands 0x3E = [0, 2, 4, 6, 7, 9, 0xA, 0xB, 0xC, 0xD]" "acceptedCommands 0x3F = [0, 1, 3, 4]"
  by (simp_all add: acceptedCommands_def GENERATED_CLUSTERS_def cluster_tables commandsAt_def GENERATED_COMMANDS_def kInvalidCommandId_def)

text \<open>
  The access tables match the data model. The parallel arrays of each table have one length; every attribute with a read or write
  privilege is declared, and writable where the privilege is for writing; every command with an invoke privilege is one the data
  model accepts. Of the attributes the bridge serves only the system mode has a write entry, for managing; the
  setpoints, the fan attributes and the commands of On/Off and Thermostat have none.
\<close>

theorem access_tables_match_data_model:
  "length GENERATED_ACCESS_READ_ATTRIBUTE__CLUSTER = length GENERATED_ACCESS_READ_ATTRIBUTE__ATTRIBUTE
   \<and> length GENERATED_ACCESS_READ_ATTRIBUTE__CLUSTER = length GENERATED_ACCESS_READ_ATTRIBUTE__PRIVILEGE
   \<and> length GENERATED_ACCESS_WRITE_ATTRIBUTE__CLUSTER = length GENERATED_ACCESS_WRITE_ATTRIBUTE__ATTRIBUTE
   \<and> length GENERATED_ACCESS_WRITE_ATTRIBUTE__CLUSTER = length GENERATED_ACCESS_WRITE_ATTRIBUTE__PRIVILEGE
   \<and> length GENERATED_ACCESS_INVOKE_COMMAND__CLUSTER = length GENERATED_ACCESS_INVOKE_COMMAND__COMMAND
   \<and> length GENERATED_ACCESS_INVOKE_COMMAND__CLUSTER = length GENERATED_ACCESS_INVOKE_COMMAND__PRIVILEGE
   \<and> length GENERATED_ACCESS_READ_EVENT__CLUSTER = length GENERATED_ACCESS_READ_EVENT__EVENT
   \<and> length GENERATED_ACCESS_READ_EVENT__CLUSTER = length GENERATED_ACCESS_READ_EVENT__PRIVILEGE
   \<and> list_all2 (\<lambda>cl aid. aid \<in> attributeId ` set (declaredAt cl))
       GENERATED_ACCESS_READ_ATTRIBUTE__CLUSTER GENERATED_ACCESS_READ_ATTRIBUTE__ATTRIBUTE
   \<and> list_all2 (\<lambda>cl aid. aid \<in> set (writableIds cl))
       GENERATED_ACCESS_WRITE_ATTRIBUTE__CLUSTER GENERATED_ACCESS_WRITE_ATTRIBUTE__ATTRIBUTE
   \<and> list_all2 (\<lambda>cl cid. cid \<in> set (acceptedCommands cl))
       GENERATED_ACCESS_INVOKE_COMMAND__CLUSTER GENERATED_ACCESS_INVOKE_COMMAND__COMMAND
   \<and> writePrivilege (toMatterAddress a) = (if a = LogicalAttribute.SystemMode then Some kManage else None)
   \<and> list_all (\<lambda>cid. invokePrivilege (OnOff_ClusterId, cid) = None) (acceptedCommands OnOff_ClusterId)
   \<and> list_all (\<lambda>cid. invokePrivilege (Thermostat_ClusterId, cid) = None) (acceptedCommands Thermostat_ClusterId)"
proof (intro conjI)
  show "list_all2 (\<lambda>cl aid. aid \<in> attributeId ` set (declaredAt cl))
       GENERATED_ACCESS_READ_ATTRIBUTE__CLUSTER GENERATED_ACCESS_READ_ATTRIBUTE__ATTRIBUTE"
    by (simp add: access_tables declaredAt_clusters ep0_AccessControl_attributes_def ep0_NetworkCommissioning_attributes_def
        ep0_OperationalCredentials_attributes_def)
  show "list_all2 (\<lambda>cl aid. aid \<in> set (writableIds cl))
       GENERATED_ACCESS_WRITE_ATTRIBUTE__CLUSTER GENERATED_ACCESS_WRITE_ATTRIBUTE__ATTRIBUTE"
    by (simp add: access_tables writable_clusters)
  show "list_all2 (\<lambda>cl cid. cid \<in> set (acceptedCommands cl))
       GENERATED_ACCESS_INVOKE_COMMAND__CLUSTER GENERATED_ACCESS_INVOKE_COMMAND__COMMAND"
    by (simp add: access_tables accepted_dispatched accepted_commissioning)
  show "writePrivilege (toMatterAddress a) = (if a = LogicalAttribute.SystemMode then Some kManage else None)"
    by (cases a) (simp_all add: writePrivilege_def privilegeFor_def access_tables)
  show "list_all (\<lambda>cid. invokePrivilege (OnOff_ClusterId, cid) = None) (acceptedCommands OnOff_ClusterId)"
    "list_all (\<lambda>cid. invokePrivilege (Thermostat_ClusterId, cid) = None) (acceptedCommands Thermostat_ClusterId)"
    by (simp_all add: accepted_dispatched invokePrivilege_def privilegeFor_def access_tables)
qed (simp_all add: access_tables)

end
