(* ===== verification/Cluster_Init.thy ===== *)
theory Cluster_Init
  imports Access_Tables Matter_Endpoint
begin

text \<open>
  The rest of the generated code: the switch that initialises a cluster on an endpoint, with its weak stubs
  (\<open>default_zap/zap-generated/callback-stub.cpp\<close>), the plugins started with the server (\<open>zap-generated/PluginApplicationCallbacks.h\<close>), and the
  build's counts and flags (\<open>zap-generated/gen_config.h\<close>), against the clusters and commands of the data model.
\<close>

section \<open>Cluster initialisation\<close>

datatype ClusterInitCallback =
  AccessControlClusterInit | AdministratorCommissioningClusterInit | BasicInformationClusterInit
  | BindingClusterInit | DescriptorClusterInit | DiagnosticLogsClusterInit | FanControlClusterInit
  | GeneralCommissioningClusterInit | GeneralDiagnosticsClusterInit | GroupKeyManagementClusterInit
  | GroupsClusterInit | IdentifyClusterInit | NetworkCommissioningClusterInit | OtaSoftwareUpdateProviderClusterInit
  | OtaSoftwareUpdateRequestorClusterInit | OnOffClusterInit | OperationalCredentialsClusterInit
  | RelativeHumidityMeasurementClusterInit | SoftwareDiagnosticsClusterInit | ThermostatClusterInit
  | ThreadNetworkDiagnosticsClusterInit | WiFiNetworkDiagnosticsClusterInit

text \<open>
  A stub is weak: where a plugin of the SDK defines a callback of the same name the linker takes that, the parameter's entry for it;
  otherwise the stub runs, which does nothing.
\<close>

type_synonym 's strong_callbacks = "ClusterInitCallback \<Rightarrow> (u16 \<Rightarrow> 's \<Rightarrow> 's) option"

definition weakInitCallback :: "u16 \<Rightarrow> 's \<Rightarrow> 's" where
  "weakInitCallback endpoint s = s"

definition runInit :: "'s strong_callbacks \<Rightarrow> ClusterInitCallback \<Rightarrow> u16 \<Rightarrow> 's \<Rightarrow> 's" where
  "runInit strong cb = (case strong cb of None \<Rightarrow> weakInitCallback | Some f \<Rightarrow> f)"

definition initCase :: "ClusterId \<Rightarrow> ClusterInitCallback option" where
  "initCase cl =
     (if cl = 0x001F then Some AccessControlClusterInit
      else if cl = 0x003C then Some AdministratorCommissioningClusterInit
      else if cl = 0x0028 then Some BasicInformationClusterInit
      else if cl = 0x001E then Some BindingClusterInit
      else if cl = 0x001D then Some DescriptorClusterInit
      else if cl = 0x0032 then Some DiagnosticLogsClusterInit
      else if cl = 0x0202 then Some FanControlClusterInit
      else if cl = 0x0030 then Some GeneralCommissioningClusterInit
      else if cl = 0x0033 then Some GeneralDiagnosticsClusterInit
      else if cl = 0x003F then Some GroupKeyManagementClusterInit
      else if cl = 0x0004 then Some GroupsClusterInit
      else if cl = 0x0003 then Some IdentifyClusterInit
      else if cl = 0x0031 then Some NetworkCommissioningClusterInit
      else if cl = 0x0029 then Some OtaSoftwareUpdateProviderClusterInit
      else if cl = 0x002A then Some OtaSoftwareUpdateRequestorClusterInit
      else if cl = 0x0006 then Some OnOffClusterInit
      else if cl = 0x003E then Some OperationalCredentialsClusterInit
      else if cl = 0x0405 then Some RelativeHumidityMeasurementClusterInit
      else if cl = 0x0034 then Some SoftwareDiagnosticsClusterInit
      else if cl = 0x0201 then Some ThermostatClusterInit
      else if cl = 0x0035 then Some ThreadNetworkDiagnosticsClusterInit
      else if cl = 0x0036 then Some WiFiNetworkDiagnosticsClusterInit
      else None)"

definition emberAfClusterInitCallback :: "'s strong_callbacks \<Rightarrow> u16 \<Rightarrow> ClusterId \<Rightarrow> 's \<Rightarrow> 's" where
  "emberAfClusterInitCallback strong endpoint cl s =
     (case initCase cl of None \<Rightarrow> s | Some cb \<Rightarrow> runInit strong cb endpoint s)"

text \<open>The plugins' start functions, by cluster, in the order the macro calls them.\<close>

definition MATTER_PLUGINS_INIT :: "ClusterId list" where
  "MATTER_PLUGINS_INIT =
     [0x0003, 0x0004, 0x0006, 0x001D, 0x001E, 0x001F, 0x0028, 0x002A, 0x0030, 0x0031, 0x0032, 0x0033, 0x0034, 0x0035,
      0x0036, 0x003C, 0x003E, 0x003F, 0x0201, 0x0202, 0x0405]"

section \<open>The build's configuration\<close>

text \<open>The number of endpoints with a server and with a client, by the name in the macro.\<close>

definition CLUSTER_SERVER_ENDPOINT_COUNT :: "(string \<times> nat) list" where
  "CLUSTER_SERVER_ENDPOINT_COUNT =
     [(''IDENTIFY'', 1), (''GROUPS'', 1), (''ON_OFF'', 1), (''LEVEL_CONTROL'', 0), (''PWM'', 0), (''DESCRIPTOR'', 2),
      (''BINDING'', 1), (''ACCESS_CONTROL'', 1), (''ACTIONS'', 0), (''BASIC_INFORMATION'', 1),
      (''OTA_SOFTWARE_UPDATE_PROVIDER'', 0), (''OTA_SOFTWARE_UPDATE_REQUESTOR'', 1), (''LOCALIZATION_CONFIGURATION'', 0),
      (''TIME_FORMAT_LOCALIZATION'', 0), (''UNIT_LOCALIZATION'', 0), (''POWER_SOURCE_CONFIGURATION'', 0),
      (''POWER_SOURCE'', 0), (''GENERAL_COMMISSIONING'', 1), (''NETWORK_COMMISSIONING'', 1), (''DIAGNOSTIC_LOGS'', 1),
      (''GENERAL_DIAGNOSTICS'', 1), (''SOFTWARE_DIAGNOSTICS'', 1), (''THREAD_NETWORK_DIAGNOSTICS'', 1),
      (''WIFI_NETWORK_DIAGNOSTICS'', 1), (''ETHERNET_NETWORK_DIAGNOSTICS'', 0), (''TIME_SYNCHRONIZATION'', 0),
      (''BRIDGED_DEVICE_BASIC_INFORMATION'', 0), (''SWITCH'', 0), (''ADMINISTRATOR_COMMISSIONING'', 1),
      (''OPERATIONAL_CREDENTIALS'', 1), (''GROUP_KEY_MANAGEMENT'', 1), (''FIXED_LABEL'', 0), (''USER_LABEL'', 0),
      (''PROXY_CONFIGURATION'', 0), (''PROXY_DISCOVERY'', 0), (''PROXY_VALID'', 0), (''BOOLEAN_STATE'', 0),
      (''ICD_MANAGEMENT'', 0), (''TIMER'', 0), (''OPERATIONAL_STATE_OVEN'', 0), (''OVEN_MODE'', 0),
      (''LAUNDRY_DRYER_CONTROLS'', 0), (''MODE_SELECT'', 0), (''LAUNDRY_WASHER_MODE'', 0),
      (''REFRIGERATOR_AND_TEMPERATURE_CONTROLLED_CABINET_MODE'', 0), (''LAUNDRY_WASHER_CONTROLS'', 0),
      (''RVC_RUN_MODE'', 0), (''RVC_CLEAN_MODE'', 0), (''TEMPERATURE_CONTROL'', 0), (''REFRIGERATOR_ALARM'', 0),
      (''DISHWASHER_MODE'', 0), (''AIR_QUALITY'', 0), (''SMOKE_CO_ALARM'', 0), (''DISHWASHER_ALARM'', 0),
      (''MICROWAVE_OVEN_MODE'', 0), (''MICROWAVE_OVEN_CONTROL'', 0), (''OPERATIONAL_STATE'', 0),
      (''OPERATIONAL_STATE_RVC'', 0), (''SCENES'', 0), (''GROUPCAST'', 0), (''HEPA_FILTER_MONITORING'', 0),
      (''ACTIVATED_CARBON_FILTER_MONITORING'', 0), (''WATER_TANK_LEVEL_MONITORING'', 0),
      (''BOOLEAN_STATE_CONFIGURATION'', 0), (''VALVE_CONFIGURATION_AND_CONTROL'', 0),
      (''ELECTRICAL_POWER_MEASUREMENT'', 0), (''ELECTRICAL_ENERGY_MEASUREMENT'', 0), (''WATER_HEATER_MANAGEMENT'', 0),
      (''COMMODITY_PRICE'', 0), (''MESSAGES'', 0), (''DEVICE_ENERGY_MANAGEMENT'', 0), (''ENERGY_EVSE'', 0),
      (''ENERGY_PREFERENCE'', 0), (''POWER_TOPOLOGY'', 0), (''ENERGY_EVSE_MODE'', 0), (''WATER_HEATER_MODE'', 0),
      (''DEVICE_ENERGY_MANAGEMENT_MODE'', 0), (''ELECTRICAL_GRID_CONDITIONS'', 0), (''DOOR_LOCK'', 0),
      (''WINDOW_COVERING'', 0), (''CLOSURE_CONTROL'', 0), (''CLOSURE_DIMENSION'', 0), (''SERVICE_AREA'', 0),
      (''PUMP_CONFIGURATION_AND_CONTROL'', 0), (''THERMOSTAT'', 1), (''FAN_CONTROL'', 1),
      (''THERMOSTAT_USER_INTERFACE_CONFIGURATION'', 0), (''COLOR_CONTROL'', 0), (''BALLAST_CONFIGURATION'', 0),
      (''ILLUMINANCE_MEASUREMENT'', 0), (''TEMPERATURE_MEASUREMENT'', 0), (''PRESSURE_MEASUREMENT'', 0),
      (''FLOW_MEASUREMENT'', 0), (''RELATIVE_HUMIDITY_MEASUREMENT'', 1), (''OCCUPANCY_SENSING'', 0),
      (''CARBON_MONOXIDE_CONCENTRATION_MEASUREMENT'', 0), (''CARBON_DIOXIDE_CONCENTRATION_MEASUREMENT'', 0),
      (''NITROGEN_DIOXIDE_CONCENTRATION_MEASUREMENT'', 0), (''OZONE_CONCENTRATION_MEASUREMENT'', 0),
      (''PM2_5_CONCENTRATION_MEASUREMENT'', 0), (''FORMALDEHYDE_CONCENTRATION_MEASUREMENT'', 0),
      (''PM1_CONCENTRATION_MEASUREMENT'', 0), (''PM10_CONCENTRATION_MEASUREMENT'', 0),
      (''TVOC_CONCENTRATION_MEASUREMENT'', 0), (''RADON_CONCENTRATION_MEASUREMENT'', 0), (''SOIL_MEASUREMENT'', 0),
      (''WIFI_NETWORK_MANAGEMENT'', 0), (''THREAD_BORDER_ROUTER_MANAGEMENT'', 0), (''THREAD_NETWORK_DIRECTORY'', 0),
      (''WAKE_ON_LAN'', 0), (''CHANNEL'', 0), (''TARGET_NAVIGATOR'', 0), (''MEDIA_PLAYBACK'', 0), (''MEDIA_INPUT'', 0),
      (''LOW_POWER'', 0), (''KEYPAD_INPUT'', 0), (''CONTENT_LAUNCHER'', 0), (''AUDIO_OUTPUT'', 0),
      (''APPLICATION_LAUNCHER'', 0), (''APPLICATION_BASIC'', 0), (''ACCOUNT_LOGIN'', 0), (''CONTENT_CONTROL'', 0),
      (''CONTENT_APP_OBSERVER'', 0), (''ZONE_MANAGEMENT'', 0), (''CAMERA_AV_STREAM_MANAGEMENT'', 0),
      (''CAMERA_AV_SETTINGS_USER_LEVEL_MANAGEMENT'', 0), (''WEB_RTC_TRANSPORT_PROVIDER'', 0),
      (''WEB_RTC_TRANSPORT_REQUESTOR'', 0), (''PUSH_AV_STREAM_TRANSPORT'', 0), (''CHIME'', 0), (''COMMODITY_TARIFF'', 0),
      (''ECOSYSTEM_INFORMATION'', 0), (''COMMISSIONER_CONTROL'', 0), (''JOINT_FABRIC_DATASTORE'', 0),
      (''JOINT_FABRIC_ADMINISTRATOR'', 0), (''TLS_CERTIFICATE_MANAGEMENT'', 0), (''TLS_CLIENT_MANAGEMENT'', 0),
      (''METER_IDENTIFICATION'', 0), (''COMMODITY_METERING'', 0), (''UNIT_TESTING'', 0), (''FAULT_INJECTION'', 0),
      (''SAMPLE_MEI'', 0)]"

definition CLUSTER_CLIENT_ENDPOINT_COUNT :: "(string \<times> nat) list" where
  "CLUSTER_CLIENT_ENDPOINT_COUNT =
     [(''IDENTIFY'', 1), (''GROUPS'', 0), (''ON_OFF'', 0), (''LEVEL_CONTROL'', 0), (''PWM'', 0), (''DESCRIPTOR'', 0),
      (''BINDING'', 0), (''ACCESS_CONTROL'', 0), (''ACTIONS'', 0), (''BASIC_INFORMATION'', 0),
      (''OTA_SOFTWARE_UPDATE_PROVIDER'', 1), (''OTA_SOFTWARE_UPDATE_REQUESTOR'', 0), (''LOCALIZATION_CONFIGURATION'', 0),
      (''TIME_FORMAT_LOCALIZATION'', 0), (''UNIT_LOCALIZATION'', 0), (''POWER_SOURCE_CONFIGURATION'', 0),
      (''POWER_SOURCE'', 0), (''GENERAL_COMMISSIONING'', 0), (''NETWORK_COMMISSIONING'', 0), (''DIAGNOSTIC_LOGS'', 0),
      (''GENERAL_DIAGNOSTICS'', 0), (''SOFTWARE_DIAGNOSTICS'', 0), (''THREAD_NETWORK_DIAGNOSTICS'', 0),
      (''WIFI_NETWORK_DIAGNOSTICS'', 0), (''ETHERNET_NETWORK_DIAGNOSTICS'', 0), (''TIME_SYNCHRONIZATION'', 0),
      (''BRIDGED_DEVICE_BASIC_INFORMATION'', 0), (''SWITCH'', 0), (''ADMINISTRATOR_COMMISSIONING'', 0),
      (''OPERATIONAL_CREDENTIALS'', 0), (''GROUP_KEY_MANAGEMENT'', 0), (''FIXED_LABEL'', 0), (''USER_LABEL'', 0),
      (''PROXY_CONFIGURATION'', 0), (''PROXY_DISCOVERY'', 0), (''PROXY_VALID'', 0), (''BOOLEAN_STATE'', 0),
      (''ICD_MANAGEMENT'', 0), (''TIMER'', 0), (''OPERATIONAL_STATE_OVEN'', 0), (''OVEN_MODE'', 0),
      (''LAUNDRY_DRYER_CONTROLS'', 0), (''MODE_SELECT'', 0), (''LAUNDRY_WASHER_MODE'', 0),
      (''REFRIGERATOR_AND_TEMPERATURE_CONTROLLED_CABINET_MODE'', 0), (''LAUNDRY_WASHER_CONTROLS'', 0),
      (''RVC_RUN_MODE'', 0), (''RVC_CLEAN_MODE'', 0), (''TEMPERATURE_CONTROL'', 0), (''REFRIGERATOR_ALARM'', 0),
      (''DISHWASHER_MODE'', 0), (''AIR_QUALITY'', 0), (''SMOKE_CO_ALARM'', 0), (''DISHWASHER_ALARM'', 0),
      (''MICROWAVE_OVEN_MODE'', 0), (''MICROWAVE_OVEN_CONTROL'', 0), (''OPERATIONAL_STATE'', 0),
      (''OPERATIONAL_STATE_RVC'', 0), (''SCENES'', 0), (''GROUPCAST'', 0), (''HEPA_FILTER_MONITORING'', 0),
      (''ACTIVATED_CARBON_FILTER_MONITORING'', 0), (''WATER_TANK_LEVEL_MONITORING'', 0),
      (''BOOLEAN_STATE_CONFIGURATION'', 0), (''VALVE_CONFIGURATION_AND_CONTROL'', 0),
      (''ELECTRICAL_POWER_MEASUREMENT'', 0), (''ELECTRICAL_ENERGY_MEASUREMENT'', 0), (''WATER_HEATER_MANAGEMENT'', 0),
      (''COMMODITY_PRICE'', 0), (''MESSAGES'', 0), (''DEVICE_ENERGY_MANAGEMENT'', 0), (''ENERGY_EVSE'', 0),
      (''ENERGY_PREFERENCE'', 0), (''POWER_TOPOLOGY'', 0), (''ENERGY_EVSE_MODE'', 0), (''WATER_HEATER_MODE'', 0),
      (''DEVICE_ENERGY_MANAGEMENT_MODE'', 0), (''ELECTRICAL_GRID_CONDITIONS'', 0), (''DOOR_LOCK'', 0),
      (''WINDOW_COVERING'', 0), (''CLOSURE_CONTROL'', 0), (''CLOSURE_DIMENSION'', 0), (''SERVICE_AREA'', 0),
      (''PUMP_CONFIGURATION_AND_CONTROL'', 0), (''THERMOSTAT'', 0), (''FAN_CONTROL'', 0),
      (''THERMOSTAT_USER_INTERFACE_CONFIGURATION'', 0), (''COLOR_CONTROL'', 0), (''BALLAST_CONFIGURATION'', 0),
      (''ILLUMINANCE_MEASUREMENT'', 0), (''TEMPERATURE_MEASUREMENT'', 0), (''PRESSURE_MEASUREMENT'', 0),
      (''FLOW_MEASUREMENT'', 0), (''RELATIVE_HUMIDITY_MEASUREMENT'', 0), (''OCCUPANCY_SENSING'', 0),
      (''CARBON_MONOXIDE_CONCENTRATION_MEASUREMENT'', 0), (''CARBON_DIOXIDE_CONCENTRATION_MEASUREMENT'', 0),
      (''NITROGEN_DIOXIDE_CONCENTRATION_MEASUREMENT'', 0), (''OZONE_CONCENTRATION_MEASUREMENT'', 0),
      (''PM2_5_CONCENTRATION_MEASUREMENT'', 0), (''FORMALDEHYDE_CONCENTRATION_MEASUREMENT'', 0),
      (''PM1_CONCENTRATION_MEASUREMENT'', 0), (''PM10_CONCENTRATION_MEASUREMENT'', 0),
      (''TVOC_CONCENTRATION_MEASUREMENT'', 0), (''RADON_CONCENTRATION_MEASUREMENT'', 0), (''SOIL_MEASUREMENT'', 0),
      (''WIFI_NETWORK_MANAGEMENT'', 0), (''THREAD_BORDER_ROUTER_MANAGEMENT'', 0), (''THREAD_NETWORK_DIRECTORY'', 0),
      (''WAKE_ON_LAN'', 0), (''CHANNEL'', 0), (''TARGET_NAVIGATOR'', 0), (''MEDIA_PLAYBACK'', 0), (''MEDIA_INPUT'', 0),
      (''LOW_POWER'', 0), (''KEYPAD_INPUT'', 0), (''CONTENT_LAUNCHER'', 0), (''AUDIO_OUTPUT'', 0),
      (''APPLICATION_LAUNCHER'', 0), (''APPLICATION_BASIC'', 0), (''ACCOUNT_LOGIN'', 0), (''CONTENT_CONTROL'', 0),
      (''CONTENT_APP_OBSERVER'', 0), (''ZONE_MANAGEMENT'', 0), (''CAMERA_AV_STREAM_MANAGEMENT'', 0),
      (''CAMERA_AV_SETTINGS_USER_LEVEL_MANAGEMENT'', 0), (''WEB_RTC_TRANSPORT_PROVIDER'', 0),
      (''WEB_RTC_TRANSPORT_REQUESTOR'', 0), (''PUSH_AV_STREAM_TRANSPORT'', 0), (''CHIME'', 0), (''COMMODITY_TARIFF'', 0),
      (''ECOSYSTEM_INFORMATION'', 0), (''COMMISSIONER_CONTROL'', 0), (''JOINT_FABRIC_DATASTORE'', 0),
      (''JOINT_FABRIC_ADMINISTRATOR'', 0), (''TLS_CERTIFICATE_MANAGEMENT'', 0), (''TLS_CLIENT_MANAGEMENT'', 0),
      (''METER_IDENTIFICATION'', 0), (''COMMODITY_METERING'', 0), (''UNIT_TESTING'', 0), (''FAULT_INJECTION'', 0),
      (''SAMPLE_MEI'', 0)]"

text \<open>The clusters whose server or client side the build includes, and the commands it enables.\<close>

definition ZCL_USING_CLUSTER_SERVER :: "string list" where
  "ZCL_USING_CLUSTER_SERVER =
     [''IDENTIFY'', ''GROUPS'', ''ON_OFF'', ''DESCRIPTOR'', ''BINDING'', ''ACCESS_CONTROL'', ''BASIC_INFORMATION'',
      ''OTA_SOFTWARE_UPDATE_REQUESTOR'', ''GENERAL_COMMISSIONING'', ''NETWORK_COMMISSIONING'', ''DIAGNOSTIC_LOGS'',
      ''GENERAL_DIAGNOSTICS'', ''SOFTWARE_DIAGNOSTICS'', ''THREAD_NETWORK_DIAGNOSTICS'', ''WIFI_NETWORK_DIAGNOSTICS'',
      ''ADMINISTRATOR_COMMISSIONING'', ''OPERATIONAL_CREDENTIALS'', ''GROUP_KEY_MANAGEMENT'', ''THERMOSTAT'',
      ''FAN_CONTROL'', ''RELATIVE_HUMIDITY_MEASUREMENT'']"

definition ZCL_USING_CLUSTER_CLIENT :: "string list" where
  "ZCL_USING_CLUSTER_CLIENT =
     [''IDENTIFY'', ''OTA_SOFTWARE_UPDATE_PROVIDER'']"

definition ENABLED_COMMANDS :: "(string \<times> string list) list" where
  "ENABLED_COMMANDS =
     [(''ADMINISTRATOR_COMMISSIONING'',
       [''OPEN_COMMISSIONING_WINDOW'', ''OPEN_BASIC_COMMISSIONING_WINDOW'', ''REVOKE_COMMISSIONING'']),
      (''DIAGNOSTIC_LOGS'',
       [''RETRIEVE_LOGS_REQUEST'']),
      (''GENERAL_COMMISSIONING'',
       [''ARM_FAIL_SAFE'', ''SET_REGULATORY_CONFIG'', ''COMMISSIONING_COMPLETE'']),
      (''GENERAL_DIAGNOSTICS'',
       [''TEST_EVENT_TRIGGER'', ''TIME_SNAPSHOT'']),
      (''GROUP_KEY_MANAGEMENT'',
       [''KEY_SET_WRITE'', ''KEY_SET_READ'', ''KEY_SET_REMOVE'', ''KEY_SET_READ_ALL_INDICES'']),
      (''GROUPS'',
       [''ADD_GROUP'', ''VIEW_GROUP'', ''GET_GROUP_MEMBERSHIP'', ''REMOVE_GROUP'', ''REMOVE_ALL_GROUPS'',
       ''ADD_GROUP_IF_IDENTIFYING'']),
      (''IDENTIFY'',
       [''IDENTIFY'']),
      (''NETWORK_COMMISSIONING'',
       [''SCAN_NETWORKS'', ''ADD_OR_UPDATE_WI_FI_NETWORK'', ''ADD_OR_UPDATE_THREAD_NETWORK'', ''REMOVE_NETWORK'',
       ''CONNECT_NETWORK'', ''REORDER_NETWORK'']),
      (''OTA_SOFTWARE_UPDATE_REQUESTOR'',
       [''ANNOUNCE_OTA_PROVIDER'']),
      (''ON_OFF'',
       [''OFF'', ''ON'', ''TOGGLE'']),
      (''OPERATIONAL_CREDENTIALS'',
       [''ATTESTATION_REQUEST'', ''CERTIFICATE_CHAIN_REQUEST'', ''CSR_REQUEST'', ''ADD_NOC'', ''UPDATE_NOC'',
       ''UPDATE_FABRIC_LABEL'', ''REMOVE_FABRIC'', ''ADD_TRUSTED_ROOT_CERTIFICATE'', ''SET_VID_VERIFICATION_STATEMENT'',
       ''SIGN_VID_VERIFICATION_REQUEST'']),
      (''THERMOSTAT'',
       [''SETPOINT_RAISE_LOWER'']),
      (''THREAD_NETWORK_DIAGNOSTICS'',
       [''RESET_COUNTS''])]"

text \<open>The identifiers of the named clusters, as the SDK assigns them.\<close>

definition clusterNames :: "(string \<times> ClusterId) list" where
  "clusterNames =
     [(''IDENTIFY'', 0x0003), (''GROUPS'', 0x0004), (''ON_OFF'', 0x0006), (''DESCRIPTOR'', 0x001D), (''BINDING'', 0x001E),
      (''ACCESS_CONTROL'', 0x001F), (''BASIC_INFORMATION'', 0x0028), (''OTA_SOFTWARE_UPDATE_PROVIDER'', 0x0029),
      (''OTA_SOFTWARE_UPDATE_REQUESTOR'', 0x002A), (''GENERAL_COMMISSIONING'', 0x0030),
      (''NETWORK_COMMISSIONING'', 0x0031), (''DIAGNOSTIC_LOGS'', 0x0032), (''GENERAL_DIAGNOSTICS'', 0x0033),
      (''SOFTWARE_DIAGNOSTICS'', 0x0034), (''THREAD_NETWORK_DIAGNOSTICS'', 0x0035),
      (''WIFI_NETWORK_DIAGNOSTICS'', 0x0036), (''ADMINISTRATOR_COMMISSIONING'', 0x003C),
      (''OPERATIONAL_CREDENTIALS'', 0x003E), (''GROUP_KEY_MANAGEMENT'', 0x003F), (''THERMOSTAT'', 0x0201),
      (''FAN_CONTROL'', 0x0202), (''RELATIVE_HUMIDITY_MEASUREMENT'', 0x0405)]"

section \<open>Agreement with the data model\<close>

text \<open>The endpoints that have a cluster on a side.\<close>

definition endpointsWith :: "ZapClusterMask \<Rightarrow> ClusterId \<Rightarrow> nat" where
  "endpointsWith side cl =
     length (filter (\<lambda>e. list_ex (\<lambda>c. clusterId c = cl \<and> side \<in> set (clusterMask c)) (endpointClusters e)) GENERATED_ENDPOINT_TYPES)"

definition clustersOn :: "ZapClusterMask \<Rightarrow> (string \<times> ClusterId) list" where
  "clustersOn side = filter (\<lambda>(n, cl). endpointsWith side cl \<noteq> 0) clusterNames"

text \<open>Evaluation of a filter over a long table, one entry at a time: the rest of the table is left alone.\<close>

lemma filter_head_cong: "P = Q \<Longrightarrow> filter P xs = filter Q xs"
  by simp

lemma map_of_head_cong: "k = k' \<Longrightarrow> map_of xs k = map_of xs k'"
  by simp

lemma endpointsWith_lists:
  "endpointsWith side cl =
     length (filter (list_ex (\<lambda>c. clusterId c = cl \<and> side \<in> set (clusterMask c)))
       [ep0_clusters_commissioning @ ep0_clusters_diagnostics, ep1_clusters])"
proof -
  have "length (filter (\<lambda>e. P (endpointClusters e)) GENERATED_ENDPOINT_TYPES)
      = length (filter P (map endpointClusters GENERATED_ENDPOINT_TYPES))" for P
    by (simp add: filter_map comp_def)
  then show ?thesis by (simp only: endpointsWith_def endpoint_clusters)
qed

lemma clusters_named:
  "clustersOn SERVER = filter (\<lambda>(n, cl). cl \<noteq> 0x0029) clusterNames"
  "clustersOn CLIENT = filter (\<lambda>(n, cl). cl \<in> {0x0003, 0x0029}) clusterNames"
  by (simp_all add: clustersOn_def clusterNames_def endpointsWith_lists cluster_tables)

text \<open>
  Every cluster of the data model, and no other, is initialised, each by its own callback, which is given the endpoint; where no plugin defines
  a callback, initialising changes nothing.
\<close>

lemma initCase_defined:
  "initCase cl \<noteq> None \<longleftrightarrow> cl \<in> clusterId ` set GENERATED_CLUSTERS"
  by (auto simp: initCase_def GENERATED_CLUSTERS_def cluster_tables)

lemma initCase_distinct:
  "distinct (map initCase (remdups (map clusterId GENERATED_CLUSTERS)))"
  by (simp add: initCase_def GENERATED_CLUSTERS_def cluster_tables)

lemma cluster_init_exact:
  assumes "initCase cl = Some cb" "initCase cl' = Some cb"
  shows "cl = cl'"
proof (rule inj_onD)
  show "inj_on initCase (clusterId ` set GENERATED_CLUSTERS)" using initCase_distinct by (simp add: distinct_map)
  show "cl \<in> clusterId ` set GENERATED_CLUSTERS" "cl' \<in> clusterId ` set GENERATED_CLUSTERS"
    using assms initCase_defined by force+
qed (simp add: assms)

lemma weak_init_does_nothing:
  "(\<And>cb. strong cb = None) \<Longrightarrow> emberAfClusterInitCallback strong endpoint cl s = s"
  by (simp add: emberAfClusterInitCallback_def runInit_def weakInitCallback_def split: option.split)

lemma strong_init_runs:
  "initCase cl = Some cb \<Longrightarrow> strong cb = Some f \<Longrightarrow> emberAfClusterInitCallback strong endpoint cl s = f endpoint s"
  by (simp add: emberAfClusterInitCallback_def runInit_def)

text \<open>
  The callback the application defines is On/Off's, which logs the endpoint (\<open>zcl_callbacks.cpp\<close>). As the clusters of the endpoints are
  initialised in the order of the tables it runs once, for endpoint 1, where no plugin defines another.
\<close>

definition applicationInit :: "ZclLog list strong_callbacks" where
  "applicationInit cb =
     (if cb = OnOffClusterInit then Some (\<lambda>endpoint log. log @ emberAfOnOffClusterInitCallback endpoint) else None)"

definition initEndpoints :: "'s strong_callbacks \<Rightarrow> 's \<Rightarrow> 's" where
  "initEndpoints strong s =
     fold (\<lambda>(endpoint, e). fold (\<lambda>c. emberAfClusterInitCallback strong endpoint (clusterId c)) (endpointClusters e))
       (zip FIXED_ENDPOINT_ARRAY GENERATED_ENDPOINT_TYPES) s"

lemma application_init_logs:
  "initEndpoints applicationInit [] = [OnOffInitLog 1]"
proof -
  have step: "emberAfClusterInitCallback applicationInit endpoint cl log = (if cl = 0x0006 then log @ [OnOffInitLog endpoint] else log)"
    for endpoint cl log
    by (simp add: emberAfClusterInitCallback_def initCase_def runInit_def applicationInit_def weakInitCallback_def
        emberAfOnOffClusterInitCallback_def)
  show ?thesis
    by (simp add: initEndpoints_def step FIXED_ENDPOINT_ARRAY_def GENERATED_ENDPOINT_TYPES_def endpointClusters_def
        GENERATED_CLUSTERS_def cluster_tables)
qed

lemma enabled_clusters:
  "map (\<lambda>(n, cmds). the (map_of clusterNames n)) ENABLED_COMMANDS =
     [0x003C, 0x0032, 0x0030, 0x0033, 0x003F, 0x0004, 0x0003, 0x0031, 0x002A, 0x0006, 0x003E, 0x0201, 0x0035]"
  unfolding clusterNames_def by (simp add: ENABLED_COMMANDS_def cong: map_of_head_cong)

lemma enabled_counts:
  "map (\<lambda>(n, cmds). length cmds) ENABLED_COMMANDS = [3, 1, 3, 2, 4, 6, 1, 6, 1, 3, 10, 1, 1]"
  by (simp only: ENABLED_COMMANDS_def list.map case_prod_conv) simp

lemma accepted_counts:
  "map (length \<circ> acceptedCommands)
       [0x003C, 0x0032, 0x0030, 0x0033, 0x003F, 0x0004, 0x0003, 0x0031, 0x002A, 0x0006, 0x003E, 0x0201, 0x0035]
     = [3, 1, 3, 2, 4, 6, 1, 6, 1, 3, 10, 1, 1]"
  by (simp add: acceptedCommands_def GENERATED_CLUSTERS_def cluster_tables commandsAt_def GENERATED_COMMANDS_def kInvalidCommandId_def)

lemma accepting_clusters:
  "clusterId ` set (filter (\<lambda>c. acceptedCommandList c \<noteq> None) GENERATED_CLUSTERS) =
     set [0x003C, 0x0032, 0x0030, 0x0033, 0x003F, 0x0004, 0x0003, 0x0031, 0x002A, 0x0006, 0x003E, 0x0201, 0x0035]"
  by (simp add: GENERATED_CLUSTERS_def cluster_tables) auto

lemma server_counts:
  "filter (\<lambda>(n, k). k \<noteq> 0) CLUSTER_SERVER_ENDPOINT_COUNT = map (\<lambda>(n, cl). (n, if cl = 0x001D then 2 else 1)) (clustersOn SERVER)"
  unfolding clusters_named clusterNames_def CLUSTER_SERVER_ENDPOINT_COUNT_def
  by (simp cong: filter_head_cong)

lemma client_counts:
  "filter (\<lambda>(n, k). k \<noteq> 0) CLUSTER_CLIENT_ENDPOINT_COUNT = map (\<lambda>(n, cl). (n, 1)) (clustersOn CLIENT)"
  unfolding clusters_named clusterNames_def CLUSTER_CLIENT_ENDPOINT_COUNT_def
  by (simp cong: filter_head_cong)

lemma clusters_counted:
  "(n, cl) \<in> set (clustersOn SERVER) \<Longrightarrow> endpointsWith SERVER cl = (if cl = 0x001D then 2 else 1)"
  "(n, cl) \<in> set (clustersOn CLIENT) \<Longrightarrow> endpointsWith CLIENT cl = 1"
proof -
  have "list_all (\<lambda>cl. endpointsWith SERVER cl = (if cl = 0x0029 then 0 else if cl = 0x001D then 2 else 1)
      \<and> endpointsWith CLIENT cl = (if cl \<in> {0x0003, 0x0029} then 1 else 0)) (map snd clusterNames)"
    unfolding clusterNames_def list.map snd_conv by (simp add: endpointsWith_lists cluster_tables)
  then show "(n, cl) \<in> set (clustersOn SERVER) \<Longrightarrow> endpointsWith SERVER cl = (if cl = 0x001D then 2 else 1)"
    "(n, cl) \<in> set (clustersOn CLIENT) \<Longrightarrow> endpointsWith CLIENT cl = 1"
    by (auto simp: list_all_iff clustersOn_def split: if_splits)
qed

text \<open>
  The generated files describe one data model. The plugins started with the server are those of the clusters some endpoint
  serves, each once; the build's counts are the numbers of endpoints with the cluster's server or client, zero for every cluster
  without one; the sides it includes are those with a non-zero count; and it enables as many commands of a cluster as
  the data model accepts, for every cluster that accepts any.
\<close>

theorem generated_files_agree:
  "MATTER_PLUGINS_INIT = map snd (clustersOn SERVER)
   \<and> filter (\<lambda>(n, k). k \<noteq> 0) CLUSTER_SERVER_ENDPOINT_COUNT = map (\<lambda>(n, cl). (n, endpointsWith SERVER cl)) (clustersOn SERVER)
   \<and> filter (\<lambda>(n, k). k \<noteq> 0) CLUSTER_CLIENT_ENDPOINT_COUNT = map (\<lambda>(n, cl). (n, endpointsWith CLIENT cl)) (clustersOn CLIENT)
   \<and> ZCL_USING_CLUSTER_SERVER = map fst (clustersOn SERVER)
   \<and> ZCL_USING_CLUSTER_CLIENT = map fst (clustersOn CLIENT)
   \<and> map (\<lambda>(n, cmds). length cmds) ENABLED_COMMANDS
       = map (\<lambda>(n, cmds). length (acceptedCommands (the (map_of clusterNames n)))) ENABLED_COMMANDS
   \<and> (\<lambda>(n, cmds). the (map_of clusterNames n)) ` set ENABLED_COMMANDS
       = clusterId ` set (filter (\<lambda>c. acceptedCommandList c \<noteq> None) GENERATED_CLUSTERS)"
proof (intro conjI)
  show "MATTER_PLUGINS_INIT = map snd (clustersOn SERVER)"
    unfolding clusters_named clusterNames_def by (simp add: MATTER_PLUGINS_INIT_def cong: filter_head_cong)
  show "filter (\<lambda>(n, k). k \<noteq> 0) CLUSTER_SERVER_ENDPOINT_COUNT = map (\<lambda>(n, cl). (n, endpointsWith SERVER cl)) (clustersOn SERVER)"
    unfolding server_counts by (rule map_cong) (auto dest: clusters_counted)
  show "filter (\<lambda>(n, k). k \<noteq> 0) CLUSTER_CLIENT_ENDPOINT_COUNT = map (\<lambda>(n, cl). (n, endpointsWith CLIENT cl)) (clustersOn CLIENT)"
    unfolding client_counts by (rule map_cong) (auto dest: clusters_counted)
  show "ZCL_USING_CLUSTER_SERVER = map fst (clustersOn SERVER)"
    unfolding clusters_named clusterNames_def by (simp add: ZCL_USING_CLUSTER_SERVER_def cong: filter_head_cong)
  show "ZCL_USING_CLUSTER_CLIENT = map fst (clustersOn CLIENT)"
    unfolding clusters_named clusterNames_def by (simp add: ZCL_USING_CLUSTER_CLIENT_def cong: filter_head_cong)
  show "map (\<lambda>(n, cmds). length cmds) ENABLED_COMMANDS
       = map (\<lambda>(n, cmds). length (acceptedCommands (the (map_of clusterNames n)))) ENABLED_COMMANDS"
    using enabled_counts accepted_counts arg_cong [OF enabled_clusters, of "map (length \<circ> acceptedCommands)"]
    by (simp only: list.map_comp comp_def prod.case_distrib)
  show "(\<lambda>(n, cmds). the (map_of clusterNames n)) ` set ENABLED_COMMANDS
       = clusterId ` set (filter (\<lambda>c. acceptedCommandList c \<noteq> None) GENERATED_CLUSTERS)"
    unfolding accepting_clusters enabled_clusters [symmetric] by (simp only: set_map)
qed

end
