(* ===== verification/Command_Path.thy ===== *)
theory Command_Path
  imports Cluster_Dispatch Command_Router
begin

text \<open>
  The way of a command from the SDK to the bridge: the handlers of \<open>sync/command_router.cpp\<close>, which the installer registers, come before the
  generated dispatcher (\<open>zap-generated/IMClusterCommandHandler.cpp\<close>), whose plugins act on storage of their own
  that the unit never sees.
\<close>

section \<open>Routing\<close>

definition onOffCommandOf :: "u32 \<Rightarrow> OnOffCommandId" where
  "onOffCommandOf cid =
     (if cid = 0x00 then OffCommand else if cid = 0x01 then OnCommand else if cid = 0x02 then ToggleCommand
      else OtherCommand cid)"

text \<open>
  A request as the SDK presents it: its cluster and command, and, for SetpointRaiseLower, the decoded fields. The answer is the
  statuses added, the calls the coordinator made, and the states of the coordinator and of the plugins.
\<close>

record CommandRequest =
  rq_cluster :: ClusterId
  rq_command :: u32
  rq_raiseLower :: "(SetpointRaiseLowerModeEnum \<times> i8) option"

record 's CommandAnswer =
  an_status :: "DispatchStatus list"
  an_made :: "DispatchCall list"
  an_coordinator :: SyncCoordinator
  an_plugins :: 's

fun dispatchStatus :: "CommandStatus \<Rightarrow> DispatchStatus" where
  "dispatchStatus Success = StatusSuccess"
| "dispatchStatus InvalidCommand = StatusInvalidCommand"

definition fallBack :: "'s CommandPlugins \<Rightarrow> CommandRequest \<Rightarrow> SyncCoordinator \<Rightarrow> 's \<Rightarrow> 's CommandAnswer" where
  "fallBack P rq c s =
     (let (st, s') = DispatchSingleClusterCommand P (rq_cluster rq) (rq_command rq) s
      in \<lparr>an_status = st, an_made = [], an_coordinator = c, an_plugins = s'\<rparr>)"

text \<open>
  By the SDK's documentation a registered handler is asked first; a request it does not mark as handled goes on to the dispatcher. The handler
  of SetpointRaiseLower is called when the command is that one and its fields decode.
\<close>

definition invoke ::
  "'s CommandPlugins \<Rightarrow> CommandHandlerId set \<Rightarrow> millis \<Rightarrow> millis \<Rightarrow> SetpointLimits \<Rightarrow> CommandRequest \<Rightarrow> SyncCoordinator \<Rightarrow> 's
    \<Rightarrow> 's CommandAnswer option" where
  "invoke P cmds now1 now2 lim rq c s =
     (let out = (if rq_cluster rq = OnOff_ClusterId \<and> OnOffCmd \<in> cmds
                 then OnOff_InvokeCommand now1 (onOffCommandOf (rq_command rq)) c
                 else if rq_cluster rq = Thermostat_ClusterId \<and> ThermostatCmd \<in> cmds
                 then Thermostat_InvokeCommand now1 now2 lim
                        (if rq_command rq = 0x00 then rq_raiseLower rq else None) c
                 else Some \<lparr>handled = False, statuses = [], made = [], coordinator = c\<rparr>)
      in map_option (\<lambda>o'. if handled o'
            then \<lparr>an_status = map dispatchStatus (statuses o'), an_made = made o', an_coordinator = coordinator o', an_plugins = s\<rparr>
            else fallBack P rq (coordinator o') s) out)"

section \<open>What a command should do\<close>

text \<open>
  The kernels a command of a bridged cluster passes through, and its status: one write for On, Off and Toggle, and for
  SetpointRaiseLower one write of each setpoint it names, the second on the result of the first.
\<close>

definition raisedHeat :: "millis \<Rightarrow> SetpointLimits \<Rightarrow> i8 \<Rightarrow> BridgeKernel \<Rightarrow> BridgeKernel" where
  "raisedHeat now lim amount k = applyOne now (SetOccupiedHeatingSetpointIntent
     (applySetpointDelta (readOccupiedHeatingSetpoint k) amount
        (getLimit (MinHeatSetpointLimit lim) 1000) (getLimit (MaxHeatSetpointLimit lim) 3000))) k"

definition raisedCool :: "millis \<Rightarrow> SetpointLimits \<Rightarrow> i8 \<Rightarrow> BridgeKernel \<Rightarrow> BridgeKernel" where
  "raisedCool now lim amount k = applyOne now (SetOccupiedCoolingSetpointIntent
     (applySetpointDelta (readOccupiedCoolingSetpoint k) amount
        (getLimit (MinCoolSetpointLimit lim) 1600) (getLimit (MaxCoolSetpointLimit lim) 3200))) k"

fun raiseLowerSpec ::
  "millis \<Rightarrow> millis \<Rightarrow> SetpointLimits \<Rightarrow> SetpointRaiseLowerModeEnum \<Rightarrow> i8 \<Rightarrow> BridgeKernel \<Rightarrow> DispatchStatus \<times> BridgeKernel list" where
  "raiseLowerSpec now1 now2 lim SetpointRaiseLowerModeEnum.kHeat amount k = (StatusSuccess, [raisedHeat now1 lim amount k])"
| "raiseLowerSpec now1 now2 lim SetpointRaiseLowerModeEnum.kCool amount k = (StatusSuccess, [raisedCool now2 lim amount k])"
| "raiseLowerSpec now1 now2 lim kBoth amount k =
     (StatusSuccess, [raisedHeat now1 lim amount k, raisedCool now2 lim amount (raisedHeat now1 lim amount k)])"
| "raiseLowerSpec now1 now2 lim (SetpointRaiseLowerMode_raw _) amount k = (StatusInvalidCommand, [])"

definition commandSpec ::
  "millis \<Rightarrow> millis \<Rightarrow> SetpointLimits \<Rightarrow> CommandRequest \<Rightarrow> BridgeKernel \<Rightarrow> DispatchStatus \<times> BridgeKernel list" where
  "commandSpec now1 now2 lim rq k =
     (if rq_command rq \<notin> set (acceptedCommands (rq_cluster rq)) then (StatusUnsupportedCommand, [])
      else if rq_cluster rq = OnOff_ClusterId
      then (StatusSuccess, [applyOne now1 (SetOnOffIntent
              (rq_command rq = 1 \<or> rq_command rq = 2 \<and> \<not> readOnOff k)) k])
      else case rq_raiseLower rq of
             None \<Rightarrow> (StatusInvalidCommand, [])
           | Some (m, amount) \<Rightarrow> raiseLowerSpec now1 now2 lim m amount k)"

text \<open>The calls made while a coordinator goes through a list of kernels.\<close>

definition callsAlong :: "ChangePublisher \<Rightarrow> BridgeKernel \<Rightarrow> BridgeKernel list \<Rightarrow> DispatchCall list" where
  "callsAlong p k ks = concat (map2 (operationalCalls p) (k # ks) ks)"

section \<open>Lemmas\<close>

lemma ApplyIntent_calls:
  "mKernel c = Some k \<Longrightarrow> ApplyIntent now i c =
     Some (fst (applyIntent now i k), operationalCalls (mPublisher c) k (applyOne now i k), c\<lparr>mKernel := Some (applyOne now i k)\<rparr>)"
  using mutation_calls(1) [of c k now i] by (simp only: applyIntent_eq)

lemma raise_calls:
  assumes "mKernel c = Some k"
  shows "raiseHeat now lim amount c = Some (operationalCalls (mPublisher c) k (raisedHeat now lim amount k),
           c\<lparr>mKernel := Some (raisedHeat now lim amount k)\<rparr>)"
    and "raiseCool now lim amount c = Some (operationalCalls (mPublisher c) k (raisedCool now lim amount k),
           c\<lparr>mKernel := Some (raisedCool now lim amount k)\<rparr>)"
  using assms by (simp_all add: raiseHeat_def raiseCool_def raisedHeat_def raisedCool_def Let_def ReadOccupiedHeatingSetpoint_def
      ReadOccupiedCoolingSetpoint_def ApplyIntent_calls del: applyOne.simps)

lemma mKernel_again [simp]: "mKernel c = Some k \<Longrightarrow> c\<lparr>mKernel := Some k\<rparr> = c"
  by (cases c) simp

lemma OnOff_InvokeCommand_spec:
  assumes "mKernel c = Some k" "cid \<in> {0, 1, 2}"
  shows "OnOff_InvokeCommand now (onOffCommandOf cid) c =
     (let k' = applyOne now (SetOnOffIntent (cid = 1 \<or> cid = 2 \<and> \<not> readOnOff k)) k in
      Some \<lparr>handled = True, statuses = [Success], made = operationalCalls (mPublisher c) k k', coordinator = c\<lparr>mKernel := Some k'\<rparr>\<rparr>)"
  using assms by (auto simp: OnOff_InvokeCommand_def onOffCommandOf_def Let_def ReadOnOff_def ApplyIntent_calls simp del: applyOne.simps)

lemma HandleSetpointRaiseLower_spec:
  assumes "mKernel c = Some k" "raiseLowerSpec now1 now2 lim m amount k = (st, ks)"
  shows "\<exists>o'. HandleSetpointRaiseLower now1 now2 lim m amount c = Some o' \<and> handled o'
     \<and> map dispatchStatus (statuses o') = [st] \<and> made o' = callsAlong (mPublisher c) k ks
     \<and> coordinator o' = c\<lparr>mKernel := Some (last (k # ks))\<rparr>"
  using assms by (cases m) (auto simp: HandleSetpointRaiseLower_def Let_def raise_calls callsAlong_def)

lemma fallBack_undeclared:
  assumes "rq_cluster rq \<in> {OnOff_ClusterId, Thermostat_ClusterId}" "rq_command rq \<notin> set (acceptedCommands (rq_cluster rq))"
  shows "fallBack P rq c s = \<lparr>an_status = [StatusUnsupportedCommand], an_made = [], an_coordinator = c, an_plugins = s\<rparr>"
  using assms by (auto simp: fallBack_def DispatchSingleClusterCommand_def dispatchers accepted_dispatched)

lemma fallBack_undecoded:
  assumes "rq_cluster rq = Thermostat_ClusterId" "rq_command rq = 0"
    "cp_decode P emberAfThermostatClusterSetpointRaiseLowerCallback s \<noteq> CHIP_NO_ERROR"
  shows "fallBack P rq c s = \<lparr>an_status = [StatusInvalidCommand], an_made = [], an_coordinator = c, an_plugins = s\<rparr>"
  using assms by (simp add: fallBack_def DispatchSingleClusterCommand_def dispatchers dispatchCase_def)

lemma fallBack_coordinator:
  "an_coordinator (fallBack P rq c s) = c" "an_made (fallBack P rq c s) = []"
  by (simp_all add: fallBack_def split: prod.split)

lemma commandSpec_status:
  assumes "commandSpec now1 now2 lim rq k = (st, ks)"
  shows "(st = StatusUnsupportedCommand \<longleftrightarrow> rq_command rq \<notin> set (acceptedCommands (rq_cluster rq)))
    \<and> (ks = [] \<longleftrightarrow> st \<noteq> StatusSuccess)"
  using assms by (auto simp: commandSpec_def split: if_splits option.splits elim!: raiseLowerSpec.elims)

lemma invoke_spec:
  assumes k: "mKernel c = Some k" and cl: "rq_cluster rq \<in> {OnOff_ClusterId, Thermostat_ClusterId}"
    and spec: "commandSpec now1 now2 lim rq k = (st, ks)"
    and one_payload: "rq_raiseLower rq = None \<Longrightarrow> cp_decode P emberAfThermostatClusterSetpointRaiseLowerCallback s \<noteq> CHIP_NO_ERROR"
  shows "invoke P UNIV now1 now2 lim rq c s = Some \<lparr>an_status = [st], an_made = callsAlong (mPublisher c) k ks,
      an_coordinator = c\<lparr>mKernel := Some (last (k # ks))\<rparr>, an_plugins = s\<rparr>"
proof -
  let ?cid = "rq_command rq"
  have "?cid \<in> set (acceptedCommands (rq_cluster rq)) \<Longrightarrow>
      rq_cluster rq = OnOff_ClusterId \<and> ?cid \<in> {0, 1, 2} \<or> rq_cluster rq = Thermostat_ClusterId \<and> ?cid = 0"
    using cl by (auto simp: accepted_dispatched)
  then consider (undeclared) "?cid \<notin> set (acceptedCommands (rq_cluster rq))"
    | (onoff) "rq_cluster rq = OnOff_ClusterId" "?cid \<in> {0, 1, 2}"
    | (undecoded) "rq_cluster rq = Thermostat_ClusterId" "?cid = 0" "rq_raiseLower rq = None"
    | (raise) m amount where "rq_cluster rq = Thermostat_ClusterId" "?cid = 0" "rq_raiseLower rq = Some (m, amount)"
    by (metis not_None_eq surj_pair)
  then show ?thesis
  proof cases
    case undeclared
    then have "invoke P UNIV now1 now2 lim rq c s = Some (fallBack P rq c s)"
      using cl by (auto simp: invoke_def OnOff_InvokeCommand_def onOffCommandOf_def Thermostat_InvokeCommand_def Let_def
          accepted_dispatched)
    then show ?thesis using undeclared spec k by (simp add: fallBack_undeclared [OF cl undeclared] commandSpec_def callsAlong_def)
  next
    case onoff
    then show ?thesis
      using spec OnOff_InvokeCommand_spec [OF k onoff(2), of now1]
      by (auto simp: invoke_def commandSpec_def accepted_dispatched callsAlong_def Let_def simp del: applyOne.simps)
  next
    case undecoded
    then show ?thesis
      using spec k fallBack_undecoded [OF undecoded(1,2) one_payload [OF undecoded(3)]]
      by (auto simp: invoke_def commandSpec_def accepted_dispatched callsAlong_def Thermostat_InvokeCommand_def Let_def)
  next
    case raise
    then have "raiseLowerSpec now1 now2 lim m amount k = (st, ks)" using spec by (simp add: commandSpec_def accepted_dispatched)
    from HandleSetpointRaiseLower_spec [OF k this] show ?thesis
      using raise by (auto simp: invoke_def Thermostat_InvokeCommand_def Let_def)
  qed
qed

section \<open>Properties\<close>

text \<open>
  C22. Commands reach the bridge and nothing else. With both handlers registered and a kernel in place, a command of the On/Off or
  Thermostat cluster gets exactly one status: success where the data model accepts the command and its request is sound, invalid
  command where the request does not decode or names no setpoint, unsupported command exactly where the data model does not
  accept it. On success the kernel takes the writes the command stands for, in order, and the listeners hear of exactly the
  changes of each; otherwise nothing changes and nothing is called. In no case does a plugin of the SDK run, so its own storage
  never departs from the unit. A command of any other cluster leaves the bridge alone.
\<close>

theorem commands_reach_only_the_bridge:
  assumes k: "mKernel c = Some k"
    and one_payload: "rq_raiseLower rq = None \<Longrightarrow> cp_decode P emberAfThermostatClusterSetpointRaiseLowerCallback s \<noteq> CHIP_NO_ERROR"
  shows "(rq_cluster rq \<in> {OnOff_ClusterId, Thermostat_ClusterId} \<longrightarrow>
      (let (st, ks) = commandSpec now1 now2 lim rq k in
        invoke P UNIV now1 now2 lim rq c s = Some \<lparr>an_status = [st], an_made = callsAlong (mPublisher c) k ks,
          an_coordinator = c\<lparr>mKernel := Some (last (k # ks))\<rparr>, an_plugins = s\<rparr>
        \<and> (st = StatusUnsupportedCommand \<longleftrightarrow> rq_command rq \<notin> set (acceptedCommands (rq_cluster rq)))
        \<and> (ks = [] \<longleftrightarrow> st \<noteq> StatusSuccess)))
    \<and> (rq_cluster rq \<notin> {OnOff_ClusterId, Thermostat_ClusterId} \<longrightarrow>
      (\<exists>an. invoke P UNIV now1 now2 lim rq c s = Some an \<and> an_coordinator an = c \<and> an_made an = []))"
proof (intro conjI impI)
  assume cl: "rq_cluster rq \<in> {OnOff_ClusterId, Thermostat_ClusterId}"
  obtain st ks where spec: "commandSpec now1 now2 lim rq k = (st, ks)" by fastforce
  have status: "(st = StatusUnsupportedCommand \<longleftrightarrow> rq_command rq \<notin> set (acceptedCommands (rq_cluster rq)))
      \<and> (ks = [] \<longleftrightarrow> st \<noteq> StatusSuccess)"
    using commandSpec_status [OF spec] by blast
  have "invoke P UNIV now1 now2 lim rq c s = Some \<lparr>an_status = [st], an_made = callsAlong (mPublisher c) k ks,
      an_coordinator = c\<lparr>mKernel := Some (last (k # ks))\<rparr>, an_plugins = s\<rparr>"
    using invoke_spec [OF k cl spec one_payload] .
  then show "let (st, ks) = commandSpec now1 now2 lim rq k in
        invoke P UNIV now1 now2 lim rq c s = Some \<lparr>an_status = [st], an_made = callsAlong (mPublisher c) k ks,
          an_coordinator = c\<lparr>mKernel := Some (last (k # ks))\<rparr>, an_plugins = s\<rparr>
        \<and> (st = StatusUnsupportedCommand \<longleftrightarrow> rq_command rq \<notin> set (acceptedCommands (rq_cluster rq)))
        \<and> (ks = [] \<longleftrightarrow> st \<noteq> StatusSuccess)"
    using status by (simp add: spec)
next
  assume "rq_cluster rq \<notin> {OnOff_ClusterId, Thermostat_ClusterId}"
  then show "\<exists>an. invoke P UNIV now1 now2 lim rq c s = Some an \<and> an_coordinator an = c \<and> an_made an = []"
    by (simp add: invoke_def fallBack_coordinator)
qed

theorem commands_reach_only_the_bridge_witness:
  "\<exists>k' calls. invoke \<lparr>cp_decode = (\<lambda>cb n. CHIP_ERROR_INTERNAL), cp_call = (\<lambda>cb n. (True, Suc n))\<rparr> UNIV 10 11
       \<lparr>MinHeatSetpointLimit = None, MaxHeatSetpointLimit = None, MinCoolSetpointLimit = None, MaxCoolSetpointLimit = None\<rparr>
       \<lparr>rq_cluster = OnOff_ClusterId, rq_command = 2, rq_raiseLower = None\<rparr> initialisedCoordinator 0
     = Some \<lparr>an_status = [StatusSuccess], an_made = calls, an_coordinator = initialisedCoordinator\<lparr>mKernel := Some k'\<rparr>, an_plugins = 0\<rparr>"
  using commands_reach_only_the_bridge [OF initialisedCoordinator_fields(3),
      of "\<lparr>rq_cluster = OnOff_ClusterId, rq_command = 2, rq_raiseLower = None\<rparr>"
        "\<lparr>cp_decode = (\<lambda>cb n. CHIP_ERROR_INTERNAL), cp_call = (\<lambda>cb n. (True, Suc n))\<rparr>" "0 :: nat"
        10 11
        "\<lparr>MinHeatSetpointLimit = None, MaxHeatSetpointLimit = None, MinCoolSetpointLimit = None, MaxCoolSetpointLimit = None\<rparr>"]
  by (simp add: commandSpec_def accepted_dispatched del: applyOne.simps) blast

text \<open>
  On and Off are the attribute write of the same value: the same calls from the same coordinator, so what is shown of a write on its way
  to the unit holds of the command.
\<close>

lemma on_off_command_is_write:
  assumes k: "mKernel c = Some k" and dec: "dec_bool decoder = Inr v"
  shows "map_option (\<lambda>an. (CHIP_NO_ERROR, an_made an, an_coordinator an))
       (invoke P UNIV now1 now2 lim \<lparr>rq_cluster = OnOff_ClusterId, rq_command = (if v then 1 else 0), rq_raiseLower = r\<rparr> c s)
     = OnOff_Write now1 OnOff_Id decoder c"
  using OnOff_InvokeCommand_spec [OF k, of "if v then 1 else 0" now1] k dec
  by (simp add: invoke_def OnOff_Write_def issue_eq Let_def split: if_splits del: applyOne.simps)

end
