(* ===== verification/Spec2Isabelle.thy ===== *)
theory Spec2Isabelle
  imports Time_Source Airconditioner_Shell App_Task Sensor_Path Setpoint_Delivery Cluster_Init Command_Path
begin

text \<open>
  Verification of the Daikin Matter thermostat bridge: firmware that lets Matter controllers
  operate a Daikin air conditioner over its S21 serial port.

  \<^bold>\<open>The program.\<close> Two halves meet in one state. The \<^emph>\<open>sync\<close> half (\<open>src/src/sync\<close>) keeps, for every
  writable attribute, what the unit last reported, what controllers want and what was sent and
  not yet confirmed; it turns controller writes and poll results into attribute changes
  and at most one pending command. The \<^emph>\<open>S21\<close> half (\<open>src/src/s21\<close>) carries commands and queries over
  the UART: frames, an interrupt-driven link with one operation at a time, request encoders
  and response decoders, a blocking adapter, and a manager with capability tracking and a
  cache. \<open>airconditioner_manager.cpp\<close> joins them: it polls, pumps pending commands, retries
  initialisation, drives an LED and reports attribute changes to the Matter stack. Controllers
  reach the sync half through attribute-access handlers and command handlers registered
  with the Matter SDK, which serves the generated data model (\<open>src/src/default_zap\<close>).

  \<^bold>\<open>Conventions.\<close> Machine integers are words of their width (\<open>u8\<close>, \<open>i16\<close>, ...); arithmetic that C++
  does in \<open>int\<close> is done in \<open>int\<close> and cast back where the source casts. An enumeration has an extra
  constructor for bytes outside it where the source casts a byte to it. \<open>tl::expected\<close> is a sum with the error on the left.
  The time of an operation is an argument. State is passed explicitly; a \<open>None\<close> result of an operation on the
  coordinator is a dereference of the absent kernel, and of a decoder a read past the end
  of the response. Code outside the repository is a parameter with its documented behaviour as
  a named contract: the SDK's handler registries (\<open>registry_contract\<close>), the channel allocator (\<open>gppi_contract\<close>), the
  air conditioner itself (\<open>wire_contract\<close>: it acknowledges a state command and holds its four bytes, answers a status request with a report of them, in which
  Auto may appear as the side it is on and a Quiet fan as Auto, and the fan request with the fan byte it holds; \<open>sensor_contract\<close>: it answers each sensor request with the reading's digits), the attribute decoder, the
  cluster plugins' command callbacks, the uptime clock, the Matter server.

  \<^bold>\<open>The theories, bottom up.\<close>

  \<^item> \<open>Prelude\<close>: integer types and casts, truncating division, \<open>expected\<close>, reachable states and the
    locale \<open>inductive_invariant\<close>, which every transition system below interprets.
  \<^item> \<open>Twin_Field\<close> (\<open>twin_field.h\<close>, \<open>sensor_field.h\<close>): the three-view value. Locale \<open>twin_contract\<close> states what a client may rely on; the twin
    is interpreted in it and refines a four-phase write protocol (settled, queued, sent, superseded).
  \<^item> \<open>Wire_Types\<close>, \<open>Domain_State\<close>, \<open>Fan_Mapping\<close>: the vocabulary and pure conversions (\<open>s21_presentation.h\<close>, \<open>s21_command.h\<close>,
    \<open>s21_observation.h\<close>, \<open>logical_ac_state.h\<close>, \<open>write_intent.h\<close>, \<open>fan_mapping.h\<close>, \<open>setpoint_math.h\<close>).
  \<^item> \<open>Projector\<close> (\<open>projector.cpp\<close>): what controllers read, and the diff, equal to a filter over a fixed
    attribute order.
  \<^item> \<open>Reconciler\<close>, \<open>Reconciler_Policy\<close> (\<open>reconciler.cpp\<close>): guard window, intents, observations, pending command. The lemmas show
    that a command is sent once, settles when echoed, is retried when failed, that the
    device wins inside the guard window, how Auto bands and setpoints are routed, and that a change made at the unit's own remote control
    cannot be undone by repeating the last command.
  \<^item> \<open>Bridge_Kernel\<close> (\<open>bridge_kernel.h\<close>): the kernel's transition system over every order of writes, polls,
    completions and link losses, with the fan invariant.
  \<^item> \<open>Change_Publisher\<close>, \<open>AAI_Installer\<close>, \<open>Sync_Coordinator\<close>: listener registry, handler installation with rollback, and the
    coordinator's entry points with the calls each makes after releasing its lock.
  \<^item> \<open>AAI_Translation\<close>, \<open>AAI_Access\<close>, \<open>Command_Router\<close>: the Matter surface. Every write follows a table of
    refusals and intents; every read has the declared type; round trips of modes and fan settings; the raise/lower command.
  \<^item> \<open>S21_Frame\<close>, \<open>S21_Presentation\<close>, \<open>S21_Datalink_Uart\<close>, \<open>S21_Uart_Init\<close>: the codec (locale \<open>framing\<close>), requests and decoders, the
    interrupt-driven link as interleaved steps (each accepted request's callback runs
    exactly once), and bringing the peripheral up.
  \<^item> \<open>S21_Sync_Adapter\<close>: the blocking adapter as small steps of any number of threads, and the
    composition of the stack.
  \<^item> \<open>S21_Wire\<close>: one exchange with a unit on the wire. The UART link implements the data-link
    interface the presentation layer uses, and through the whole stack the bytes set are held and read back.
  \<^item> \<open>S21_Manager\<close> (\<open>s21_manager.cpp\<close>): capability tracking, protocol detection, and the read-through cache
    (locale \<open>cached_source\<close>).
  \<^item> \<open>Time_Source\<close> (\<open>time_source.h\<close>, \<open>monotonic_time_source.h\<close>): the clocks, both interpreted in the locale \<open>time_source\<close>; a power write
    the guard window lets through once is let through at every later time.
  \<^item> \<open>AirConditioner_Manager\<close>, \<open>Event_Loop\<close>: the work handlers, and the loop that runs them in any order;
    a write reaches the unit and settles, and the bridge never stops polling or retrying.
  \<^item> \<open>Bridge_Recovery\<close>: the bridge through an outage. After any sequence of failed transmissions and polls the wanted
    command is still pending, and the next successful one sends it; how overlapping
    notifications leave the indicator stale.
  \<^item> \<open>Bridge_System\<close>, \<open>Sensor_Path\<close>: all layers composed, from a controller's attribute write to the bytes the unit
    holds for the value written and back to a read of it, and from the unit's sensor frames to a controller's read.
  \<^item> \<open>Data_Model\<close> (\<open>zap-generated/endpoint_config.h\<close>): the attribute, command, event, cluster and endpoint tables; their indices,
    counts and sizes agree.
  \<^item> \<open>Matter_Endpoint\<close> (\<open>zcl_callbacks.cpp\<close>): the bridge's clusters against those tables. Every declared attribute is answered with its
    declared type or left to storage the SDK has; every reported address is declared; the
    application's attribute-changed callback logs nothing.
  \<^item> \<open>Cluster_Dispatch\<close>, \<open>Access_Tables\<close> (\<open>zap-generated/IMClusterCommandHandler.cpp\<close>, \<open>CodeDrivenInitShutdown.cpp\<close>, \<open>access.h\<close>): the command dispatcher handles
    exactly the commands the data model accepts for its clusters, initialised clusters are shut down, and
    every access entry names a declared attribute or command.
  \<^item> \<open>Cluster_Init\<close> (\<open>zap-generated/callback-stub.cpp\<close>, \<open>PluginApplicationCallbacks.h\<close>, \<open>gen_config.h\<close>): the initialisation switch with its weak stubs, the plugins,
    and the build's counts and flags; all describe the same clusters and commands as the data model.
  \<^item> \<open>Command_Path\<close>: a command from the SDK through the bridge's handlers and the dispatcher behind them, equal to a
    specification by the kernel's writes; no plugin of the SDK ever handles a bridged command, and On and Off
    do what a write of the attribute does.
  \<^item> \<open>Setpoint_Delivery\<close>: which setpoints the unit accepts: raise and lower commands stay inside its range, an
    attribute write may leave it and in Cool then blocks every later command.
  \<^item> \<open>Shell_Text\<close>, \<open>S21_Shell\<close>, \<open>Airconditioner_Shell\<close>: the C library's conversions the shells use, argument parsing, the
    commands and the status table.
  \<^item> \<open>App_Task\<close> (\<open>app_task.cpp\<close>, \<open>main.cpp\<close>): start-up order and errors, and the callback that joins the halves.

  \<^bold>\<open>Bounds and fuel.\<close> No definition uses fuel: every loop of the source is structural (a list of
  polls, handlers or bytes) or an endless loop modelled as a step relation. Buffers keep the
  source's sizes (the 32-byte link buffers, 16-byte status cells, the listener table). The
  bound on the initialisation back-off is proved for every number of retries.

  \<^bold>\<open>Grain of interleaving.\<close> A coordinator entry point is one step, as its mutex makes it. The
  command pump's take of the pending command and its transmission with the record of the outcome are separate
  steps of the event loop, between which controllers may write; \<open>write_during_transmission_is_lost\<close> shows what such a write can suffer. The link's
  claim, start, each interrupt and the two
  halves of a completion are separate steps; exactly-once delivery is proved for
  executions in which a completion is not interrupted by a claim, and
  \<open>interrupted_completion_swaps_callbacks\<close> shows what happens otherwise. The adapter's steps are single kernel calls.

  \<^bold>\<open>Simplifications.\<close> One application of an intent reads the clock once, where \<open>reconciler.cpp\<close> reads it at each guard
  (\<open>apply_SetSystemModeIntent\<close>, \<open>powerOnForFanWrite\<close>). The start of a transaction is one step, although the source writes the match and buffer registers before it
  disables interrupts; nothing else runs on the idle link then. In an exchange with a unit the receiver's match and stop are those the
  peripheral documents, and the frame timeout does not fire. The SDK's routing of a command (\<open>invoke\<close>: handlers first, the dispatcher when none handled it,
  and a request that does not decode counted as not handled) is that of the comment in \<open>command_router.h\<close>. A dispatched intent runs its listeners at once; \<open>Bridge_Recovery\<close>
  shows what overlapping listeners may do. The adapter's answers are indexed by the calling thread, which has one request at a time. The installer's six bindings share one
  flag, as they are bound and unbound together. Counters that the source keeps in an \<open>int\<close> without a cap (\<open>mConsecutivePollFailures\<close>) do not wrap.

  \<^bold>\<open>Not modelled.\<close> Singleton access; logging, except where a callback does nothing else; the peripheral's bit timing and DMA; the inputs of the
  code generator (\<open>room-airconditioner.matter\<close>, \<open>room-airconditioner.zap\<close>), whose output is modelled; and the Matter SDK, Zephyr and
  OpenThread, which are parameters where the program depends on them. What remains outside the map are includes, licence texts, comments and the
  declarations of functions whose definitions are mapped.
\<close>

end
